(* ===== verification/Kruise_Prelude.thy ===== *)
theory Kruise_Prelude
  imports Main "HOL-Library.Multiset" "HOL-Library.Char_ord" "HOL-Library.List_Lexorder"
begin

text \<open>
  Shared vocabulary of the development: the lemma collections, the reading of Go's maps,
  string and integer helpers of the standard library that the controllers use
  (\<open>strings.Split\<close>, \<open>strconv.ParseInt\<close>, \<open>fmt.Sprintf("%d")\<close>), Go's integer division,
  and the two integer predicates of \<open>pkg/util/tools.go\<close>.
\<close>

named_theorems kruise_defs "definitions unfolded when a component is evaluated or case-split"
named_theorems kruise_frame "what an operation leaves unchanged"
named_theorems kruise_mset "multiset equations of sorting and scattering routines"

text \<open>What a call may do besides returning a value: a Go run-time panic.\<close>

datatype 'a run = Returns 'a | Panics

section \<open>Maps and strings\<close>

type_synonym labels = "string \<rightharpoonup> string"

text \<open>Indexing a Go map: a missing key reads as the zero value, here the empty string.\<close>

definition lget :: "('k \<rightharpoonup> string) \<Rightarrow> 'k \<Rightarrow> string" where
  "lget m k = (case m k of None \<Rightarrow> [] | Some v \<Rightarrow> v)"

lemma lget_empty [simp]: "lget Map.empty k = []"
  by (simp add: lget_def)

lemma lget_upd [simp]: "lget (m(k \<mapsto> v)) k' = (if k' = k then v else lget m k')"
  by (simp add: lget_def)

text \<open>The conversion to \<open>int32\<close>.\<close>

definition int32 :: "int \<Rightarrow> int" where
  "int32 x = signed_take_bit 31 x"

lemma int32_id: "- 2147483648 \<le> x \<Longrightarrow> x < 2147483648 \<Longrightarrow> int32 x = x"
  by (simp add: int32_def signed_take_bit_int_eq_self)

lemma int32_range: "- (2 ^ 31) \<le> int32 x \<and> int32 x < 2 ^ 31"
  unfolding int32_def using signed_take_bit_int_greater_eq_minus_exp [of 31 x] signed_take_bit_int_less_exp [of 31 x] by blast

text \<open>The conversion to \<open>int64\<close>, in which durations are computed.\<close>

definition int64 :: "int \<Rightarrow> int" where
  "int64 x = signed_take_bit 63 x"

text \<open>\<open>time.Second\<close>, in nanoseconds.\<close>

definition second :: int where "second = 1000000000"

text \<open>The string of a namespace and a name.\<close>

definition req_key :: "string \<times> string \<Rightarrow> string" where
  "req_key req = fst req @ ''/'' @ snd req"

text \<open>\<open>strings.Split(s, sep)\<close> for a separator of one byte: never the empty list.\<close>

fun split_on :: "char \<Rightarrow> string \<Rightarrow> string list" where
  "split_on c [] = [[]]"
| "split_on c (x # xs) =
     (case split_on c xs of
        [] \<Rightarrow> [[x]]
      | w # ws \<Rightarrow> if x = c then [] # w # ws else (x # w) # ws)"

text \<open>The group of an API version; \<open>None\<close> is the error of a string with more than one slash.\<close>

definition ParseGroup :: "string \<Rightarrow> string option" where
  "ParseGroup gv =
     (if gv = [] \<or> gv = ''/'' then Some []
      else case split_on (CHR ''/'') gv of [v] \<Rightarrow> Some [] | [g, v] \<Rightarrow> Some g | _ \<Rightarrow> None)"

lemma split_on_nonempty [simp]: "split_on c s \<noteq> []"
  by (induction s) (auto split: list.splits)

lemma split_on_no_sep: "c \<notin> set s \<Longrightarrow> split_on c s = [s]"
  by (induction s) auto

lemma split_on_append: "split_on c (s @ c # t) = split_on c s @ split_on c t"
proof (induction s)
  case Nil
  show ?case by (cases "split_on c t") simp_all
next
  case (Cons x s)
  then show ?case by (cases "split_on c s") auto
qed

lemma last_split_on_append [simp]: "last (split_on c (s @ c # t)) = last (split_on c t)"
  by (simp add: split_on_append)

lemma last_split_on_no_sep: "c \<notin> set (last (split_on c s))"
  by (induction s) (auto split: list.splits if_splits)

text \<open>\<open>strings.HasSuffix\<close> and \<open>strings.TrimSuffix\<close> for a suffix of one byte.\<close>

definition has_suffix1 :: "string \<Rightarrow> char \<Rightarrow> bool" where
  "has_suffix1 s c \<longleftrightarrow> s \<noteq> [] \<and> last s = c"

text \<open>Invariants of loops that are folds.\<close>

lemma foldl_invariant:
  assumes "\<And>m x. P m \<Longrightarrow> x \<in> set xs \<Longrightarrow> P (f m x)" and "P m"
  shows "P (foldl f m xs)"
  using assms by (induction xs arbitrary: m) auto

section \<open>Decimal integers\<close>

definition is_digit :: "char \<Rightarrow> bool" where
  "is_digit c \<longleftrightarrow> CHR ''0'' \<le> c \<and> c \<le> CHR ''9''"

definition digit_val :: "char \<Rightarrow> nat" where
  "digit_val c = of_char c - 48"

definition digits_val :: "string \<Rightarrow> nat" where
  "digits_val s = foldl (\<lambda>n c. 10 * n + digit_val c) 0 s"

text \<open>
  \<open>strconv.ParseUint(s, 10, bits)\<close>: digits only, in range. \<open>None\<close> stands for a non-nil error.
\<close>

definition ParseUint :: "string \<Rightarrow> nat \<Rightarrow> nat option" where
  "ParseUint s bits =
     (if s \<noteq> [] \<and> list_all is_digit s \<and> digits_val s < 2 ^ bits then Some (digits_val s) else None)"

text \<open>\<open>strconv.ParseInt(s, 10, bits)\<close>: an optional sign, digits, in range.\<close>

definition ParseInt :: "string \<Rightarrow> nat \<Rightarrow> int option" where
  "ParseInt s bits =
     (let neg = (s \<noteq> [] \<and> hd s = CHR ''-'');
          t = (if s \<noteq> [] \<and> (hd s = CHR ''+'' \<or> hd s = CHR ''-'') then tl s else s)
      in if t = [] \<or> \<not> list_all is_digit t then None
         else if neg then (if digits_val t \<le> 2 ^ (bits - 1) then Some (- int (digits_val t)) else None)
         else (if digits_val t < 2 ^ (bits - 1) then Some (int (digits_val t)) else None))"

abbreviation Atoi :: "string \<Rightarrow> int option" where
  "Atoi s \<equiv> ParseInt s 64"

text \<open>The decimal digits of a number, as \<open>fmt.Sprintf("%d", n)\<close> prints them.\<close>

definition digit_char :: "nat \<Rightarrow> char" where
  "digit_char d = char_of (48 + d)"

fun show_nat :: "nat \<Rightarrow> string" where
  "show_nat n = (if n < 10 then [digit_char n] else show_nat (n div 10) @ [digit_char (n mod 10)])"

declare show_nat.simps [simp del]

definition show_int :: "int \<Rightarrow> string" where
  "show_int i = (if i < 0 then CHR ''-'' # show_nat (nat (- i)) else show_nat (nat i))"

lemma of_char_digit_char: "d < 10 \<Longrightarrow> of_char (digit_char d) = (48 + d :: nat)"
  by (simp add: digit_char_def)

lemma is_digit_digit_char: "d < 10 \<Longrightarrow> is_digit (digit_char d)"
  unfolding is_digit_def less_eq_char_def by (simp add: of_char_digit_char)

lemma digit_val_digit_char [simp]: "d < 10 \<Longrightarrow> digit_val (digit_char d) = d"
  by (simp add: digit_val_def of_char_digit_char)

lemma digits_val_snoc [simp]: "digits_val (s @ [c]) = 10 * digits_val s + digit_val c"
  by (simp add: digits_val_def)

lemma digits_val_show_nat [simp]: "digits_val (show_nat n) = n"
proof (induction n rule: show_nat.induct)
  case (1 n)
  show ?case
  proof (cases "n < 10")
    case True
    then show ?thesis by (simp add: show_nat.simps [of n] digits_val_def)
  next
    case False
    then show ?thesis using "1" by (simp add: show_nat.simps [of n])
  qed
qed

lemma show_nat_digits [simp]: "list_all is_digit (show_nat n)"
proof (induction n rule: show_nat.induct)
  case (1 n)
  then show ?case by (subst show_nat.simps) (simp add: is_digit_digit_char)
qed

lemma show_nat_nonempty [simp]: "show_nat n \<noteq> []"
  by (subst show_nat.simps) simp

lemma digit_not_sign: "is_digit c \<Longrightarrow> c \<noteq> CHR ''-'' \<and> c \<noteq> CHR ''+''"
  by (auto simp: is_digit_def less_eq_char_def)

lemma ParseInt_digits:
  assumes "s \<noteq> []" and "list_all is_digit s"
  shows "ParseInt s bits =
    (if digits_val s < 2 ^ (bits - 1) then Some (int (digits_val s)) else None)"
proof -
  from assms have "hd s \<noteq> CHR ''-'' \<and> hd s \<noteq> CHR ''+''"
    by (intro digit_not_sign) (cases s, auto)
  with assms show ?thesis by (simp add: ParseInt_def)
qed

lemma ParseInt_show_nat:
  "n < 2 ^ (bits - 1) \<Longrightarrow> ParseInt (show_nat n) bits = Some (int n)"
  by (simp add: ParseInt_digits)

lemma ParseInt_bound:
  assumes "ParseInt s bits = Some i"
  shows "- (2 ^ (bits - 1)) \<le> i" and "i < 2 ^ (bits - 1)"
proof -
  have pos: "int (digits_val t) < 2 ^ (bits - 1)" if "digits_val t < 2 ^ (bits - 1)" for t
    using that by (metis of_nat_less_numeral_power_cancel_iff)
  have neg: "int (digits_val t) \<le> 2 ^ (bits - 1)" if "digits_val t \<le> 2 ^ (bits - 1)" for t
    using that by (metis numeral_power_le_of_nat_cancel_iff of_nat_le_numeral_power_cancel_iff)
  show "- (2 ^ (bits - 1)) \<le> i"
    using assms neg by (auto simp: ParseInt_def Let_def split: if_splits intro: order_trans [of _ 0])
  show "i < 2 ^ (bits - 1)"
    using assms pos le_less_trans [OF _ zero_less_power, of "- int (digits_val (tl s))" "2 :: int" "bits - 1"]
    by (auto simp: ParseInt_def Let_def split: if_splits)
qed

section \<open>Integer helpers\<close>

text \<open>Go divides integers towards zero.\<close>

definition go_div :: "int \<Rightarrow> int \<Rightarrow> int" where
  "go_div a b = sgn a * sgn b * (\<bar>a\<bar> div \<bar>b\<bar>)"

definition go_mod :: "int \<Rightarrow> int \<Rightarrow> int" where
  "go_mod a b = a - b * go_div a b"

lemma go_div_nonneg [simp]: "0 \<le> a \<Longrightarrow> 0 < b \<Longrightarrow> go_div a b = a div b"
  by (cases "a = 0") (simp_all add: go_div_def)

lemma go_mod_nonneg [simp]: "0 \<le> a \<Longrightarrow> 0 < b \<Longrightarrow> go_mod a b = a mod b"
  by (simp add: go_mod_def minus_div_mult_eq_mod [symmetric] mult.commute)

text \<open>\<open>math.Ceil\<close> and \<open>math.Floor\<close> of the quotient of two integers.\<close>

definition ceil_div :: "int \<Rightarrow> int \<Rightarrow> int" where
  "ceil_div a b = - ((- a) div b)"

lemma ceil_div_bounds:
  assumes "0 < b"
  shows "a \<le> b * ceil_div a b" and "b * ceil_div a b < a + b"
proof -
  have "b * ((- a) div b) = - a - (- a) mod b"
    by (simp add: minus_mod_eq_mult_div)
  moreover have "0 \<le> (- a) mod b" and "(- a) mod b < b"
    using assms by auto
  ultimately show "a \<le> b * ceil_div a b" and "b * ceil_div a b < a + b"
    by (auto simp: ceil_div_def)
qed

lemma ceil_div_mono: "0 < b \<Longrightarrow> a \<le> a' \<Longrightarrow> ceil_div a b \<le> ceil_div a' b"
  by (simp add: ceil_div_def zdiv_mono1)

lemma ceil_div_nonneg: "0 < b \<Longrightarrow> 0 \<le> a \<Longrightarrow> 0 \<le> ceil_div a b"
  using ceil_div_mono [of b 0 a] by (simp add: ceil_div_def)

definition IntAbs :: "int \<Rightarrow> int" where
  "IntAbs i = \<bar>i\<bar>"

definition IsIntPlusAndMinus :: "int \<Rightarrow> int \<Rightarrow> bool" where
  "IsIntPlusAndMinus i j \<longleftrightarrow> (i < 0 \<and> j > 0) \<or> (i > 0 \<and> j < 0)"

end
