(* ===== verification/Util_Tools.thy ===== *)
theory Util_Tools
  imports Kruise_Prelude
begin

text \<open>
  \<open>pkg/util/tools.go\<close> and the parts of the vendored package \<open>intstr\<close> it and the
  controllers use: integers that may be given as a percentage, the partition of a workload,
  duplicate detection, and the slow-start batching of API calls (also
  \<open>DoItSlowly\<close> of \<open>pkg/controller/cloneset/utils\<close>).

  Percentages go through \<open>float64\<close> in the code. A percentage string that passed admission is
  a decimal integer, and then the products are exact integers and the rounding of the quotient
  cannot cross an integer (for totals below \<open>2 ^ 45\<close>), so the model computes with integers.
  A fractional percentage is read as the exact decimal it denotes.
\<close>

section \<open>IntOrString\<close>

datatype int_or_string = IntVal int | StrVal string

definition IntValue :: "int_or_string \<Rightarrow> int" where
  "IntValue v = (case v of IntVal i \<Rightarrow> i | StrVal s \<Rightarrow> (case Atoi s of None \<Rightarrow> 0 | Some i \<Rightarrow> i))"

definition ValueOrDefault :: "int_or_string option \<Rightarrow> int_or_string \<Rightarrow> int_or_string" where
  "ValueOrDefault v d = (case v of None \<Rightarrow> d | Some x \<Rightarrow> x)"

text \<open>\<open>int(math.Ceil(v * total / 100))\<close>, or \<open>math.Floor\<close>.\<close>

definition scale_percent :: "int \<Rightarrow> int \<Rightarrow> bool \<Rightarrow> int" where
  "scale_percent v tot roundUp =
     (if roundUp then ceil_div (v * tot) 100 else (v * tot) div 100)"

text \<open>The legacy reader: every percent sign is dropped, any numeric string is a percentage.\<close>

definition getIntOrPercentValue :: "int_or_string \<Rightarrow> (int \<times> bool) option" where
  "getIntOrPercentValue v =
     (case v of
        IntVal i \<Rightarrow> Some (IntValue v, False)
      | StrVal s \<Rightarrow>
          (case Atoi (filter (\<lambda>c. c \<noteq> CHR ''%'') s) of
             None \<Rightarrow> None
           | Some i \<Rightarrow> Some (i, True)))"

text \<open>
  The value returned next to a non-nil error is 0, and callers that drop the error read it.
\<close>

definition ImagePreDownloadMinUpdatedReadyPods :: string where
  "ImagePreDownloadMinUpdatedReadyPods = ''apps.kruise.io/image-predownload-min-updated-ready-pods''"

definition intstr_Parse :: "string \<Rightarrow> int_or_string" where
  "intstr_Parse v = (case Atoi v of None \<Rightarrow> StrVal v | Some i \<Rightarrow> IntVal (signed_take_bit 31 i))"

definition GetValueFromIntOrPercent :: "int_or_string option \<Rightarrow> int \<Rightarrow> bool \<Rightarrow> int \<times> bool" where
  "GetValueFromIntOrPercent v tot roundUp =
     (case v of
        None \<Rightarrow> (0, False)
      | Some x \<Rightarrow>
          (case getIntOrPercentValue x of
             None \<Rightarrow> (0, False)
           | Some (value, isPercent) \<Rightarrow>
               (if isPercent then scale_percent value tot roundUp else value, True)))"

lemma scale_percent_nonneg: "0 \<le> v \<Longrightarrow> 0 \<le> tot \<Longrightarrow> 0 \<le> scale_percent v tot r"
  by (simp add: scale_percent_def ceil_div_nonneg pos_imp_zdiv_nonneg_iff)

section \<open>Percentages of package util\<close>

text \<open>
  \<open>strconv.ParseFloat\<close> on a decimal literal: the mantissa and the number of digits after the
  point, so that the value is \<open>m / 10 ^ k\<close>.
\<close>

definition ParseDecimal :: "string \<Rightarrow> (int \<times> nat) option" where
  "ParseDecimal s =
     (let neg = (s \<noteq> [] \<and> hd s = CHR ''-'');
          t = (if s \<noteq> [] \<and> (hd s = CHR ''+'' \<or> hd s = CHR ''-'') then tl s else s)
      in case split_on (CHR ''.'') t of
           [w] \<Rightarrow>
             (if w \<noteq> [] \<and> list_all is_digit w
              then Some ((if neg then - int (digits_val w) else int (digits_val w)), 0) else None)
         | [w, f] \<Rightarrow>
             (if w @ f \<noteq> [] \<and> list_all is_digit (w @ f)
              then Some ((if neg then - int (digits_val (w @ f)) else int (digits_val (w @ f))), length f)
              else None)
         | _ \<Rightarrow> None)"

definition GetScaledValueFromIntOrPercent :: "int_or_string option \<Rightarrow> int \<Rightarrow> bool \<Rightarrow> int option" where
  "GetScaledValueFromIntOrPercent v tot roundUp =
     (case v of
        None \<Rightarrow> None
      | Some (IntVal i) \<Rightarrow> Some (IntValue (IntVal i))
      | Some (StrVal s) \<Rightarrow>
          (if has_suffix1 s (CHR ''%'')
           then (case ParseDecimal (butlast s) of
                   None \<Rightarrow> None
                 | Some (m, k) \<Rightarrow>
                     Some (if roundUp then ceil_div (m * tot) (10 ^ k * 100)
                           else (m * tot) div (10 ^ k * 100)))
           else None))"

definition isStr :: "int_or_string \<Rightarrow> bool" where
  "isStr v = (case v of IntVal _ \<Rightarrow> False | StrVal _ \<Rightarrow> True)"

definition CalculatePartitionReplicas :: "int_or_string option \<Rightarrow> int option \<Rightarrow> int option" where
  "CalculatePartitionReplicas part replicasPointer =
     (case part of
        None \<Rightarrow> Some 0
      | Some p \<Rightarrow>
          (let replicas = (case replicasPointer of None \<Rightarrow> 1 | Some r \<Rightarrow> r)
           in case GetScaledValueFromIntOrPercent part replicas True of
                None \<Rightarrow> None
              | Some pValue \<Rightarrow>
                  (let pValue' =
                     (if replicas > 1 \<and> pValue = replicas \<and> isStr p \<and> p \<noteq> StrVal ''100%''
                      then replicas - 1 else pValue)
                   in Some (max (min pValue' replicas) 0))))"

definition CheckDuplicate :: "string list \<Rightarrow> string list" where
  "CheckDuplicate xs =
     rev (snd (fold (\<lambda>n (seen, dups). if n \<in> seen then (seen, n # dups) else (insert n seen, dups))
                xs ({}, [])))"

lemma CalculatePartition_range:
  assumes "CalculatePartitionReplicas p r = Some n" and "0 \<le> (case r of None \<Rightarrow> 1 | Some x \<Rightarrow> x)"
  shows "0 \<le> n" and "n \<le> (case r of None \<Rightarrow> 1 | Some x \<Rightarrow> x)"
  using assms
  by (auto simp: CalculatePartitionReplicas_def Let_def split: option.splits if_splits)

lemma ParseDecimal_show_nat: "ParseDecimal (show_nat n) = Some (int n, 0)"
proof -
  have dig: "is_digit c \<Longrightarrow> c \<noteq> CHR ''.''" for c
    by (auto simp: is_digit_def less_eq_char_def)
  have "CHR ''.'' \<notin> set (show_nat n)"
    using show_nat_digits [of n] dig by (auto simp: list_all_iff)
  moreover have "hd (show_nat n) \<noteq> CHR ''-'' \<and> hd (show_nat n) \<noteq> CHR ''+''"
    using show_nat_digits [of n] show_nat_nonempty [of n] digit_not_sign
    by (cases "show_nat n") auto
  ultimately show ?thesis
    by (simp add: ParseDecimal_def split_on_no_sep)
qed

lemma scaled_percent:
  "GetScaledValueFromIntOrPercent (Some (StrVal (show_nat p @ ''%''))) tot True =
     Some (ceil_div (int p * tot) 100)"
  by (simp add: GetScaledValueFromIntOrPercent_def has_suffix1_def ParseDecimal_show_nat)

text \<open>
  The two corner cases the comment of \<open>CalculatePartitionReplicas\<close> names, for an integer
  percentage: a positive one keeps a pod, one below 100 updates a pod.
\<close>

lemma partition_percent:
  assumes "0 < r"
  shows "CalculatePartitionReplicas (Some (StrVal (show_nat p @ ''%''))) (Some r) =
    Some (let v = ceil_div (int p * r) 100 in
      max (min (if 1 < r \<and> v = r \<and> show_nat p @ ''%'' \<noteq> ''100%'' then r - 1 else v) r) 0)"
  by (simp add: CalculatePartitionReplicas_def scaled_percent Let_def isStr_def)

lemma ceil_percent_pos: "0 < p \<Longrightarrow> 0 < r \<Longrightarrow> 1 \<le> ceil_div (int p * r) 100"
  using ceil_div_bounds(1) [of 100 "int p * r"] mult_pos_pos [of "int p" r] by linarith

lemma ceil_percent_less: "p < 100 \<Longrightarrow> 0 < r \<Longrightarrow> ceil_div (int p * r) 100 \<le> r"
proof -
  assume "p < 100" and "0 < r"
  then have "int p * r \<le> 99 * r" by (intro mult_right_mono) auto
  then show ?thesis using ceil_div_bounds(2) [of 100 "int p * r"] \<open>0 < r\<close> by linarith
qed

lemma show_nat_100: "show_nat 100 = ''100''"
  by code_simp

lemma show_nat_inj: "show_nat m = show_nat n \<Longrightarrow> m = n"
  by (metis digits_val_show_nat)

lemma partition_percent_bounds:
  assumes "1 < r" and "0 < p" and "p < 100"
    and "CalculatePartitionReplicas (Some (StrVal (show_nat p @ ''%''))) (Some r) = Some n"
  shows "1 \<le> n" and "n \<le> r - 1"
proof -
  have "show_nat p @ ''%'' \<noteq> ''100%''"
  proof
    assume "show_nat p @ ''%'' = ''100%''"
    then have "show_nat p = show_nat 100" by (simp add: show_nat_100 append_eq_Cons_conv)
    then show False using show_nat_inj assms(3) by blast
  qed
  then have n: "n = (let v = ceil_div (int p * r) 100 in max (min (if v = r then r - 1 else v) r) 0)"
    using assms(4) partition_percent [of r p] assms(1) by (auto simp: Let_def)
  have "1 \<le> ceil_div (int p * r) 100" and "ceil_div (int p * r) 100 \<le> r"
    using ceil_percent_pos [of p r] ceil_percent_less [of p r] assms by auto
  with n assms(1) show "1 \<le> n" and "n \<le> r - 1" by (auto simp: Let_def split: if_splits)
qed

lemma CheckDuplicate_fold:
  "set (snd (fold (\<lambda>n (seen, dups). if n \<in> seen then (seen, n # dups) else (insert n seen, dups))
      xs (seen, dups))) =
   set dups \<union> {x. x \<in> set xs \<and> (x \<in> seen \<or> 2 \<le> count (mset xs) x)}"
proof (induction xs arbitrary: seen dups)
  case Nil
  then show ?case by simp
next
  case (Cons y xs)
  have one: "x \<in> set xs \<longleftrightarrow> 1 \<le> count (mset xs) x" for x
    by (metis count_greater_eq_one_iff set_mset_mset)
  show ?case
    using one by (auto simp: Cons)
qed

section \<open>Slow-start batches\<close>

text \<open>
  The calls of a batch run concurrently and the batch waits for all of them; the model runs
  them in the order in which they are started, over an explicit state. A call returns
  \<open>Some e\<close> when it fails.
\<close>

fun run_batch :: "(int \<Rightarrow> 's \<Rightarrow> 'e option \<times> 's) \<Rightarrow> int list \<Rightarrow> 's \<Rightarrow> 'e list \<times> 's" where
  "run_batch fn [] s = ([], s)"
| "run_batch fn (i # is) s =
     (let (r, s1) = fn i s; (errs, s2) = run_batch fn is s1
      in (case r of None \<Rightarrow> errs | Some e \<Rightarrow> e # errs, s2))"

function slow_loop ::
  "(int \<Rightarrow> 's \<Rightarrow> 'e option \<times> 's) \<Rightarrow> int \<Rightarrow> int \<Rightarrow> int \<Rightarrow> int \<Rightarrow> 's \<Rightarrow> (int \<times> 'e option) \<times> 's"
where
  "slow_loop fn remaining batchSize successes index s =
     (if batchSize > 0 then
        (let (errs, s') = run_batch fn [index..index + batchSize - 1] s;
             successes' = successes + (batchSize - int (length errs))
         in if errs \<noteq> [] then ((successes', Some (hd errs)), s')
            else slow_loop fn (remaining - batchSize) (min (2 * batchSize) (remaining - batchSize))
                   successes' (index + batchSize) s')
      else ((successes, None), s))"
  by pat_completeness auto
termination
  by (relation "measure (\<lambda>(fn, remaining, batchSize, _). if batchSize \<le> 0 then 0 else nat remaining + 1)")
    auto

declare slow_loop.simps [simp del]

definition SlowStartBatch ::
  "int \<Rightarrow> int \<Rightarrow> (int \<Rightarrow> 's \<Rightarrow> 'e option \<times> 's) \<Rightarrow> 's \<Rightarrow> (int \<times> 'e option) \<times> 's" where
  "SlowStartBatch cnt initialBatchSize fn s =
     slow_loop fn cnt (min cnt initialBatchSize) 0 0 s"

text \<open>\<open>DoItSlowly\<close> is the same loop for a function that takes no index.\<close>

definition DoItSlowly :: "int \<Rightarrow> int \<Rightarrow> ('s \<Rightarrow> 'e option \<times> 's) \<Rightarrow> 's \<Rightarrow> (int \<times> 'e option) \<times> 's" where
  "DoItSlowly cnt initialBatchSize fn s =
     slow_loop (\<lambda>_. fn) cnt (min cnt initialBatchSize) 0 0 s"

lemma run_batch_append:
  "run_batch fn (is @ js) s =
     (let (e1, s1) = run_batch fn is s; (e2, s2) = run_batch fn js s1 in (e1 @ e2, s2))"
  by (induction "is" arbitrary: s) (auto split: prod.splits option.splits)

lemma run_batch_errs: "length (fst (run_batch fn is s)) \<le> length is"
proof (induction "is" arbitrary: s)
  case (Cons i "is")
  obtain r s1 where f: "fn i s = (r, s1)" by (cases "fn i s")
  obtain errs s2 where b: "run_batch fn is s1 = (errs, s2)" by (cases "run_batch fn is s1")
  have "length errs \<le> length is" using Cons [of s1] b by simp
  with f b show ?case by (cases r) auto
qed simp

text \<open>
  The loop runs the calls \<open>index, \<dots>, index + k - 1\<close> for some \<open>k\<close>, counts those that
  succeeded, and stops before the end only behind a failing batch.
\<close>

lemma upto_split: "0 \<le> (b::int) \<Longrightarrow> 0 \<le> k \<Longrightarrow> [i..i + b - 1] @ [i + b..i + b + k - 1] = [i..i + (b + k) - 1]"
  using upto_split1 [of i "i + b" "i + (b + k) - 1"] upto_split2 [of i "i + b - 1" "i + (b + k) - 1"]
  by (cases "k = 0") (simp_all add: algebra_simps)

lemma slow_loop_spec:
  assumes "batchSize \<le> remaining" and "0 < batchSize \<or> remaining \<le> 0"
  shows "\<exists>k. 0 \<le> k \<and> k \<le> max remaining 0 \<and>
    snd (slow_loop fn remaining batchSize successes index s) = snd (run_batch fn [index..index + k - 1] s) \<and>
    fst (fst (slow_loop fn remaining batchSize successes index s)) =
      successes + k - int (length (fst (run_batch fn [index..index + k - 1] s))) \<and>
    (case snd (fst (slow_loop fn remaining batchSize successes index s)) of
       None \<Rightarrow> k = max remaining 0 \<and> fst (run_batch fn [index..index + k - 1] s) = []
     | Some e \<Rightarrow> e \<in> set (fst (run_batch fn [index..index + k - 1] s)))"
  using assms
proof (induction fn remaining batchSize successes index s rule: slow_loop.induct)
  case (1 fn remaining batchSize successes index s)
  show ?case
  proof (cases "batchSize > 0")
    case False
    then show ?thesis
      using "1.prems" by (intro exI [of _ 0]) (simp add: slow_loop.simps)
  next
    case pos: True
    obtain errs s' where rb: "run_batch fn [index..index + batchSize - 1] s = (errs, s')"
      by (cases "run_batch fn [index..index + batchSize - 1] s")
    show ?thesis
    proof (cases "errs = []")
      case False
      then show ?thesis
        using pos rb "1.prems"
        by (intro exI [of _ batchSize]) (auto simp: slow_loop.simps [of _ _ batchSize])
    next
      case True
      let ?r = "remaining - batchSize" and ?b = "min (2 * batchSize) (remaining - batchSize)"
      let ?L = "slow_loop fn ?r ?b (successes + batchSize) (index + batchSize) s'"
      have loop: "slow_loop fn remaining batchSize successes index s = ?L"
        using pos rb True by (simp add: slow_loop.simps [of _ _ batchSize])
      obtain k where k: "0 \<le> k" "k \<le> max ?r 0"
          "snd ?L = snd (run_batch fn [index + batchSize..index + batchSize + k - 1] s')"
          "fst (fst ?L) = successes + batchSize + k -
             int (length (fst (run_batch fn [index + batchSize..index + batchSize + k - 1] s')))"
          "case snd (fst ?L) of
             None \<Rightarrow> k = max ?r 0 \<and> fst (run_batch fn [index + batchSize..index + batchSize + k - 1] s') = []
           | Some e \<Rightarrow> e \<in> set (fst (run_batch fn [index + batchSize..index + batchSize + k - 1] s'))"
        using "1.IH" [OF pos rb [symmetric] refl refl] True "1.prems" pos by fastforce
      have run: "run_batch fn [index..index + (batchSize + k) - 1] s =
          run_batch fn [index + batchSize..index + batchSize + k - 1] s'"
        using rb True k(1) pos
        by (simp add: run_batch_append split: prod.splits flip: upto_split)
      show ?thesis
        using k run "1.prems" pos unfolding loop
        by (intro exI [of _ "batchSize + k"]) (auto simp: algebra_simps split: option.splits)
    qed
  qed
qed

section \<open>Properties\<close>



text \<open>
  C2: \<open>SlowStartBatch\<close> calls the function on \<open>0, \<dots>, k - 1\<close>, each index once, for some \<open>k\<close> up to the
  requested count; it returns the number of calls that succeeded, and no error exactly when it made
  every call and none failed; an error it returns is one of the calls'.
\<close>

theorem slow_start_calls:
  assumes "0 < initialBatchSize"
  shows "\<exists>k. 0 \<le> k \<and> k \<le> max cnt 0
    \<and> snd (SlowStartBatch cnt initialBatchSize fn s) = snd (run_batch fn [0..k - 1] s)
    \<and> fst (fst (SlowStartBatch cnt initialBatchSize fn s)) = k - int (length (fst (run_batch fn [0..k - 1] s)))
    \<and> (case snd (fst (SlowStartBatch cnt initialBatchSize fn s)) of
         None \<Rightarrow> k = max cnt 0 \<and> fst (run_batch fn [0..k - 1] s) = []
       | Some e \<Rightarrow> e \<in> set (fst (run_batch fn [0..k - 1] s)))"
proof -
  have "0 < min cnt initialBatchSize \<or> cnt \<le> 0" using assms by auto
  from slow_loop_spec [OF min.cobounded1 this, of fn 0 0 s, unfolded add_0] show ?thesis
    unfolding SlowStartBatch_def .
qed

text \<open>A call on an even index fails.\<close>

definition fail_even :: "int \<Rightarrow> int list \<Rightarrow> string option \<times> int list" where
  "fail_even i s = ((if even i \<and> 0 < i then Some ''even'' else None), s @ [i])"

theorem slow_start_calls_witness:
  "\<exists>k. 0 \<le> k \<and> k \<le> 5 \<and> snd (SlowStartBatch 5 1 fail_even []) = snd (run_batch fail_even [0..k - 1] [])"
  using slow_start_calls [of 1 5 fail_even "[]"] by auto

lemma DoItSlowly_SlowStartBatch: "DoItSlowly cnt n fn s = SlowStartBatch cnt n (\<lambda>_. fn) s"
  by (simp add: DoItSlowly_def SlowStartBatch_def)

text \<open>Rules for a slow start: an invariant of the call, and progress when no call fails.\<close>

lemma DoItSlowly_shape:
  assumes "0 < b"
  obtains k where "k \<le> max n 0" "0 \<le> k"
    "snd (DoItSlowly n b fn s) = snd (run_batch (\<lambda>_. fn) [0..k - 1] s)"
    "snd (fst (DoItSlowly n b fn s)) = None \<Longrightarrow> k = max n 0 \<and> fst (run_batch (\<lambda>_. fn) [0..k - 1] s) = []"
proof -
  have "0 < min n b \<or> n \<le> 0" using assms by linarith
  from slow_loop_spec [OF min.cobounded1 this, of "\<lambda>_. fn" 0 0 s, unfolded add_0] show thesis
    using that unfolding DoItSlowly_def by (auto split: option.splits)
qed

lemma run_batch_invariant:
  assumes "I s" and "\<And>s r s'. I s \<Longrightarrow> fn s = (r, s') \<Longrightarrow> I s'"
  shows "I (snd (run_batch (\<lambda>_. fn) is s))"
  using assms(1)
proof (induction "is" arbitrary: s)
  case (Cons i "is")
  obtain r s1 where f: "fn s = (r, s1)" by (cases "fn s")
  from Cons.IH [OF assms(2) [OF Cons.prems f]] f show ?case by (simp add: case_prod_beta Let_def)
qed simp

lemma run_batch_counted:
  assumes "J k s" and "\<And>k s s'. J k s \<Longrightarrow> fn s = (None, s') \<Longrightarrow> J (Suc k) s'"
    and "fst (run_batch (\<lambda>_. fn) is s) = []"
  shows "J (k + length is) (snd (run_batch (\<lambda>_. fn) is s))"
  using assms(1,3)
proof (induction "is" arbitrary: k s)
  case (Cons i "is")
  obtain r s1 where f: "fn s = (r, s1)" by (cases "fn s")
  with Cons.prems(2) have "r = None" and rest: "fst (run_batch (\<lambda>_. fn) is s1) = []"
    by (auto simp: case_prod_beta Let_def split: option.splits)
  with Cons.IH [OF assms(2) [OF Cons.prems(1)]] f show ?case by (simp add: case_prod_beta Let_def)
qed simp

lemma DoItSlowly_invariant:
  assumes "0 < b" and "I s" and "\<And>s r s'. I s \<Longrightarrow> fn s = (r, s') \<Longrightarrow> I s'"
  shows "I (snd (DoItSlowly n b fn s))"
proof -
  obtain k where "snd (DoItSlowly n b fn s) = snd (run_batch (\<lambda>_. fn) [0..k - 1] s)"
    by (rule DoItSlowly_shape [OF assms(1)])
  then show ?thesis using run_batch_invariant [of I, OF assms(2,3)] by simp
qed

lemma DoItSlowly_no_error:
  assumes "0 < b" and "J 0 s" and "\<And>k s s'. J k s \<Longrightarrow> fn s = (None, s') \<Longrightarrow> J (Suc k) s'"
    and "snd (fst (DoItSlowly n b fn s)) = None"
  shows "J (nat n) (snd (DoItSlowly n b fn s))"
proof -
  obtain k where k: "snd (DoItSlowly n b fn s) = snd (run_batch (\<lambda>_. fn) [0..k - 1] s)"
    "k = max n 0" "fst (run_batch (\<lambda>_. fn) [0..k - 1] s) = []"
    by (rule DoItSlowly_shape [OF assms(1), of n fn s]) (use assms(4) in blast)
  have "J (0 + length [0..k - 1]) (snd (run_batch (\<lambda>_. fn) [0..k - 1] s))"
    by (rule run_batch_counted [of J, OF assms(2) _ k(3)]) (rule assms(3))
  moreover have "nat (max n 0) = nat n" by simp
  ultimately show ?thesis using k(1,2) by simp
qed

end
