(* ===== verification/Go_Sort.thy ===== *)
theory Go_Sort
  imports Kruise_Prelude
begin

text \<open>
  Package \<open>sort\<close> of Go's standard library as the controllers use it.
  \<open>sort.Slice\<close> and \<open>sort.Sort\<close> promise a sorted permutation and nothing about equal
  elements, so every routine that calls them takes the sorting function as an argument
  \<open>srt\<close>, of which the locale \<open>go_sorter\<close> states what the package documents.
  \<open>sort.SliceStable\<close> is \<open>go_sort\<close>, Go's insertion sort: \<open>ins_rev lss x acc\<close> moves
  the new element left over the already sorted part (kept last element first) while it is
  less than its neighbour. It also is what \<open>sort.Sort\<close> runs on at most twelve elements, and
  so the instance on which \<open>go_sorter\<close> is interpreted.
\<close>

section \<open>Insertion sort\<close>

fun ins_rev :: "('a \<Rightarrow> 'a \<Rightarrow> bool) \<Rightarrow> 'a \<Rightarrow> 'a list \<Rightarrow> 'a list" where
  "ins_rev lss x [] = [x]"
| "ins_rev lss x (y # ys) = (if lss x y then y # ins_rev lss x ys else x # y # ys)"

definition go_sort :: "('a \<Rightarrow> 'a \<Rightarrow> bool) \<Rightarrow> 'a list \<Rightarrow> 'a list" where
  "go_sort lss xs = rev (fold (ins_rev lss) xs [])"

text \<open>What a comparison function has to satisfy for the package's contract: a strict weak order.\<close>

definition strict_weak :: "('a \<Rightarrow> 'a \<Rightarrow> bool) \<Rightarrow> bool" where
  "strict_weak lss \<longleftrightarrow>
     (\<forall>x y. lss x y \<longrightarrow> \<not> lss y x) \<and> (\<forall>x y z. lss x z \<longrightarrow> lss x y \<or> lss y z)"

abbreviation sorted_by :: "('a \<Rightarrow> 'a \<Rightarrow> bool) \<Rightarrow> 'a list \<Rightarrow> bool" where
  "sorted_by lss \<equiv> sorted_wrt (\<lambda>x y. \<not> lss y x)"

lemma strict_weak_asym: "strict_weak lss \<Longrightarrow> lss x y \<Longrightarrow> \<not> lss y x"
  by (simp add: strict_weak_def)

lemma strict_weak_trans_not:
  "strict_weak lss \<Longrightarrow> \<not> lss x y \<Longrightarrow> \<not> lss y z \<Longrightarrow> \<not> lss x z"
  unfolding strict_weak_def by blast

lemma strict_weak_trans: "strict_weak lss \<Longrightarrow> lss x y \<Longrightarrow> lss y z \<Longrightarrow> lss x z"
  unfolding strict_weak_def by blast

lemma strict_weak_irrefl: "strict_weak lss \<Longrightarrow> \<not> lss x x"
  by (auto simp: strict_weak_def)

lemma strict_weak_key: "strict_weak (\<lambda>x y. f x < (f y :: 'b :: linorder))"
  unfolding strict_weak_def by (auto simp: not_less)

lemma strict_weak_on: "strict_weak lss \<Longrightarrow> strict_weak (\<lambda>x y. lss (f x) (f y))"
  unfolding strict_weak_def by blast

text \<open>Comparing lexicographically: first by one criterion, then, where it ties, by another.\<close>

definition then_by :: "('a \<Rightarrow> 'a \<Rightarrow> bool) \<Rightarrow> ('a \<Rightarrow> 'a \<Rightarrow> bool) \<Rightarrow> 'a \<Rightarrow> 'a \<Rightarrow> bool" where
  "then_by l1 l2 x y \<longleftrightarrow> l1 x y \<or> (\<not> l1 y x \<and> l2 x y)"

lemma strict_weak_then_by:
  assumes "strict_weak l1" and "strict_weak l2"
  shows "strict_weak (then_by l1 l2)"
  unfolding strict_weak_def
proof (intro conjI allI impI)
  fix x y
  assume "then_by l1 l2 x y"
  then show "\<not> then_by l1 l2 y x"
    using strict_weak_asym [OF assms(1)] strict_weak_asym [OF assms(2)]
    unfolding then_by_def by blast
next
  fix x y z
  assume xz: "then_by l1 l2 x z"
  have n1: "\<And>a b c. \<not> l1 a b \<Longrightarrow> \<not> l1 b c \<Longrightarrow> \<not> l1 a c"
    by (rule strict_weak_trans_not [OF assms(1)])
  have n2: "\<And>a b c. \<not> l2 a b \<Longrightarrow> \<not> l2 b c \<Longrightarrow> \<not> l2 a c"
    by (rule strict_weak_trans_not [OF assms(2)])
  show "then_by l1 l2 x y \<or> then_by l1 l2 y z"
  proof (cases "l1 x y \<or> l1 y z")
    case True
    then show ?thesis by (auto simp: then_by_def)
  next
    case False
    then have "\<not> l1 x z" using n1 by blast
    then have "l2 x z" and "\<not> l1 z x" using xz by (auto simp: then_by_def)
    moreover have "\<not> l1 y x" using n1 [of y z x] False \<open>\<not> l1 z x\<close> by blast
    moreover have "\<not> l1 z y" using n1 [of z x y] False \<open>\<not> l1 z x\<close> by blast
    ultimately show ?thesis using n2 [of x y z] unfolding then_by_def by blast
  qed
qed

lemma mset_ins_rev [simp]: "mset (ins_rev lss x ys) = add_mset x (mset ys)"
  by (induction ys) auto

lemma set_ins_rev [simp]: "set (ins_rev lss x ys) = insert x (set ys)"
  by (metis mset_ins_rev set_mset_add_mset_insert set_mset_mset)

lemma mset_fold_ins_rev: "mset (fold (ins_rev lss) xs acc) = mset xs + mset acc"
  by (induction xs arbitrary: acc) auto

lemma mset_go_sort [simp, kruise_mset]: "mset (go_sort lss xs) = mset xs"
  by (simp add: go_sort_def mset_fold_ins_rev)

lemma set_go_sort [simp]: "set (go_sort lss xs) = set xs"
  by (metis mset_go_sort set_mset_mset)

lemma length_go_sort [simp]: "length (go_sort lss xs) = length xs"
  by (metis mset_go_sort size_mset)

lemma sorted_ins_rev:
  assumes "strict_weak lss" and "sorted_wrt (\<lambda>x y. \<not> lss x y) ys"
  shows "sorted_wrt (\<lambda>x y. \<not> lss x y) (ins_rev lss x ys)"
  using assms(2)
proof (induction ys)
  case Nil
  then show ?case by simp
next
  case (Cons y ys)
  show ?case
  proof (cases "lss x y")
    case True
    then have "\<not> lss y x" by (rule strict_weak_asym [OF assms(1)])
    with True Cons show ?thesis by simp
  next
    case False
    then have "\<forall>z \<in> set ys. \<not> lss x z"
      using Cons.prems strict_weak_trans_not [OF assms(1), of x y] by auto
    with False Cons.prems show ?thesis by simp
  qed
qed

lemma sorted_fold_ins_rev:
  "strict_weak lss \<Longrightarrow> sorted_wrt (\<lambda>x y. \<not> lss x y) acc \<Longrightarrow>
     sorted_wrt (\<lambda>x y. \<not> lss x y) (fold (ins_rev lss) xs acc)"
  by (induction xs arbitrary: acc) (auto simp: sorted_ins_rev)

lemma sorted_go_sort: "strict_weak lss \<Longrightarrow> sorted_by lss (go_sort lss xs)"
  by (simp add: go_sort_def sorted_wrt_rev sorted_fold_ins_rev)

text \<open>Stability: elements that tie with \<open>x\<close> keep their order.\<close>

lemma filter_ins_rev:
  assumes "strict_weak lss" and "sorted_wrt (\<lambda>x y. \<not> lss x y) ys"
  shows "filter (\<lambda>y. \<not> lss y x \<and> \<not> lss x y) (ins_rev lss z ys) =
    filter (\<lambda>y. \<not> lss y x \<and> \<not> lss x y) (z # ys)"
  using assms(2)
proof (induction ys)
  case Nil
  then show ?case by simp
next
  case (Cons y ys)
  have "lss y x \<or> lss x y" if "lss z y" and "\<not> lss z x" and "\<not> lss x z"
    using strict_weak_trans_not [OF assms(1)] that by blast
  with Cons show ?case by auto
qed

lemma filter_fold_ins_rev:
  assumes "strict_weak lss"
  shows "sorted_wrt (\<lambda>x y. \<not> lss x y) acc \<Longrightarrow>
    filter (\<lambda>y. \<not> lss y x \<and> \<not> lss x y) (fold (ins_rev lss) xs acc) =
    rev (filter (\<lambda>y. \<not> lss y x \<and> \<not> lss x y) xs) @ filter (\<lambda>y. \<not> lss y x \<and> \<not> lss x y) acc"
  by (induction xs arbitrary: acc) (auto simp: sorted_ins_rev assms filter_ins_rev)

lemma go_sort_stable:
  assumes "strict_weak lss"
  shows "filter (\<lambda>y. \<not> lss y x \<and> \<not> lss x y) (go_sort lss xs) =
    filter (\<lambda>y. \<not> lss y x \<and> \<not> lss x y) xs"
  using filter_fold_ins_rev [OF assms, of "[]" x xs]
  by (simp add: go_sort_def flip: rev_filter)

text \<open>A list that is already sorted is left as it is.\<close>

lemma ins_rev_sorted: "\<forall>y \<in> set ys. \<not> lss x y \<Longrightarrow> ins_rev lss x ys = x # ys"
  by (cases ys) auto

lemma fold_ins_rev_sorted:
  "sorted_by lss xs \<Longrightarrow> \<forall>x \<in> set xs. \<forall>y \<in> set acc. \<not> lss x y \<Longrightarrow>
     fold (ins_rev lss) xs acc = rev xs @ acc"
  by (induction xs arbitrary: acc) (auto simp: ins_rev_sorted)

lemma go_sort_sorted: "sorted_by lss xs \<Longrightarrow> go_sort lss xs = xs"
  by (simp add: go_sort_def fold_ins_rev_sorted)

section \<open>The contract of an unstable sort\<close>

locale go_sorter =
  fixes srt :: "('a \<Rightarrow> 'a \<Rightarrow> bool) \<Rightarrow> 'a list \<Rightarrow> 'a list"
  assumes srt_perm: "mset (srt lss xs) = mset xs"
    and srt_sorted: "strict_weak lss \<Longrightarrow> sorted_by lss (srt lss xs)"
begin

lemma srt_set [simp]: "set (srt lss xs) = set xs"
  by (metis srt_perm set_mset_mset)

lemma srt_length [simp]: "length (srt lss xs) = length xs"
  by (metis srt_perm size_mset)

lemma srt_distinct [simp]: "distinct (srt lss xs) = distinct xs"
  by (metis srt_perm mset_eq_imp_distinct_iff)

lemma srt_Nil [simp]: "srt lss [] = []"
  using srt_perm [of lss "[]"] by simp

text \<open>
  The first \<open>n\<close> elements are minimal: nothing behind them is less than any of them.
\<close>

lemma srt_prefix_minimal:
  assumes "strict_weak lss" and "x \<in> set (take n (srt lss xs))"
    and "y \<in> set (drop n (srt lss xs))"
  shows "\<not> lss y x"
proof -
  have "sorted_by lss (take n (srt lss xs) @ drop n (srt lss xs))"
    using srt_sorted [OF assms(1)] by simp
  then show ?thesis
    using assms(2,3) unfolding sorted_wrt_append by blast
qed

text \<open>With no ties, the order is the only one there is.\<close>

lemma srt_unique:
  assumes "strict_weak lss" and "sorted_by lss ys" and "mset ys = mset xs"
    and ties: "\<And>x y. x \<in> set xs \<Longrightarrow> y \<in> set xs \<Longrightarrow> \<not> lss x y \<Longrightarrow> \<not> lss y x \<Longrightarrow> x = y"
  shows "srt lss xs = ys"
proof -
  have "us = vs" if "sorted_by lss us" "sorted_by lss vs" "mset us = mset vs"
      "set us \<subseteq> set xs" for us vs
    using that
  proof (induction us arbitrary: vs)
    case Nil
    then show ?case by simp
  next
    case (Cons u us)
    then obtain v vs' where vs: "vs = v # vs'" by (cases vs) auto
    have in_set: "v \<in> set (u # us)" "u \<in> set vs"
      using Cons.prems(3) vs by (metis list.set_intros(1) set_mset_mset)+
    have "u = v"
    proof (rule ccontr)
      assume "u \<noteq> v"
      then have "v \<in> set us" and "u \<in> set vs'" using in_set vs by auto
      then have "\<not> lss v u" and "\<not> lss u v" using Cons.prems(1,2) vs by auto
      moreover have "u \<in> set xs" and "v \<in> set xs" using Cons.prems(4) \<open>v \<in> set us\<close> by auto
      ultimately show False using ties \<open>u \<noteq> v\<close> by blast
    qed
    then show ?case using Cons vs by auto
  qed
  then show ?thesis
    using srt_sorted [OF assms(1)] assms(2,3) srt_perm by (metis srt_set subset_refl)
qed

end

interpretation insertion: go_sorter go_sort
  by unfold_locales (auto simp: sorted_go_sort)

end
