(* ===== verification/K8s_Model.thy ===== *)
theory K8s_Model
  imports Util_Tools Go_Sort
begin

text \<open>
  The Kubernetes objects the controllers handle, and the helpers on them.  Go structs are
  records with the fields the controllers read or write; \<open>metav1.ObjectMeta\<close>, which every
  object embeds, is a record that the object records extend.  A time is an integer number of
  nanoseconds, and 0 is Go's zero time.  An annotation whose text is JSON is represented by the
  value it decodes to: decoding fails exactly on an annotation of another shape.
  Helpers: \<open>pkg/util/pods.go\<close>, \<open>pkg/util/ownerref.go\<close>, \<open>apis/apps/pub/inplace_update.go\<close>
  and the pod predicates of the vendored Kubernetes packages.
\<close>

section \<open>Data\<close>

record env_var =
  EnvName :: string
  EnvValue :: string
  FieldPath :: "string option"
  ConfigMapKey :: "string option"

record volume_mount =
  MountName :: string
  MountPath :: string

record container_port =
  PortName :: string
  ContainerPort :: int

record container =
  CName :: string
  Image :: string
  Env :: "env_var list"
  VolumeMounts :: "volume_mount list"
  Ports :: "container_port list"

record volume =
  VolName :: string
  ClaimName :: string

record topology_spread =
  TopologyKey :: string

record taint =
  TaintKey :: string
  TaintValue :: string
  TaintEffect :: string

record toleration =
  TolKey :: string
  TolOperator :: string
  TolValue :: string
  TolEffect :: string

record field_requirement =
  FieldKey :: string
  FieldOperator :: string
  FieldValues :: "string list"

record node_term =
  TermExpressions :: "field_requirement list"
  TermFields :: "field_requirement list"

record preferred_term =
  TermWeight :: int
  Preference :: node_term

text \<open>
  Of the affinity, the node selector terms that are required for scheduling and those that are preferred.
\<close>

record pod_spec =
  NodeName :: string
  Hostname :: string
  Subdomain :: string
  InitContainers :: "container list"
  Containers :: "container list"
  Volumes :: "volume list"
  ReadinessGates :: "string list"
  TopologySpreadConstraints :: "topology_spread list"
  RestartPolicy :: string
  Tolerations :: "toleration list"
  NodeSelectorTerms :: "node_term list option"
  PreferredTerms :: "preferred_term list"

record pod_template =
  TplLabels :: labels
  TplAnnotations :: labels
  TplFinalizers :: "string list"
  TplSpec :: pod_spec

text \<open>The state of an in-place update, which the controllers keep in an annotation of the pod.\<close>

record ref_metadata =
  RefLabels :: "(string \<times> string) list"
  RefAnnotations :: "(string \<times> string) list"

record container_batch =
  Timestamp :: int
  BatchContainers :: "string list"

record inplace_state =
  Revision :: string
  UpdateTimestamp :: int
  LastContainerStatuses :: "(string \<times> string) list"
  UpdateEnvFromMetadata :: bool
  NextContainerImages :: "(string \<times> string) list"
  NextContainerRefMetadata :: "(string \<times> ref_metadata) list"
  PreCheckBeforeNext :: "string list option"
  ContainerBatchesRecord :: "container_batch list"

record update_spec =
  SpecRevision :: string
  ContainerImages :: "(string \<times> string) list"
  ContainerRefMetadata :: "(string \<times> ref_metadata) list"
  MetaDataPatch :: "string option"
  SpecUpdateEnv :: bool
  GraceSeconds :: int

record runtime_container_meta =
  MetaName :: string
  MetaContainerID :: string
  MetaRestartCount :: int
  PlainHash :: nat
  ExtractedEnvFromMetadataHash :: nat

text \<open>The WorkloadSpread and the subset of it that a pod belongs to, also an annotation.\<close>

record inject_spread =
  InjectName :: string
  InjectSubset :: string
  InjectUID :: string

datatype anno =
    Text string
  | StateJSON inplace_state
  | SpecJSON update_spec
  | MetaJSON "runtime_container_meta list"
  | InjectJSON inject_spread

record owner_ref =
  OwnerAPIVersion :: string
  OwnerKind :: string
  OwnerName :: string
  OwnerUID :: string
  OwnerController :: "bool option"

record object_meta =
  Name :: string
  Namespace :: string
  UID :: string
  ResourceVersion :: string
  Generation :: int
  Labels :: labels
  Annotations :: "string \<rightharpoonup> anno"
  Finalizers :: "string list"
  OwnerReferences :: "owner_ref list"
  CreationTimestamp :: int
  DeletionTimestamp :: "int option"

datatype pod_phase = PhaseUnset | PodPending | PodRunning | PodSucceeded | PodFailed | PodUnknown

text \<open>The message of a condition: free text, or the JSON list of \<open>pkg/util/podreadiness\<close>.\<close>

record message =
  UserAgent :: string
  Key :: string

datatype cond_message = MsgText string | MsgList "message list"

record pod_condition =
  CondType :: string
  CondStatus :: string
  LastTransitionTime :: int
  Reason :: string
  Message :: cond_message

record container_status =
  StatusName :: string
  StatusImage :: string
  ImageID :: string
  ContainerID :: string
  Ready :: bool
  RestartCount :: int

record pod_status =
  Phase :: pod_phase
  Conditions :: "pod_condition list"
  ContainerStatuses :: "container_status list"
  InitContainerStatuses :: "container_status list"

record pod = object_meta +
  Spec :: pod_spec
  Status :: pod_status

record pvc = object_meta +
  PvcPhase :: string

text \<open>Go's zero values.\<close>

definition zero_meta :: object_meta where
  "zero_meta = \<lparr>Name = [], Namespace = [], UID = [], ResourceVersion = [], Generation = 0,
     Labels = Map.empty, Annotations = Map.empty, Finalizers = [], OwnerReferences = [],
     CreationTimestamp = 0, DeletionTimestamp = None\<rparr>"

definition zero_pod_spec :: pod_spec where
  "zero_pod_spec = \<lparr>NodeName = [], Hostname = [], Subdomain = [], InitContainers = [], Containers = [],
     Volumes = [], ReadinessGates = [], TopologySpreadConstraints = [], RestartPolicy = [], Tolerations = [],
     NodeSelectorTerms = None, PreferredTerms = []\<rparr>"

definition zero_pod :: pod where
  "zero_pod = object_meta.extend zero_meta
     (pod.fields zero_pod_spec \<lparr>Phase = PhaseUnset, Conditions = [], ContainerStatuses = [], InitContainerStatuses = []\<rparr>)"

lemmas zero_defs = zero_meta_def zero_pod_spec_def zero_pod_def object_meta.defs pod.defs

definition ConditionTrue :: string where "ConditionTrue = ''True''"
definition ConditionFalse :: string where "ConditionFalse = ''False''"
definition PodReady :: string where "PodReady = ''Ready''"
definition ContainersReady :: string where "ContainersReady = ''ContainersReady''"
definition InPlaceUpdateReady :: string where "InPlaceUpdateReady = ''InPlaceUpdateReady''"
definition InPlaceUpdateStateKey :: string where
  "InPlaceUpdateStateKey = ''apps.kruise.io/inplace-update-state''"
definition InPlaceUpdateStateKeyOld :: string where
  "InPlaceUpdateStateKeyOld = ''inplace-update-state''"
definition InPlaceUpdateGraceKey :: string where
  "InPlaceUpdateGraceKey = ''apps.kruise.io/inplace-update-grace''"
definition InPlaceUpdateGraceKeyOld :: string where
  "InPlaceUpdateGraceKeyOld = ''inplace-update-grace''"
definition RuntimeContainerMetaKey :: string where
  "RuntimeContainerMetaKey = ''apps.kruise.io/runtime-containers-meta''"

lemmas key_defs = ConditionTrue_def ConditionFalse_def PodReady_def ContainersReady_def
  InPlaceUpdateReady_def InPlaceUpdateStateKey_def InPlaceUpdateStateKeyOld_def
  InPlaceUpdateGraceKey_def InPlaceUpdateGraceKeyOld_def RuntimeContainerMetaKey_def

lemma key_neq [simp]:
  "ConditionTrue \<noteq> ConditionFalse" "ConditionFalse \<noteq> ConditionTrue"
  "ConditionTrue \<noteq> []" "ConditionFalse \<noteq> []"
  "PodReady \<noteq> ContainersReady" "ContainersReady \<noteq> PodReady"
  "PodReady \<noteq> InPlaceUpdateReady" "InPlaceUpdateReady \<noteq> PodReady"
  "ContainersReady \<noteq> InPlaceUpdateReady" "InPlaceUpdateReady \<noteq> ContainersReady"
  "InPlaceUpdateStateKey \<noteq> InPlaceUpdateStateKeyOld" "InPlaceUpdateStateKey \<noteq> InPlaceUpdateGraceKey"
  "InPlaceUpdateStateKey \<noteq> InPlaceUpdateGraceKeyOld" "InPlaceUpdateGraceKey \<noteq> InPlaceUpdateStateKey"
  "InPlaceUpdateGraceKeyOld \<noteq> InPlaceUpdateStateKey" "InPlaceUpdateStateKeyOld \<noteq> InPlaceUpdateStateKey"
  "InPlaceUpdateGraceKey \<noteq> InPlaceUpdateStateKeyOld" "InPlaceUpdateStateKeyOld \<noteq> InPlaceUpdateGraceKey"
  "InPlaceUpdateGraceKeyOld \<noteq> InPlaceUpdateStateKeyOld" "InPlaceUpdateStateKeyOld \<noteq> InPlaceUpdateGraceKeyOld"
  by (simp_all add: key_defs)

section \<open>Metadata\<close>

text \<open>Reading an annotation that the code uses as plain text.\<close>

fun anno_text :: "anno option \<Rightarrow> string option" where
  "anno_text (Some (Text s)) = Some s"
| "anno_text _ = None"

definition IsDeleted :: "('a) object_meta_scheme \<Rightarrow> bool" where
  "IsDeleted o' \<longleftrightarrow> (case DeletionTimestamp o' of None \<Rightarrow> False | Some t \<Rightarrow> t \<noteq> 0)"

fun GetControllerOf_refs :: "owner_ref list \<Rightarrow> owner_ref option" where
  "GetControllerOf_refs [] = None"
| "GetControllerOf_refs (r # rs) =
     (if OwnerController r = Some True then Some r else GetControllerOf_refs rs)"

definition GetControllerOf :: "('a) object_meta_scheme \<Rightarrow> owner_ref option" where
  "GetControllerOf o' = GetControllerOf_refs (OwnerReferences o')"

fun HasOwnerRef_refs :: "owner_ref list \<Rightarrow> string \<Rightarrow> bool" where
  "HasOwnerRef_refs [] uid = False"
| "HasOwnerRef_refs (r # rs) uid = (OwnerUID r = uid \<or> HasOwnerRef_refs rs uid)"

definition HasOwnerRef :: "('a) object_meta_scheme \<Rightarrow> ('b) object_meta_scheme \<Rightarrow> bool" where
  "HasOwnerRef target owner = HasOwnerRef_refs (OwnerReferences target) (UID owner)"

definition zero_owner_ref :: owner_ref where
  "zero_owner_ref = \<lparr>OwnerAPIVersion = [], OwnerKind = [], OwnerName = [], OwnerUID = [], OwnerController = None\<rparr>"

text \<open>
  The copying loop of \<open>RemoveOwnerRef\<close>: \<open>skip\<close> is 0 until the owner has been met and -1 after
  it, \<open>newRefs\<close> has one element fewer than \<open>oldRefs\<close>.  The flag stands for \<open>skip = -1\<close>.
\<close>

fun remove_ref_loop :: "owner_ref list \<Rightarrow> string \<Rightarrow> nat \<Rightarrow> bool \<Rightarrow> owner_ref list \<Rightarrow> owner_ref list" where
  "remove_ref_loop [] uid i skip new = new"
| "remove_ref_loop (r # rs) uid i skip new =
     (if OwnerUID r = uid then remove_ref_loop rs uid (Suc i) True new
      else remove_ref_loop rs uid (Suc i) skip (new[(if skip then i - 1 else i) := r]))"

definition RemoveOwnerRef ::
  "('a) object_meta_scheme \<Rightarrow> ('b) object_meta_scheme \<Rightarrow> ('a) object_meta_scheme \<times> bool" where
  "RemoveOwnerRef target owner =
     (if \<not> HasOwnerRef target owner then (target, False)
      else let oldRefs = OwnerReferences target;
               newRefs = replicate (length oldRefs - 1) zero_owner_ref
           in (target\<lparr>OwnerReferences := remove_ref_loop oldRefs (UID owner) 0 False newRefs\<rparr>, True))"

definition NewControllerRef :: "('b) object_meta_scheme \<Rightarrow> string \<Rightarrow> string \<Rightarrow> owner_ref" where
  "NewControllerRef owner apiVersion kind =
     \<lparr>OwnerAPIVersion = apiVersion, OwnerKind = kind, OwnerName = Name owner,
      OwnerUID = UID owner, OwnerController = Some True\<rparr>"

definition SetOwnerRef ::
  "('a) object_meta_scheme \<Rightarrow> ('b) object_meta_scheme \<Rightarrow> string \<Rightarrow> string
   \<Rightarrow> ('a) object_meta_scheme \<times> bool" where
  "SetOwnerRef target owner apiVersion kind =
     (if HasOwnerRef target owner then (target, False)
      else (target\<lparr>OwnerReferences := OwnerReferences target @ [NewControllerRef owner apiVersion kind]\<rparr>,
            True))"

fun GetInPlaceUpdateState :: "('a) object_meta_scheme \<Rightarrow> anno option" where
  "GetInPlaceUpdateState o' =
     (case Annotations o' InPlaceUpdateStateKey of
        Some v \<Rightarrow> Some v
      | None \<Rightarrow> Annotations o' InPlaceUpdateStateKeyOld)"

fun GetInPlaceUpdateGrace :: "('a) object_meta_scheme \<Rightarrow> anno option" where
  "GetInPlaceUpdateGrace o' =
     (case Annotations o' InPlaceUpdateGraceKey of
        Some v \<Rightarrow> Some v
      | None \<Rightarrow> Annotations o' InPlaceUpdateGraceKeyOld)"

definition RemoveInPlaceUpdateGrace :: "('a) object_meta_scheme \<Rightarrow> ('a) object_meta_scheme" where
  "RemoveInPlaceUpdateGrace o' =
     o'\<lparr>Annotations := (Annotations o')(InPlaceUpdateGraceKey := None, InPlaceUpdateGraceKeyOld := None)\<rparr>"

text \<open>\<open>Inl ()\<close> is the decoding error, \<open>Inr None\<close> the absent annotation.\<close>

definition GetRuntimeContainerMetaSet ::
  "('a) object_meta_scheme \<Rightarrow> unit + runtime_container_meta list option" where
  "GetRuntimeContainerMetaSet o' =
     (case Annotations o' RuntimeContainerMetaKey of
        None \<Rightarrow> Inr None
      | Some (MetaJSON s) \<Rightarrow> Inr (Some s)
      | Some _ \<Rightarrow> Inl ())"

text \<open>\<open>kubecontroller.GetPodFromTemplate\<close>: labels, annotations, finalizers and spec of the template.\<close>

definition pod_from_template :: "pod_template \<Rightarrow> owner_ref \<Rightarrow> pod" where
  "pod_from_template t r =
     zero_pod\<lparr>Labels := TplLabels t, Annotations := (\<lambda>k. map_option Text (TplAnnotations t k)),
              Finalizers := TplFinalizers t, OwnerReferences := [r], Spec := TplSpec t\<rparr>"

end
