(* ===== verification/Util_Pods.thy ===== *)
theory Util_Pods
  imports K8s_Model
begin

text \<open>
  Helpers on pods: \<open>pkg/util/pods.go\<close>, the image comparison of \<open>pkg/util/tools.go\<close>,
  \<open>pkg/util/containerlaunchpriority\<close>, and the pod predicates of the vendored packages
  \<open>podutil\<close> and \<open>controller\<close>.  The image reference parser is third-party code and an argument.
\<close>

section \<open>Conditions\<close>

fun find_condition :: "pod_condition list \<Rightarrow> string \<Rightarrow> pod_condition option" where
  "find_condition [] t = None"
| "find_condition (c # cs) t = (if CondType c = t then Some c else find_condition cs t)"

definition GetCondition :: "pod \<Rightarrow> string \<Rightarrow> pod_condition option" where
  "GetCondition p t = find_condition (Conditions (Status p)) t"

definition IsPodReady :: "pod \<Rightarrow> bool" where
  "IsPodReady p =
     (case GetCondition p PodReady of None \<Rightarrow> False | Some c \<Rightarrow> CondStatus c = ConditionTrue)"

definition IsPodAvailable :: "pod \<Rightarrow> int \<Rightarrow> int \<Rightarrow> bool" where
  "IsPodAvailable p minReadySeconds now =
     (case GetCondition p PodReady of
        None \<Rightarrow> False
      | Some c \<Rightarrow> CondStatus c = ConditionTrue
          \<and> (minReadySeconds = 0
             \<or> (LastTransitionTime c \<noteq> 0 \<and> LastTransitionTime c + minReadySeconds * second < now)))"

definition IsPodActive :: "pod \<Rightarrow> bool" where
  "IsPodActive p \<longleftrightarrow>
     Phase (Status p) \<noteq> PodSucceeded \<and> Phase (Status p) \<noteq> PodFailed \<and> DeletionTimestamp p = None"

definition IsRunningAndReady :: "pod \<Rightarrow> bool" where
  "IsRunningAndReady p \<longleftrightarrow> Phase (Status p) = PodRunning \<and> IsPodReady p \<and> \<not> IsDeleted p"

definition upd_conditions :: "(pod_condition list \<Rightarrow> pod_condition list) \<Rightarrow> pod \<Rightarrow> pod" where
  "upd_conditions f p = p\<lparr>Status := (Status p)\<lparr>Conditions := f (Conditions (Status p))\<rparr>\<rparr>"

fun set_condition ::
  "(pod_condition \<Rightarrow> bool) \<Rightarrow> pod_condition \<Rightarrow> pod_condition list \<Rightarrow> pod_condition list" where
  "set_condition differs c [] = [c]"
| "set_condition differs c (x # xs) =
     (if CondType x = CondType c then (if differs x then c else x) # xs
      else x # set_condition differs c xs)"

definition SetPodCondition :: "pod \<Rightarrow> pod_condition \<Rightarrow> pod" where
  "SetPodCondition p c = upd_conditions (set_condition (\<lambda>x. CondStatus x \<noteq> CondStatus c) c) p"

definition SetPodConditionIfMsgChanged :: "pod \<Rightarrow> pod_condition \<Rightarrow> pod" where
  "SetPodConditionIfMsgChanged p c =
     upd_conditions (set_condition (\<lambda>x. CondStatus x \<noteq> CondStatus c \<or> Message x \<noteq> Message c) c) p"

fun join :: "string \<Rightarrow> string list \<Rightarrow> string" where
  "join sep [] = []"
| "join sep [x] = x"
| "join sep (x # y # ys) = x @ sep @ join sep (y # ys)"

definition quoted :: "string \<Rightarrow> string" where
  "quoted s = CHR 0x22 # s @ [CHR 0x22]"

definition gate_message :: "pod \<Rightarrow> string \<Rightarrow> string list" where
  "gate_message p g =
     (case GetCondition p g of
        None \<Rightarrow> [''corresponding condition of pod readiness gate '' @ quoted g @ '' does not exist.'']
      | Some c \<Rightarrow>
          if CondStatus c \<noteq> ConditionTrue
          then [''the status of pod readiness gate '' @ quoted g @ '' is not '' @ quoted ''True''
                @ '', but '' @ CondStatus c]
          else [])"

definition SetPodReadyCondition :: "int \<Rightarrow> pod \<Rightarrow> pod" where
  "SetPodReadyCondition now p =
     (case GetCondition p PodReady of
        None \<Rightarrow> p
      | Some podReady \<Rightarrow>
          (case GetCondition p ContainersReady of
             None \<Rightarrow> p
           | Some containersReady \<Rightarrow>
               if CondStatus containersReady \<noteq> ConditionTrue then p
               else let unreadyMessages = concat (map (gate_message p) (ReadinessGates (Spec p)))
                    in SetPodCondition p
                         (if unreadyMessages = []
                          then \<lparr>CondType = PodReady, CondStatus = ConditionTrue,
                                LastTransitionTime = now, Reason = [], Message = MsgText []\<rparr>
                          else \<lparr>CondType = PodReady, CondStatus = ConditionFalse,
                                LastTransitionTime = 0, Reason = ''ReadinessGatesNotReady'',
                                Message = MsgText (join '', '' unreadyMessages)\<rparr>)))"

definition InjectReadinessGateToPod :: "pod \<Rightarrow> string \<Rightarrow> pod" where
  "InjectReadinessGateToPod p t =
     (if t \<in> set (ReadinessGates (Spec p)) then p
      else p\<lparr>Spec := (Spec p)\<lparr>ReadinessGates := ReadinessGates (Spec p) @ [t]\<rparr>\<rparr>)"

section \<open>Sets of pods\<close>

definition GetPodNames :: "pod list \<Rightarrow> string set" where
  "GetPodNames pods = Name ` set pods"

text \<open>The loop \<open>if !names.Has(x.Name) { ret = append(ret, x); names.Insert(x.Name) }\<close>.\<close>

fun add_new :: "('a \<Rightarrow> string) \<Rightarrow> 'a list \<Rightarrow> 'a list \<times> string set \<Rightarrow> 'a list \<times> string set" where
  "add_new key [] acc = acc"
| "add_new key (x # xs) (ret, names) =
     (if key x \<in> names then add_new key xs (ret, names)
      else add_new key xs (ret @ [x], insert (key x) names))"

definition MergePods :: "pod list \<Rightarrow> pod list \<Rightarrow> pod list" where
  "MergePods pods1 pods2 = fst (add_new Name pods2 (add_new Name pods1 ([], {})))"

definition DiffPods :: "pod list \<Rightarrow> pod list \<Rightarrow> pod list" where
  "DiffPods pods1 pods2 = filter (\<lambda>p. Name p \<notin> GetPodNames pods2) pods1"

definition MergeVolumeMounts :: "volume_mount list \<Rightarrow> volume_mount list \<Rightarrow> volume_mount list" where
  "MergeVolumeMounts original additional =
     fst (add_new MountPath additional (original, MountPath ` set original))"

definition MergeEnvVar :: "env_var list \<Rightarrow> env_var list \<Rightarrow> env_var list" where
  "MergeEnvVar original additional =
     fst (add_new EnvName additional (original, EnvName ` set original))"

definition MergeVolumes :: "volume list \<Rightarrow> volume list \<Rightarrow> volume list" where
  "MergeVolumes original additional =
     fst (add_new VolName additional (original, VolName ` set original))"

definition MergeVolumeMountsInContainer :: "container \<Rightarrow> container \<Rightarrow> container" where
  "MergeVolumeMountsInContainer origin other =
     origin\<lparr>VolumeMounts := VolumeMounts origin
        @ filter (\<lambda>v. MountPath v \<notin> MountPath ` set (VolumeMounts origin)) (VolumeMounts other)\<rparr>"

section \<open>Containers\<close>

fun find_by :: "('a \<Rightarrow> string) \<Rightarrow> 'a list \<Rightarrow> string \<Rightarrow> 'a option" where
  "find_by key [] n = None"
| "find_by key (x # xs) n = (if key x = n then Some x else find_by key xs n)"

definition GetContainerEnvVar :: "container option \<Rightarrow> string \<Rightarrow> env_var option" where
  "GetContainerEnvVar c k = (case c of None \<Rightarrow> None | Some c \<Rightarrow> find_by EnvName (Env c) k)"

definition GetContainerEnvValue :: "container option \<Rightarrow> string \<Rightarrow> string" where
  "GetContainerEnvValue c k =
     (case c of None \<Rightarrow> []
      | Some c \<Rightarrow> (case find_by EnvName (Env c) k of None \<Rightarrow> [] | Some e \<Rightarrow> EnvValue e))"

definition GetContainerVolumeMount :: "container option \<Rightarrow> string \<Rightarrow> volume_mount option" where
  "GetContainerVolumeMount c k =
     (case c of None \<Rightarrow> None | Some c \<Rightarrow> find_by MountPath (VolumeMounts c) k)"

definition GetContainer :: "string \<Rightarrow> pod option \<Rightarrow> container option" where
  "GetContainer n p =
     (case p of None \<Rightarrow> None
      | Some p \<Rightarrow> (case find_by CName (InitContainers (Spec p)) n of
                     Some c \<Rightarrow> Some c
                   | None \<Rightarrow> find_by CName (Containers (Spec p)) n))"

definition GetContainerStatus :: "string \<Rightarrow> pod option \<Rightarrow> container_status option" where
  "GetContainerStatus n p =
     (case p of None \<Rightarrow> None | Some p \<Rightarrow> find_by StatusName (ContainerStatuses (Status p)) n)"

definition GetPodVolume :: "pod \<Rightarrow> string \<Rightarrow> volume option" where
  "GetPodVolume p n = find_by VolName (Volumes (Spec p)) n"

definition GetPodContainerByName :: "string \<Rightarrow> pod \<Rightarrow> container option" where
  "GetPodContainerByName n p = find_by CName (Containers (Spec p)) n"

text \<open>Ports: the number and whether it comes with an error.\<close>

definition findPortByName :: "container \<Rightarrow> string \<Rightarrow> int option" where
  "findPortByName c n = map_option ContainerPort (find_by PortName (Ports c) n)"

definition ExtractPort :: "int_or_string \<Rightarrow> container \<Rightarrow> int option" where
  "ExtractPort param c =
     (let port = (case param of
                    IntVal i \<Rightarrow> Some i
                  | StrVal s \<Rightarrow> (case findPortByName c s of Some p \<Rightarrow> Some p | None \<Rightarrow> Atoi s))
      in case port of
           None \<Rightarrow> None
         | Some p \<Rightarrow> if 0 < p \<and> p < 65536 then Some p else None)"

section \<open>Images\<close>

type_synonym image_parser = "string \<Rightarrow> (string \<times> string \<times> string) option"

definition IsImageDigest :: "image_parser \<Rightarrow> string \<Rightarrow> bool" where
  "IsImageDigest ParseImage img =
     (case ParseImage img of None \<Rightarrow> False | Some (repo, tag, digest) \<Rightarrow> digest \<noteq> [])"

definition IsContainerImageEqual :: "image_parser \<Rightarrow> string \<Rightarrow> string \<Rightarrow> bool" where
  "IsContainerImageEqual ParseImage img1 img2 =
     (case ParseImage img1 of
        None \<Rightarrow> False
      | Some (repo1, tag1, digest1) \<Rightarrow>
          (case ParseImage img2 of
             None \<Rightarrow> False
           | Some (repo2, tag2, digest2) \<Rightarrow>
               if IsImageDigest ParseImage img1 \<and> IsImageDigest ParseImage img2
               then repo1 = repo2 \<and> digest1 = digest2
               else repo1 = repo2 \<and> tag1 = tag2))"

text \<open>\<open>strings.Split(s, "://")[1]\<close>, when \<open>s\<close> contains the separator.\<close>

fun cut_scheme :: "string \<Rightarrow> string option" where
  "cut_scheme [] = None"
| "cut_scheme (c # s) =
     (if take 3 (c # s) = ''://'' then Some (drop 3 (c # s)) else cut_scheme s)"

fun until_scheme :: "string \<Rightarrow> string" where
  "until_scheme [] = []"
| "until_scheme (c # s) = (if take 3 (c # s) = ''://'' then [] else c # until_scheme s)"

definition GetPodContainerImageIDs :: "pod \<Rightarrow> string \<rightharpoonup> string" where
  "GetPodContainerImageIDs p =
     foldl (\<lambda>m c. m(StatusName c \<mapsto>
                     (case cut_scheme (ImageID c) of None \<Rightarrow> ImageID c | Some t \<Rightarrow> until_scheme t)))
       Map.empty (ContainerStatuses (Status p))"

definition IsPodContainerDigestEqual :: "image_parser \<Rightarrow> string set \<Rightarrow> pod \<Rightarrow> bool" where
  "IsPodContainerDigestEqual ParseImage containers p =
     (let cImageIDs = GetPodContainerImageIDs p
      in list_all (\<lambda>c. CName c \<notin> containers
           \<or> (IsImageDigest ParseImage (Image c)
              \<and> (case cImageIDs (CName c) of
                   None \<Rightarrow> False
                 | Some imageID \<Rightarrow> IsContainerImageEqual ParseImage (Image c) imageID)))
         (Containers (Spec p)))"

section \<open>Facts\<close>

lemma find_condition_type: "find_condition cs t = Some c \<Longrightarrow> CondType c = t"
  by (induction cs) (auto split: if_splits)

lemma find_condition_set [simp]:
  "find_condition (set_condition d c cs) t =
     (if t = CondType c
      then (case find_condition cs t of None \<Rightarrow> Some c | Some x \<Rightarrow> Some (if d x then c else x))
      else find_condition cs t)"
  by (induction cs) auto

lemma types_set_condition:
  "map CondType (set_condition d c cs) =
     (if CondType c \<in> set (map CondType cs) then map CondType cs else map CondType cs @ [CondType c])"
  by (induction cs) auto

lemma GetCondition_upd_conditions [simp]:
  "GetCondition (upd_conditions f p) t = find_condition (f (Conditions (Status p))) t"
  by (simp add: GetCondition_def upd_conditions_def)

lemma GetCondition_SetPodCondition:
  "GetCondition (SetPodCondition p c) t =
     (if t = CondType c
      then (case GetCondition p t of None \<Rightarrow> Some c
            | Some x \<Rightarrow> Some (if CondStatus x \<noteq> CondStatus c then c else x))
      else GetCondition p t)"
  by (simp add: SetPodCondition_def) (simp add: GetCondition_def)

lemma upd_conditions_frame [simp]:
  "Spec (upd_conditions f p) = Spec p" "Name (upd_conditions f p) = Name p"
  "Namespace (upd_conditions f p) = Namespace p"
  "Annotations (upd_conditions f p) = Annotations p" "Labels (upd_conditions f p) = Labels p"
  "Phase (Status (upd_conditions f p)) = Phase (Status p)"
  "ContainerStatuses (Status (upd_conditions f p)) = ContainerStatuses (Status p)"
  by (simp_all add: upd_conditions_def)

text \<open>The status of a condition that a pod carries; absent counts as not true.\<close>

definition gate_true :: "pod \<Rightarrow> string \<Rightarrow> bool" where
  "gate_true p t \<longleftrightarrow> (case GetCondition p t of None \<Rightarrow> False | Some c \<Rightarrow> CondStatus c = ConditionTrue)"

lemma gate_message_empty: "gate_message p g = [] \<longleftrightarrow> gate_true p g"
  by (simp add: gate_message_def gate_true_def split: option.splits)

lemma IsPodReady_gate: "IsPodReady p = gate_true p PodReady"
  by (simp add: IsPodReady_def gate_true_def)

lemma gate_true_SetPodCondition:
  "gate_true (SetPodCondition p c) t =
     (if t = CondType c then CondStatus c = ConditionTrue else gate_true p t)"
  by (auto simp: gate_true_def GetCondition_SetPodCondition split: option.splits)

lemma SetPodReadyCondition_ready:
  assumes "GetCondition p PodReady \<noteq> None" and "gate_true p ContainersReady"
  shows "IsPodReady (SetPodReadyCondition now p) \<longleftrightarrow> (\<forall>g\<in>set (ReadinessGates (Spec p)). gate_true p g)"
proof -
  obtain r c where r: "GetCondition p PodReady = Some r"
    and c: "GetCondition p ContainersReady = Some c" "CondStatus c = ConditionTrue"
    using assms by (auto simp: gate_true_def split: option.splits)
  have "(concat (map (gate_message p) (ReadinessGates (Spec p))) = [])
    \<longleftrightarrow> (\<forall>g\<in>set (ReadinessGates (Spec p)). gate_true p g)"
    by (auto simp: gate_message_empty)
  then show ?thesis
    unfolding SetPodReadyCondition_def IsPodReady_gate
    by (simp add: r c Let_def gate_true_SetPodCondition gate_message_empty)
qed

lemma SetPodReadyCondition_frame [kruise_frame]:
  "Spec (SetPodReadyCondition now p) = Spec p" "Name (SetPodReadyCondition now p) = Name p"
  "Namespace (SetPodReadyCondition now p) = Namespace p"
  "t \<noteq> PodReady \<Longrightarrow> GetCondition (SetPodReadyCondition now p) t = GetCondition p t"
  by (simp_all add: SetPodReadyCondition_def SetPodCondition_def Let_def split: option.splits)
    (simp add: GetCondition_def)

lemma add_new_spec:
  "add_new key xs (ret, names) = (r, ns) \<Longrightarrow>
     ns = names \<union> key ` set xs
     \<and> (\<exists>ys. r = ret @ ys \<and> set ys \<subseteq> set xs \<and> key ` set ys = key ` set xs - names
            \<and> distinct (map key ys))"
proof (induction xs arbitrary: ret names)
  case Nil
  then show ?case by simp
next
  case (Cons x xs)
  show ?case
  proof (cases "key x \<in> names")
    case True
    with Cons.prems have "add_new key xs (ret, names) = (r, ns)" by simp
    from Cons.IH [OF this] True show ?thesis by auto
  next
    case False
    with Cons.prems have "add_new key xs (ret @ [x], insert (key x) names) = (r, ns)" by simp
    from Cons.IH [OF this] obtain ys where ys: "ns = insert (key x) names \<union> key ` set xs"
      "r = ret @ [x] @ ys" "set ys \<subseteq> set xs" "key ` set ys = key ` set xs - insert (key x) names"
      "distinct (map key ys)" by auto
    then show ?thesis using False by (intro conjI exI [of _ "x # ys"]) auto
  qed
qed

lemma MergePods_spec:
  "distinct (map Name (MergePods ps qs))
   \<and> GetPodNames (MergePods ps qs) = GetPodNames ps \<union> GetPodNames qs
   \<and> set (MergePods ps qs) \<subseteq> set ps \<union> set qs"
proof -
  obtain r ns where 1: "add_new Name ps ([], {}) = (r, ns)" by fastforce
  obtain r' ns' where 2: "add_new Name qs (r, ns) = (r', ns')" by fastforce
  have a: "ns = Name ` set ps" "set r \<subseteq> set ps" "Name ` set r = Name ` set ps" "distinct (map Name r)"
    using add_new_spec [OF 1] by auto
  obtain ys where b: "r' = r @ ys" "set ys \<subseteq> set qs" "Name ` set ys = Name ` set qs - ns"
    "distinct (map Name ys)" using add_new_spec [OF 2] by auto
  have "MergePods ps qs = r @ ys" using b(1) by (simp add: MergePods_def 1 2)
  then show ?thesis using a b(2,3,4) by (auto simp: GetPodNames_def image_Un)
qed

lemma MergePods_superset: "set ps \<subseteq> set (MergePods ps qs)" if "distinct (map Name ps)"
proof -
  have keep: "fst (add_new Name ps ([], {})) = ps"
  proof -
    have "fst (add_new Name xs (ret, names)) = ret @ xs"
      if "distinct (map Name xs)" "Name ` set xs \<inter> names = {}" for xs :: "pod list" and ret names
      using that by (induction xs arbitrary: ret names) auto
    from this [OF that, of "{}" "[]"] show ?thesis by simp
  qed
  obtain ns where 1: "add_new Name ps ([], {}) = (ps, ns)" using keep by (metis prod.collapse)
  obtain r' ns' where 2: "add_new Name qs (ps, ns) = (r', ns')" by fastforce
  from add_new_spec [OF 2] show ?thesis by (auto simp: MergePods_def 1 2)
qed

lemma DiffPods_spec:
  "GetPodNames (DiffPods ps qs) = GetPodNames ps - GetPodNames qs"
  by (auto simp: DiffPods_def GetPodNames_def)

lemma find_by_Some: "find_by key xs n = Some x \<Longrightarrow> x \<in> set xs \<and> key x = n"
  by (induction xs) (auto split: if_splits)

lemma find_by_None: "find_by key xs n = None \<longleftrightarrow> n \<notin> key ` set xs"
  by (induction xs) auto

text \<open>A digest and a plain reference of one repository compare as equal when neither has a tag.\<close>

lemma image_digest_vs_plain:
  assumes "parse i1 = Some (repo, [], d)" and "parse i2 = Some (repo, [], [])"
  shows "IsContainerImageEqual parse i1 i2"
  using assms by (simp add: IsContainerImageEqual_def IsImageDigest_def)

end
