(* ===== verification/Pod_Readiness.thy ===== *)
theory Pod_Readiness
  imports Util_Pods
begin

text \<open>
  The access to pods (\<open>pkg/util/podadapter\<close>), the retry loop of client-go, and the readiness gate
  with several writers (\<open>pkg/util/podreadiness\<close>).  The API server is a parameter: an adapter is a
  record of functions on an abstract world.  \<open>AdapterInformer\<close>, the adapter over an in-memory index,
  is defined here and shown to satisfy the contract the clients rely on.
\<close>

section \<open>Adapters and retries\<close>

datatype api_error = Conflict | NotFound | AlreadyExists | Invalid | OtherError string

record 'w pod_adapter =
  GetPod :: "string \<Rightarrow> string \<Rightarrow> 'w \<Rightarrow> (api_error + pod) \<times> 'w"
  UpdatePod :: "pod \<Rightarrow> 'w \<Rightarrow> (api_error + pod) \<times> 'w"
  UpdatePodStatus :: "pod \<Rightarrow> 'w \<Rightarrow> api_error option \<times> 'w"

text \<open>
  \<open>retry.RetryOnConflict\<close> with a backoff of \<open>n\<close> steps; \<open>retry.DefaultBackoff\<close> has 4.  The closure
  and the variables it captures are a function on a state.
\<close>

fun RetryOnConflict :: "nat \<Rightarrow> ('s \<Rightarrow> api_error option \<times> 's) \<Rightarrow> 's \<Rightarrow> api_error option \<times> 's" where
  "RetryOnConflict 0 f s = (None, s)"
| "RetryOnConflict (Suc n) f s =
     (case f s of
        (e, s') \<Rightarrow> if e = Some Conflict \<and> n \<noteq> 0 then RetryOnConflict n f s' else (e, s'))"

definition DefaultBackoff :: nat where "DefaultBackoff = 4"

lemma RetryOnConflict_rule:
  assumes "\<And>s s'. I s \<Longrightarrow> f s = (Some Conflict, s') \<Longrightarrow> I s'"
    and "\<And>s. I s \<Longrightarrow> Q (f s)" and "I s"
  shows "Q (RetryOnConflict (Suc n) f s)"
  using assms(3)
proof (induction n arbitrary: s)
  case 0
  then show ?case using assms(2) [OF 0] by (simp split: prod.splits)
next
  case (Suc n)
  obtain e s' where fs: "f s = (e, s')" by fastforce
  show ?case
  proof (cases "e = Some Conflict")
    case True
    with fs Suc.prems have "I s'" using assms(1) by blast
    from Suc.IH [OF this] show ?thesis using fs True by simp
  next
    case False
    with fs show ?thesis using assms(2) [OF Suc.prems] by simp
  qed
qed

text \<open>The adapter over the informer's index.\<close>

type_synonym pod_index = "string \<times> string \<rightharpoonup> pod"

definition informer_GetPod :: "string \<Rightarrow> string \<Rightarrow> pod_index \<Rightarrow> (api_error + pod) \<times> pod_index" where
  "informer_GetPod ns n w = (case w (ns, n) of None \<Rightarrow> (Inl NotFound, w) | Some p \<Rightarrow> (Inr p, w))"

definition informer_UpdatePod :: "pod \<Rightarrow> pod_index \<Rightarrow> (api_error + pod) \<times> pod_index" where
  "informer_UpdatePod p w = (Inr p, w((Namespace p, Name p) \<mapsto> p))"

definition informer_UpdatePodStatus :: "pod \<Rightarrow> pod_index \<Rightarrow> api_error option \<times> pod_index" where
  "informer_UpdatePodStatus p w = (None, w((Namespace p, Name p) \<mapsto> p))"

definition AdapterInformer :: "pod_index pod_adapter" where
  "AdapterInformer = \<lparr>GetPod = informer_GetPod, UpdatePod = informer_UpdatePod,
     UpdatePodStatus = informer_UpdatePodStatus\<rparr>"

section \<open>Messages\<close>

definition message_less :: "message \<Rightarrow> message \<Rightarrow> bool" where
  "message_less a b \<longleftrightarrow> (if UserAgent a = UserAgent b then Key a < Key b else UserAgent a < UserAgent b)"

text \<open>Decoding a condition's message into a list; a failure leaves the list empty.\<close>

fun messages_of :: "cond_message \<Rightarrow> message list" where
  "messages_of (MsgList ms) = ms"
| "messages_of (MsgText s) = []"

text \<open>The sorting routine \<open>sort.Sort\<close> is the argument \<open>srt\<close>.\<close>

type_synonym message_sorter = "(message \<Rightarrow> message \<Rightarrow> bool) \<Rightarrow> message list \<Rightarrow> message list"

definition dump :: "message_sorter \<Rightarrow> message list \<Rightarrow> cond_message" where
  "dump srt ms = MsgList (srt message_less ms)"

definition addMessage :: "cond_message \<Rightarrow> message \<Rightarrow> bool \<times> message list" where
  "addMessage base msg =
     (let messages = messages_of base
      in if msg \<in> set messages then (False, messages) else (True, messages @ [msg]))"

definition removeMessage :: "cond_message \<Rightarrow> message \<Rightarrow> bool \<times> message list" where
  "removeMessage base msg =
     (let messages = messages_of base
      in (msg \<in> set messages, filter (\<lambda>m. m \<noteq> msg) messages))"

definition containsReadinessGate :: "pod \<Rightarrow> string \<Rightarrow> bool" where
  "containsReadinessGate p t \<longleftrightarrow> t \<in> set (ReadinessGates (Spec p))"

definition alreadyHasKey :: "pod \<Rightarrow> message \<Rightarrow> string \<Rightarrow> bool" where
  "alreadyHasKey p msg t =
     (case GetCondition p t of
        None \<Rightarrow> False
      | Some c \<Rightarrow> if CondStatus c = ConditionTrue \<or> Message c = MsgText [] then False
                   else msg \<in> set (messages_of (Message c)))"

section \<open>Adding and removing a key\<close>

text \<open>Writing through the pointer to the first condition of a type.\<close>

fun upd_first :: "string \<Rightarrow> (pod_condition \<Rightarrow> pod_condition) \<Rightarrow> pod_condition list \<Rightarrow> pod_condition list" where
  "upd_first t f [] = []"
| "upd_first t f (c # cs) = (if CondType c = t then f c # cs else c # upd_first t f cs)"

text \<open>One attempt on the pod just read: \<open>None\<close> when there is nothing to write.\<close>

definition add_key_once :: "message_sorter \<Rightarrow> int \<Rightarrow> message \<Rightarrow> string \<Rightarrow> pod \<Rightarrow> pod option" where
  "add_key_once srt now msg t p =
     (case GetCondition p t of
        None \<Rightarrow>
          Some (SetPodReadyCondition now (upd_conditions (\<lambda>cs. cs @
            [\<lparr>CondType = t, CondStatus = [], LastTransitionTime = now, Reason = [],
              Message = dump srt (snd (addMessage (MsgText []) msg))\<rparr>]) p))
      | Some c \<Rightarrow>
          (case addMessage (Message c) msg of
             (changed, messages) \<Rightarrow>
               if \<not> changed then None
               else Some (SetPodReadyCondition now (upd_conditions (upd_first t (\<lambda>c.
                      c\<lparr>CondStatus := ConditionFalse, Message := dump srt messages,
                        LastTransitionTime := now\<rparr>)) p))))"

definition remove_key_once :: "message_sorter \<Rightarrow> int \<Rightarrow> message \<Rightarrow> string \<Rightarrow> pod \<Rightarrow> pod option" where
  "remove_key_once srt now msg t p =
     (case GetCondition p t of
        None \<Rightarrow> None
      | Some c \<Rightarrow>
          (case removeMessage (Message c) msg of
             (changed, messages) \<Rightarrow>
               if \<not> changed then None
               else Some (upd_conditions (upd_first t (\<lambda>c.
                      c\<lparr>CondStatus := (if messages = [] then ConditionTrue else CondStatus c),
                        Message := dump srt messages, LastTransitionTime := now\<rparr>)) p)))"

text \<open>The closure given to the retry loop: read, change, write the status.\<close>

definition write_status ::
  "'w pod_adapter \<Rightarrow> (pod \<Rightarrow> pod option) \<Rightarrow> string \<Rightarrow> string \<Rightarrow> 'w \<Rightarrow> api_error option \<times> 'w" where
  "write_status adp change ns n w =
     (case GetPod adp ns n w of
        (Inl e, w') \<Rightarrow> (Some e, w')
      | (Inr newPod, w') \<Rightarrow>
          (case change newPod of None \<Rightarrow> (None, w') | Some q \<Rightarrow> UpdatePodStatus adp q w'))"

definition addNotReadyKey ::
  "message_sorter \<Rightarrow> 'w pod_adapter \<Rightarrow> int \<Rightarrow> pod \<Rightarrow> message \<Rightarrow> string \<Rightarrow> 'w \<Rightarrow> api_error option \<times> 'w" where
  "addNotReadyKey srt adp now p msg t w =
     (if alreadyHasKey p msg t then (None, w)
      else if \<not> containsReadinessGate p t then (None, w)
      else RetryOnConflict DefaultBackoff
             (write_status adp (add_key_once srt now msg t) (Namespace p) (Name p)) w)"

definition removeNotReadyKey ::
  "message_sorter \<Rightarrow> 'w pod_adapter \<Rightarrow> int \<Rightarrow> pod \<Rightarrow> message \<Rightarrow> string \<Rightarrow> 'w \<Rightarrow> api_error option \<times> 'w" where
  "removeNotReadyKey srt adp now p msg t w =
     (if \<not> containsReadinessGate p t then (None, w)
      else RetryOnConflict DefaultBackoff
             (write_status adp (remove_key_once srt now msg t) (Namespace p) (Name p)) w)"

section \<open>The keys of a readiness gate\<close>

definition readiness_keys :: "string \<Rightarrow> pod \<Rightarrow> message set" where
  "readiness_keys t p =
     (case GetCondition p t of None \<Rightarrow> {} | Some c \<Rightarrow> set (messages_of (Message c)))"

text \<open>A condition that exists is true exactly when no writer holds a key.\<close>

definition readiness_inv :: "string \<Rightarrow> pod \<Rightarrow> bool" where
  "readiness_inv t p =
     (case GetCondition p t of
        None \<Rightarrow> True
      | Some c \<Rightarrow> (CondStatus c = ConditionTrue \<longleftrightarrow> messages_of (Message c) = []))"

lemma GetCondition_append:
  "GetCondition (upd_conditions (\<lambda>cs. cs @ [c]) p) t =
     (case GetCondition p t of Some x \<Rightarrow> Some x | None \<Rightarrow> if CondType c = t then Some c else None)"
proof -
  have "find_condition (cs @ [c]) t =
      (case find_condition cs t of Some x \<Rightarrow> Some x | None \<Rightarrow> if CondType c = t then Some c else None)" for cs
    by (induction cs) auto
  then show ?thesis by (simp add: GetCondition_def upd_conditions_def)
qed

lemma GetCondition_upd_first:
  assumes "\<And>c. CondType (f c) = CondType c"
  shows "GetCondition (upd_conditions (upd_first t f) p) t' =
    (if t' = t then map_option f (GetCondition p t') else GetCondition p t')"
proof -
  have "find_condition (upd_first t f cs) t' =
      (if t' = t then map_option f (find_condition cs t') else find_condition cs t')" for cs
    by (induction cs) (auto simp: assms)
  then show ?thesis by (simp add: GetCondition_def upd_conditions_def)
qed

lemmas readiness_defs = readiness_keys_def readiness_inv_def add_key_once_def remove_key_once_def
  addMessage_def removeMessage_def dump_def Let_def

text \<open>\<open>change\<close> after \<open>None\<close> means the pod is not written.\<close>

definition change_or_keep :: "(pod \<Rightarrow> pod option) \<Rightarrow> pod \<Rightarrow> pod" where
  "change_or_keep f p = (case f p of None \<Rightarrow> p | Some q \<Rightarrow> q)"

lemma add_key_once_condition:
  assumes "go_sorter srt" and "t \<noteq> PodReady" and "add_key_once srt now msg t p = Some q"
  obtains c where "GetCondition q t = Some c" and "CondStatus c \<noteq> ConditionTrue"
    and "set (messages_of (Message c)) = insert msg (readiness_keys t p)"
proof (cases "GetCondition p t")
  case None
  have "GetCondition q t = Some \<lparr>CondType = t, CondStatus = [], LastTransitionTime = now, Reason = [],
      Message = dump srt [msg]\<rparr>"
    using assms(3) None
    by (auto simp: add_key_once_def addMessage_def SetPodReadyCondition_frame(4) [OF assms(2)]
        GetCondition_append simp del: GetCondition_upd_conditions)
  then show ?thesis
    by (rule that)
      (simp_all add: dump_def go_sorter.srt_set [OF assms(1)] readiness_keys_def None key_neq(3) [symmetric])
next
  case (Some c)
  have "msg \<notin> set (messages_of (Message c))"
    using assms(3) Some by (auto simp: add_key_once_def addMessage_def Let_def split: if_splits)
  then have "GetCondition q t = Some (c\<lparr>CondStatus := ConditionFalse,
      Message := dump srt (messages_of (Message c) @ [msg]), LastTransitionTime := now\<rparr>)"
    using assms(3) Some
    by (auto simp: add_key_once_def addMessage_def Let_def SetPodReadyCondition_frame(4) [OF assms(2)]
        GetCondition_upd_first simp del: GetCondition_upd_conditions)
  then show ?thesis
    by (rule that) (simp_all add: dump_def go_sorter.srt_set [OF assms(1)] readiness_keys_def Some)
qed

lemma add_key_once_keys:
  assumes "go_sorter srt" and "t \<noteq> PodReady"
  shows "readiness_keys t (change_or_keep (add_key_once srt now msg t) p) = insert msg (readiness_keys t p)"
proof (cases "add_key_once srt now msg t p")
  case None
  then show ?thesis
    by (auto simp: change_or_keep_def readiness_defs split: option.splits if_splits)
next
  case (Some q)
  obtain c where "GetCondition q t = Some c"
    "set (messages_of (Message c)) = insert msg (readiness_keys t p)"
    by (rule add_key_once_condition [OF assms Some])
  with Some show ?thesis by (simp add: change_or_keep_def readiness_keys_def [of t q])
qed

lemma add_key_once_inv:
  assumes "go_sorter srt" and "t \<noteq> PodReady" and "readiness_inv t p"
  shows "readiness_inv t (change_or_keep (add_key_once srt now msg t) p)"
proof (cases "add_key_once srt now msg t p")
  case None
  then show ?thesis using assms(3) by (simp add: change_or_keep_def)
next
  case (Some q)
  obtain c where "GetCondition q t = Some c" "CondStatus c \<noteq> ConditionTrue"
    "set (messages_of (Message c)) = insert msg (readiness_keys t p)"
    by (rule add_key_once_condition [OF assms(1,2) Some])
  then have "messages_of (Message c) \<noteq> []" by (metis insert_not_empty set_empty)
  with \<open>GetCondition q t = Some c\<close> \<open>CondStatus c \<noteq> ConditionTrue\<close> Some show ?thesis
    by (simp add: change_or_keep_def readiness_inv_def)
qed

lemma remove_key_once_keys:
  assumes "go_sorter srt"
  shows "readiness_keys t (change_or_keep (remove_key_once srt now msg t) p) = readiness_keys t p - {msg}"
  by (cases "GetCondition p t")
    (auto simp: change_or_keep_def readiness_defs GetCondition_upd_first go_sorter.srt_set [OF assms]
      simp del: GetCondition_upd_conditions)

lemma remove_key_once_inv:
  assumes "go_sorter srt" and "readiness_inv t p"
  shows "readiness_inv t (change_or_keep (remove_key_once srt now msg t) p)"
proof (cases "remove_key_once srt now msg t p")
  case None
  then show ?thesis using assms(2) by (simp add: change_or_keep_def)
next
  case (Some q)
  then obtain c where c: "GetCondition p t = Some c" and msg: "msg \<in> set (messages_of (Message c))"
    by (auto simp: remove_key_once_def removeMessage_def Let_def split: option.splits if_splits)
  let ?ms = "filter (\<lambda>m. m \<noteq> msg) (messages_of (Message c))"
  have q: "GetCondition q t = Some (c\<lparr>CondStatus := (if ?ms = [] then ConditionTrue else CondStatus c),
      Message := MsgList (srt message_less ?ms), LastTransitionTime := now\<rparr>)"
    using Some c msg
    by (auto simp: remove_key_once_def removeMessage_def Let_def dump_def GetCondition_upd_first
        simp del: GetCondition_upd_conditions)
  have "srt message_less ?ms = [] \<longleftrightarrow> ?ms = []"
    using go_sorter.srt_set [OF assms(1), of message_less ?ms] by (metis set_empty)
  moreover have "messages_of (Message c) \<noteq> []" using msg by auto
  ultimately show ?thesis
    using Some q c assms(2) by (simp add: change_or_keep_def readiness_inv_def)
qed

section \<open>What a pod store promises\<close>

text \<open>
  \<open>stored w ns n\<close> is the pod the store holds under a key, \<open>ok\<close> its invariant.  A read returns the
  stored pod, a status update that succeeds stores the status, one that fails stores nothing.
\<close>

definition keeps_key :: "(pod \<Rightarrow> pod option) \<Rightarrow> bool" where
  "keeps_key change \<longleftrightarrow> (\<forall>p q. change p = Some q \<longrightarrow> Namespace q = Namespace p \<and> Name q = Name p)"

locale pod_store =
  fixes adp :: "'w pod_adapter"
    and stored :: "'w \<Rightarrow> string \<Rightarrow> string \<Rightarrow> pod option"
    and ok :: "'w \<Rightarrow> bool"
  assumes get_ok: "ok w \<Longrightarrow> GetPod adp ns n w = (Inr p, w') \<Longrightarrow>
      stored w ns n = Some p \<and> Namespace p = ns \<and> Name p = n"
    and get_frame: "ok w \<Longrightarrow> GetPod adp ns n w = (r, w') \<Longrightarrow> ok w' \<and> stored w' = stored w"
    and status_ok: "ok w \<Longrightarrow> UpdatePodStatus adp p w = (None, w') \<Longrightarrow>
      ok w' \<and> (\<exists>q. stored w' (Namespace p) (Name p) = Some q \<and> Status q = Status p)"
    and status_err: "ok w \<Longrightarrow> UpdatePodStatus adp p w = (Some e, w') \<Longrightarrow> ok w' \<and> stored w' = stored w"
begin

lemma write_status_spec:
  assumes "keeps_key change" and "ok w" and "write_status adp change ns n w = (r, w')"
  shows "ok w' \<and> (if r = None
     then \<exists>p q. stored w ns n = Some p \<and> stored w' ns n = Some q \<and> Status q = Status (change_or_keep change p)
     else stored w' = stored w)"
proof -
  obtain g w1 where g: "GetPod adp ns n w = (g, w1)" by fastforce
  note frame = get_frame [OF assms(2) g]
  show ?thesis
  proof (cases g)
    case (Inl e)
    then show ?thesis using g frame assms(3) by (auto simp: write_status_def)
  next
    case (Inr p)
    note read = get_ok [OF assms(2) g [unfolded Inr]]
    show ?thesis
    proof (cases "change p")
      case None
      then show ?thesis using g Inr frame assms(3) read by (auto simp: write_status_def change_or_keep_def)
    next
      case (Some q)
      then have u: "UpdatePodStatus adp q w1 = (r, w')" using g Inr assms(3) by (simp add: write_status_def)
      then show ?thesis
        using status_ok [of w1 q w'] status_err [of w1 q _ w'] frame read Some assms(1) Some
        by (cases r) (auto simp: change_or_keep_def keeps_key_def)
    qed
  qed
qed

lemma retry_write_status:
  assumes "keeps_key change" and "ok w" and "RetryOnConflict DefaultBackoff (write_status adp change ns n) w = (None, w')"
  shows "ok w' \<and> (\<exists>p q. stored w ns n = Some p \<and> stored w' ns n = Some q
     \<and> Status q = Status (change_or_keep change p))"
proof -
  let ?Q = "\<lambda>(r, w'). r = None \<longrightarrow> ok w' \<and> (\<exists>p q. stored w ns n = Some p \<and> stored w' ns n = Some q
     \<and> Status q = Status (change_or_keep change p))"
  have "?Q (RetryOnConflict (Suc 3) (write_status adp change ns n) w)"
  proof (rule RetryOnConflict_rule [where I = "\<lambda>v. ok v \<and> stored v = stored w"])
    fix v v'
    assume "ok v \<and> stored v = stored w" and "write_status adp change ns n v = (Some Conflict, v')"
    then show "ok v' \<and> stored v' = stored w"
      using write_status_spec [OF assms(1), of v ns n "Some Conflict" v'] by simp
  next
    fix v
    assume v: "ok v \<and> stored v = stored w"
    obtain r v' where e: "write_status adp change ns n v = (r, v')" by fastforce
    then show "?Q (write_status adp change ns n v)"
      using write_status_spec [OF assms(1) conjunct1 [OF v] e] v by auto
  qed (use assms(2) in simp)
  then show ?thesis using assms(3) by (simp add: DefaultBackoff_def eval_nat_numeral del: RetryOnConflict.simps)
qed

end

definition informer_stored :: "pod_index \<Rightarrow> string \<Rightarrow> string \<Rightarrow> pod option" where
  "informer_stored w ns n = w (ns, n)"

definition informer_ok :: "pod_index \<Rightarrow> bool" where
  "informer_ok w \<longleftrightarrow> (\<forall>ns n p. w (ns, n) = Some p \<longrightarrow> Namespace p = ns \<and> Name p = n)"

interpretation informer: pod_store AdapterInformer informer_stored informer_ok
  by unfold_locales
    (auto simp: AdapterInformer_def informer_GetPod_def informer_UpdatePodStatus_def informer_stored_def
      informer_ok_def split: option.splits if_splits)

lemma readiness_status_only:
  assumes "Status q = Status p"
  shows "readiness_keys t q = readiness_keys t p" and "readiness_inv t q = readiness_inv t p"
  by (simp_all add: readiness_keys_def readiness_inv_def GetCondition_def assms)

lemma upd_conditions_key:
  "keeps_key (add_key_once srt now msg t)" "keeps_key (remove_key_once srt now msg t)"
  by (auto simp: keeps_key_def add_key_once_def remove_key_once_def SetPodReadyCondition_frame
      split: option.splits prod.splits if_splits)

lemma alreadyHasKey_keys: "alreadyHasKey p msg t \<Longrightarrow> msg \<in> readiness_keys t p"
  by (auto simp: alreadyHasKey_def readiness_keys_def split: option.splits if_splits)

lemma readiness_inv_keys:
  "readiness_inv t p \<Longrightarrow> gate_true p t \<longleftrightarrow> GetCondition p t \<noteq> None \<and> readiness_keys t p = {}"
  by (auto simp: readiness_inv_def readiness_keys_def gate_true_def split: option.splits)

section \<open>Correctness of the readiness gate\<close>


text \<open>A pod with the gate, in the informer's index, for the witnesses.\<close>

definition gate_pod :: pod where
  "gate_pod = zero_pod\<lparr>Name := ''web-0'', Namespace := ''ns'',
     Spec := zero_pod_spec\<lparr>ReadinessGates := [''KruisePodReady'']\<rparr>,
     Status := \<lparr>Phase = PodRunning, Conditions =
       [\<lparr>CondType = ''KruisePodReady'', CondStatus = ''False'', LastTransitionTime = 1, Reason = [],
         Message = MsgList [\<lparr>UserAgent = ''a'', Key = ''k''\<rparr>]\<rparr>], ContainerStatuses = [], InitContainerStatuses = []\<rparr>\<rparr>"

lemma gate_pod_facts [simp]:
  "Name gate_pod = ''web-0''" "Namespace gate_pod = ''ns''"
  "containsReadinessGate gate_pod ''KruisePodReady''" "''KruisePodReady'' \<noteq> PodReady"
  "readiness_inv ''KruisePodReady'' gate_pod"
  "readiness_keys ''KruisePodReady'' gate_pod = {\<lparr>UserAgent = ''a'', Key = ''k''\<rparr>}"
  "informer_ok [(''ns'', ''web-0'') \<mapsto> gate_pod]"
  "informer_stored [(''ns'', ''web-0'') \<mapsto> gate_pod] ''ns'' ''web-0'' = Some gate_pod"
  by (auto simp: gate_pod_def zero_defs containsReadinessGate_def readiness_inv_def readiness_keys_def
      GetCondition_def key_defs informer_ok_def informer_stored_def split: if_splits)

lemma informer_no_error [simp]:
  "w (ns, n) = Some p \<Longrightarrow> fst (write_status AdapterInformer f ns n w) = None"
  by (simp add: write_status_def AdapterInformer_def informer_GetPod_def informer_UpdatePodStatus_def
      split: option.splits)

lemma RetryOnConflict_first: "fst (f s) = None \<Longrightarrow> RetryOnConflict DefaultBackoff f s = (None, snd (f s))"
  by (auto simp: DefaultBackoff_def eval_nat_numeral split: prod.splits)


text \<open>
  C4: a call of \<open>removeNotReadyKey\<close> that returns without error leaves a stored pod that holds every
  key held before but the caller's; the invariant is kept, so a condition that exists becomes true
  exactly when no other writer holds a key.
\<close>

theorem removeNotReadyKey_correct:
  assumes "pod_store adp stored ok" and "go_sorter srt"
    and "ok w" and "stored w (Namespace p) (Name p) = Some p"
    and "containsReadinessGate p t" and "readiness_inv t p"
    and "removeNotReadyKey srt adp now p msg t w = (None, w')"
  shows "\<exists>q. stored w' (Namespace p) (Name p) = Some q
    \<and> readiness_keys t q = readiness_keys t p - {msg} \<and> readiness_inv t q
    \<and> (gate_true q t \<longleftrightarrow> GetCondition q t \<noteq> None \<and> readiness_keys t p \<subseteq> {msg})"
proof -
  have "RetryOnConflict DefaultBackoff
      (write_status adp (remove_key_once srt now msg t) (Namespace p) (Name p)) w = (None, w')"
    using assms(5,7) by (simp add: removeNotReadyKey_def)
  from pod_store.retry_write_status [OF assms(1) upd_conditions_key(2) assms(3) this]
  obtain q where q: "stored w' (Namespace p) (Name p) = Some q"
    and st: "Status q = Status (change_or_keep (remove_key_once srt now msg t) p)"
    using assms(4) by auto
  have inv: "readiness_inv t q" and keys: "readiness_keys t q = readiness_keys t p - {msg}"
    using readiness_status_only [OF st] remove_key_once_inv [OF assms(2,6)]
      remove_key_once_keys [OF assms(2)] by simp_all
  show ?thesis using q inv keys readiness_inv_keys [OF inv] by blast
qed

theorem removeNotReadyKey_correct_witness:
  "\<exists>w' q. removeNotReadyKey go_sort AdapterInformer 5 gate_pod \<lparr>UserAgent = ''a'', Key = ''k''\<rparr> ''KruisePodReady''
       [(''ns'', ''web-0'') \<mapsto> gate_pod] = (None, w')
     \<and> informer_stored w' ''ns'' ''web-0'' = Some q \<and> readiness_keys ''KruisePodReady'' q = {}"
proof -
  let ?w = "[(''ns'', ''web-0'') \<mapsto> gate_pod]" and ?m = "\<lparr>UserAgent = ''a'', Key = ''k''\<rparr>"
  obtain w' where "removeNotReadyKey go_sort AdapterInformer 5 gate_pod ?m ''KruisePodReady'' ?w = (None, w')"
    by (simp add: removeNotReadyKey_def RetryOnConflict_first)
  with removeNotReadyKey_correct [OF informer.pod_store_axioms insertion.go_sorter_axioms, of
      ?w gate_pod "''KruisePodReady''" 5 ?m w'] show ?thesis by auto
qed

end
