(* ===== verification/Util_Selector.thy ===== *)
theory Util_Selector
  imports K8s_Model
begin

text \<open>
  Label selectors: \<open>pkg/util/selector.go\<close>, and the matching of the vendored \<open>labels\<close> package.
  A Go map that is ranged over, such as \<open>MatchLabels\<close>, is an association list; the results do not
  depend on its order.
\<close>

section \<open>Selectors\<close>

datatype sel_op = OpIn | OpNotIn | OpExists | OpDoesNotExist | OpOther string

record sel_req =
  ReqKey :: string
  ReqOp :: sel_op
  ReqValues :: "string list"

record label_selector =
  MatchLabels :: "(string \<times> string) list"
  MatchExpressions :: "sel_req list"

text \<open>A requirement of package \<open>labels\<close>, and a selector made of requirements.\<close>

datatype requirement_op = Equals | In | NotIn | Exists | DoesNotExist

record requirement =
  rkey :: string
  roperator :: requirement_op
  strValues :: "string list"

datatype selector = Nothing | Requirements "requirement list"

definition newRequirement :: "string \<Rightarrow> requirement_op \<Rightarrow> string list \<Rightarrow> requirement" where
  "newRequirement k op vals = \<lparr>rkey = k, roperator = op, strValues = vals\<rparr>"

fun requirement_matches :: "labels \<Rightarrow> requirement \<Rightarrow> bool" where
  "requirement_matches ls r =
     (case roperator r of
        Equals \<Rightarrow> (case ls (rkey r) of None \<Rightarrow> False | Some v \<Rightarrow> v \<in> set (strValues r))
      | In \<Rightarrow> (case ls (rkey r) of None \<Rightarrow> False | Some v \<Rightarrow> v \<in> set (strValues r))
      | NotIn \<Rightarrow> (case ls (rkey r) of None \<Rightarrow> True | Some v \<Rightarrow> v \<notin> set (strValues r))
      | Exists \<Rightarrow> ls (rkey r) \<noteq> None
      | DoesNotExist \<Rightarrow> ls (rkey r) = None)"

fun selector_matches :: "selector \<Rightarrow> labels \<Rightarrow> bool" where
  "selector_matches Nothing ls = False"
| "selector_matches (Requirements rs) ls = list_all (requirement_matches ls) rs"

fun convert_op :: "sel_op \<Rightarrow> requirement_op option" where
  "convert_op OpIn = Some In"
| "convert_op OpNotIn = Some NotIn"
| "convert_op OpExists = Some Exists"
| "convert_op OpDoesNotExist = Some DoesNotExist"
| "convert_op (OpOther s) = None"

fun add_expressions :: "sel_req list \<Rightarrow> requirement list \<Rightarrow> requirement list option" where
  "add_expressions [] rs = Some rs"
| "add_expressions (e # es) rs =
     (case convert_op (ReqOp e) of
        None \<Rightarrow> None
      | Some op \<Rightarrow> add_expressions es (rs @ [newRequirement (ReqKey e) op (ReqValues e)]))"

text \<open>\<open>None\<close> is the error for an operator that is not one of the four.\<close>

definition ValidatedLabelSelectorAsSelector :: "label_selector option \<Rightarrow> selector option" where
  "ValidatedLabelSelectorAsSelector ps =
     (case ps of
        None \<Rightarrow> Some Nothing
      | Some ps \<Rightarrow>
          if length (MatchLabels ps) + length (MatchExpressions ps) = 0 then Some (Requirements [])
          else map_option Requirements
                 (add_expressions (MatchExpressions ps)
                    (map (\<lambda>(k, v). newRequirement k Equals [v]) (MatchLabels ps))))"

section \<open>Overlap of selectors\<close>

definition sliceOverlaps :: "string list \<Rightarrow> string list \<Rightarrow> bool" where
  "sliceOverlaps a b \<longleftrightarrow> list_ex (\<lambda>key. key \<in> set a) b"

definition sliceContains :: "string list \<Rightarrow> string list \<Rightarrow> bool" where
  "sliceContains a b \<longleftrightarrow> list_all (\<lambda>key. key \<in> set a) b"

text \<open>The map \<open>matchedLabels1\<close>: a key's values as far as the selector fixes them.\<close>

definition matched_labels :: "label_selector \<Rightarrow> string \<rightharpoonup> string list" where
  "matched_labels s =
     foldl (\<lambda>m req. case ReqOp req of
         OpIn \<Rightarrow> if ReqValues req = [] then m
                 else m(ReqKey req \<mapsto> (case m (ReqKey req) of None \<Rightarrow> [] | Some vs \<Rightarrow> vs) @ ReqValues req)
       | OpExists \<Rightarrow> m(ReqKey req \<mapsto> [''ALL''])
       | _ \<Rightarrow> m)
     (foldl (\<lambda>m (k, v). m(k \<mapsto> [v])) Map.empty (MatchLabels s)) (MatchExpressions s)"

definition isDisjoint :: "label_selector \<Rightarrow> label_selector \<Rightarrow> bool" where
  "isDisjoint selector1 selector2 =
     (let matchedLabels1 = matched_labels selector1
      in list_ex (\<lambda>(k, v). case matchedLabels1 k of
                     None \<Rightarrow> False
                   | Some values \<Rightarrow> ''ALL'' \<notin> set values \<and> v \<notin> set values)
           (MatchLabels selector2)
         \<or> list_ex (\<lambda>req. case (ReqOp req, matchedLabels1 (ReqKey req)) of
               (OpIn, Some values) \<Rightarrow> ''ALL'' \<notin> set values \<and> \<not> sliceOverlaps values (ReqValues req)
             | (OpNotIn, Some values) \<Rightarrow> sliceContains (ReqValues req) values
             | (OpExists, None) \<Rightarrow> True
             | (OpDoesNotExist, Some values) \<Rightarrow> True
             | _ \<Rightarrow> False)
           (MatchExpressions selector2))"

definition IsSelectorOverlapping :: "label_selector \<Rightarrow> label_selector \<Rightarrow> bool" where
  "IsSelectorOverlapping selector1 selector2 \<longleftrightarrow>
     \<not> (isDisjoint selector1 selector2 \<or> isDisjoint selector2 selector1)"

definition convertSelectorToMatchExpressions :: "label_selector \<Rightarrow> string \<rightharpoonup> sel_req" where
  "convertSelectorToMatchExpressions s =
     foldl (\<lambda>m (k, v). m(k \<mapsto> \<lparr>ReqKey = [], ReqOp = OpIn, ReqValues = [v]\<rparr>))
       (foldl (\<lambda>m e. m(ReqKey e \<mapsto> e)) Map.empty (MatchExpressions s)) (MatchLabels s)"

definition isMatchExpOverlap :: "sel_req \<Rightarrow> sel_req \<Rightarrow> bool" where
  "isMatchExpOverlap e1 e2 =
     (case ReqOp e1 of
        OpIn \<Rightarrow> ReqOp e2 = OpExists
               \<or> (ReqOp e2 = OpIn \<and> sliceOverlaps (ReqValues e2) (ReqValues e1))
               \<or> (ReqOp e2 = OpNotIn \<and> \<not> sliceContains (ReqValues e2) (ReqValues e1))
      | OpExists \<Rightarrow> ReqOp e2 = OpIn \<or> ReqOp e2 = OpNotIn \<or> ReqOp e2 = OpExists
      | OpNotIn \<Rightarrow> ReqOp e2 = OpExists \<or> ReqOp e2 = OpDoesNotExist \<or> ReqOp e2 = OpNotIn
                  \<or> (ReqOp e2 = OpIn \<and> \<not> sliceContains (ReqValues e1) (ReqValues e2))
      | OpDoesNotExist \<Rightarrow> ReqOp e2 = OpDoesNotExist \<or> ReqOp e2 = OpNotIn
      | OpOther s \<Rightarrow> False)"

text \<open>The keys of the converted map, in some order.\<close>

definition selector_keys :: "label_selector \<Rightarrow> string list" where
  "selector_keys s = map ReqKey (MatchExpressions s) @ map fst (MatchLabels s)"

definition overlap_loop :: "(string \<rightharpoonup> sel_req) \<Rightarrow> (string \<rightharpoonup> sel_req) \<Rightarrow> string list \<Rightarrow> bool" where
  "overlap_loop m1 m2 ks =
     list_all (\<lambda>k. case (m1 k, m2 k) of
                     (Some e1, Some e2) \<Rightarrow> isMatchExpOverlap e1 e2
                   | (Some e1, None) \<Rightarrow> False
                   | (None, _) \<Rightarrow> True) ks"

definition IsSelectorLooseOverlap :: "label_selector \<Rightarrow> label_selector \<Rightarrow> bool" where
  "IsSelectorLooseOverlap selector1 selector2 =
     (let matchExp1 = convertSelectorToMatchExpressions selector1;
          matchExp2 = convertSelectorToMatchExpressions selector2
      in overlap_loop matchExp1 matchExp2 (selector_keys selector1)
         \<and> overlap_loop matchExp2 matchExp1 (selector_keys selector2))"

section \<open>What a selector means\<close>

fun holds_at :: "sel_req \<Rightarrow> string option \<Rightarrow> bool" where
  "holds_at e x =
     (case ReqOp e of
        OpIn \<Rightarrow> (case x of None \<Rightarrow> False | Some v \<Rightarrow> v \<in> set (ReqValues e))
      | OpNotIn \<Rightarrow> (case x of None \<Rightarrow> True | Some v \<Rightarrow> v \<notin> set (ReqValues e))
      | OpExists \<Rightarrow> x \<noteq> None
      | OpDoesNotExist \<Rightarrow> x = None
      | OpOther s \<Rightarrow> False)"

definition sel_holds :: "label_selector \<Rightarrow> labels \<Rightarrow> bool" where
  "sel_holds s ls \<longleftrightarrow> (\<forall>(k, v)\<in>set (MatchLabels s). ls k = Some v)
     \<and> (\<forall>e\<in>set (MatchExpressions s). holds_at e (ls (ReqKey e)))"

lemma add_expressions_matches:
  "add_expressions es rs = Some rs' \<Longrightarrow>
     list_all (requirement_matches ls) rs' \<longleftrightarrow>
       list_all (requirement_matches ls) rs \<and> (\<forall>e\<in>set es. holds_at e (ls (ReqKey e)))"
proof (induction es arbitrary: rs)
  case Nil
  then show ?case by simp
next
  case (Cons e es)
  then show ?case
    by (cases "ReqOp e") (auto simp: newRequirement_def split: option.splits)
qed

lemma selector_matches_holds:
  assumes "ValidatedLabelSelectorAsSelector (Some s) = Some sel"
  shows "selector_matches sel ls \<longleftrightarrow> sel_holds s ls"
proof (cases "length (MatchLabels s) + length (MatchExpressions s) = 0")
  case True
  then show ?thesis using assms by (auto simp: ValidatedLabelSelectorAsSelector_def sel_holds_def)
next
  case False
  then obtain rs where "sel = Requirements rs" and
    rs: "add_expressions (MatchExpressions s)
      (map (\<lambda>(k, v). newRequirement k Equals [v]) (MatchLabels s)) = Some rs"
    using assms by (auto simp: ValidatedLabelSelectorAsSelector_def)
  then show ?thesis
    using add_expressions_matches [OF rs, of ls]
    by (auto simp: sel_holds_def newRequirement_def list_all_iff split: option.splits)
qed

definition wf_req :: "sel_req \<Rightarrow> bool" where
  "wf_req e \<longleftrightarrow> convert_op (ReqOp e) \<noteq> None \<and> (ReqOp e = OpIn \<longrightarrow> ReqValues e \<noteq> [])"

text \<open>A selector the API accepts, with at most one requirement per key.\<close>

definition wf_selector :: "label_selector \<Rightarrow> bool" where
  "wf_selector s \<longleftrightarrow> list_all wf_req (MatchExpressions s) \<and> distinct (selector_keys s)"

lemma wf_selector_valid: "wf_selector s \<Longrightarrow> \<exists>sel. ValidatedLabelSelectorAsSelector (Some s) = Some sel"
proof -
  have "\<forall>e\<in>set es. convert_op (ReqOp e) \<noteq> None \<Longrightarrow> \<exists>rs'. add_expressions es rs = Some rs'" for es rs
    by (induction es arbitrary: rs) auto
  then show "wf_selector s \<Longrightarrow> ?thesis"
    by (force simp: ValidatedLabelSelectorAsSelector_def wf_selector_def wf_req_def list_all_iff)
qed

lemma fresh_string: "\<exists>v :: string. v \<notin> set vs"
  using ex_new_if_finite [OF infinite_UNIV_listI finite_set] .

lemma isMatchExpOverlap_iff:
  assumes "wf_req e1" and "wf_req e2"
  shows "isMatchExpOverlap e1 e2 \<longleftrightarrow> (\<exists>x. holds_at e1 x \<and> holds_at e2 x)"
proof -
  obtain v where v: "v \<notin> set (ReqValues e1 @ ReqValues e2)" using fresh_string by blast
  have 1: "ReqOp e1 = OpIn \<Longrightarrow> \<exists>x. x \<in> set (ReqValues e1)"
    and 2: "ReqOp e2 = OpIn \<Longrightarrow> \<exists>x. x \<in> set (ReqValues e2)"
    using assms by (auto simp: wf_req_def ex_in_conv)
  show ?thesis
    using assms v 1 2
    by (cases "ReqOp e1"; cases "ReqOp e2")
      (auto simp: isMatchExpOverlap_def wf_req_def sliceOverlaps_def sliceContains_def list_ex_iff
        list_all_iff split_option_ex)
qed

lemma foldl_upd_map_of:
  "foldl (\<lambda>m x. m(f x \<mapsto> g x)) m xs = m ++ map_of (rev (map (\<lambda>x. (f x, g x)) xs))"
  by (induction xs arbitrary: m) auto

text \<open>The requirement a selector puts on a key.\<close>

definition selector_alist :: "label_selector \<Rightarrow> (string \<times> sel_req) list" where
  "selector_alist s = map (\<lambda>e. (ReqKey e, e)) (MatchExpressions s)
     @ map (\<lambda>(k, v). (k, \<lparr>ReqKey = [], ReqOp = OpIn, ReqValues = [v]\<rparr>)) (MatchLabels s)"

lemma keys_selector_alist: "map fst (selector_alist s) = selector_keys s"
  by (simp add: selector_alist_def selector_keys_def case_prod_unfold comp_def)

lemma convert_map_of:
  assumes "distinct (selector_keys s)"
  shows "convertSelectorToMatchExpressions s = map_of (selector_alist s)"
proof -
  have "distinct (map fst (selector_alist s))" using assms by (simp add: keys_selector_alist)
  then have "map_of (rev (selector_alist s)) = map_of (selector_alist s)"
    by (subst map_of_inject_set) (simp_all add: rev_map [symmetric])
  moreover have "convertSelectorToMatchExpressions s = map_of (rev (selector_alist s))"
    by (simp add: convertSelectorToMatchExpressions_def case_prod_unfold foldl_upd_map_of selector_alist_def)
  ultimately show ?thesis by simp
qed

lemma holds_at_label: "holds_at \<lparr>ReqKey = [], ReqOp = OpIn, ReqValues = [v]\<rparr> x \<longleftrightarrow> x = Some v"
  by (auto split: option.splits)

lemma sel_holds_alist: "sel_holds s ls \<longleftrightarrow> (\<forall>(k, e)\<in>set (selector_alist s). holds_at e (ls k))"
  unfolding sel_holds_def selector_alist_def set_append ball_Un set_map ball_simps case_prod_unfold
  by (simp add: holds_at_label conj_commute del: holds_at.simps)

lemma wf_alist: "wf_selector s \<Longrightarrow> (k, e) \<in> set (selector_alist s) \<Longrightarrow> wf_req e"
  by (auto simp: wf_selector_def selector_alist_def list_all_iff wf_req_def)

lemma overlap_loop_iff:
  assumes "wf_selector s1" and "wf_selector s2"
  shows "overlap_loop (convertSelectorToMatchExpressions s1) (convertSelectorToMatchExpressions s2)
      (selector_keys s1) \<longleftrightarrow>
    (\<forall>(k, e1)\<in>set (selector_alist s1). \<exists>e2. (k, e2) \<in> set (selector_alist s2)
       \<and> (\<exists>x. holds_at e1 x \<and> holds_at e2 x))"
proof -
  have d1: "distinct (map fst (selector_alist s1))" and d2: "distinct (map fst (selector_alist s2))"
    using assms by (simp_all add: wf_selector_def keys_selector_alist)
  have "overlap_loop (convertSelectorToMatchExpressions s1) (convertSelectorToMatchExpressions s2)
      (map fst (selector_alist s1)) \<longleftrightarrow>
    (\<forall>(k, e1)\<in>set (selector_alist s1). case map_of (selector_alist s2) k of
        None \<Rightarrow> False | Some e2 \<Rightarrow> isMatchExpOverlap e1 e2)"
    unfolding overlap_loop_def list_all_iff set_map ball_simps
    using assms d1
    by (intro ball_cong) (auto simp: wf_selector_def convert_map_of)
  also have "\<dots> \<longleftrightarrow> (\<forall>(k, e1)\<in>set (selector_alist s1). \<exists>e2. (k, e2) \<in> set (selector_alist s2)
       \<and> (\<exists>x. holds_at e1 x \<and> holds_at e2 x))"
    using isMatchExpOverlap_iff wf_alist [OF assms(1)] wf_alist [OF assms(2)] d2
    by (fastforce split: option.splits dest: map_of_SomeD simp: map_of_eq_None_iff
        simp del: holds_at.simps)
  finally show ?thesis by (simp add: keys_selector_alist)
qed

lemma fst_alist: "(k, e) \<in> set (selector_alist s) \<Longrightarrow> k \<in> set (selector_keys s)"
  by (metis fst_conv image_eqI keys_selector_alist list.set_map)

lemma key_alist: "k \<in> set (selector_keys s) \<Longrightarrow> \<exists>e. (k, e) \<in> set (selector_alist s)"
  using keys_selector_alist by (metis (no_types, lifting) imageE list.set_map prod.collapse)

text \<open>Two requirement lists over the same keys, one requirement each, can be met key by key.\<close>

lemma meet_key_by_key:
  assumes "wf_selector s1" and "wf_selector s2"
    and "\<And>k e1 e2. (k, e1) \<in> set (selector_alist s1) \<Longrightarrow> (k, e2) \<in> set (selector_alist s2) \<Longrightarrow>
      \<exists>x. holds_at e1 x \<and> holds_at e2 x"
    and "set (selector_keys s1) = set (selector_keys s2)"
  shows "\<exists>ls. sel_holds s1 ls \<and> sel_holds s2 ls"
proof -
  have one: "e = e'" if "wf_selector s" "(k, e) \<in> set (selector_alist s)" "(k, e') \<in> set (selector_alist s)"
    for s k e e'
    using that eq_key_imp_eq_value [of "selector_alist s" k e e']
    by (simp add: wf_selector_def keys_selector_alist)
  have "\<forall>k. \<exists>x. \<forall>e1 e2. (k, e1) \<in> set (selector_alist s1) \<longrightarrow> (k, e2) \<in> set (selector_alist s2) \<longrightarrow>
      holds_at e1 x \<and> holds_at e2 x"
    using assms(3) one [OF assms(1)] one [OF assms(2)] by metis
  then obtain ls where "\<And>k e1 e2. (k, e1) \<in> set (selector_alist s1) \<Longrightarrow> (k, e2) \<in> set (selector_alist s2) \<Longrightarrow>
      holds_at e1 (ls k) \<and> holds_at e2 (ls k)"
    by metis
  then show ?thesis
    unfolding sel_holds_alist using fst_alist key_alist assms(4) by (intro exI [of _ ls]) blast
qed



section \<open>Soundness of the disjointness test\<close>

text \<open>Labels matched by a selector have, at every key of \<open>matched_labels\<close>, one of its values.\<close>

definition allows :: "(string \<rightharpoonup> string list) \<Rightarrow> labels \<Rightarrow> bool" where
  "allows m ls \<longleftrightarrow> (\<forall>k vs. m k = Some vs \<longrightarrow> (\<exists>v. ls k = Some v \<and> (v \<in> set vs \<or> ''ALL'' \<in> set vs)))"

lemma allows_upd:
  "allows m ls \<Longrightarrow> ls k = Some v \<Longrightarrow> v \<in> set vs \<or> ''ALL'' \<in> set vs \<Longrightarrow> allows (m(k \<mapsto> vs)) ls"
  by (auto simp: allows_def)

lemma matched_labels_sound:
  assumes "sel_holds s ls"
  shows "allows (matched_labels s) ls"
  unfolding matched_labels_def
proof (intro foldl_invariant [where P = "\<lambda>m. allows m ls"], goal_cases)
  case (1 m e)
  then have "holds_at e (ls (ReqKey e))" using assms by (simp add: sel_holds_def)
  then show ?case
    using 1(1) by (cases "ReqOp e") (auto intro: allows_upd split: option.splits)
next
  case (2 m x)
  then show ?case using assms by (cases x) (auto simp: sel_holds_def intro!: allows_upd)
next
  case 3
  show ?case by (simp add: allows_def)
qed

text \<open>The operators for which an expression of the second selector is judged by its meaning.\<close>

definition plain_expressions :: "label_selector \<Rightarrow> bool" where
  "plain_expressions s \<longleftrightarrow> list_all (\<lambda>e. ReqOp e \<noteq> OpExists
     \<and> (ReqOp e = OpNotIn \<longrightarrow> ''ALL'' \<notin> set (ReqValues e))) (MatchExpressions s)"

lemma isDisjoint_sound:
  assumes "plain_expressions s2" and "isDisjoint s1 s2" and "sel_holds s1 ls"
  shows "\<not> sel_holds s2 ls"
proof
  assume h2: "sel_holds s2 ls"
  have m: "\<exists>v. ls k = Some v \<and> (v \<in> set vs \<or> ''ALL'' \<in> set vs)" if "matched_labels s1 k = Some vs" for k vs
    using matched_labels_sound [OF assms(3)] that by (auto simp: allows_def)
  have no_label: False if "(k, v) \<in> set (MatchLabels s2)" "matched_labels s1 k = Some vs"
      "''ALL'' \<notin> set vs" "v \<notin> set vs" for k v vs
    using that m [of k vs] h2 by (auto simp: sel_holds_def)
  have no_expr: False if e: "e \<in> set (MatchExpressions s2)"
      and c: "case (ReqOp e, matched_labels s1 (ReqKey e)) of
               (OpIn, Some values) \<Rightarrow> ''ALL'' \<notin> set values \<and> \<not> sliceOverlaps values (ReqValues e)
             | (OpNotIn, Some values) \<Rightarrow> sliceContains (ReqValues e) values
             | (OpExists, None) \<Rightarrow> True
             | (OpDoesNotExist, Some values) \<Rightarrow> True
             | _ \<Rightarrow> False" for e
  proof -
    have "holds_at e (ls (ReqKey e))" using h2 e by (simp add: sel_holds_def)
    moreover have "ReqOp e \<noteq> OpExists \<and> (ReqOp e = OpNotIn \<longrightarrow> ''ALL'' \<notin> set (ReqValues e))"
      using assms(1) e by (simp add: plain_expressions_def list_all_iff)
    ultimately show False
      using c m [of "ReqKey e"]
      by (cases "ReqOp e"; cases "matched_labels s1 (ReqKey e)")
        (auto simp: sliceOverlaps_def sliceContains_def list_ex_iff list_all_iff)
  qed
  from assms(2) [unfolded isDisjoint_def Let_def list_ex_iff] show False
  proof (elim disjE bexE, goal_cases)
    case (1 x)
    then show ?case using no_label by (cases x) (auto split: option.splits)
  next
    case (2 e)
    then show ?case by (rule no_expr)
  qed
qed




end
