(* ===== verification/Expectations.thy ===== *)
theory Expectations
  imports K8s_Model
begin

text \<open>
  The controllers' memory of what they have done but not yet seen in their caches
  (\<open>pkg/util/expectations\<close>) and of when to come back (\<open>pkg/util/requeueduration\<close>).  Each store is
  state that the operations take and return; the mutex makes every operation atomic.  A store that
  maps a key to a pointer is a map to records.
\<close>

section \<open>Scale expectations\<close>

datatype scale_action = Create | Delete

record ctrl_scale_exp =
  objsCache :: "scale_action \<rightharpoonup> string set"
  firstUnsatisfied :: int

type_synonym scale_exps = "string \<rightharpoonup> ctrl_scale_exp"

definition GetExpectations :: "scale_exps \<Rightarrow> string \<Rightarrow> (scale_action \<rightharpoonup> string set) option" where
  "GetExpectations r key = map_option objsCache (r key)"

definition ExpectationTimeout :: int where "ExpectationTimeout = 300 * second"

definition ExpectScale :: "string \<Rightarrow> scale_action \<Rightarrow> string \<Rightarrow> scale_exps \<Rightarrow> scale_exps" where
  "ExpectScale key action name r =
     (let e = (case r key of None \<Rightarrow> \<lparr>objsCache = Map.empty, firstUnsatisfied = 0\<rparr> | Some e \<Rightarrow> e);
          s = (case objsCache e action of None \<Rightarrow> {name} | Some s \<Rightarrow> insert name s)
      in r(key \<mapsto> e\<lparr>objsCache := (objsCache e)(action \<mapsto> s)\<rparr>))"

definition all_empty :: "ctrl_scale_exp \<Rightarrow> bool" where
  "all_empty e = list_all (\<lambda>a. case objsCache e a of None \<Rightarrow> True | Some s \<Rightarrow> s = {}) [Create, Delete]"

definition ObserveScale :: "string \<Rightarrow> scale_action \<Rightarrow> string \<Rightarrow> scale_exps \<Rightarrow> scale_exps" where
  "ObserveScale key action name r =
     (case r key of
        None \<Rightarrow> r
      | Some e \<Rightarrow>
          (case objsCache e action of
             None \<Rightarrow> r
           | Some s \<Rightarrow>
               let e' = e\<lparr>objsCache := (objsCache e)(action \<mapsto> s - {name})\<rparr>
               in if all_empty e' then r(key := None) else r(key \<mapsto> e')))"

text \<open>
  The first action with names left, in the order \<open>ord\<close> in which Go ranges over the map, decides what
  is reported.  The result: satisfied, how long it has not been, and what is missing.
\<close>

datatype range_ord = CreateFirst | DeleteFirst

fun order_list :: "range_ord \<Rightarrow> scale_action list" where
  "order_list CreateFirst = [Create, Delete]"
| "order_list DeleteFirst = [Delete, Create]"

fun first_pending :: "ctrl_scale_exp \<Rightarrow> scale_action list \<Rightarrow> (scale_action \<times> string list) option" where
  "first_pending e [] = None"
| "first_pending e (a # as) =
     (case objsCache e a of
        None \<Rightarrow> first_pending e as
      | Some s \<Rightarrow> if s = {} then first_pending e as else Some (a, sorted_list_of_set s))"

definition ScaleSatisfied ::
  "range_ord \<Rightarrow> int \<Rightarrow> string \<Rightarrow> scale_exps
   \<Rightarrow> (bool \<times> int \<times> (scale_action \<times> string list) option) \<times> scale_exps" where
  "ScaleSatisfied ord now key r =
     (case r key of
        None \<Rightarrow> ((True, 0, None), r)
      | Some e \<Rightarrow>
          (case first_pending e (order_list ord) of
             Some d \<Rightarrow>
               let t = (if firstUnsatisfied e = 0 then now else firstUnsatisfied e)
               in ((False, now - t, Some d), r(key \<mapsto> e\<lparr>firstUnsatisfied := t\<rparr>))
           | None \<Rightarrow> ((True, 0, None), r(key := None))))"

definition DeleteExpectations :: "string \<Rightarrow> scale_exps \<Rightarrow> scale_exps" where
  "DeleteExpectations key r = r(key := None)"

text \<open>What is expected under a key and not observed.\<close>

definition pending_of :: "ctrl_scale_exp \<Rightarrow> (scale_action \<times> string) set" where
  "pending_of e = {(a, n). n \<in> (case objsCache e a of None \<Rightarrow> {} | Some s \<Rightarrow> s)}"

definition scale_pending :: "scale_exps \<Rightarrow> string \<Rightarrow> (scale_action \<times> string) set" where
  "scale_pending r key = (case r key of None \<Rightarrow> {} | Some e \<Rightarrow> pending_of e)"

lemma all_actions: "(\<forall>a. P a) \<longleftrightarrow> P Create \<and> P Delete"
  by (metis scale_action.exhaust)

lemma pending_empty:
  "pending_of e = {} \<longleftrightarrow> (\<forall>a. (case objsCache e a of None \<Rightarrow> {} | Some s \<Rightarrow> s) = {})"
  by (auto simp: pending_of_def)

lemma all_empty_iff: "all_empty e \<longleftrightarrow> pending_of e = {}"
  by (auto simp: all_empty_def pending_empty all_actions split: option.splits)

lemma first_pending_None: "first_pending e (order_list ord) = None \<longleftrightarrow> pending_of e = {}"
proof -
  have "first_pending e as = None \<longleftrightarrow> (\<forall>a\<in>set as. (case objsCache e a of None \<Rightarrow> {} | Some s \<Rightarrow> s) = {})" for as
    by (induction as) (auto split: option.splits)
  note this [of "order_list ord"]
  moreover have "set (order_list ord) = {Create, Delete}" by (cases ord) auto
  ultimately show ?thesis by (simp add: pending_empty all_actions)
qed

lemma pending_of_upd: "pending_of (e\<lparr>objsCache := (objsCache e)(a \<mapsto> s)\<rparr>) =
    {(b, n) \<in> pending_of e. b \<noteq> a} \<union> {a} \<times> s"
  by (auto simp: pending_of_def split: if_splits)

lemma pending_of_time [simp]: "pending_of (e\<lparr>firstUnsatisfied := t\<rparr>) = pending_of e"
  by (simp add: pending_of_def)

lemma pending_ExpectScale [simp]:
  "scale_pending (ExpectScale key a n r) key' =
     (if key' = key then insert (a, n) (scale_pending r key) else scale_pending r key')"
proof -
  have "pending_of \<lparr>objsCache = [a \<mapsto> {n}], firstUnsatisfied = 0\<rparr> = {(a, n)}"
    by (auto simp: pending_of_def split: if_splits)
  moreover have "pending_of (e\<lparr>objsCache := (objsCache e)(a \<mapsto>
      (case objsCache e a of None \<Rightarrow> {n} | Some s \<Rightarrow> insert n s))\<rparr>) = insert (a, n) (pending_of e)" for e
    unfolding pending_of_upd by (auto simp: pending_of_def split: option.splits)
  ultimately show ?thesis
    by (cases "r key") (simp_all add: scale_pending_def ExpectScale_def Let_def)
qed

lemma pending_ObserveScale [simp]:
  "scale_pending (ObserveScale key a n r) key' =
     (if key' = key then scale_pending r key - {(a, n)} else scale_pending r key')"
proof (cases "r key")
  case None
  then show ?thesis by (simp add: scale_pending_def ObserveScale_def)
next
  case (Some e)
  show ?thesis
  proof (cases "objsCache e a")
    case None
    then have "(a, n) \<notin> pending_of e" by (simp add: pending_of_def)
    with Some None show ?thesis by (simp add: scale_pending_def ObserveScale_def)
  next
    case (Some s)
    then have "pending_of (e\<lparr>objsCache := (objsCache e)(a \<mapsto> s - {n})\<rparr>) = pending_of e - {(a, n)}"
      unfolding pending_of_upd by (auto simp: pending_of_def)
    with Some \<open>r key = Some e\<close> show ?thesis
      by (simp add: scale_pending_def ObserveScale_def Let_def all_empty_iff)
  qed
qed

lemma pending_DeleteExpectations [simp]:
  "scale_pending (DeleteExpectations key r) key' = (if key' = key then {} else scale_pending r key')"
  by (simp add: scale_pending_def DeleteExpectations_def)

lemma pending_ScaleSatisfied [simp]:
  "scale_pending (snd (ScaleSatisfied ord now key r)) key' = scale_pending r key'"
  by (auto simp: scale_pending_def ScaleSatisfied_def Let_def first_pending_None split: option.splits)

lemma ScaleSatisfied_iff:
  "fst (fst (ScaleSatisfied ord now key r)) \<longleftrightarrow> scale_pending r key = {}"
proof (cases "r key")
  case None
  then show ?thesis by (simp add: scale_pending_def ScaleSatisfied_def)
next
  case (Some e)
  then show ?thesis
    using first_pending_None [of e ord]
    by (cases "first_pending e (order_list ord)") (auto simp: scale_pending_def ScaleSatisfied_def Let_def)
qed

section \<open>The contract of scale expectations\<close>

text \<open>
  What a controller relies on: an expected name is pending until it is observed, and the store is
  satisfied when nothing is pending.  The history lemma is proved from these laws alone.
\<close>

datatype scale_event = EExpect string scale_action string | EObserve string scale_action string
  | EForget string | ECheck range_ord int string

locale scale_expectations =
  fixes expct :: "string \<Rightarrow> scale_action \<Rightarrow> string \<Rightarrow> 'r \<Rightarrow> 'r"
    and observe :: "string \<Rightarrow> scale_action \<Rightarrow> string \<Rightarrow> 'r \<Rightarrow> 'r"
    and forget :: "string \<Rightarrow> 'r \<Rightarrow> 'r"
    and check :: "range_ord \<Rightarrow> int \<Rightarrow> string \<Rightarrow> 'r \<Rightarrow> bool \<times> 'r"
    and pending :: "'r \<Rightarrow> string \<Rightarrow> (scale_action \<times> string) set"
  assumes expct_pending: "pending (expct k a n r) k' = (if k' = k then insert (a, n) (pending r k) else pending r k')"
    and observe_pending: "pending (observe k a n r) k' = (if k' = k then pending r k - {(a, n)} else pending r k')"
    and forget_pending: "pending (forget k r) k' = (if k' = k then {} else pending r k')"
    and check_pending: "pending (snd (check ord now k r)) k' = pending r k'"
    and check_iff: "fst (check ord now k r) \<longleftrightarrow> pending r k = {}"
begin

fun event :: "scale_event \<Rightarrow> 'r \<Rightarrow> 'r" where
  "event (EExpect k a n) r = expct k a n r"
| "event (EObserve k a n) r = observe k a n r"
| "event (EForget k) r = forget k r"
| "event (ECheck ord now k) r = snd (check ord now k r)"

lemma fold_pending:
  "(a, n) \<in> pending (fold event es r) k \<longleftrightarrow>
     (\<exists>es1 es2. es = es1 @ EExpect k a n # es2 \<and> EObserve k a n \<notin> set es2 \<and> EForget k \<notin> set es2)
     \<or> ((a, n) \<in> pending r k \<and> EObserve k a n \<notin> set es \<and> EForget k \<notin> set es)"
proof (induction es arbitrary: r)
  case Nil
  then show ?case by simp
next
  case (Cons e es)
  have "(a, n) \<in> pending (event e r) k \<longleftrightarrow>
      e = EExpect k a n \<or> ((a, n) \<in> pending r k \<and> e \<noteq> EObserve k a n \<and> e \<noteq> EForget k)"
    by (cases e) (auto simp: expct_pending observe_pending forget_pending check_pending)
  then show ?case using Cons.IH [of "event e r"] by (auto simp: Cons_eq_append_conv)
qed

end

fun scale_step :: "scale_event \<Rightarrow> scale_exps \<Rightarrow> scale_exps" where
  "scale_step (EExpect k a n) r = ExpectScale k a n r"
| "scale_step (EObserve k a n) r = ObserveScale k a n r"
| "scale_step (EForget k) r = DeleteExpectations k r"
| "scale_step (ECheck ord now k) r = snd (ScaleSatisfied ord now k r)"

interpretation scale: scale_expectations ExpectScale ObserveScale DeleteExpectations
  "\<lambda>ord now k r. map_prod fst id (ScaleSatisfied ord now k r)" scale_pending
  by unfold_locales (simp_all add: ScaleSatisfied_iff)

lemma scale_step_event: "scale_step = scale.event"
proof (rule ext, rule ext)
  fix e r
  show "scale_step e r = scale.event e r" by (cases e) simp_all
qed

text \<open>
  C6: after any history of operations on a fresh store, the scale expectations of a workload are
  satisfied exactly when every expected creation or deletion was afterwards observed, or the
  workload's expectations were dropped.
\<close>

theorem scale_satisfied_history:
  "fst (fst (ScaleSatisfied ord now k (fold scale_step es Map.empty))) \<longleftrightarrow>
     \<not> (\<exists>a n es1 es2. es = es1 @ EExpect k a n # es2 \<and> EObserve k a n \<notin> set es2 \<and> EForget k \<notin> set es2)"
proof -
  have "(a, n) \<in> scale_pending (fold scale_step es Map.empty) k \<longleftrightarrow>
      (\<exists>es1 es2. es = es1 @ EExpect k a n # es2 \<and> EObserve k a n \<notin> set es2 \<and> EForget k \<notin> set es2)" for a n
    using scale.fold_pending [of a n es Map.empty k]
    unfolding scale_step_event by (simp add: scale_pending_def [of Map.empty])
  moreover have "S = {} \<longleftrightarrow> \<not> (\<exists>a n. (a, n) \<in> S)" for S :: "(scale_action \<times> string) set" by auto
  ultimately show ?thesis unfolding ScaleSatisfied_iff by simp
qed

section \<open>Update expectations\<close>

text \<open>\<open>EqualToRevisionHash\<close> of the revision adapter is an argument.\<close>

record ctrl_update_exp =
  exp_revision :: string
  objsUpdated :: "string set"
  firstUnsat :: int

type_synonym update_exps = "string \<rightharpoonup> ctrl_update_exp"

definition obj_key :: "'a object_meta_scheme \<Rightarrow> string" where
  "obj_key o' = Namespace o' @ ''/'' @ Name o'"

definition ExpectUpdated :: "string \<Rightarrow> string \<Rightarrow> 'a object_meta_scheme \<Rightarrow> update_exps \<Rightarrow> update_exps" where
  "ExpectUpdated key revision obj r =
     (let new = \<lparr>exp_revision = revision, objsUpdated = {}, firstUnsat = 0\<rparr>;
          e = (case r key of None \<Rightarrow> new | Some e \<Rightarrow> if exp_revision e \<noteq> revision then new else e)
      in r(key \<mapsto> e\<lparr>objsUpdated := insert (obj_key obj) (objsUpdated e)\<rparr>))"

definition ObserveUpdated ::
  "(string \<Rightarrow> 'a object_meta_scheme \<Rightarrow> string \<Rightarrow> bool) \<Rightarrow> string \<Rightarrow> string \<Rightarrow> 'a object_meta_scheme
   \<Rightarrow> update_exps \<Rightarrow> update_exps" where
  "ObserveUpdated EqualToRevisionHash key revision obj r =
     (case r key of
        None \<Rightarrow> r
      | Some e \<Rightarrow>
          let e' = (if exp_revision e = revision \<and> obj_key obj \<in> objsUpdated e
                       \<and> EqualToRevisionHash key obj revision
                    then e\<lparr>objsUpdated := objsUpdated e - {obj_key obj}\<rparr> else e)
          in if exp_revision e' \<noteq> revision \<or> objsUpdated e' = {} then r(key := None) else r(key \<mapsto> e'))"

definition UpdateDeleteObject :: "string \<Rightarrow> 'a object_meta_scheme \<Rightarrow> update_exps \<Rightarrow> update_exps" where
  "UpdateDeleteObject key obj r =
     (case r key of None \<Rightarrow> r
      | Some e \<Rightarrow> r(key \<mapsto> e\<lparr>objsUpdated := objsUpdated e - {obj_key obj}\<rparr>))"

definition UpdateSatisfied ::
  "int \<Rightarrow> string \<Rightarrow> string \<Rightarrow> update_exps \<Rightarrow> (bool \<times> int \<times> string list) \<times> update_exps" where
  "UpdateSatisfied now key revision r =
     (case r key of
        None \<Rightarrow> ((True, 0, []), r)
      | Some e \<Rightarrow>
          if exp_revision e \<noteq> revision then ((True, 0, []), r(key \<mapsto> e\<lparr>firstUnsat := 0\<rparr>))
          else if objsUpdated e \<noteq> {} then
            let t = (if firstUnsat e = 0 then now else firstUnsat e)
            in ((False, now - t, sorted_list_of_set (objsUpdated e)), r(key \<mapsto> e\<lparr>firstUnsat := t\<rparr>))
          else ((True, 0, sorted_list_of_set (objsUpdated e)), r(key \<mapsto> e\<lparr>firstUnsat := 0\<rparr>)))"

definition UpdateDeleteExpectations :: "string \<Rightarrow> update_exps \<Rightarrow> update_exps" where
  "UpdateDeleteExpectations key r = r(key := None)"

definition update_pending :: "update_exps \<Rightarrow> string \<Rightarrow> string \<Rightarrow> string set" where
  "update_pending r key revision =
     (case r key of None \<Rightarrow> {} | Some e \<Rightarrow> if exp_revision e = revision then objsUpdated e else {})"

lemma update_pending_ops:
  "update_pending (ExpectUpdated key rv obj r) key rv = insert (obj_key obj) (update_pending r key rv)"
  "update_pending (ObserveUpdated eqr key rv obj r) key rv =
     (if eqr key obj rv then update_pending r key rv - {obj_key obj} else update_pending r key rv)"
  "update_pending (UpdateDeleteObject key obj r) key rv = update_pending r key rv - {obj_key obj}"
  "update_pending (UpdateDeleteExpectations key r) key rv = {}"
  "fst (fst (UpdateSatisfied now key rv r)) \<longleftrightarrow> update_pending r key rv = {}"
  by (cases "r key"; auto simp: update_pending_def ExpectUpdated_def ObserveUpdated_def Let_def
      UpdateDeleteObject_def UpdateDeleteExpectations_def UpdateSatisfied_def)+

section \<open>Resource version expectations\<close>

record object_cache_version =
  version :: string
  firstUnsatVersion :: int

type_synonym rv_exps = "string \<rightharpoonup> object_cache_version"

definition isResourceVersionNewer :: "string \<Rightarrow> string \<Rightarrow> bool" where
  "isResourceVersionNewer old new =
     (if old = [] then True
      else case ParseUint old 64 of
             None \<Rightarrow> True
           | Some oldCount \<Rightarrow>
               (case ParseUint new 64 of None \<Rightarrow> False | Some newCount \<Rightarrow> newCount \<ge> oldCount))"

definition RVExpect :: "'a object_meta_scheme \<Rightarrow> rv_exps \<Rightarrow> rv_exps" where
  "RVExpect obj r =
     (let e = (case r (UID obj) of None \<Rightarrow> \<lparr>version = [], firstUnsatVersion = 0\<rparr> | Some e \<Rightarrow> e)
      in r(UID obj \<mapsto> (if isResourceVersionNewer (version e) (ResourceVersion obj)
                       then e\<lparr>version := ResourceVersion obj\<rparr> else e)))"

definition RVObserve :: "'a object_meta_scheme \<Rightarrow> rv_exps \<Rightarrow> rv_exps" where
  "RVObserve obj r =
     (case r (UID obj) of
        None \<Rightarrow> r
      | Some e \<Rightarrow> if isResourceVersionNewer (version e) (ResourceVersion obj) then r(UID obj := None) else r)"

definition RVIsSatisfied :: "int \<Rightarrow> 'a object_meta_scheme \<Rightarrow> rv_exps \<Rightarrow> (bool \<times> int) \<times> rv_exps" where
  "RVIsSatisfied now obj r =
     (case r (UID obj) of
        None \<Rightarrow> ((True, 0), r)
      | Some e \<Rightarrow>
          if isResourceVersionNewer (version e) (ResourceVersion obj) then ((True, 0), r(UID obj := None))
          else let t = (if firstUnsatVersion e = 0 then now else firstUnsatVersion e)
               in ((False, now - t), r(UID obj \<mapsto> e\<lparr>firstUnsatVersion := t\<rparr>)))"

definition RVDelete :: "'a object_meta_scheme \<Rightarrow> rv_exps \<Rightarrow> rv_exps" where
  "RVDelete obj r = r(UID obj := None)"

text \<open>The version of an object, when it is a decimal number of 64 bits.\<close>

definition numeric_version :: "'a object_meta_scheme \<Rightarrow> bool" where
  "numeric_version obj \<longleftrightarrow> ParseUint (ResourceVersion obj) 64 \<noteq> None"

definition version_num :: "'a object_meta_scheme \<Rightarrow> nat" where
  "version_num obj = the (ParseUint (ResourceVersion obj) 64)"

lemma newer_num:
  assumes "ParseUint v 64 = Some n"
  shows "isResourceVersionNewer v w \<longleftrightarrow> (case ParseUint w 64 of None \<Rightarrow> False | Some m \<Rightarrow> n \<le> m)"
  using assms by (auto simp: isResourceVersionNewer_def ParseUint_def split: if_splits)

definition max_version :: "rv_exps \<Rightarrow> string \<Rightarrow> nat \<Rightarrow> bool" where
  "max_version r uid n \<longleftrightarrow> (\<exists>e. r uid = Some e \<and> ParseUint (version e) 64 = Some n)"

lemma RVExpect_other: "UID obj \<noteq> uid \<Longrightarrow> RVExpect obj r uid = r uid"
  by (simp add: RVExpect_def Let_def)

lemma RVExpect_first: "r (UID obj) = None \<Longrightarrow> numeric_version obj \<Longrightarrow>
    max_version (RVExpect obj r) (UID obj) (version_num obj)"
  by (auto simp: RVExpect_def max_version_def numeric_version_def version_num_def isResourceVersionNewer_def)

lemma RVExpect_max: "max_version r (UID obj) n \<Longrightarrow> numeric_version obj \<Longrightarrow>
    max_version (RVExpect obj r) (UID obj) (max n (version_num obj))"
  by (auto simp: RVExpect_def max_version_def numeric_version_def version_num_def newer_num max_def Let_def)

lemma fold_RVExpect_max:
  assumes "\<forall>x\<in>set xs. UID x = uid \<longrightarrow> numeric_version x" and "max_version r uid n"
  shows "max_version (fold RVExpect xs r) uid (fold max (map version_num (filter (\<lambda>x. UID x = uid) xs)) n)"
  using assms
proof (induction xs arbitrary: r n)
  case (Cons x xs)
  then show ?case
    using RVExpect_max [of r x n]
    by (cases "UID x = uid") (auto simp: RVExpect_other max_version_def max.commute)
qed simp

lemma RVIsSatisfied_max:
  assumes "max_version r (UID obj) n" and "numeric_version obj"
  shows "fst (fst (RVIsSatisfied now obj r)) \<longleftrightarrow> n \<le> version_num obj"
  using assms
  by (auto simp: RVIsSatisfied_def max_version_def numeric_version_def version_num_def newer_num Let_def
      split: if_splits)

lemma fold_max_le: "fold max ns n \<le> (m :: nat) \<longleftrightarrow> n \<le> m \<and> (\<forall>x\<in>set ns. x \<le> m)"
  by (induction ns arbitrary: n) auto

text \<open>
  after the controller has recorded the versions of its own writes, an object of the cache
  satisfies the expectation exactly when it is at least as new as each of the writes to this object.
\<close>

theorem rv_satisfied_iff_newest:
  assumes "\<forall>x\<in>set xs. UID x = UID obj \<longrightarrow> numeric_version x" and "numeric_version obj"
  shows "fst (fst (RVIsSatisfied now obj (fold RVExpect xs Map.empty))) \<longleftrightarrow>
    (\<forall>x\<in>set xs. UID x = UID obj \<longrightarrow> version_num x \<le> version_num obj)"
proof -
  have "fst (fst (RVIsSatisfied now obj (fold RVExpect xs r))) \<longleftrightarrow>
      (\<forall>x\<in>set xs. UID x = UID obj \<longrightarrow> version_num x \<le> version_num obj)" if "r (UID obj) = None" for r
    using assms(1) that
  proof (induction xs arbitrary: r)
    case Nil
    then show ?case by (simp add: RVIsSatisfied_def)
  next
    case (Cons x xs)
    show ?case
    proof (cases "UID x = UID obj")
      case True
      then have "max_version (RVExpect x r) (UID obj) (version_num x)"
        using Cons.prems RVExpect_first [of r x] by simp
      from fold_RVExpect_max [OF _ this, of xs] Cons.prems(1)
      have "max_version (fold RVExpect xs (RVExpect x r)) (UID obj)
          (fold max (map version_num (filter (\<lambda>y. UID y = UID obj) xs)) (version_num x))" by simp
      from RVIsSatisfied_max [OF this assms(2)] True show ?thesis by (auto simp: fold_max_le)
    next
      case False
      then show ?thesis using Cons by (simp add: RVExpect_other)
    qed
  qed
  then show ?thesis by simp
qed

theorem rv_satisfied_iff_newest_witness:
  "fst (fst (RVIsSatisfied 0 (zero_meta\<lparr>UID := ''u'', ResourceVersion := ''12''\<rparr>)
      (fold RVExpect [zero_meta\<lparr>UID := ''u'', ResourceVersion := ''9''\<rparr>,
                      zero_meta\<lparr>UID := ''u'', ResourceVersion := ''11''\<rparr>] Map.empty)))"
proof -
  let ?o = "zero_meta\<lparr>UID := ''u'', ResourceVersion := ''12''\<rparr>"
  let ?xs = "[zero_meta\<lparr>UID := ''u'', ResourceVersion := ''9''\<rparr>,
      zero_meta\<lparr>UID := ''u'', ResourceVersion := ''11''\<rparr>]"
  have "numeric_version ?o" "\<forall>x\<in>set ?xs. UID x = UID ?o \<longrightarrow> numeric_version x"
    "\<forall>x\<in>set ?xs. version_num x \<le> version_num ?o"
    by (simp_all add: numeric_version_def version_num_def ParseUint_def is_digit_def digits_val_def
        digit_val_def less_eq_char_def)
  with rv_satisfied_iff_newest [of ?xs ?o 0] show ?thesis by blast
qed

section \<open>Requeue durations\<close>

record rq_duration =
  duration :: int
  message :: string

type_synonym duration_store = "string \<rightharpoonup> rq_duration"

definition UpdateWithMsg :: "int \<Rightarrow> string \<Rightarrow> rq_duration \<Rightarrow> rq_duration" where
  "UpdateWithMsg newDuration msg rd =
     (if newDuration > 0 \<and> (duration rd \<le> 0 \<or> newDuration < duration rd)
      then rd\<lparr>duration := newDuration, message := msg\<rparr> else rd)"

definition DurationUpdate :: "int \<Rightarrow> rq_duration \<Rightarrow> rq_duration" where
  "DurationUpdate newDuration rd =
     (if newDuration > 0 \<and> (duration rd \<le> 0 \<or> newDuration < duration rd)
      then rd\<lparr>duration := newDuration\<rparr> else rd)"

definition Merge :: "rq_duration \<Rightarrow> rq_duration \<Rightarrow> rq_duration" where
  "Merge rd rd2 = UpdateWithMsg (duration rd2) (message rd2) rd"

definition DurationGet :: "rq_duration \<Rightarrow> int" where "DurationGet rd = duration rd"

definition GetWithMsg :: "rq_duration \<Rightarrow> int \<times> string" where
  "GetWithMsg rd = (duration rd, message rd)"

definition DurationPush :: "string \<Rightarrow> int \<Rightarrow> duration_store \<Rightarrow> duration_store" where
  "DurationPush key newDuration dm =
     (let rd = (case dm key of None \<Rightarrow> \<lparr>duration = 0, message = []\<rparr> | Some rd \<Rightarrow> rd)
      in dm(key \<mapsto> DurationUpdate newDuration rd))"

definition DurationPop :: "string \<Rightarrow> duration_store \<Rightarrow> int \<times> duration_store" where
  "DurationPop key dm =
     (case dm key of None \<Rightarrow> (0, dm) | Some rd \<Rightarrow> (DurationGet rd, dm(key := None)))"

text \<open>What a key holds: the duration, 0 when there is none.\<close>

definition held :: "duration_store \<Rightarrow> string \<Rightarrow> int" where
  "held dm key = (case dm key of None \<Rightarrow> 0 | Some rd \<Rightarrow> duration rd)"

lemma held_push [simp]:
  "held (DurationPush key d dm) key' =
     (if key' = key then (if d > 0 \<and> (held dm key \<le> 0 \<or> d < held dm key) then d else held dm key)
      else held dm key')"
  by (auto simp: held_def DurationPush_def DurationUpdate_def Let_def split: option.splits)

lemma held_pop [simp]:
  "fst (DurationPop key dm) = held dm key"
  "held (snd (DurationPop key dm)) key' = (if key' = key then 0 else held dm key')"
  by (auto simp: held_def DurationPop_def DurationGet_def split: option.splits)

definition positives :: "string \<Rightarrow> (string \<times> int) list \<Rightarrow> int set" where
  "positives key ps = {d. (key, d) \<in> set ps \<and> 0 < d}"

lemma finite_positives [simp]: "finite (positives key ps)"
  by (rule finite_subset [of _ "snd ` set ps"]) (force simp: positives_def)+

text \<open>
  after any sequence of pushes into an empty store, \<open>Pop\<close> returns the shortest positive
  duration pushed for the key, 0 when there was none, and leaves nothing for that key.
\<close>

theorem pop_shortest:
  "fst (DurationPop key (fold (\<lambda>(k, d). DurationPush k d) ps Map.empty)) =
     (if positives key ps = {} then 0 else Min (positives key ps))
   \<and> fst (DurationPop key (snd (DurationPop key (fold (\<lambda>(k, d). DurationPush k d) ps Map.empty)))) = 0"
proof -
  have "held (fold (\<lambda>(k, d). DurationPush k d) ps Map.empty) key =
      (if positives key ps = {} then 0 else Min (positives key ps))"
  proof (induction ps rule: rev_induct)
    case Nil
    then show ?case by (simp add: positives_def held_def)
  next
    case (snoc p ps)
    obtain k d where p: "p = (k, d)" by fastforce
    have step: "positives key (ps @ [(k, d)]) =
        (if k = key \<and> 0 < d then insert d (positives key ps) else positives key ps)"
      by (auto simp: positives_def)
    have pos: "0 < Min (positives key ps)" if "positives key ps \<noteq> {}"
      using that Min_in [OF finite_positives that] by (simp add: positives_def)
    show ?case
    proof (cases "k = key \<and> 0 < d")
      case True
      then have "positives key (ps @ [p]) = insert d (positives key ps)" using step by (simp add: p)
      then show ?thesis
        using True snoc.IH pos
        by (cases "positives key ps = {}") (auto simp: p min_def simp del: Min_gr_iff Min_le_iff Min_ge_iff)
    next
      case False
      then show ?thesis using snoc.IH by (cases "positives key ps = {}") (auto simp: step p)
    qed
  qed
  then show ?thesis by simp
qed

end
