(* ===== verification/Update_Sort.thy ===== *)
theory Update_Sort
  imports Util_Selector Util_Pods
begin

text \<open>
  The order in which pods are updated: \<open>pkg/util/updatesort\<close> and the strategies of
  \<open>apis/apps/pub/update_priority.go\<close> and \<open>apis/apps/v1alpha1/scatter_strategy.go\<close>.  Pods are given by
  their positions in a slice that may have nil entries; the positions to sort are those of pods.
  The density test divides in single precision, which decides as the exact quotients do for
  fewer than 2048 pods; the model compares the exact quotients.
\<close>

section \<open>Strategies\<close>

record weight_term =
  Weight :: int
  MatchSelector :: label_selector

record update_priority =
  OrderPriority :: "string list"
  WeightPriority :: "weight_term list"

record scatter_term =
  TermKey :: string
  TermValue :: string

fun check_weight_terms :: "(label_selector \<Rightarrow> bool) \<Rightarrow> weight_term list \<Rightarrow> string option" where
  "check_weight_terms valid [] = None"
| "check_weight_terms valid (w # ws) =
     (if Weight w < 0 \<or> Weight w > 100 then Some ''weight must be valid number in the range 1-100''
      else if MatchLabels (MatchSelector w) = [] \<and> MatchExpressions (MatchSelector w) = []
      then Some ''selector can not be empty''
      else if \<not> valid (MatchSelector w) then Some ''invalid selector''
      else check_weight_terms valid ws)"

text \<open>The selector validation of \<open>metav1.LabelSelectorAsSelector\<close> is the argument \<open>valid\<close>.\<close>

definition PriorityFieldsValidation :: "(label_selector \<Rightarrow> bool) \<Rightarrow> update_priority option \<Rightarrow> string option" where
  "PriorityFieldsValidation valid strategy =
     (case strategy of
        None \<Rightarrow> None
      | Some s \<Rightarrow>
          if WeightPriority s \<noteq> [] \<and> OrderPriority s \<noteq> []
          then Some ''only one of weightPriority and orderPriority can be used''
          else case check_weight_terms valid (WeightPriority s) of
                 Some err \<Rightarrow> Some err
               | None \<Rightarrow> if [] \<in> set (OrderPriority s) then Some ''order key can not be empty'' else None)"

definition termID :: "scatter_term \<Rightarrow> string" where
  "termID t = TermKey t @ '':'' @ TermValue t"

fun check_scatter_terms :: "scatter_term list \<Rightarrow> string set \<Rightarrow> string option" where
  "check_scatter_terms [] m = None"
| "check_scatter_terms (t # ts) m =
     (if TermKey t = [] then Some ''key should not be empty''
      else if termID t \<in> m then Some ''duplicated''
      else check_scatter_terms ts (insert (termID t) m))"

definition ScatterFieldsValidation :: "scatter_term list \<Rightarrow> string option" where
  "ScatterFieldsValidation strategy = check_scatter_terms strategy {}"

section \<open>Sorting by priority\<close>

definition labels_at :: "pod option list \<Rightarrow> nat \<Rightarrow> labels" where
  "labels_at pods i = (case pods ! i of None \<Rightarrow> Map.empty | Some p \<Rightarrow> Labels p)"

definition getIntFromStringSuffix :: "string \<Rightarrow> int" where
  "getIntFromStringSuffix v =
     (let digits = rev (takeWhile is_digit (rev v))
      in if digits = [] then 0
         else case ParseInt digits 64 of Some order \<Rightarrow> order | None \<Rightarrow> 0)"

definition getPodWeightPriority :: "weight_term list \<Rightarrow> labels \<Rightarrow> int" where
  "getPodWeightPriority ws podLabels =
     foldl (\<lambda>weight p.
        case ValidatedLabelSelectorAsSelector (Some (MatchSelector p)) of
          None \<Rightarrow> weight
        | Some selector \<Rightarrow> if selector_matches selector podLabels then weight + Weight p else weight)
       0 ws"

fun order_level :: "nat \<Rightarrow> string list \<Rightarrow> labels \<Rightarrow> int \<times> int" where
  "order_level i [] podLabels = (-1, 0)"
| "order_level i (k # ks) podLabels =
     (case podLabels k of
        Some value \<Rightarrow> (int i, getIntFromStringSuffix value)
      | None \<Rightarrow> order_level (Suc i) ks podLabels)"

definition getPodOrderPriority :: "string list \<Rightarrow> labels \<Rightarrow> int \<times> int" where
  "getPodOrderPriority ks podLabels = order_level 0 ks podLabels"

definition priority_compare :: "update_priority \<Rightarrow> labels \<Rightarrow> labels \<Rightarrow> bool \<Rightarrow> bool" where
  "priority_compare s podI podJ defaultVal =
     (if WeightPriority s \<noteq> [] then
        let wI = getPodWeightPriority (WeightPriority s) podI;
            wJ = getPodWeightPriority (WeightPriority s) podJ
        in if wI \<noteq> wJ then wI > wJ else defaultVal
      else if OrderPriority s \<noteq> [] then
        let (levelI, orderI) = getPodOrderPriority (OrderPriority s) podI;
            (levelJ, orderJ) = getPodOrderPriority (OrderPriority s) podJ
        in if levelI \<noteq> levelJ then levelI < levelJ
           else if orderI \<noteq> orderJ then orderI > orderJ else defaultVal
      else defaultVal)"

definition PrioritySort :: "update_priority option \<Rightarrow> pod option list \<Rightarrow> nat list \<Rightarrow> nat list" where
  "PrioritySort strategy pods indexes =
     (case strategy of
        None \<Rightarrow> indexes
      | Some s \<Rightarrow>
          if WeightPriority s = [] \<and> OrderPriority s = [] then indexes
          else go_sort (\<lambda>i j. priority_compare s (labels_at pods i) (labels_at pods j) (i > j)) indexes)"

section \<open>Scattering\<close>

definition term_matches :: "scatter_term \<Rightarrow> pod option list \<Rightarrow> nat \<Rightarrow> bool" where
  "term_matches t pods i \<longleftrightarrow> lget (labels_at pods i) (TermKey t) = TermValue t"

definition count_terms ::
  "scatter_term list \<Rightarrow> pod option list \<Rightarrow> nat list \<Rightarrow> scatter_term list \<times> (string \<rightharpoonup> nat)" where
  "count_terms strategy pods indexes =
     foldl (\<lambda>acc t. foldl (\<lambda>(termSlice, ruleCounter) i.
          if labels_at pods i (TermKey t) = Some (TermValue t) then
            (case ruleCounter (termID t) of
               None \<Rightarrow> (termSlice @ [t], ruleCounter(termID t \<mapsto> 1))
             | Some n \<Rightarrow> (termSlice, ruleCounter(termID t \<mapsto> n + 1)))
          else (termSlice, ruleCounter)) acc indexes)
       ([], Map.empty) strategy"

text \<open>
  A tie of the counts is decided by \<open>i <= j\<close>; the stable sort only asks whether a later element is
  less than an earlier one, for which this is false.
\<close>

definition getScatterTerms :: "scatter_term list \<Rightarrow> pod option list \<Rightarrow> nat list \<Rightarrow> scatter_term list" where
  "getScatterTerms strategy pods indexes =
     (if length strategy = 1 then strategy
      else let (termSlice, ruleCounter) = count_terms strategy pods indexes;
               cnt = (\<lambda>t. case ruleCounter (termID t) of None \<Rightarrow> 0 | Some n \<Rightarrow> n)
           in go_sort (\<lambda>t u. cnt t > cnt u) termSlice)"

record scatter_group =
  groupNum :: int
  matchedGroupSize :: int
  unmatchedGroupSize :: int
  unmatchedRemainder :: int

text \<open>\<open>math.Round\<close> of a quotient of non-negative integers.\<close>

definition round_div :: "int \<Rightarrow> int \<Rightarrow> int" where
  "round_div a b = (2 * a + b) div (2 * b)"

definition newScatterGroup :: "int \<Rightarrow> int \<Rightarrow> scatter_group" where
  "newScatterGroup matched unmatched =
     (let n = (if matched < unmatched then matched else unmatched)
      in \<lparr>groupNum = n, matchedGroupSize = round_div matched n,
          unmatchedGroupSize = round_div unmatched n, unmatchedRemainder = 0\<rparr>)"

definition calculateGroupByDensity :: "int \<Rightarrow> int \<Rightarrow> int \<Rightarrow> int \<Rightarrow> scatter_group" where
  "calculateGroupByDensity totalMatched totalUnmatched updateMatched updateUnmatched =
     (let totalGroup = newScatterGroup totalMatched totalUnmatched;
          updateGroup = newScatterGroup updateMatched updateUnmatched
      in if totalUnmatched * updateMatched \<ge> updateUnmatched * totalMatched then updateGroup
         else
           let m = matchedGroupSize totalGroup;
               u = unmatchedGroupSize totalGroup;
               n = (if updateMatched div m < updateUnmatched div u then updateMatched div m
                    else updateUnmatched div u)
           in \<lparr>groupNum = n, matchedGroupSize = m, unmatchedGroupSize = u,
               unmatchedRemainder = updateUnmatched - n * u\<rparr>)"

definition migrateItems :: "nat list \<Rightarrow> nat list \<Rightarrow> int \<Rightarrow> nat list \<times> nat list" where
  "migrateItems src dst sz =
     (if src = [] then (src, dst)
      else if int (length src) < sz then ([], dst @ src)
      else (drop (nat sz) src, dst @ take (nat sz) src))"

fun migrate_loop ::
  "nat \<Rightarrow> scatter_group \<Rightarrow> nat list \<Rightarrow> nat list \<Rightarrow> nat list \<Rightarrow> nat list \<times> nat list \<times> nat list" where
  "migrate_loop 0 g matched unmatched new = (matched, unmatched, new)"
| "migrate_loop (Suc n) g matched unmatched new =
     (let (matched', new1) = migrateItems matched new (matchedGroupSize g);
          (unmatched', new2) = migrateItems unmatched new1 (unmatchedGroupSize g)
      in migrate_loop n g matched' unmatched' new2)"

text \<open>The group sizes for the matched (all but the last) and the unmatched positions to update.\<close>

definition rule_group :: "scatter_term \<Rightarrow> pod option list \<Rightarrow> nat list \<Rightarrow> nat list \<Rightarrow> scatter_group" where
  "rule_group t pods matched unmatched =
     (let present = filter (\<lambda>i. pods ! i \<noteq> None) [0..<length pods];
          totalMatched = int (length (filter (term_matches t pods) present));
          totalUnmatched = int (length (filter (\<lambda>i. \<not> term_matches t pods i) present))
      in calculateGroupByDensity (totalMatched - 1) totalUnmatched
           (int (length matched)) (int (length unmatched)))"

definition scatterPodsByRule :: "scatter_term \<Rightarrow> pod option list \<Rightarrow> nat list \<Rightarrow> nat list" where
  "scatterPodsByRule t pods indexes =
     (let matchedIndexes = filter (term_matches t pods) indexes;
          unmatchedIndexes = filter (\<lambda>i. \<not> term_matches t pods i) indexes
      in if length matchedIndexes \<le> 1 \<or> length unmatchedIndexes \<le> 1 then indexes
         else
           let lastMatchedIndex = last matchedIndexes;
               matched = butlast matchedIndexes;
               group = rule_group t pods matched unmatchedIndexes;
               r = nat (unmatchedRemainder group);
               (matched', unmatched', new) =
                 migrate_loop (nat (groupNum group)) group matched (drop r unmatchedIndexes)
                   (take r unmatchedIndexes)
           in new @ matched' @ unmatched' @ [lastMatchedIndex])"

definition ScatterSort :: "scatter_term list \<Rightarrow> pod option list \<Rightarrow> nat list \<Rightarrow> nat list" where
  "ScatterSort strategy pods indexes =
     (if strategy = [] \<or> length indexes \<le> 1 then indexes
      else foldl (\<lambda>idx t. scatterPodsByRule t pods idx) indexes (getScatterTerms strategy pods indexes))"

section \<open>The contract of a sorter\<close>

text \<open>
  Interface \<open>updatesort.Sorter\<close>: a sorter only permutes the indexes.  A chain of sorters, as the
  controllers apply it, does so too.
\<close>

locale update_sorter =
  fixes srt_idx :: "pod option list \<Rightarrow> nat list \<Rightarrow> nat list"
  assumes srt_idx_perm: "mset (srt_idx pods idx) = mset idx"
begin

lemma srt_idx_set: "set (srt_idx pods idx) = set idx"
  by (metis srt_idx_perm set_mset_mset)

lemma srt_idx_distinct: "distinct (srt_idx pods idx) = distinct idx"
  by (metis srt_idx_perm mset_eq_imp_distinct_iff)

lemma srt_idx_length: "length (srt_idx pods idx) = length idx"
  by (metis srt_idx_perm size_mset)

end

interpretation priority: update_sorter "PrioritySort strategy" for strategy
  by unfold_locales (simp add: PrioritySort_def split: option.splits)

lemma migrateItems_spec:
  "migrateItems src dst sz = (src', dst') \<Longrightarrow> \<exists>xs. src = xs @ src' \<and> dst' = dst @ xs"
  by (auto simp: migrateItems_def split: if_splits)

lemma migrate_loop_spec:
  "migrate_loop n g m u new = (m', u', new') \<Longrightarrow>
     \<forall>x\<in>set m. P x \<Longrightarrow> \<forall>x\<in>set u. \<not> P x \<Longrightarrow>
     filter P new' @ m' = filter P new @ m \<and> filter (\<lambda>x. \<not> P x) new' @ u' = filter (\<lambda>x. \<not> P x) new @ u
     \<and> set m' \<subseteq> set m \<and> set u' \<subseteq> set u"
proof (induction n arbitrary: m u new)
  case 0
  then show ?case by simp
next
  case (Suc n)
  obtain m1 new1 where 1: "migrateItems m new (matchedGroupSize g) = (m1, new1)" by fastforce
  obtain u1 new2 where 2: "migrateItems u new1 (unmatchedGroupSize g) = (u1, new2)" by fastforce
  obtain xs where xs: "m = xs @ m1" "new1 = new @ xs" using migrateItems_spec [OF 1] by blast
  obtain ys where ys: "u = ys @ u1" "new2 = new1 @ ys" using migrateItems_spec [OF 2] by blast
  have "migrate_loop n g m1 u1 new2 = (m', u', new')" using Suc.prems(1) by (simp add: 1 2)
  from Suc.IH [OF this] Suc.prems(2,3) show ?case
    by (auto simp: xs ys filter_empty_conv filter_id_conv)
qed

text \<open>Scattering by a term keeps the order of the matched and of the unmatched pods.\<close>

lemma scatter_filters:
  "filter (term_matches t pods) (scatterPodsByRule t pods idx) = filter (term_matches t pods) idx
   \<and> filter (\<lambda>i. \<not> term_matches t pods i) (scatterPodsByRule t pods idx) =
      filter (\<lambda>i. \<not> term_matches t pods i) idx"
proof (cases "length (filter (term_matches t pods) idx) \<le> 1 \<or>
    length (filter (\<lambda>i. \<not> term_matches t pods i) idx) \<le> 1")
  case True
  then show ?thesis by (auto simp: scatterPodsByRule_def Let_def)
next
  case False
  let ?P = "term_matches t pods"
  let ?M = "filter ?P idx" and ?U = "filter (\<lambda>i. \<not> ?P i) idx"
  let ?g = "rule_group t pods (butlast ?M) ?U"
  let ?r = "nat (unmatchedRemainder ?g)"
  obtain m' u' new where
    loop: "migrate_loop (nat (groupNum ?g)) ?g (butlast ?M) (drop ?r ?U) (take ?r ?U) = (m', u', new)"
    by (rule prod_cases3)
  then have ret: "scatterPodsByRule t pods idx = new @ m' @ u' @ [last ?M]"
    using False by (simp add: scatterPodsByRule_def Let_def)
  have "\<forall>x\<in>set (butlast ?M). ?P x" "\<forall>x\<in>set (drop ?r ?U). \<not> ?P x" "\<forall>x\<in>set (take ?r ?U). \<not> ?P x"
    by (auto dest!: in_set_butlastD in_set_dropD in_set_takeD)
  note spec = migrate_loop_spec [where P = ?P, OF loop this(1,2)] and rem = this(3)
  have "filter ?P (take ?r ?U) = []" by (rule filter_False [OF rem])
  moreover have "filter (\<lambda>x. \<not> ?P x) (take ?r ?U) = take ?r ?U" by (rule filter_True [OF rem])
  ultimately have inv: "filter ?P new @ m' = butlast ?M" "filter (\<lambda>x. \<not> ?P x) new @ u' = ?U"
    using spec by (simp_all only: append_Nil append_take_drop_id)
  have "set m' \<subseteq> set ?M" "set u' \<subseteq> set ?U"
    using spec in_set_butlastD [of _ ?M] in_set_dropD [of _ ?r ?U] by (meson subsetD subsetI)+
  then have "\<forall>x\<in>set m'. ?P x" "\<forall>x\<in>set u'. \<not> ?P x" by auto
  then have parts: "filter ?P m' = m'" "filter (\<lambda>x. \<not> ?P x) m' = []" "filter ?P u' = []"
    "filter (\<lambda>x. \<not> ?P x) u' = u'"
    by simp_all
  have ne: "?M \<noteq> []" using False by (metis le0 list.size(3) le_SucI One_nat_def)
  then have "last ?M \<in> set ?M" by (rule last_in_set)
  then have "?P (last ?M)" by simp
  moreover have "filter ?P new @ m' @ [last ?M] = ?M"
    using append_butlast_last_id [OF ne] inv(1) by (metis append_assoc)
  ultimately show ?thesis using inv(2) by (simp add: ret parts)
qed

lemma mset_filter_split: "mset xs = mset (filter P xs) + mset (filter (\<lambda>x. \<not> P x) xs)"
  by (induction xs) auto

lemma mset_scatterPodsByRule [kruise_mset]: "mset (scatterPodsByRule t pods idx) = mset idx"
proof -
  let ?P = "term_matches t pods" and ?ret = "scatterPodsByRule t pods idx"
  have "mset ?ret = mset (filter ?P ?ret) + mset (filter (\<lambda>i. \<not> ?P i) ?ret)" by (rule mset_filter_split)
  also have "\<dots> = mset (filter ?P idx) + mset (filter (\<lambda>i. \<not> ?P i) idx)"
    by (simp only: scatter_filters)
  also have "\<dots> = mset idx" by (rule mset_filter_split [symmetric])
  finally show ?thesis .
qed

interpretation scatter: update_sorter "ScatterSort strategy" for strategy
proof unfold_locales
  fix pods idx
  have "mset (foldl (\<lambda>idx t. scatterPodsByRule t pods idx) idx ts) = mset idx" for ts
    by (rule foldl_invariant [where P = "\<lambda>xs. mset xs = mset idx"]) (simp_all add: kruise_mset)
  then show "mset (ScatterSort strategy pods idx) = mset idx" by (simp add: ScatterSort_def)
qed

section \<open>Correctness of the sorters\<close>

definition weight_less :: "weight_term list \<Rightarrow> pod option list \<Rightarrow> nat \<Rightarrow> nat \<Rightarrow> bool" where
  "weight_less ws pods =
     then_by (\<lambda>i j. - getPodWeightPriority ws (labels_at pods i) < - getPodWeightPriority ws (labels_at pods j))
       (\<lambda>i j. - int i < - int j)"

definition order_less :: "string list \<Rightarrow> pod option list \<Rightarrow> nat \<Rightarrow> nat \<Rightarrow> bool" where
  "order_less ks pods =
     then_by (\<lambda>i j. fst (getPodOrderPriority ks (labels_at pods i)) < fst (getPodOrderPriority ks (labels_at pods j)))
       (then_by (\<lambda>i j. - snd (getPodOrderPriority ks (labels_at pods i)) < - snd (getPodOrderPriority ks (labels_at pods j)))
         (\<lambda>i j. - int i < - int j))"

lemma strict_weak_priority: "strict_weak (weight_less ws pods)" "strict_weak (order_less ks pods)"
  unfolding weight_less_def order_less_def
  by (intro strict_weak_then_by strict_weak_key)+

lemma priority_compare_less:
  "(\<lambda>i j. priority_compare s (labels_at pods i) (labels_at pods j) (i > j)) =
     (if WeightPriority s \<noteq> [] then weight_less (WeightPriority s) pods
      else if OrderPriority s \<noteq> [] then order_less (OrderPriority s) pods else (\<lambda>i j. i > j))"
  by (intro ext) (auto simp: priority_compare_def weight_less_def order_less_def then_by_def Let_def
      case_prod_beta)

lemma sorted_by_antisym:
  assumes "sorted_by lss xs" and "distinct xs"
    and "\<And>x y. x \<noteq> y \<Longrightarrow> \<not> lss y x \<Longrightarrow> lss x y"
  shows "sorted_wrt lss xs"
  using assms(1,2) by (induction xs) (auto intro: assms(3))

text \<open>
  sorting distinct positions by a weight priority returns a permutation of them in which every
  pod has at least the weight of the pods behind it, pods of equal weight standing from the highest
  position to the lowest.
\<close>

theorem priority_sort_weight:
  assumes "WeightPriority s \<noteq> []" and "distinct idx"
  shows "mset (PrioritySort (Some s) pods idx) = mset idx
    \<and> sorted_wrt (\<lambda>i j. getPodWeightPriority (WeightPriority s) (labels_at pods i)
          > getPodWeightPriority (WeightPriority s) (labels_at pods j)
        \<or> (getPodWeightPriority (WeightPriority s) (labels_at pods i)
            = getPodWeightPriority (WeightPriority s) (labels_at pods j) \<and> i > j))
      (PrioritySort (Some s) pods idx)"
proof
  show perm: "mset (PrioritySort (Some s) pods idx) = mset idx" by (rule priority.srt_idx_perm)
  let ?r = "PrioritySort (Some s) pods idx"
  have "?r = go_sort (weight_less (WeightPriority s) pods) idx"
    using assms(1) priority_compare_less [of s pods] by (simp add: PrioritySort_def)
  then have "sorted_by (weight_less (WeightPriority s) pods) ?r"
    by (simp add: sorted_go_sort strict_weak_priority)
  moreover have "distinct ?r" using assms(2) by (simp add: priority.srt_idx_distinct)
  ultimately have "sorted_wrt (weight_less (WeightPriority s) pods) ?r"
    by (rule sorted_by_antisym) (auto simp: weight_less_def then_by_def)
  then show "sorted_wrt (\<lambda>i j. getPodWeightPriority (WeightPriority s) (labels_at pods i)
          > getPodWeightPriority (WeightPriority s) (labels_at pods j)
        \<or> (getPodWeightPriority (WeightPriority s) (labels_at pods i)
            = getPodWeightPriority (WeightPriority s) (labels_at pods j) \<and> i > j)) ?r"
    by (rule sorted_wrt_mono_rel [rotated]) (auto simp: weight_less_def then_by_def)
qed

text \<open>Two pods, the second of them with the label of weight 10.\<close>

definition sort_pods :: "pod option list" where
  "sort_pods = [Some zero_pod, Some (zero_pod\<lparr>Labels := [''tier'' \<mapsto> ''web-7'']\<rparr>), Some zero_pod]"

definition weight_web :: update_priority where
  "weight_web = \<lparr>OrderPriority = [], WeightPriority =
     [\<lparr>Weight = 10, MatchSelector = \<lparr>MatchLabels = [(''tier'', ''web-7'')], MatchExpressions = []\<rparr>\<rparr>]\<rparr>"

theorem priority_sort_weight_witness:
  "PrioritySort (Some weight_web) sort_pods [0, 1, 2] = [1, 2, 0]
   \<and> mset (PrioritySort (Some weight_web) sort_pods [0, 1, 2]) = mset [0, 1, 2]"
proof
  show "mset (PrioritySort (Some weight_web) sort_pods [0, 1, 2]) = mset [0, 1, 2]"
    using priority_sort_weight [of weight_web "[0, 1, 2]" sort_pods] by (simp add: weight_web_def)
  show "PrioritySort (Some weight_web) sort_pods [0, 1, 2] = [1, 2, 0]"
    by (simp add: PrioritySort_def weight_web_def sort_pods_def go_sort_def priority_compare_def labels_at_def
        getPodWeightPriority_def ValidatedLabelSelectorAsSelector_def newRequirement_def zero_defs)
qed

text \<open>
  sorting distinct positions by an order priority returns a permutation of them in which pods
  stand by the first ordered key they carry (pods with none of the keys first), then by falling
  number at the end of the key's value, then by falling position.
\<close>

theorem priority_sort_order:
  assumes "WeightPriority s = []" and "OrderPriority s \<noteq> []" and "distinct idx"
  shows "mset (PrioritySort (Some s) pods idx) = mset idx
    \<and> sorted_wrt (\<lambda>i j.
        let (li, oi) = getPodOrderPriority (OrderPriority s) (labels_at pods i);
            (lj, oj) = getPodOrderPriority (OrderPriority s) (labels_at pods j)
        in li < lj \<or> (li = lj \<and> (oi > oj \<or> (oi = oj \<and> i > j))))
      (PrioritySort (Some s) pods idx)"
proof
  show perm: "mset (PrioritySort (Some s) pods idx) = mset idx" by (rule priority.srt_idx_perm)
  let ?r = "PrioritySort (Some s) pods idx"
  have "?r = go_sort (order_less (OrderPriority s) pods) idx"
    using assms(1,2) priority_compare_less [of s pods] by (simp add: PrioritySort_def)
  then have "sorted_by (order_less (OrderPriority s) pods) ?r"
    by (simp add: sorted_go_sort strict_weak_priority)
  moreover have "distinct ?r" using assms(3) by (simp add: priority.srt_idx_distinct)
  ultimately have "sorted_wrt (order_less (OrderPriority s) pods) ?r"
    by (rule sorted_by_antisym) (auto simp: order_less_def then_by_def)
  then show "sorted_wrt (\<lambda>i j.
        let (li, oi) = getPodOrderPriority (OrderPriority s) (labels_at pods i);
            (lj, oj) = getPodOrderPriority (OrderPriority s) (labels_at pods j)
        in li < lj \<or> (li = lj \<and> (oi > oj \<or> (oi = oj \<and> i > j)))) ?r"
    by (rule sorted_wrt_mono_rel [rotated])
      (auto simp: order_less_def then_by_def Let_def split: prod.splits)
qed

theorem priority_sort_order_witness:
  "mset (PrioritySort (Some \<lparr>OrderPriority = [''tier''], WeightPriority = []\<rparr>) sort_pods [0, 1, 2]) = mset [0, 1, 2]
   \<and> PrioritySort (Some \<lparr>OrderPriority = [''tier''], WeightPriority = []\<rparr>) sort_pods [0, 1, 2] = [2, 0, 1]"
proof
  show "mset (PrioritySort (Some \<lparr>OrderPriority = [''tier''], WeightPriority = []\<rparr>) sort_pods [0, 1, 2]) = mset [0, 1, 2]"
    using priority_sort_order [of "\<lparr>OrderPriority = [''tier''], WeightPriority = []\<rparr>" "[0, 1, 2]" sort_pods] by simp
  show "PrioritySort (Some \<lparr>OrderPriority = [''tier''], WeightPriority = []\<rparr>) sort_pods [0, 1, 2] = [2, 0, 1]"
    by (simp add: PrioritySort_def sort_pods_def go_sort_def priority_compare_def labels_at_def
        getPodOrderPriority_def zero_defs)
qed

text \<open>
  scattering by the terms of a strategy permutes the positions, and scattering by one term keeps
  both the order of the pods that match the term and the order of those that do not.
\<close>

theorem scatter_sort_order:
  "mset (ScatterSort strategy pods idx) = mset idx
   \<and> filter (term_matches t pods) (scatterPodsByRule t pods idx) = filter (term_matches t pods) idx
   \<and> filter (\<lambda>i. \<not> term_matches t pods i) (scatterPodsByRule t pods idx) =
      filter (\<lambda>i. \<not> term_matches t pods i) idx"
  using scatter.srt_idx_perm scatter_filters by blast

text \<open>
  the number at the end of a label's value is read back from any prefix that does not end in a
  digit, for numbers of 63 bits.
\<close>

theorem suffix_int_roundtrip:
  assumes "pre = [] \<or> \<not> is_digit (last pre)" and "n < 2 ^ 63"
  shows "getIntFromStringSuffix (pre @ show_nat n) = int n"
proof -
  have "takeWhile is_digit (rev (pre @ show_nat n)) = rev (show_nat n)"
  proof -
    have "\<forall>c\<in>set (rev (show_nat n)). is_digit c" using show_nat_digits [of n] by (simp add: list_all_iff)
    then have "takeWhile is_digit (rev (show_nat n) @ rev pre) = rev (show_nat n) @ takeWhile is_digit (rev pre)"
      by (intro takeWhile_append2) blast
    moreover have "takeWhile is_digit (rev pre) = []"
      using assms(1) by (cases pre rule: rev_cases) auto
    ultimately show ?thesis by simp
  qed
  with assms(2) show ?thesis by (simp add: getIntFromStringSuffix_def ParseInt_show_nat)
qed

end
