(* ===== verification/Lifecycle.thy ===== *)
theory Lifecycle
  imports Pod_Readiness
begin

text \<open>
  The lifecycle of pods and its hooks (\<open>apis/apps/pub/lifecycle.go\<close>, \<open>pkg/util/lifecycle\<close>), the
  specified-delete label (\<open>pkg/util/specifieddelete\<close>) and the test for an updated pod
  (\<open>pkg/util/revision\<close>).  A strategic merge patch is represented by what it sets; what the API server
  does with it is a law of the store.  The text of a time stamp is a function of the time.
\<close>

section \<open>Patches\<close>

record pod_patch =
  PatchLabels :: "(string \<times> string) list"
  PatchAnnotations :: "(string \<times> string) list"
  PatchFinalizers :: "string list"

text \<open>An adapter that may offer patches.\<close>

record 'w patch_adapter = "'w pod_adapter" +
  PatchPod :: "(pod \<Rightarrow> pod_patch \<Rightarrow> 'w \<Rightarrow> (api_error + pod) \<times> 'w) option"

definition set_labels :: "(string \<times> string) list \<Rightarrow> labels \<Rightarrow> labels" where
  "set_labels kvs m = foldl (\<lambda>m (k, v). m(k \<mapsto> v)) m kvs"

definition set_annotations :: "(string \<times> string) list \<Rightarrow> (string \<rightharpoonup> anno) \<Rightarrow> (string \<rightharpoonup> anno)" where
  "set_annotations kvs m = foldl (\<lambda>m (k, v). m(k \<mapsto> Text v)) m kvs"

text \<open>The documented merge: maps are merged, the list of finalizers gains the missing ones.\<close>

definition apply_patch :: "pod_patch \<Rightarrow> pod \<Rightarrow> pod" where
  "apply_patch patch p =
     p\<lparr>Labels := set_labels (PatchLabels patch) (Labels p),
       Annotations := set_annotations (PatchAnnotations patch) (Annotations p),
       Finalizers := Finalizers p @ filter (\<lambda>f. f \<notin> set (Finalizers p)) (PatchFinalizers patch)\<rparr>"

section \<open>Lifecycle\<close>

record lifecycle_hook =
  LabelsHandler :: "(string \<times> string) list"
  FinalizersHandler :: "string list"
  MarkPodNotReady :: bool

record lifecycle =
  PreDelete :: "lifecycle_hook option"
  InPlaceUpdate :: "lifecycle_hook option"
  PreNormal :: "lifecycle_hook option"

definition LifecycleStateKey :: string where "LifecycleStateKey = ''lifecycle.apps.kruise.io/state''"
definition LifecycleTimestampKey :: string where
  "LifecycleTimestampKey = ''lifecycle.apps.kruise.io/timestamp''"
definition StatePreparingNormal :: string where "StatePreparingNormal = ''PreparingNormal''"
definition StateNormal :: string where "StateNormal = ''Normal''"
definition StatePreparingUpdate :: string where "StatePreparingUpdate = ''PreparingUpdate''"
definition StateUpdating :: string where "StateUpdating = ''Updating''"
definition StateUpdated :: string where "StateUpdated = ''Updated''"
definition StatePreparingDelete :: string where "StatePreparingDelete = ''PreparingDelete''"

lemmas state_defs = StatePreparingNormal_def StateNormal_def StatePreparingUpdate_def StateUpdating_def
  StateUpdated_def StatePreparingDelete_def LifecycleStateKey_def LifecycleTimestampKey_def

definition KruisePodReady :: string where "KruisePodReady = ''KruisePodReady''"

definition GetPodLifecycleState :: "pod \<Rightarrow> string" where
  "GetPodLifecycleState p = lget (Labels p) LifecycleStateKey"

definition IsHookMarkPodNotReady :: "lifecycle_hook option \<Rightarrow> bool" where
  "IsHookMarkPodNotReady h = (case h of None \<Rightarrow> False | Some h \<Rightarrow> MarkPodNotReady h)"

definition IsLifecycleMarkPodNotReady :: "lifecycle option \<Rightarrow> bool" where
  "IsLifecycleMarkPodNotReady l =
     (case l of None \<Rightarrow> False
      | Some l \<Rightarrow> IsHookMarkPodNotReady (PreDelete l) \<or> IsHookMarkPodNotReady (InPlaceUpdate l))"

definition SetPodLifecycle :: "(int \<Rightarrow> string) \<Rightarrow> int \<Rightarrow> string \<Rightarrow> pod \<Rightarrow> pod" where
  "SetPodLifecycle rfc3339 now state p =
     p\<lparr>Labels := (Labels p)(LifecycleStateKey \<mapsto> state),
       Annotations := (Annotations p)(LifecycleTimestampKey \<mapsto> Text (rfc3339 now))\<rparr>"

definition getReadinessMessage :: "string \<Rightarrow> message" where
  "getReadinessMessage key = \<lparr>UserAgent = ''Lifecycle'', Key = key\<rparr>"

definition executePodNotReadyPolicy ::
  "message_sorter \<Rightarrow> ('w, 'x) pod_adapter_scheme \<Rightarrow> int \<Rightarrow> pod \<Rightarrow> string \<Rightarrow> 'w \<Rightarrow> api_error option \<times> 'w" where
  "executePodNotReadyPolicy srt adp now p state w =
     (if state = StatePreparingDelete then
        addNotReadyKey srt (pod_adapter.truncate adp) now p (getReadinessMessage ''preDeleteHook'') KruisePodReady w
      else if state = StatePreparingUpdate then
        addNotReadyKey srt (pod_adapter.truncate adp) now p (getReadinessMessage ''preUpdateHook'') KruisePodReady w
      else if state = StateUpdated then
        removeNotReadyKey srt (pod_adapter.truncate adp) now p (getReadinessMessage ''preUpdateHook'') KruisePodReady w
      else (None, w))"

text \<open>The result of an update: whether the pod was written, and the pod or an error.\<close>

definition UpdatePodLifecycle ::
  "message_sorter \<Rightarrow> (int \<Rightarrow> string) \<Rightarrow> 'w patch_adapter \<Rightarrow> int \<Rightarrow> pod \<Rightarrow> string \<Rightarrow> bool \<Rightarrow> 'w
   \<Rightarrow> (bool \<times> (api_error + pod)) \<times> 'w" where
  "UpdatePodLifecycle srt rfc3339 adp now p state markPodNotReady w =
     (let (err, w1) = (if markPodNotReady then executePodNotReadyPolicy srt adp now p state w else (None, w))
      in case err of
           Some e \<Rightarrow> ((False, Inl e), w1)
         | None \<Rightarrow>
             if GetPodLifecycleState p = state then ((False, Inr p), w1)
             else
               let (r, w2) =
                 (case PatchPod adp of
                    Some patch \<Rightarrow>
                      patch p \<lparr>PatchLabels = [(LifecycleStateKey, state)],
                               PatchAnnotations = [(LifecycleTimestampKey, rfc3339 now)], PatchFinalizers = []\<rparr> w1
                  | None \<Rightarrow> UpdatePod adp (SetPodLifecycle rfc3339 now state p) w1)
               in ((True, r), w2))"

definition UpdatePodLifecycleWithHandler ::
  "message_sorter \<Rightarrow> (int \<Rightarrow> string) \<Rightarrow> 'w patch_adapter \<Rightarrow> int \<Rightarrow> pod \<Rightarrow> string \<Rightarrow> lifecycle_hook option \<Rightarrow> 'w
   \<Rightarrow> (bool \<times> (api_error + pod)) \<times> 'w" where
  "UpdatePodLifecycleWithHandler srt rfc3339 adp now p state handler w =
     (case handler of
        None \<Rightarrow> ((False, Inr p), w)
      | Some h \<Rightarrow>
          let (err, w1) = (if MarkPodNotReady h then executePodNotReadyPolicy srt adp now p state w else (None, w))
          in case err of
               Some e \<Rightarrow> ((False, Inl e), w1)
             | None \<Rightarrow>
                 if GetPodLifecycleState p = state then ((False, Inr p), w1)
                 else
                   let (r, w2) =
                     (case PatchPod adp of
                        Some patch \<Rightarrow>
                          patch p \<lparr>PatchLabels = (LifecycleStateKey, state) # LabelsHandler h,
                                   PatchAnnotations = [(LifecycleTimestampKey, rfc3339 now)],
                                   PatchFinalizers = FinalizersHandler h\<rparr> w1
                      | None \<Rightarrow>
                          UpdatePod adp (SetPodLifecycle rfc3339 now state
                            (p\<lparr>Labels := set_labels (LabelsHandler h) (Labels p),
                               Finalizers := Finalizers p @ FinalizersHandler h\<rparr>)) w1)
                   in ((True, r), w2))"

definition IsPodHooked :: "lifecycle_hook option \<Rightarrow> pod \<Rightarrow> bool" where
  "IsPodHooked hook p =
     (case hook of None \<Rightarrow> False
      | Some h \<Rightarrow> list_ex (\<lambda>f. f \<in> set (Finalizers p)) (FinalizersHandler h)
                  \<or> list_ex (\<lambda>(k, v). lget (Labels p) k = v) (LabelsHandler h))"

definition IsPodAllHooked :: "lifecycle_hook option \<Rightarrow> pod \<Rightarrow> bool" where
  "IsPodAllHooked hook p =
     (case hook of None \<Rightarrow> False
      | Some h \<Rightarrow> list_all (\<lambda>f. f \<in> set (Finalizers p)) (FinalizersHandler h)
                  \<and> list_all (\<lambda>(k, v). lget (Labels p) k = v) (LabelsHandler h))"

section \<open>Specified delete, updated pods\<close>

definition SpecifiedDeleteKey :: string where "SpecifiedDeleteKey = ''apps.kruise.io/specified-delete''"

definition IsSpecifiedDelete :: "'a object_meta_scheme \<Rightarrow> bool" where
  "IsSpecifiedDelete obj \<longleftrightarrow> Labels obj SpecifiedDeleteKey \<noteq> None"

definition PatchPodSpecifiedDelete ::
  "(pod \<Rightarrow> pod_patch \<Rightarrow> 'w \<Rightarrow> (api_error + pod) \<times> 'w) \<Rightarrow> pod \<Rightarrow> string \<Rightarrow> 'w
   \<Rightarrow> (bool \<times> (api_error + pod)) \<times> 'w" where
  "PatchPodSpecifiedDelete patch p value w =
     (if Labels p SpecifiedDeleteKey \<noteq> None then ((False, Inr p), w)
      else let (r, w') = patch p \<lparr>PatchLabels = [(SpecifiedDeleteKey, value)], PatchAnnotations = [],
                                   PatchFinalizers = []\<rparr> w
           in ((True, r), w'))"

definition ControllerRevisionHashLabelKey :: string where
  "ControllerRevisionHashLabelKey = ''controller-revision-hash''"

definition getShortHash :: "string \<Rightarrow> string" where
  "getShortHash hash = last (split_on (CHR ''-'') hash)"

definition equalToRevisionHash :: "pod \<Rightarrow> string \<Rightarrow> bool" where
  "equalToRevisionHash p hash =
     (let objHash = lget (Labels p) ControllerRevisionHashLabelKey
      in objHash = hash \<or> getShortHash hash = getShortHash objHash)"

text \<open>The feature gate \<open>PreparingUpdateAsUpdate\<close> is an argument.\<close>

definition IsPodUpdate :: "bool \<Rightarrow> pod \<Rightarrow> string \<Rightarrow> bool" where
  "IsPodUpdate PreparingUpdateAsUpdate p updateRevision =
     (if PreparingUpdateAsUpdate \<and> GetPodLifecycleState p = StatePreparingUpdate then True
      else equalToRevisionHash p updateRevision)"

section \<open>What the writes of a lifecycle rely on\<close>

locale lifecycle_adapter =
  fixes adp :: "'w patch_adapter"
  assumes update_returns: "UpdatePod adp p w = (Inr q, w') \<Longrightarrow>
      Labels q = Labels p \<and> Annotations q = Annotations p \<and> Finalizers q = Finalizers p"
    and patch_returns: "PatchPod adp = Some patch \<Longrightarrow> patch p pt w = (Inr q, w') \<Longrightarrow>
      \<exists>base. Labels q = Labels (apply_patch pt base) \<and> Annotations q = Annotations (apply_patch pt base)
        \<and> Finalizers q = Finalizers (apply_patch pt base)"
begin

lemma written_pod:
  assumes "(case PatchPod adp of Some patch \<Rightarrow> patch p pt w | None \<Rightarrow> UpdatePod adp p' w) = (Inr q, w')"
    and "\<And>base. P (Labels (apply_patch pt base)) (Finalizers (apply_patch pt base))"
    and "P (Labels p') (Finalizers p')"
  shows "P (Labels q) (Finalizers q)"
proof (cases "PatchPod adp")
  case None
  then show ?thesis using assms(1,3) update_returns [of p' w q w'] by simp
next
  case (Some patch)
  then obtain base where "Labels q = Labels (apply_patch pt base)" "Finalizers q = Finalizers (apply_patch pt base)"
    using assms(1) patch_returns [OF Some, of p pt w q w'] by auto
  then show ?thesis using assms(2) [of base] by simp
qed

end

definition InformerLifecycle :: "pod_index patch_adapter" where
  "InformerLifecycle = pod_adapter.extend AdapterInformer \<lparr>PatchPod = None\<rparr>"

interpretation informer_lifecycle: lifecycle_adapter InformerLifecycle
  by unfold_locales
    (auto simp: InformerLifecycle_def pod_adapter.defs AdapterInformer_def informer_UpdatePod_def)

lemma set_labels_Cons [simp]: "set_labels ((k, v) # kvs) m = set_labels kvs (m(k \<mapsto> v))"
  by (simp add: set_labels_def)

lemma set_labels_Nil [simp]: "set_labels [] m = m"
  by (simp add: set_labels_def)

lemma set_labels_other: "k \<notin> fst ` set kvs \<Longrightarrow> set_labels kvs m k = m k"
  by (induction kvs arbitrary: m) auto

lemma set_labels_distinct:
  "distinct (map fst kvs) \<Longrightarrow> (k, v) \<in> set kvs \<Longrightarrow> set_labels kvs m k = Some v"
proof (induction kvs arbitrary: m)
  case (Cons kv kvs)
  then show ?case by (cases kv) (auto simp: set_labels_other rev_image_eqI)
qed simp

text \<open>A hook's label handler is a Go map that does not set the lifecycle state itself.\<close>

definition wf_hook :: "lifecycle_hook \<Rightarrow> bool" where
  "wf_hook h \<longleftrightarrow> distinct (map fst (LabelsHandler h)) \<and> LifecycleStateKey \<notin> fst ` set (LabelsHandler h)"

definition hook_applied :: "lifecycle_hook \<Rightarrow> string \<Rightarrow> labels \<Rightarrow> string list \<Rightarrow> bool" where
  "hook_applied h state ls fs \<longleftrightarrow> ls LifecycleStateKey = Some state
     \<and> (\<forall>(k, v)\<in>set (LabelsHandler h). ls k = Some v) \<and> set (FinalizersHandler h) \<subseteq> set fs"

lemma hook_applied_patch:
  assumes "wf_hook h"
  shows "hook_applied h state
    (Labels (apply_patch \<lparr>PatchLabels = (LifecycleStateKey, state) # LabelsHandler h,
       PatchAnnotations = ann, PatchFinalizers = FinalizersHandler h\<rparr> base))
    (Finalizers (apply_patch \<lparr>PatchLabels = (LifecycleStateKey, state) # LabelsHandler h,
       PatchAnnotations = ann, PatchFinalizers = FinalizersHandler h\<rparr> base))"
  using assms by (auto simp: hook_applied_def apply_patch_def wf_hook_def set_labels_other set_labels_distinct)

lemma hook_applied_update:
  assumes "wf_hook h"
  shows "hook_applied h state
    (Labels (SetPodLifecycle rfc now state (p\<lparr>Labels := set_labels (LabelsHandler h) (Labels p), Finalizers := fs @ FinalizersHandler h\<rparr>)))
    (Finalizers (SetPodLifecycle rfc now state (p\<lparr>Labels := set_labels (LabelsHandler h) (Labels p), Finalizers := fs @ FinalizersHandler h\<rparr>)))"
  using assms
  by (auto simp: hook_applied_def SetPodLifecycle_def wf_hook_def set_labels_distinct rev_image_eqI)

text \<open>
  C13: when \<open>UpdatePodLifecycleWithHandler\<close> has written a pod, the pod it returns is in the requested
  state and carries every label and finalizer of the hook, so \<open>IsPodAllHooked\<close> holds of it.
\<close>

theorem lifecycle_with_handler_hooks:
  assumes "lifecycle_adapter adp" and "wf_hook h"
    and "UpdatePodLifecycleWithHandler srt rfc3339 adp now p state (Some h) w = ((True, Inr q), w')"
  shows "GetPodLifecycleState q = state \<and> IsPodAllHooked (Some h) q"
proof -
  let ?pt = "\<lparr>PatchLabels = (LifecycleStateKey, state) # LabelsHandler h,
      PatchAnnotations = [(LifecycleTimestampKey, rfc3339 now)], PatchFinalizers = FinalizersHandler h\<rparr>"
  let ?p = "SetPodLifecycle rfc3339 now state (p\<lparr>Labels := set_labels (LabelsHandler h) (Labels p),
      Finalizers := Finalizers p @ FinalizersHandler h\<rparr>)"
  obtain w1 where "(case PatchPod adp of Some patch \<Rightarrow> patch p ?pt w1 | None \<Rightarrow> UpdatePod adp ?p w1) = (Inr q, w')"
    using assms(3)
    by (auto simp: UpdatePodLifecycleWithHandler_def Let_def split: prod.splits option.splits if_splits)
  from lifecycle_adapter.written_pod [OF assms(1) this, where P = "hook_applied h state"]
  have "hook_applied h state (Labels q) (Finalizers q)"
    using hook_applied_patch [OF assms(2)] hook_applied_update [OF assms(2)] by blast
  then show ?thesis
    by (auto simp: hook_applied_def GetPodLifecycleState_def IsPodAllHooked_def lget_def list_all_iff
        split: option.splits)
qed

theorem lifecycle_with_handler_hooks_witness:
  "\<exists>q w'. UpdatePodLifecycleWithHandler go_sort (\<lambda>t. show_int t) InformerLifecycle 9 gate_pod StateUpdating
       (Some \<lparr>LabelsHandler = [(''hook'', ''on'')], FinalizersHandler = [''unready''], MarkPodNotReady = False\<rparr>)
       Map.empty = ((True, Inr q), w')
     \<and> GetPodLifecycleState q = StateUpdating \<and> ''unready'' \<in> set (Finalizers q)"
proof -
  let ?h = "\<lparr>LabelsHandler = [(''hook'', ''on'')], FinalizersHandler = [''unready''], MarkPodNotReady = False\<rparr>"
  let ?u = "UpdatePodLifecycleWithHandler go_sort (\<lambda>t. show_int t) InformerLifecycle 9 gate_pod StateUpdating
      (Some ?h) Map.empty"
  have "fst (fst ?u) \<and> \<not> isl (snd (fst ?u))"
    by (simp add: UpdatePodLifecycleWithHandler_def InformerLifecycle_def pod_adapter.defs AdapterInformer_def
        informer_UpdatePod_def GetPodLifecycleState_def gate_pod_def zero_defs state_defs)
  moreover obtain b r w' where bw: "?u = ((b, r), w')" by (metis surj_pair)
  ultimately obtain q where u: "?u = ((True, Inr q), w')" by (cases r) auto
  have "wf_hook ?h" by (simp add: wf_hook_def state_defs)
  from lifecycle_with_handler_hooks [OF informer_lifecycle.lifecycle_adapter_axioms this u] u
  show ?thesis by (auto simp: IsPodAllHooked_def)
qed

end
