(* ===== verification/Inplace_Update.thy ===== *)
theory Inplace_Update
  imports Lifecycle "HOL-Library.AList"
begin

text \<open>
  In-place updates of pods: \<open>pkg/util/inplaceupdate\<close>, with the container priorities of
  \<open>pkg/util/containerlaunchpriority\<close> and the environment hashes of \<open>pkg/util/containermeta\<close>.
  Third-party code is an argument: the strategic merge of a metadata patch, the hash of a container
  and the hash of a list of variables.  A Go map that is ranged over is an association list; its
  order stands for the order of the range.  A slice out of range or a nil dereference, which panics,
  is the error \<open>panicked\<close>.
\<close>

section \<open>Container priorities and metadata variables\<close>

definition ContainerLaunchBarrierEnvName :: string where
  "ContainerLaunchBarrierEnvName = ''KRUISE_CONTAINER_BARRIER''"

abbreviation panicked :: api_error where "panicked \<equiv> OtherError ''panic''"

text \<open>The value of \<open>p, _ := strconv.Atoi(s)\<close>: 0 on a syntax error, the bound on overflow.\<close>

definition atoi_val :: "string \<Rightarrow> int" where
  "atoi_val s =
     (case Atoi s of
        Some i \<Rightarrow> i
      | None \<Rightarrow>
          let t = (if s \<noteq> [] \<and> (hd s = CHR ''+'' \<or> hd s = CHR ''-'') then tl s else s)
          in if t \<noteq> [] \<and> list_all is_digit t
             then (if hd s = CHR ''-'' then - (2 ^ 63) else 2 ^ 63 - 1) else 0)"

fun env_priority :: "env_var list \<Rightarrow> api_error + int option" where
  "env_priority [] = Inr None"
| "env_priority (e # es) =
     (if EnvName e = ContainerLaunchBarrierEnvName then
        (case ConfigMapKey e of
           None \<Rightarrow> Inl panicked
         | Some k \<Rightarrow> if length k < 2 then Inl panicked else Inr (Some (atoi_val (drop 2 k))))
      else env_priority es)"

definition GetContainerPriority :: "container \<Rightarrow> api_error + int option" where
  "GetContainerPriority c = env_priority (Env c)"

definition GetKey :: "int \<Rightarrow> string" where
  "GetKey priority = ''p_'' @ show_int priority"

definition GeneratePriorityEnv :: "int \<Rightarrow> string \<Rightarrow> env_var" where
  "GeneratePriorityEnv priority podName =
     \<lparr>EnvName = ContainerLaunchBarrierEnvName, EnvValue = [], FieldPath = None,
      ConfigMapKey = Some (GetKey priority)\<rparr>"

text \<open>Cutting at the first occurrence of the two bytes that open a subscript.\<close>

fun cut2 :: "string \<Rightarrow> (string \<times> string) option" where
  "cut2 [] = None"
| "cut2 [c] = None"
| "cut2 (a # b # s) =
     (if a = CHR ''['' \<and> b = CHR 0x27 then Some ([], s)
      else map_option (\<lambda>(l, r). (a # l, r)) (cut2 (b # s)))"

definition SplitMaybeSubscriptedPath :: "string \<Rightarrow> (string \<times> string) option" where
  "SplitMaybeSubscriptedPath fp =
     (if length fp < 2 \<or> drop (length fp - 2) fp \<noteq> [CHR 0x27, CHR '']''] then None
      else case cut2 (take (length fp - 2) fp) of
             None \<Rightarrow> None
           | Some (l, r) \<Rightarrow> if l = [] then None else Some (l, r))"

definition excludeEnvs :: "string list" where
  "excludeEnvs = [''SIDECARSET_VERSION'', ''SIDECARSET_VERSION_ALT'']"

definition env_subscript :: "env_var \<Rightarrow> (string \<times> string) option" where
  "env_subscript e =
     (case FieldPath e of
        None \<Rightarrow> None
      | Some fp \<Rightarrow> if EnvValue e \<noteq> [] \<or> EnvName e \<in> set excludeEnvs then None
                    else SplitMaybeSubscriptedPath fp)"

definition IsContainerReferenceToMeta :: "container \<Rightarrow> string \<Rightarrow> string \<Rightarrow> bool" where
  "IsContainerReferenceToMeta c path key = list_ex (\<lambda>e. env_subscript e = Some (path, key)) (Env c)"

definition anno_get :: "(string \<rightharpoonup> anno) \<Rightarrow> string \<Rightarrow> anno" where
  "anno_get m k = (case m k of None \<Rightarrow> Text [] | Some v \<Rightarrow> v)"

text \<open>The variables that the metadata determines: name and value.\<close>

definition meta_envs :: "container \<Rightarrow> pod \<Rightarrow> (string \<times> anno) list" where
  "meta_envs c p =
     concat (map (\<lambda>e. case env_subscript e of
         None \<Rightarrow> []
       | Some (path, subscript) \<Rightarrow>
           if path = ''metadata.annotations'' then [(EnvName e, anno_get (Annotations p) subscript)]
           else if path = ''metadata.labels'' then [(EnvName e, Text (lget (Labels p) subscript))]
           else []) (Env c))"

definition GetExpectHash :: "((string \<times> anno) list \<Rightarrow> nat) \<Rightarrow> container \<Rightarrow> pod \<Rightarrow> nat" where
  "GetExpectHash hashEnvs c p = hashEnvs (go_sort (\<lambda>a b. fst a < fst b) (meta_envs c p))"

fun current_envs :: "(string \<Rightarrow> string option) \<Rightarrow> env_var list \<Rightarrow> (string \<times> anno) list option" where
  "current_envs getter [] = Some []"
| "current_envs getter (e # es) =
     (case env_subscript e of
        None \<Rightarrow> current_envs getter es
      | Some (path, _) \<Rightarrow>
          if path = ''metadata.annotations'' \<or> path = ''metadata.labels'' then
            (case getter (EnvName e) of
               None \<Rightarrow> None
             | Some v \<Rightarrow> map_option (\<lambda>r. (EnvName e, Text v) # r) (current_envs getter es))
          else current_envs getter es)"

definition GetCurrentHash :: "((string \<times> anno) list \<Rightarrow> nat) \<Rightarrow> container \<Rightarrow> (string \<Rightarrow> string option) \<Rightarrow> nat option" where
  "GetCurrentHash hashEnvs c getter =
     map_option (\<lambda>es. hashEnvs (go_sort (\<lambda>a b. fst a < fst b) es)) (current_envs getter (Env c))"

section \<open>Choosing the containers of a batch\<close>

record selection =
  toUpdate :: "string set"
  highestPriority :: "int option"
  withHighest :: "string list"

definition select_step :: "update_spec \<Rightarrow> container \<Rightarrow> selection \<Rightarrow> api_error + selection" where
  "select_step spec c sel =
     (if map_of (ContainerImages spec) (CName c) = None \<and> map_of (ContainerRefMetadata spec) (CName c) = None
      then Inr sel
      else case GetContainerPriority c of
             Inl e \<Rightarrow> Inl e
           | Inr None \<Rightarrow> Inr (sel\<lparr>toUpdate := insert (CName c) (toUpdate sel)\<rparr>)
           | Inr (Some priority) \<Rightarrow>
               (case highestPriority sel of
                  None \<Rightarrow> Inr (sel\<lparr>highestPriority := Some priority, withHighest := [CName c]\<rparr>)
                | Some h \<Rightarrow>
                    Inr (if h < priority then sel\<lparr>highestPriority := Some priority, withHighest := [CName c]\<rparr>
                         else if h = priority then sel\<lparr>withHighest := withHighest sel @ [CName c]\<rparr> else sel)))"

fun select_loop :: "update_spec \<Rightarrow> container list \<Rightarrow> selection \<Rightarrow> api_error + selection" where
  "select_loop spec [] sel = Inr sel"
| "select_loop spec (c # cs) sel =
     (case select_step spec c sel of Inl e \<Rightarrow> Inl e | Inr sel' \<Rightarrow> select_loop spec cs sel')"

definition select_containers :: "update_spec \<Rightarrow> container list \<Rightarrow> api_error + string set" where
  "select_containers spec cs =
     (case select_loop spec cs \<lparr>toUpdate = {}, highestPriority = None, withHighest = []\<rparr> of
        Inl e \<Rightarrow> Inl e
      | Inr sel \<Rightarrow> Inr (toUpdate sel \<union> set (withHighest sel)))"

text \<open>Containers that read a label or annotation which an updated container changes are updated too.\<close>

definition meta_keys :: "(string \<times> ref_metadata) list \<Rightarrow> string set \<Rightarrow> (ref_metadata \<Rightarrow> (string \<times> string) list) \<Rightarrow> string set" where
  "meta_keys md new field = (\<Union>c\<in>new. case map_of md c of None \<Rightarrow> {} | Some m \<Rightarrow> fst ` set (field m))"

definition shares :: "(string \<times> ref_metadata) list \<Rightarrow> string set \<Rightarrow> string set \<Rightarrow> string \<Rightarrow> bool" where
  "shares md ls as c =
     (case map_of md c of
        None \<Rightarrow> False
      | Some m \<Rightarrow> list_ex (\<lambda>(k, v). k \<in> ls) (RefLabels m) \<or> list_ex (\<lambda>(k, v). k \<in> as) (RefAnnotations m))"

function shared_loop ::
  "(string \<times> ref_metadata) list \<Rightarrow> string set \<Rightarrow> string set \<Rightarrow> string set \<Rightarrow> string set \<Rightarrow> string set" where
  "shared_loop md labelsToUpdate annotationsToUpdate newToUpdate containersToUpdate =
     (if newToUpdate = {} then containersToUpdate
      else let labelsToUpdate' = labelsToUpdate \<union> meta_keys md newToUpdate RefLabels;
               annotationsToUpdate' = annotationsToUpdate \<union> meta_keys md newToUpdate RefAnnotations;
               newToUpdate' = {c \<in> fst ` set md. c \<notin> containersToUpdate
                                 \<and> shares md labelsToUpdate' annotationsToUpdate' c}
           in shared_loop md labelsToUpdate' annotationsToUpdate' newToUpdate'
                (containersToUpdate \<union> newToUpdate'))"
  by pat_completeness auto
termination
proof (relation "measure (\<lambda>(md, ls, as, new, upd). card (fst ` set md - upd) + (if new = {} then 0 else 1))", goal_cases)
  case 1
  show ?case by simp
next
  case (2 md ls as new upd ls' as' new')
  have "card (fst ` set md - (upd \<union> new')) + (if new' = {} then 0 else 1) \<le> card (fst ` set md - upd)"
  proof (cases "new' = {}")
    case False
    have "fst ` set md - (upd \<union> new') \<subset> fst ` set md - upd" using False 2(4) by blast
    then have "card (fst ` set md - (upd \<union> new')) < card (fst ` set md - upd)"
      by (intro psubset_card_mono) auto
    then show ?thesis by simp
  qed simp
  then show ?case using 2(1) by simp
qed

declare shared_loop.simps [simp del]

definition addMetadataSharedContainersToUpdate :: "string set \<Rightarrow> (string \<times> ref_metadata) list \<Rightarrow> string set" where
  "addMetadataSharedContainersToUpdate containersToUpdate md =
     shared_loop md {} {} containersToUpdate containersToUpdate"

section \<open>Patching a batch into a pod\<close>

text \<open>New images for the containers of the batch; the images left for later.\<close>

definition patch_images :: "update_spec \<Rightarrow> string set \<Rightarrow> container list \<Rightarrow> container list \<times> (string \<times> string) list \<times> string set" where
  "patch_images spec upd cs =
     (map (\<lambda>c. case map_of (ContainerImages spec) (CName c) of
                 None \<Rightarrow> c
               | Some img \<Rightarrow> if CName c \<in> upd then c\<lparr>Image := img\<rparr> else c) cs,
      foldl (\<lambda>next c. case map_of (ContainerImages spec) (CName c) of
                 None \<Rightarrow> next
               | Some img \<Rightarrow> if CName c \<in> upd then next else AList.update (CName c) img next) [] cs,
      {n \<in> CName ` set cs. map_of (ContainerImages spec) n \<noteq> None \<and> n \<in> upd})"

definition record_statuses :: "string set \<Rightarrow> container_status list \<Rightarrow> (string \<times> string) list \<Rightarrow> (string \<times> string) list" where
  "record_statuses changed statuses last' =
     foldl (\<lambda>m c. if StatusName c \<in> changed then AList.update (StatusName c) (ImageID c) m else m) last' statuses"

definition patch_metadata ::
  "(string \<times> ref_metadata) list \<Rightarrow> string set \<Rightarrow> labels \<Rightarrow> (string \<rightharpoonup> anno)
   \<Rightarrow> labels \<times> (string \<rightharpoonup> anno) \<times> (string \<times> ref_metadata) list" where
  "patch_metadata md upd ls as =
     foldl (\<lambda>(ls, as, next) (cName, objMeta).
        if cName \<in> upd then (set_labels (RefLabels objMeta) ls, set_annotations (RefAnnotations objMeta) as, next)
        else (ls, as, AList.update cName objMeta next)) (ls, as, []) md"

definition defaultPatchUpdateSpecToPod ::
  "(pod \<Rightarrow> string \<Rightarrow> pod option) \<Rightarrow> int \<Rightarrow> pod \<Rightarrow> update_spec \<Rightarrow> inplace_state \<Rightarrow> api_error + pod" where
  "defaultPatchUpdateSpecToPod merge now p spec state =
     (case (case MetaDataPatch spec of None \<Rightarrow> Some p | Some patch \<Rightarrow> merge p patch) of
        None \<Rightarrow> Inl (OtherError ''patch'')
      | Some p1 \<Rightarrow>
          (case select_containers spec (Containers (Spec p1)) of
             Inl e \<Rightarrow> Inl e
           | Inr sel \<Rightarrow>
               let upd = addMetadataSharedContainersToUpdate sel (ContainerRefMetadata spec);
                   (cs, nextImages, changed) = patch_images spec upd (Containers (Spec p1));
                   lastStatuses = record_statuses changed (ContainerStatuses (Status p1)) (LastContainerStatuses state);
                   (ls, as, nextMeta) = patch_metadata (ContainerRefMetadata spec) upd (Labels p1) (Annotations p1);
                   state' = state\<lparr>NextContainerImages := nextImages, NextContainerRefMetadata := nextMeta,
                     LastContainerStatuses := lastStatuses,
                     PreCheckBeforeNext := (if nextImages \<noteq> [] \<or> nextMeta \<noteq> []
                                            then Some (sorted_list_of_set upd) else None),
                     ContainerBatchesRecord := ContainerBatchesRecord state
                       @ [\<lparr>Timestamp = now, BatchContainers = sorted_list_of_set upd\<rparr>]\<rparr>
               in Inr (p1\<lparr>Spec := (Spec p1)\<lparr>Containers := cs\<rparr>, Labels := ls,
                          Annotations := as(InPlaceUpdateStateKey \<mapsto> StateJSON state')\<rparr>)))"

section \<open>Calculating the update between two revisions\<close>

text \<open>
  The JSON patch between the revisions' data, the decoding of a revision's template and the
  two-way merge of metadata are third-party code and arguments.
\<close>

record json_op =
  Operation :: string
  Path :: string
  Value :: "string option"

record controller_revision = object_meta +
  RevisionNum :: int
  RevData :: string

fun has_prefix :: "string \<Rightarrow> string \<Rightarrow> bool" where
  "has_prefix s pre = (take (length pre) s = pre)"

fun replace_first :: "string \<Rightarrow> string \<Rightarrow> string" where
  "replace_first pat [] = []"
| "replace_first pat (c # s) =
     (if has_prefix (c # s) pat then drop (length pat) (c # s) else c # replace_first pat s)"

text \<open>The regular expression for the image of a container, and the index it captures.\<close>

definition image_path_index :: "string \<Rightarrow> int option" where
  "image_path_index path =
     (case split_on (CHR ''/'') path of
        [a, b, c, d, e] \<Rightarrow>
          if a = [] \<and> b = ''spec'' \<and> c = ''containers'' \<and> d \<noteq> [] \<and> list_all is_digit d \<and> e = ''image''
          then Some (atoi_val d) else None
      | _ \<Rightarrow> None)"

fun rfc6901_decode :: "string \<Rightarrow> string" where
  "rfc6901_decode (a # b # s) =
     (if a = CHR ''~'' \<and> b = CHR ''1'' then CHR ''/'' # rfc6901_decode s
      else if a = CHR ''~'' \<and> b = CHR ''0'' then CHR ''~'' # rfc6901_decode s
      else a # rfc6901_decode (b # s))"
| "rfc6901_decode s = s"

text \<open>
  The loop over the patches: the new images and the patches of the metadata; \<open>Inr None\<close> when the
  change cannot be made in place.
\<close>

fun calc_images ::
  "container list \<Rightarrow> json_op list \<Rightarrow> (string \<times> string) list \<Rightarrow> json_op list
   \<Rightarrow> api_error + ((string \<times> string) list \<times> json_op list) option" where
  "calc_images cs [] images metas = Inr (Some (images, metas))"
| "calc_images cs (op # ops) images metas =
     (let path = replace_first ''/spec/template'' (Path op)
      in if \<not> has_prefix path ''/spec/'' then
           (if has_prefix path ''/metadata/'' then calc_images cs ops images (metas @ [op\<lparr>Path := path\<rparr>])
            else Inr None)
         else if Operation op \<noteq> ''replace'' then Inr None
         else case image_path_index path of
                None \<Rightarrow> Inr None
              | Some idx \<Rightarrow>
                  if int (length cs) \<le> idx then Inr None
                  else (case Value op of
                          None \<Rightarrow> Inl panicked
                        | Some v \<Rightarrow> calc_images cs ops (AList.update (CName (cs ! nat idx)) v images) metas))"

text \<open>\<open>strings.SplitN(path, "/", 4)\<close>, when it has four parts.\<close>

definition split4 :: "string \<Rightarrow> (string \<times> string \<times> string \<times> string) option" where
  "split4 path =
     (case split_on (CHR ''/'') path of
        a # b # c # d # ds \<Rightarrow> Some (a, b, c, join ''/'' (d # ds))
      | _ \<Rightarrow> None)"

record calc_state =
  OldTemp :: pod_template
  NewTemp :: pod_template
  RefMeta :: "(string \<times> ref_metadata) list"
  EnvUpdated :: bool

definition ref_at :: "(string \<times> ref_metadata) list \<Rightarrow> string \<Rightarrow> ref_metadata" where
  "ref_at md n = (case map_of md n of None \<Rightarrow> \<lparr>RefLabels = [], RefAnnotations = []\<rparr> | Some m \<Rightarrow> m)"

definition calc_container :: "bool \<Rightarrow> string \<Rightarrow> string \<Rightarrow> container \<Rightarrow> calc_state \<Rightarrow> calc_state" where
  "calc_container isLabel key v c st =
     (if isLabel then
        if \<not> IsContainerReferenceToMeta c ''metadata.labels'' key then st
        else let m = ref_at (RefMeta st) (CName c) in
          st\<lparr>RefMeta := AList.update (CName c) (m\<lparr>RefLabels := AList.update key v (RefLabels m)\<rparr>) (RefMeta st),
             OldTemp := (OldTemp st)\<lparr>TplLabels := (TplLabels (OldTemp st))(key := None)\<rparr>,
             NewTemp := (NewTemp st)\<lparr>TplLabels := (TplLabels (NewTemp st))(key := None)\<rparr>, EnvUpdated := True\<rparr>
      else
        if \<not> IsContainerReferenceToMeta c ''metadata.annotations'' key then st
        else let m = ref_at (RefMeta st) (CName c) in
          st\<lparr>RefMeta := AList.update (CName c) (m\<lparr>RefAnnotations := AList.update key v (RefAnnotations m)\<rparr>) (RefMeta st),
             OldTemp := (OldTemp st)\<lparr>TplAnnotations := (TplAnnotations (OldTemp st))(key := None)\<rparr>,
             NewTemp := (NewTemp st)\<lparr>TplAnnotations := (TplAnnotations (NewTemp st))(key := None)\<rparr>, EnvUpdated := True\<rparr>)"

fun calc_metadata :: "json_op list \<Rightarrow> calc_state \<Rightarrow> api_error + calc_state" where
  "calc_metadata [] st = Inr st"
| "calc_metadata (op # ops) st =
     (if Operation op \<noteq> ''replace'' \<and> Operation op \<noteq> ''add'' then calc_metadata ops st
      else case split4 (Path op) of
             None \<Rightarrow> calc_metadata ops st
           | Some (_, _, kind, rest) \<Rightarrow>
               if kind \<noteq> ''labels'' \<and> kind \<noteq> ''annotations'' then calc_metadata ops st
               else
                 let key = rfc6901_decode rest;
                     path = (if kind = ''labels'' then ''metadata.labels'' else ''metadata.annotations'');
                     cs = Containers (TplSpec (NewTemp st))
                 in case Value op of
                      None \<Rightarrow> if list_ex (\<lambda>c. IsContainerReferenceToMeta c path key) cs then Inl panicked
                               else calc_metadata ops st
                    | Some v \<Rightarrow> calc_metadata ops (fold (calc_container (kind = ''labels'') key v) cs st))"

definition defaultCalculateInPlaceUpdateSpec ::
  "(controller_revision \<Rightarrow> controller_revision \<Rightarrow> json_op list option)
   \<Rightarrow> (controller_revision \<Rightarrow> pod_template option)
   \<Rightarrow> (pod_template \<Rightarrow> pod_template \<Rightarrow> string option)
   \<Rightarrow> bool \<Rightarrow> int \<Rightarrow> (controller_revision \<Rightarrow> string) option
   \<Rightarrow> controller_revision option \<Rightarrow> controller_revision option \<Rightarrow> api_error + update_spec option" where
  "defaultCalculateInPlaceUpdateSpec CreatePatch GetTemplate TwoWay InPlaceUpdateEnvFromMetadata grace GetRevision
      oldRevision newRevision =
     (case (oldRevision, newRevision) of
        (Some old, Some new) \<Rightarrow>
          (case (CreatePatch old new, GetTemplate old, GetTemplate new) of
             (Some patches, Some oldTemp, Some newTemp) \<Rightarrow>
               (let rv = (case GetRevision of None \<Rightarrow> Name new | Some f \<Rightarrow> f new) in
                case calc_images (Containers (TplSpec oldTemp)) patches [] [] of
                  Inl e \<Rightarrow> Inl e
                | Inr None \<Rightarrow> Inr None
                | Inr (Some (images, metas)) \<Rightarrow>
                    if metas = [] then
                      Inr (Some \<lparr>SpecRevision = rv, ContainerImages = images, ContainerRefMetadata = [],
                                 MetaDataPatch = None, SpecUpdateEnv = False, GraceSeconds = grace\<rparr>)
                    else
                      (let st0 = \<lparr>OldTemp = oldTemp, NewTemp = newTemp, RefMeta = [], EnvUpdated = False\<rparr> in
                       case (if InPlaceUpdateEnvFromMetadata then calc_metadata metas st0 else Inr st0) of
                         Inl e \<Rightarrow> Inl e
                       | Inr st \<Rightarrow>
                           (case TwoWay (OldTemp st) (NewTemp st) of
                              None \<Rightarrow> Inr None
                            | Some patch \<Rightarrow>
                                Inr (Some \<lparr>SpecRevision = rv, ContainerImages = images,
                                           ContainerRefMetadata = RefMeta st, MetaDataPatch = Some patch,
                                           SpecUpdateEnv = EnvUpdated st, GraceSeconds = grace\<rparr>))))
           | _ \<Rightarrow> Inr None)
      | _ \<Rightarrow> Inr None)"

section \<open>Checking a batch\<close>

datatype hash_type = plainHash | extractedEnvFromMetadataHash

text \<open>The last entry of a name in the reported set counts, as the loop does not stop at the first.\<close>

definition find_meta :: "runtime_container_meta list \<Rightarrow> string \<Rightarrow> runtime_container_meta option" where
  "find_meta ms n = find_by MetaName (rev ms) n"

definition checkAllContainersHashConsistent ::
  "(container \<Rightarrow> nat) \<Rightarrow> ((string \<times> anno) list \<Rightarrow> nat) \<Rightarrow> pod \<Rightarrow> runtime_container_meta list \<Rightarrow> hash_type \<Rightarrow> bool" where
  "checkAllContainersHashConsistent HashContainer hashEnvs p metas hashType =
     list_all (\<lambda>c.
       case find_by StatusName (ContainerStatuses (Status p)) (CName c) of
         None \<Rightarrow> False
       | Some st \<Rightarrow>
           (case find_meta metas (CName c) of
              None \<Rightarrow> False
            | Some m \<Rightarrow> MetaContainerID m = ContainerID st
                \<and> (case hashType of
                     plainHash \<Rightarrow> PlainHash m = HashContainer c
                   | extractedEnvFromMetadataHash \<Rightarrow>
                       ExtractedEnvFromMetadataHash m = GetExpectHash hashEnvs c p)))
       (Containers (Spec p))"

definition spec_images :: "container list \<Rightarrow> string \<rightharpoonup> string" where
  "spec_images cs = foldl (\<lambda>m c. m(CName c \<mapsto>
     (if length (split_on (CHR '':'') (Image c)) \<le> 1 then Image c @ '':latest'' else Image c))) Map.empty cs"

fun check_statuses :: "(string \<rightharpoonup> string) \<Rightarrow> container_status list \<Rightarrow> (string \<times> string) list \<Rightarrow> api_error option" where
  "check_statuses images [] last' = (if last' \<noteq> [] then Some (OtherError ''not found statuses'') else None)"
| "check_statuses images (cs # css) last' =
     (case map_of last' (StatusName cs) of
        None \<Rightarrow> check_statuses images css last'
      | Some oldID \<Rightarrow>
          if oldID = ImageID cs \<and> lget images (StatusName cs) \<noteq> StatusImage cs
          then Some (OtherError ''imageID not changed'')
          else check_statuses images css (AList.delete (StatusName cs) last'))"

definition defaultCheckContainersInPlaceUpdateCompleted ::
  "(container \<Rightarrow> nat) \<Rightarrow> ((string \<times> anno) list \<Rightarrow> nat) \<Rightarrow> pod \<Rightarrow> inplace_state \<Rightarrow> api_error option" where
  "defaultCheckContainersInPlaceUpdateCompleted HashContainer hashEnvs p state =
     (case GetRuntimeContainerMetaSet p of
        Inl _ \<Rightarrow> Some (OtherError ''unmarshal'')
      | Inr metas \<Rightarrow>
          if UpdateEnvFromMetadata state \<and>
             (case metas of None \<Rightarrow> True
              | Some ms \<Rightarrow> \<not> checkAllContainersHashConsistent HashContainer hashEnvs p ms extractedEnvFromMetadataHash)
          then Some (OtherError ''waiting for all containers hash consistent'')
          else if (case metas of None \<Rightarrow> False
                   | Some ms \<Rightarrow> checkAllContainersHashConsistent HashContainer hashEnvs p ms plainHash)
          then None
          else check_statuses (spec_images (Containers (Spec p))) (ContainerStatuses (Status p))
                 (LastContainerStatuses state))"

definition DefaultCheckInPlaceUpdateCompleted ::
  "(container \<Rightarrow> nat) \<Rightarrow> ((string \<times> anno) list \<Rightarrow> nat) \<Rightarrow> pod \<Rightarrow> api_error option" where
  "DefaultCheckInPlaceUpdateCompleted HashContainer hashEnvs p =
     (if GetInPlaceUpdateGrace p \<noteq> None then Some (OtherError ''still in grace period of in-place update'')
      else case GetInPlaceUpdateState p of
             None \<Rightarrow> None
           | Some (StateJSON state) \<Rightarrow>
               if NextContainerImages state \<noteq> [] \<or> NextContainerRefMetadata state \<noteq> []
               then Some (OtherError ''existing containers to in-place update in next batches'')
               else defaultCheckContainersInPlaceUpdateCompleted HashContainer hashEnvs p state
           | Some _ \<Rightarrow> Some (OtherError ''unmarshal''))"

fun doPreCheckBeforeNext :: "pod \<Rightarrow> string list option \<Rightarrow> api_error option" where
  "doPreCheckBeforeNext p None = None"
| "doPreCheckBeforeNext p (Some []) = None"
| "doPreCheckBeforeNext p (Some (c # cs)) =
     (case GetContainerStatus c (Some p) of
        None \<Rightarrow> Some (OtherError ''not found container'')
      | Some st \<Rightarrow> if \<not> Ready st then Some (OtherError ''waiting container'')
                    else doPreCheckBeforeNext p (Some cs))"

definition hasEqualCondition :: "pod \<Rightarrow> pod_condition \<Rightarrow> bool" where
  "hasEqualCondition p c =
     (case GetCondition p (CondType c) of
        None \<Rightarrow> False
      | Some old \<Rightarrow> CondStatus old = CondStatus c \<and> Reason old = Reason c \<and> Message old = Message c)"

definition roundupSeconds :: "int \<Rightarrow> int" where
  "roundupSeconds d = (if go_mod d second = 0 then d else (go_div d second + 1) * second)"

definition InjectReadinessGate :: "pod \<Rightarrow> pod" where
  "InjectReadinessGate p = InjectReadinessGateToPod p InPlaceUpdateReady"

section \<open>The in-place update control\<close>

text \<open>
  The functions of \<open>UpdateOptions\<close>, with the defaults of \<open>SetOptionsDefaults\<close> filled in by the
  caller, and the revision adapter.
\<close>

record update_options =
  GracePeriodSeconds :: int
  AdditionalFuncs :: "(pod \<Rightarrow> pod) list"
  PatchSpecToPod :: "pod \<Rightarrow> update_spec \<Rightarrow> inplace_state \<Rightarrow> api_error + pod"
  CheckContainersUpdateCompleted :: "pod \<Rightarrow> inplace_state \<Rightarrow> api_error option"

record revision_adapter =
  EqualToRevisionHash :: "pod \<Rightarrow> string \<Rightarrow> bool"
  WriteRevisionHash :: "string \<Rightarrow> pod \<Rightarrow> pod"

record refresh_result =
  RefreshErr :: "api_error option"
  DelayDuration :: int

record update_result =
  InPlaceUpdated :: bool
  UpdateErr :: "api_error option"
  UpdateDelay :: int
  NewResourceVersion :: string

definition updateCondition ::
  "('w, 'x) pod_adapter_scheme \<Rightarrow> int \<Rightarrow> pod \<Rightarrow> pod_condition \<Rightarrow> 'w \<Rightarrow> api_error option \<times> 'w" where
  "updateCondition adp now p condition =
     RetryOnConflict DefaultBackoff (\<lambda>w.
       case GetPod adp (Namespace p) (Name p) w of
         (Inl e, w1) \<Rightarrow> (Some e, w1)
       | (Inr clone, w1) \<Rightarrow>
           if hasEqualCondition clone condition then (None, w1)
           else let c1 = SetPodCondition clone condition;
                    c2 = (if CondStatus condition = ConditionFalse then SetPodReadyCondition now c1 else c1)
                in UpdatePodStatus adp c2 w1)"

text \<open>Writing a pod, dropping the returned object.\<close>

definition write_pod :: "('w, 'x) pod_adapter_scheme \<Rightarrow> pod \<Rightarrow> 'w \<Rightarrow> api_error option \<times> 'w" where
  "write_pod adp p w = (case UpdatePod adp p w of (Inl e, w') \<Rightarrow> (Some e, w') | (Inr q, w') \<Rightarrow> (None, w'))"

text \<open>The captured variable \<open>delayDuration\<close> is the first component of the state.\<close>

definition finishGracePeriod ::
  "revision_adapter \<Rightarrow> ('w, 'x) pod_adapter_scheme \<Rightarrow> int \<Rightarrow> pod \<Rightarrow> update_options \<Rightarrow> 'w
   \<Rightarrow> (int \<times> api_error option) \<times> 'w" where
  "finishGracePeriod ra adp now p opts w0 =
     (case RetryOnConflict DefaultBackoff (\<lambda>(delay, w).
        case GetPod adp (Namespace p) (Name p) w of
          (Inl e, w1) \<Rightarrow> (Some e, delay, w1)
        | (Inr clone, w1) \<Rightarrow>
            (case GetInPlaceUpdateGrace clone of
               None \<Rightarrow> (None, delay, w1)
             | Some (SpecJSON spec) \<Rightarrow>
                 (case GetInPlaceUpdateState clone of
                    None \<Rightarrow> (Some (OtherError ''state not found''), delay, w1)
                  | Some (StateJSON updateState) \<Rightarrow>
                      if \<not> EqualToRevisionHash ra clone (SpecRevision spec) then
                        (let (e, w2) = write_pod adp (RemoveInPlaceUpdateGrace clone) w1 in (e, delay, w2))
                      else
                        let graceDuration = second * GraceSeconds spec;
                            span = now - UpdateTimestamp updateState
                        in if span < graceDuration then (None, roundupSeconds (graceDuration - span), w1)
                           else (case PatchSpecToPod opts clone spec updateState of
                                   Inl e \<Rightarrow> (Some e, delay, w1)
                                 | Inr clone' \<Rightarrow>
                                     (let (e, w2) = write_pod adp (RemoveInPlaceUpdateGrace clone') w1
                                      in (e, delay, w2)))
                  | Some _ \<Rightarrow> (None, delay, w1))
             | Some _ \<Rightarrow> (Some (OtherError ''unmarshal''), delay, w1))) (0, w0) of
        (e, delay, w) \<Rightarrow> ((delay, e), w))"

text \<open>The captured variable \<open>updated\<close> is the first component of the state.\<close>

definition updateNextBatch ::
  "('w, 'x) pod_adapter_scheme \<Rightarrow> pod \<Rightarrow> update_options \<Rightarrow> 'w \<Rightarrow> (bool \<times> api_error option) \<times> 'w" where
  "updateNextBatch adp p opts w0 =
     (case RetryOnConflict DefaultBackoff (\<lambda>(updated, w).
        case GetPod adp (Namespace p) (Name p) w of
          (Inl e, w1) \<Rightarrow> (Some e, False, w1)
        | (Inr clone, w1) \<Rightarrow>
            (case GetInPlaceUpdateState p of
               None \<Rightarrow> (None, False, w1)
             | Some (StateJSON state) \<Rightarrow>
                 if NextContainerImages state = [] \<and> NextContainerRefMetadata state = [] then (None, False, w1)
                 else
                   (case PatchSpecToPod opts clone
                      \<lparr>SpecRevision = [], ContainerImages = NextContainerImages state,
                       ContainerRefMetadata = NextContainerRefMetadata state, MetaDataPatch = None,
                       SpecUpdateEnv = UpdateEnvFromMetadata state, GraceSeconds = 0\<rparr> state of
                      Inl e \<Rightarrow> (Some e, False, w1)
                    | Inr clone' \<Rightarrow> (let (e, w2) = write_pod adp clone' w1 in (e, True, w2)))
             | Some _ \<Rightarrow> (Some (OtherError ''unmarshal''), False, w1))) (False, w0) of
        (e, updated, w) \<Rightarrow> ((updated, e), w))"

text \<open>The captured variable \<open>newResourceVersion\<close> is the first component of the state.\<close>

definition updatePodInPlace ::
  "revision_adapter \<Rightarrow> ('w, 'x) pod_adapter_scheme \<Rightarrow> int \<Rightarrow> pod \<Rightarrow> update_spec \<Rightarrow> update_options \<Rightarrow> 'w
   \<Rightarrow> (string \<times> api_error option) \<times> 'w" where
  "updatePodInPlace ra adp now p spec opts w0 =
     (case RetryOnConflict DefaultBackoff (\<lambda>(rv, w).
        case GetPod adp (Namespace p) (Name p) w of
          (Inl e, w1) \<Rightarrow> (Some e, rv, w1)
        | (Inr clone0, w1) \<Rightarrow>
            let clone1 = fold (\<lambda>f c. f c) (AdditionalFuncs opts) (WriteRevisionHash ra (SpecRevision spec) clone0);
                state = \<lparr>Revision = SpecRevision spec, UpdateTimestamp = now, LastContainerStatuses = [],
                  UpdateEnvFromMetadata = SpecUpdateEnv spec, NextContainerImages = [],
                  NextContainerRefMetadata = [], PreCheckBeforeNext = None, ContainerBatchesRecord = []\<rparr>;
                clone2 = clone1\<lparr>Annotations := (Annotations clone1)(InPlaceUpdateStateKey \<mapsto> StateJSON state,
                  InPlaceUpdateStateKeyOld := None)\<rparr>;
                patched = (if GraceSeconds spec \<le> 0
                           then (case PatchSpecToPod opts clone2 spec state of
                                   Inl e \<Rightarrow> Inl e
                                 | Inr c \<Rightarrow> Inr (RemoveInPlaceUpdateGrace c))
                           else Inr (clone2\<lparr>Annotations := (Annotations clone2)(InPlaceUpdateGraceKey \<mapsto> SpecJSON spec)\<rparr>))
            in case patched of
                 Inl e \<Rightarrow> (Some e, rv, w1)
               | Inr clone3 \<Rightarrow>
                   (case UpdatePod adp clone3 w1 of
                      (Inl e, w2) \<Rightarrow> (Some e, rv, w2)
                    | (Inr newPod, w2) \<Rightarrow> (None, ResourceVersion newPod, w2))) ([], w0) of
        (e, rv, w) \<Rightarrow> ((rv, e), w))"

definition InPlaceUpdatePod ::
  "revision_adapter \<Rightarrow> ('w, 'x) pod_adapter_scheme \<Rightarrow> int \<Rightarrow> pod \<Rightarrow> update_spec option \<Rightarrow> update_options \<Rightarrow> 'w
   \<Rightarrow> update_result \<times> 'w" where
  "InPlaceUpdatePod ra adp now p calculated opts w0 =
     (case calculated of
        None \<Rightarrow> (\<lparr>InPlaceUpdated = False, UpdateErr = None, UpdateDelay = 0, NewResourceVersion = []\<rparr>, w0)
      | Some spec \<Rightarrow>
          let (err, w1) =
            (if containsReadinessGate p InPlaceUpdateReady
             then updateCondition adp now p \<lparr>CondType = InPlaceUpdateReady, CondStatus = ConditionFalse,
                    LastTransitionTime = now, Reason = ''StartInPlaceUpdate'', Message = MsgText []\<rparr> w0
             else (None, w0))
          in case err of
               Some e \<Rightarrow> (\<lparr>InPlaceUpdated = True, UpdateErr = Some e, UpdateDelay = 0, NewResourceVersion = []\<rparr>, w1)
             | None \<Rightarrow>
                 (case updatePodInPlace ra adp now p spec opts w1 of
                    ((rv, Some e), w2) \<Rightarrow>
                      (\<lparr>InPlaceUpdated = True, UpdateErr = Some e, UpdateDelay = 0, NewResourceVersion = []\<rparr>, w2)
                  | ((rv, None), w2) \<Rightarrow>
                      (\<lparr>InPlaceUpdated = True, UpdateErr = None,
                        UpdateDelay = (if GracePeriodSeconds opts > 0 then second * GracePeriodSeconds opts else 0),
                        NewResourceVersion = rv\<rparr>, w2)))"

definition refresh_condition ::
  "('w, 'x) pod_adapter_scheme \<Rightarrow> int \<Rightarrow> pod \<Rightarrow> 'w \<Rightarrow> refresh_result \<times> 'w" where
  "refresh_condition adp now p w =
     (if \<not> containsReadinessGate p InPlaceUpdateReady then (\<lparr>RefreshErr = None, DelayDuration = 0\<rparr>, w)
      else case updateCondition adp now p \<lparr>CondType = InPlaceUpdateReady, CondStatus = ConditionTrue,
                  LastTransitionTime = now, Reason = [], Message = MsgText []\<rparr> w of
             (e, w1) \<Rightarrow> (\<lparr>RefreshErr = e, DelayDuration = 0\<rparr>, w1))"

definition Refresh ::
  "revision_adapter \<Rightarrow> ('w, 'x) pod_adapter_scheme \<Rightarrow> int \<Rightarrow> pod \<Rightarrow> update_options \<Rightarrow> 'w \<Rightarrow> refresh_result \<times> 'w" where
  "Refresh ra adp now p opts w =
     (if GetInPlaceUpdateGrace p \<noteq> None \<and> GetInPlaceUpdateGrace p \<noteq> Some (Text []) then
        (case finishGracePeriod ra adp now p opts w of
           ((delay, Some e), w1) \<Rightarrow> (\<lparr>RefreshErr = Some e, DelayDuration = 0\<rparr>, w1)
         | ((delay, None), w1) \<Rightarrow> (\<lparr>RefreshErr = None, DelayDuration = delay\<rparr>, w1))
      else
        (case GetInPlaceUpdateState p of
           None \<Rightarrow> refresh_condition adp now p w
         | Some (StateJSON state) \<Rightarrow>
             if CheckContainersUpdateCompleted opts p state \<noteq> None
             then (\<lparr>RefreshErr = None, DelayDuration = 0\<rparr>, w)
             else if NextContainerImages state \<noteq> [] \<or> NextContainerRefMetadata state \<noteq> [] then
               (if doPreCheckBeforeNext p (PreCheckBeforeNext state) \<noteq> None
                then (\<lparr>RefreshErr = None, DelayDuration = 0\<rparr>, w)
                else (case updateNextBatch adp p opts w of
                        ((updated, Some e), w1) \<Rightarrow> (\<lparr>RefreshErr = Some e, DelayDuration = 0\<rparr>, w1)
                      | ((True, None), w1) \<Rightarrow> (\<lparr>RefreshErr = None, DelayDuration = 0\<rparr>, w1)
                      | ((False, None), w1) \<Rightarrow> refresh_condition adp now p w1))
             else refresh_condition adp now p w
         | Some _ \<Rightarrow> (\<lparr>RefreshErr = Some (OtherError ''unmarshal''), DelayDuration = 0\<rparr>, w)))"

end
