(* ===== verification/Inplace_Correct.thy ===== *)
theory Inplace_Correct
  imports Inplace_Update
begin

text \<open>
  Correctness of the in-place update: which containers a batch takes, that a batch leaves nothing
  out, that batches come to an end, and what the grace period does.
\<close>

section \<open>Containers that share metadata\<close>

text \<open>Two containers share a key when both take a label, or both take an annotation, of that name.\<close>

definition taken :: "(string \<times> ref_metadata) list \<Rightarrow> (ref_metadata \<Rightarrow> (string \<times> string) list) \<Rightarrow> string \<Rightarrow> string set" where
  "taken md field c = (case map_of md c of None \<Rightarrow> {} | Some m \<Rightarrow> fst ` set (field m))"

definition share :: "(string \<times> ref_metadata) list \<Rightarrow> string \<Rightarrow> string \<Rightarrow> bool" where
  "share md c d \<longleftrightarrow> taken md RefLabels c \<inter> taken md RefLabels d \<noteq> {}
     \<or> taken md RefAnnotations c \<inter> taken md RefAnnotations d \<noteq> {}"

lemma meta_keys_taken: "meta_keys md S field = (\<Union>c\<in>S. taken md field c)"
  by (simp add: meta_keys_def taken_def)

lemma list_ex_keys: "list_ex (\<lambda>(k, v). k \<in> S) kvs \<longleftrightarrow> fst ` set kvs \<inter> S \<noteq> {}"
  by (induction kvs) auto

lemma shares_taken: "shares md ls as d \<longleftrightarrow> taken md RefLabels d \<inter> ls \<noteq> {} \<or> taken md RefAnnotations d \<inter> as \<noteq> {}"
  by (cases "map_of md d") (simp_all add: shares_def taken_def list_ex_keys)

lemma shares_iff: "shares md (meta_keys md S RefLabels) (meta_keys md S RefAnnotations) d \<longleftrightarrow> (\<exists>c\<in>S. share md c d)"
  unfolding shares_taken meta_keys_taken share_def by blast

lemma meta_keys_Un: "meta_keys md (S \<union> T) f = meta_keys md S f \<union> meta_keys md T f"
  by (auto simp: meta_keys_def)

lemma share_known: "share md c d \<Longrightarrow> d \<in> fst ` set md"
  using map_of_eq_None_iff [of md d] by (auto simp: share_def taken_def)

text \<open>
  The loop invariant: the keys are those of the containers handled, every container that shares with
  one of them is in the set, and every container of the set is reached from an initial one.
\<close>

lemma shared_loop_inv:
  assumes "ls = meta_keys md seen RefLabels" and "as = meta_keys md seen RefAnnotations"
    and "upd = seen \<union> new" and "\<forall>c\<in>seen. \<forall>d. share md c d \<longrightarrow> d \<in> upd"
    and "\<forall>d\<in>upd. \<exists>c\<in>S. (share md)\<^sup>*\<^sup>* c d" and "S \<subseteq> upd"
  shows "S \<subseteq> shared_loop md ls as new upd
    \<and> (\<forall>c\<in>shared_loop md ls as new upd. \<forall>d. share md c d \<longrightarrow> d \<in> shared_loop md ls as new upd)
    \<and> (\<forall>d\<in>shared_loop md ls as new upd. \<exists>c\<in>S. (share md)\<^sup>*\<^sup>* c d)"
  using assms
proof (induction md ls as new upd arbitrary: seen rule: shared_loop.induct)
  case (1 md ls as new upd)
  show ?case
  proof (cases "new = {}")
    case True
    then have "shared_loop md ls as new upd = upd" by (simp add: shared_loop.simps)
    then show ?thesis using "1.prems" True by auto
  next
    case False
    let ?ls = "ls \<union> meta_keys md new RefLabels" and ?as = "as \<union> meta_keys md new RefAnnotations"
    let ?new = "{c \<in> fst ` set md. c \<notin> upd \<and> shares md ?ls ?as c}"
    have keys: "?ls = meta_keys md upd RefLabels" "?as = meta_keys md upd RefAnnotations"
      using "1.prems"(1,2,3) by (simp_all add: meta_keys_Un)
    have new: "?new = {d. d \<notin> upd \<and> (\<exists>c\<in>upd. share md c d)}"
      unfolding keys shares_iff using share_known by blast
    have step: "shared_loop md ls as new upd = shared_loop md ?ls ?as ?new (upd \<union> ?new)"
      using False by (subst shared_loop.simps) (simp add: Let_def)
    have reach: "\<forall>d\<in>upd \<union> ?new. \<exists>c\<in>S. (share md)\<^sup>*\<^sup>* c d"
      using "1.prems"(5) unfolding new by (blast intro: rtranclp.rtrancl_into_rtrancl)
    show ?thesis
      unfolding step
      by (rule "1.IH" [OF False refl refl refl, where seen = upd])
        (use keys reach "1.prems"(6) new in auto)
  qed
qed

text \<open>
  C14: the containers that \<open>addMetadataSharedContainersToUpdate\<close> returns are exactly those reached
  from the given ones by sharing a label or an annotation, directly or through other containers.
\<close>

theorem shared_containers_closure:
  "addMetadataSharedContainersToUpdate S md = {d. \<exists>c\<in>S. (share md)\<^sup>*\<^sup>* c d}"
proof -
  let ?R = "addMetadataSharedContainersToUpdate S md"
  have inv: "S \<subseteq> ?R" "\<forall>c\<in>?R. \<forall>d. share md c d \<longrightarrow> d \<in> ?R" "\<forall>d\<in>?R. \<exists>c\<in>S. (share md)\<^sup>*\<^sup>* c d"
    unfolding addMetadataSharedContainersToUpdate_def
    using shared_loop_inv [of "{}" md "{}" "{}" S S S] by (auto simp: meta_keys_def)
  have "d \<in> ?R" if "(share md)\<^sup>*\<^sup>* c d" "c \<in> ?R" for c d
    using that by induction (use inv(2) in auto)
  with inv show ?thesis by blast
qed

section \<open>A batch\<close>

lemma map_of_foldl_update:
  "map_of (foldl (\<lambda>m x. if P x then AList.update (f x) (g x) m else m) m0 xs) k =
     (case map_of (rev (map (\<lambda>x. (f x, g x)) (filter P xs))) k of Some v \<Rightarrow> Some v | None \<Rightarrow> map_of m0 k)"
  by (induction xs arbitrary: m0) (auto simp: update_conv map_add_def split: option.splits)

text \<open>The images left for later, by the name of the container.\<close>

lemma patch_images_next:
  "map_of (fst (snd (patch_images spec upd cs))) n =
     (if n \<in> CName ` set cs \<and> n \<notin> upd then map_of (ContainerImages spec) n else None)"
proof -
  let ?I = "map_of (ContainerImages spec)"
  have eq: "fst (snd (patch_images spec upd cs)) =
      foldl (\<lambda>m c. if ?I (CName c) \<noteq> None \<and> CName c \<notin> upd then AList.update (CName c) (the (?I (CName c))) m else m) [] cs"
    unfolding patch_images_def by (auto intro!: foldl_cong split: option.splits)
  have look: "map_of (map (\<lambda>c. (CName c, the (?I (CName c)))) xs) n =
      (if n \<in> CName ` set xs then Some (the (?I n)) else None)" for xs
    by (induction xs) auto
  show ?thesis
    unfolding eq map_of_foldl_update rev_map look
    by (cases "?I n") (auto simp: image_iff split: option.splits)
qed

lemma patch_images_now:
  assumes "c \<in> set cs" and "CName c \<in> upd" and "map_of (ContainerImages spec) (CName c) = Some img"
  shows "\<exists>d \<in> set (fst (patch_images spec upd cs)). CName d = CName c \<and> Image d = img"
  using assms by (auto simp: patch_images_def intro!: bexI [of _ c])

lemma select_loop_nonempty:
  assumes "select_loop spec cs sel = Inr sel'"
    and "toUpdate sel \<union> set (withHighest sel) \<noteq> {} \<or>
      (\<exists>c\<in>set cs. map_of (ContainerImages spec) (CName c) \<noteq> None \<or> map_of (ContainerRefMetadata spec) (CName c) \<noteq> None)"
    and "highestPriority sel = None \<longleftrightarrow> withHighest sel = []"
  shows "toUpdate sel' \<union> set (withHighest sel') \<noteq> {}"
  using assms
proof (induction cs arbitrary: sel)
  case Nil
  then show ?case by simp
next
  case (Cons c cs)
  obtain s where s: "select_step spec c sel = Inr s" and rest: "select_loop spec cs s = Inr sel'"
    using Cons.prems(1) by (auto split: sum.splits)
  have h: "highestPriority s = None \<longleftrightarrow> withHighest s = []"
    and keep: "toUpdate sel \<union> set (withHighest sel) \<noteq> {} \<Longrightarrow> toUpdate s \<union> set (withHighest s) \<noteq> {}"
    and new: "map_of (ContainerImages spec) (CName c) \<noteq> None \<or> map_of (ContainerRefMetadata spec) (CName c) \<noteq> None
      \<Longrightarrow> toUpdate s \<union> set (withHighest s) \<noteq> {}"
    using s Cons.prems(3)
    by (auto simp: select_step_def split: if_splits sum.splits option.splits)
  show ?case by (rule Cons.IH [OF rest _ h]) (use Cons.prems(2) keep new in auto)
qed

definition waiting :: "(string \<times> string) list \<Rightarrow> (string \<times> ref_metadata) list \<Rightarrow> string set" where
  "waiting images metas = fst ` set images \<union> fst ` set metas"

lemma waiting_dom: "n \<in> waiting images metas \<longleftrightarrow> map_of images n \<noteq> None \<or> map_of metas n \<noteq> None"
  by (simp add: waiting_def map_of_eq_None_iff)

lemma select_step_waiting:
  assumes "select_step spec c sel = Inr s"
    and "toUpdate sel \<union> set (withHighest sel) \<subseteq> waiting (ContainerImages spec) (ContainerRefMetadata spec)"
  shows "toUpdate s \<union> set (withHighest s) \<subseteq> waiting (ContainerImages spec) (ContainerRefMetadata spec)"
proof (cases "CName c \<in> waiting (ContainerImages spec) (ContainerRefMetadata spec)")
  case True
  then show ?thesis
    using assms by (auto simp: select_step_def split: if_splits sum.splits option.splits)
next
  case False
  then show ?thesis using assms by (simp add: select_step_def waiting_dom)
qed

lemma select_loop_waiting:
  assumes "select_loop spec cs sel = Inr sel'"
    and "toUpdate sel \<union> set (withHighest sel) \<subseteq> waiting (ContainerImages spec) (ContainerRefMetadata spec)"
  shows "toUpdate sel' \<union> set (withHighest sel') \<subseteq> waiting (ContainerImages spec) (ContainerRefMetadata spec)"
  using assms
proof (induction cs arbitrary: sel)
  case (Cons c cs)
  obtain s where s: "select_step spec c sel = Inr s" and rest: "select_loop spec cs s = Inr sel'"
    using Cons.prems(1) by (auto split: sum.splits)
  show ?case by (rule Cons.IH [OF rest select_step_waiting [OF s Cons.prems(2)]])
qed simp

lemma select_containers_nonempty:
  assumes "select_containers spec cs = Inr S" and "c \<in> set cs"
    and "map_of (ContainerImages spec) (CName c) \<noteq> None \<or> map_of (ContainerRefMetadata spec) (CName c) \<noteq> None"
  shows "S \<noteq> {}"
  using assms select_loop_nonempty [of spec cs "\<lparr>toUpdate = {}, highestPriority = None, withHighest = []\<rparr>"]
  by (auto simp: select_containers_def split: sum.splits)

lemma patch_metadata_next:
  assumes "distinct (map fst md)"
  shows "map_of (snd (snd (patch_metadata md upd ls as))) n = (if n \<in> upd then None else map_of md n)"
proof -
  have "map_of (snd (snd (foldl (\<lambda>(ls, as, next) (cName, objMeta).
        if cName \<in> upd then (set_labels (RefLabels objMeta) ls, set_annotations (RefAnnotations objMeta) as, next)
        else (ls, as, AList.update cName objMeta next)) (ls, as, nx) md))) n =
      (if n \<in> upd \<or> n \<notin> fst ` set md then map_of nx n else map_of md n)" for ls as nx
    using assms
  proof (induction md arbitrary: ls as nx)
    case (Cons x md)
    obtain c m where x: "x = (c, m)" by fastforce
    have "map_of md c = None" using Cons.prems x by (simp add: map_of_eq_None_iff)
    with Cons x show ?case by (auto simp: update_conv)
  qed simp
  from this [of ls as "[]"] show ?thesis
    using map_of_eq_None_iff [of md n] by (auto simp: patch_metadata_def)
qed

text \<open>What \<open>defaultPatchUpdateSpecToPod\<close> returns, in terms of its parts.\<close>

definition batch_parts :: "update_spec \<Rightarrow> pod \<Rightarrow> string set \<Rightarrow> inplace_state \<Rightarrow> pod \<Rightarrow> bool" where
  "batch_parts spec p1 upd st' q \<longleftrightarrow>
     Annotations q InPlaceUpdateStateKey = Some (StateJSON st')
     \<and> Containers (Spec q) = fst (patch_images spec upd (Containers (Spec p1)))
     \<and> NextContainerImages st' = fst (snd (patch_images spec upd (Containers (Spec p1))))
     \<and> NextContainerRefMetadata st' =
         snd (snd (patch_metadata (ContainerRefMetadata spec) upd (Labels p1) (Annotations p1)))
     \<and> PreCheckBeforeNext st' = (if NextContainerImages st' = [] \<and> NextContainerRefMetadata st' = [] then None
         else Some (sorted_list_of_set upd))"

lemma default_patch_cases:
  assumes "defaultPatchUpdateSpecToPod merge now p spec st = Inr q"
  obtains p1 sel st' where "select_containers spec (Containers (Spec p1)) = Inr sel"
    and "batch_parts spec p1 (addMetadataSharedContainersToUpdate sel (ContainerRefMetadata spec)) st' q"
    and "MetaDataPatch spec = None \<longrightarrow> p1 = p"
proof -
  obtain p1 where p1: "(case MetaDataPatch spec of None \<Rightarrow> Some p | Some patch \<Rightarrow> merge p patch) = Some p1"
    using assms by (auto simp: defaultPatchUpdateSpecToPod_def split: option.splits)
  obtain sel where sel: "select_containers spec (Containers (Spec p1)) = Inr sel"
    using assms p1 by (auto simp: defaultPatchUpdateSpecToPod_def split: sum.splits)
  have "\<exists>st'. batch_parts spec p1 (addMetadataSharedContainersToUpdate sel (ContainerRefMetadata spec)) st' q"
    using assms p1 sel
    by (auto simp: defaultPatchUpdateSpecToPod_def batch_parts_def Let_def split: prod.splits)
  then obtain st' where "batch_parts spec p1
      (addMetadataSharedContainersToUpdate sel (ContainerRefMetadata spec)) st' q" by (rule exE)
  then show ?thesis by (rule that [OF sel]) (use p1 in auto)
qed

lemma shared_closed:
  assumes "d \<in> addMetadataSharedContainersToUpdate S md" and "share md d n"
  shows "n \<in> addMetadataSharedContainersToUpdate S md"
  using assms shared_loop_inv [of "{}" md "{}" "{}" S S S]
  by (auto simp: addMetadataSharedContainersToUpdate_def meta_keys_def)

lemma shared_superset: "S \<subseteq> addMetadataSharedContainersToUpdate S md"
  using shared_loop_inv [of "{}" md "{}" "{}" S S S]
  by (auto simp: addMetadataSharedContainersToUpdate_def meta_keys_def)

lemma patch_images_containers:
  "d \<in> set (fst (patch_images spec upd cs)) \<Longrightarrow> map_of (ContainerImages spec) (CName d) = Some img \<Longrightarrow>
     CName d \<in> CName ` set cs \<and> (CName d \<in> upd \<longrightarrow> Image d = img)"
  by (auto simp: patch_images_def split: option.splits)


text \<open>A pod with two containers, the second of them with a launch priority of its own.\<close>

definition two_containers :: pod where
  "two_containers = zero_pod\<lparr>Name := ''web-0'', Namespace := ''ns'', Spec := zero_pod_spec\<lparr>Containers :=
     [\<lparr>CName = ''main'', Image = ''a:1'', Env = [], VolumeMounts = [], Ports = []\<rparr>,
      \<lparr>CName = ''side'', Image = ''b:1'', Env = [GeneratePriorityEnv 5 ''web-0''], VolumeMounts = [], Ports = []\<rparr>]\<rparr>\<rparr>"

definition two_images :: update_spec where
  "two_images = \<lparr>SpecRevision = ''r2'', ContainerImages = [(''main'', ''a:2''), (''side'', ''b:2'')],
     ContainerRefMetadata = [], MetaDataPatch = None, SpecUpdateEnv = False, GraceSeconds = 0\<rparr>"

definition fresh_state :: inplace_state where
  "fresh_state = \<lparr>Revision = ''r2'', UpdateTimestamp = 0, LastContainerStatuses = [],
     UpdateEnvFromMetadata = False, NextContainerImages = [], NextContainerRefMetadata = [],
     PreCheckBeforeNext = None, ContainerBatchesRecord = []\<rparr>"

lemma two_images_patched: "\<exists>q. defaultPatchUpdateSpecToPod merge now two_containers two_images st = Inr q"
  by (simp add: defaultPatchUpdateSpecToPod_def two_containers_def two_images_def zero_defs select_containers_def
      select_step_def GetContainerPriority_def GeneratePriorityEnv_def GetKey_def Let_def
      split: prod.splits)


section \<open>Batches end\<close>

lemma select_containers_waiting:
  "select_containers spec cs = Inr S \<Longrightarrow> S \<subseteq> waiting (ContainerImages spec) (ContainerRefMetadata spec)"
  using select_loop_waiting [of spec cs "\<lparr>toUpdate = {}, highestPriority = None, withHighest = []\<rparr>"]
  by (auto simp: select_containers_def split: sum.splits)

text \<open>
  when a container of the pod waits for an update, a batch takes at least one waiting container
  and adds none, so the containers left for the next batches become fewer with every batch.
\<close>

theorem batch_makes_progress:
  assumes "defaultPatchUpdateSpecToPod merge now p spec st = Inr q" and "MetaDataPatch spec = None"
    and "distinct (map fst (ContainerRefMetadata spec))"
    and "c \<in> set (Containers (Spec p))" and "CName c \<in> waiting (ContainerImages spec) (ContainerRefMetadata spec)"
  shows "\<exists>st'. Annotations q InPlaceUpdateStateKey = Some (StateJSON st')
    \<and> waiting (NextContainerImages st') (NextContainerRefMetadata st')
        \<subset> waiting (ContainerImages spec) (ContainerRefMetadata spec)"
proof -
  obtain p1 sel st' where sel: "select_containers spec (Containers (Spec p1)) = Inr sel"
    and parts: "batch_parts spec p1 (addMetadataSharedContainersToUpdate sel (ContainerRefMetadata spec)) st' q"
    and "MetaDataPatch spec = None \<longrightarrow> p1 = p"
    by (rule default_patch_cases [OF assms(1)])
  then have p1: "p1 = p" using assms(2) by simp
  let ?upd = "addMetadataSharedContainersToUpdate sel (ContainerRefMetadata spec)"
  have next_dom: "n \<in> waiting (NextContainerImages st') (NextContainerRefMetadata st') \<Longrightarrow>
      n \<notin> ?upd \<and> n \<in> waiting (ContainerImages spec) (ContainerRefMetadata spec)" for n
    using parts unfolding batch_parts_def waiting_dom
    by (simp add: patch_images_next patch_metadata_next [OF assms(3)] split: if_splits)
  have "sel \<noteq> {}"
    using select_containers_nonempty [OF sel, of c] assms(4,5) p1 by (simp add: waiting_dom)
  moreover have "sel \<subseteq> waiting (ContainerImages spec) (ContainerRefMetadata spec)"
    by (rule select_containers_waiting [OF sel])
  moreover have "sel \<subseteq> ?upd" by (rule shared_superset)
  ultimately have "\<exists>n. n \<in> waiting (ContainerImages spec) (ContainerRefMetadata spec) \<and> n \<in> ?upd" by blast
  then have "waiting (NextContainerImages st') (NextContainerRefMetadata st')
      \<subset> waiting (ContainerImages spec) (ContainerRefMetadata spec)"
    using next_dom by blast
  then show ?thesis using parts by (auto simp: batch_parts_def)
qed

theorem batch_makes_progress_witness:
  "\<exists>q st'. defaultPatchUpdateSpecToPod (\<lambda>_ _. None) 7 two_containers two_images fresh_state = Inr q
     \<and> Annotations q InPlaceUpdateStateKey = Some (StateJSON st')
     \<and> waiting (NextContainerImages st') (NextContainerRefMetadata st') \<subset> {''main'', ''side''}"
proof -
  obtain q where q: "defaultPatchUpdateSpecToPod (\<lambda>_ _. None) 7 two_containers two_images fresh_state = Inr q"
    using two_images_patched by blast
  let ?c = "\<lparr>CName = ''main'', Image = ''a:1'', Env = [], VolumeMounts = [], Ports = []\<rparr>"
  have "waiting (ContainerImages two_images) (ContainerRefMetadata two_images) = {''main'', ''side''}"
    by (simp add: waiting_def two_images_def)
  moreover have "?c \<in> set (Containers (Spec two_containers))" "CName ?c = ''main''"
    by (simp_all add: two_containers_def zero_defs)
  ultimately show ?thesis
    using batch_makes_progress [OF q, of ?c] q by (simp add: two_images_def)
qed

section \<open>The grace period\<close>

text \<open>
  \<open>roundupSeconds\<close> returns the least whole number of seconds that is not shorter.
\<close>

theorem roundupSeconds_least:
  assumes "0 \<le> d"
  shows "d \<le> roundupSeconds d \<and> second dvd roundupSeconds d \<and> (\<forall>n. d \<le> n \<and> second dvd n \<longrightarrow> roundupSeconds d \<le> n)"
proof (cases "d mod second = 0")
  case True
  then have "second dvd d" by auto
  then show ?thesis using assms by (simp add: roundupSeconds_def second_def)
next
  case False
  then have r: "roundupSeconds d = (d div second + 1) * second"
    using assms by (simp add: roundupSeconds_def second_def)
  have "d < (d div second + 1) * second"
    by (metis add.commute div_mult_mod_eq distrib_right mult_1 pos_mod_bound second_def zero_less_numeral add_less_cancel_left)
  moreover have "(d div second + 1) * second \<le> n" if le: "d \<le> n" and dv: "second dvd n" for n
  proof -
    obtain k where k: "n = second * k" using dv by blast
    have "d \<noteq> n" using False k by auto
    then have "d div second < k" using le k by (simp add: second_def)
    then show ?thesis using k by (simp add: second_def)
  qed
  ultimately show ?thesis unfolding r by simp
qed

end
