(* ===== verification/CloneSet_Utils.thy ===== *)
theory CloneSet_Utils
  imports Inplace_Update Update_Sort Expectations
begin

text \<open>
  CloneSet: its API types (\<open>apis/apps/v1alpha1/cloneset_types.go\<close>) and the helpers of
  \<open>pkg/controller/cloneset/utils\<close>: revision hashes, storage, and the comparison by which pods are
  chosen for deletion.  Feature gates are boolean arguments, \<open>sort.Sort\<close> is the argument \<open>srt\<close>.
  A rank is an element of an ordered ring in place of a floating-point number.
\<close>

section \<open>API types\<close>

record scale_strategy =
  PodsToDelete :: "string list"
  ScaleMaxUnavailable :: "int_or_string option"
  DisablePVCReuse :: bool

datatype cs_update_type = ReCreate | InPlaceIfPossible | InPlaceOnly

record update_strategy =
  UpdateType :: cs_update_type
  Partition :: "int_or_string option"
  MaxUnavailable :: "int_or_string option"
  MaxSurge :: "int_or_string option"
  Paused :: bool
  PriorityStrategy :: "update_priority option"
  ScatterStrategy :: "scatter_term list"
  InPlaceGraceSeconds :: "int option"

record cloneset_spec =
  Replicas :: "int option"
  Selector :: "label_selector option"
  Template :: pod_template
  VolumeClaimTemplates :: "pvc list"
  ScaleStrategy :: scale_strategy
  UpdateStrategy :: update_strategy
  RevisionHistoryLimit :: "int option"
  MinReadySeconds :: int
  CSLifecycle :: "lifecycle option"

record cs_condition =
  CSCondType :: string
  CSCondStatus :: string
  CSCondTime :: int
  CSCondError :: api_error

record cloneset_status =
  ObservedGeneration :: int
  StatusReplicas :: int
  ReadyReplicas :: int
  AvailableReplicas :: int
  UpdatedReplicas :: int
  UpdatedReadyReplicas :: int
  UpdatedAvailableReplicas :: int
  ExpectedUpdatedReplicas :: int
  UpdateRevision :: string
  CurrentRevision :: string
  CollisionCount :: "int option"
  CSConditions :: "cs_condition list"
  LabelSelectorText :: string

record cloneset = object_meta +
  CSpec :: cloneset_spec
  CStatus :: cloneset_status

section \<open>Revisions\<close>

definition GetShortHash :: "string \<Rightarrow> string" where
  "GetShortHash hash = last (split_on (CHR ''-'') hash)"

definition CSEqualToRevisionHash :: "'a object_meta_scheme \<Rightarrow> string \<Rightarrow> bool" where
  "CSEqualToRevisionHash obj hash =
     (let objHash = lget (Labels obj) ControllerRevisionHashLabelKey
      in objHash = hash \<or> GetShortHash hash = GetShortHash objHash)"

definition DefaultDeploymentUniqueLabelKey :: string where
  "DefaultDeploymentUniqueLabelKey = ''pod-template-hash''"

definition CSWriteRevisionHash :: "bool \<Rightarrow> string \<Rightarrow> 'a object_meta_scheme \<Rightarrow> 'a object_meta_scheme" where
  "CSWriteRevisionHash CloneSetShortHash hash obj =
     (let shortHash = GetShortHash hash
      in obj\<lparr>Labels := (Labels obj)(
           ControllerRevisionHashLabelKey \<mapsto> (if CloneSetShortHash then shortHash else hash),
           DefaultDeploymentUniqueLabelKey \<mapsto> shortHash)\<rparr>)"

definition GetControllerKey :: "cloneset \<Rightarrow> string" where
  "GetControllerKey cs = Namespace cs @ ''/'' @ Name cs"

text \<open>The pods the reader lists; \<open>None\<close> is its error.\<close>

definition GetActiveAndInactivePods :: "pod list option \<Rightarrow> (pod list \<times> pod list) option" where
  "GetActiveAndInactivePods listed =
     map_option (\<lambda>ps. (filter IsPodActive ps, filter (\<lambda>p. \<not> IsPodActive p) ps)) listed"

definition NextRevision :: "controller_revision list \<Rightarrow> int" where
  "NextRevision revisions = (if revisions = [] then 1 else RevisionNum (last revisions) + 1)"

definition CSIsRunningAndReady :: "pod \<Rightarrow> bool" where
  "CSIsRunningAndReady p \<longleftrightarrow> Phase (Status p) = PodRunning \<and> IsPodReady p"

definition IsRunningAndAvailable :: "int \<Rightarrow> pod \<Rightarrow> int \<Rightarrow> bool" where
  "IsRunningAndAvailable now p minReadySeconds \<longleftrightarrow>
     Phase (Status p) = PodRunning \<and> IsPodAvailable p minReadySeconds now"

definition SplitPodsByRevision :: "pod list \<Rightarrow> string \<Rightarrow> pod list \<times> pod list" where
  "SplitPodsByRevision pods rv =
     (filter (\<lambda>p. CSEqualToRevisionHash p rv) pods, filter (\<lambda>p. \<not> CSEqualToRevisionHash p rv) pods)"

definition GroupUpdateAndNotUpdatePods :: "bool \<Rightarrow> pod list \<Rightarrow> string \<Rightarrow> pod list \<times> pod list" where
  "GroupUpdateAndNotUpdatePods gate pods updateRevision =
     (filter (\<lambda>p. IsPodUpdate gate p updateRevision) pods,
      filter (\<lambda>p. \<not> IsPodUpdate gate p updateRevision) pods)"

section \<open>Storage\<close>

definition CloneSetInstanceID :: string where "CloneSetInstanceID = ''apps.kruise.io/cloneset-instance-id''"

definition GetInstanceID :: "'a object_meta_scheme \<Rightarrow> string" where
  "GetInstanceID obj = lget (Labels obj) CloneSetInstanceID"

definition getPersistentVolumeClaimName :: "cloneset \<Rightarrow> pvc \<Rightarrow> string \<Rightarrow> string" where
  "getPersistentVolumeClaimName cs claim i = Name claim @ ''-'' @ Name cs @ ''-'' @ i"

definition instance_claim :: "cloneset \<Rightarrow> pod \<Rightarrow> pvc \<Rightarrow> pvc" where
  "instance_claim cs p tmpl =
     tmpl\<lparr>Name := getPersistentVolumeClaimName cs tmpl (GetInstanceID p),
          Namespace := Namespace cs,
          Labels := (set_labels (case Selector (CSpec cs) of None \<Rightarrow> [] | Some s \<Rightarrow> MatchLabels s) (Labels tmpl))
                      (CloneSetInstanceID \<mapsto> GetInstanceID p),
          OwnerReferences := OwnerReferences tmpl
            @ (case GetControllerOf p of None \<Rightarrow> [] | Some r \<Rightarrow> [r])\<rparr>"

text \<open>The claims by the name of their template, in the order of the templates.\<close>

definition GetPersistentVolumeClaims :: "cloneset \<Rightarrow> pod \<Rightarrow> (string \<times> pvc) list" where
  "GetPersistentVolumeClaims cs p =
     foldl (\<lambda>m t. AList.update (Name t) (instance_claim cs p t) m) [] (VolumeClaimTemplates (CSpec cs))"

definition UpdateStorage :: "cloneset \<Rightarrow> pod \<Rightarrow> pod" where
  "UpdateStorage cs p =
     (let claims = GetPersistentVolumeClaims cs p;
          newVolumes = map (\<lambda>(n, c). \<lparr>VolName = n, ClaimName = Name c\<rparr>) claims
            @ filter (\<lambda>v. map_of claims (VolName v) = None) (Volumes (Spec p))
      in p\<lparr>Spec := (Spec p)\<lparr>Volumes := newVolumes\<rparr>\<rparr>)"

section \<open>Which pod to delete first\<close>

definition PodDeletionCost :: string where "PodDeletionCost = ''controller.kubernetes.io/pod-deletion-cost''"

definition validFirstDigit :: "string \<Rightarrow> bool" where
  "validFirstDigit str \<longleftrightarrow> str \<noteq> []
     \<and> (hd str = CHR ''-'' \<or> str = ''0'' \<or> (CHR ''1'' \<le> hd str \<and> hd str \<le> CHR ''9''))"

definition getDeletionCostFromPodAnnotations :: "(string \<rightharpoonup> anno) \<Rightarrow> int" where
  "getDeletionCostFromPodAnnotations annotations =
     (case annotations PodDeletionCost of
        Some (Text value) \<Rightarrow>
          if \<not> validFirstDigit value then 0
          else (case ParseInt value 32 of None \<Rightarrow> 0 | Some i \<Rightarrow> i)
      | _ \<Rightarrow> 0)"

fun phase_ordinal :: "pod_phase \<Rightarrow> int" where
  "phase_ordinal PodUnknown = 1"
| "phase_ordinal PodRunning = 2"
| "phase_ordinal _ = 0"

definition afterOrZero :: "int \<Rightarrow> int \<Rightarrow> bool" where
  "afterOrZero t1 t2 = (if t1 = 0 \<or> t2 = 0 then t1 = 0 else t1 > t2)"

fun find_ready_time :: "pod_condition list \<Rightarrow> int" where
  "find_ready_time [] = 0"
| "find_ready_time (c # cs) =
     (if CondType c = PodReady \<and> CondStatus c = ConditionTrue then LastTransitionTime c else find_ready_time cs)"

definition podReadyTime :: "pod \<Rightarrow> int" where
  "podReadyTime p = (if IsPodReady p then find_ready_time (Conditions (Status p)) else 0)"

definition maxContainerRestarts :: "pod \<Rightarrow> int" where
  "maxContainerRestarts p = foldl (\<lambda>m c. max m (RestartCount c)) 0 (ContainerStatuses (Status p))"

text \<open>The ranker and the availability test are optional, as in the struct.\<close>

definition Less :: "(pod \<Rightarrow> 'r :: linordered_idom) option \<Rightarrow> (pod \<Rightarrow> bool) option \<Rightarrow> pod \<Rightarrow> pod \<Rightarrow> bool" where
  "Less ranker availableFunc pi pj =
     (if NodeName (Spec pi) \<noteq> NodeName (Spec pj) \<and> (NodeName (Spec pi) = [] \<or> NodeName (Spec pj) = [])
      then NodeName (Spec pi) = []
      else if phase_ordinal (Phase (Status pi)) \<noteq> phase_ordinal (Phase (Status pj))
      then phase_ordinal (Phase (Status pi)) < phase_ordinal (Phase (Status pj))
      else if (case availableFunc of None \<Rightarrow> False | Some f \<Rightarrow> f pi \<noteq> f pj)
      then \<not> (the availableFunc) pi
      else if IsPodReady pi \<noteq> IsPodReady pj then \<not> IsPodReady pi
      else if getDeletionCostFromPodAnnotations (Annotations pi) \<noteq> getDeletionCostFromPodAnnotations (Annotations pj)
      then getDeletionCostFromPodAnnotations (Annotations pi) < getDeletionCostFromPodAnnotations (Annotations pj)
      else let rankI = (case ranker of None \<Rightarrow> 0 | Some r \<Rightarrow> r pi);
               rankJ = (case ranker of None \<Rightarrow> 0 | Some r \<Rightarrow> r pj)
           in if rankI \<noteq> rankJ then rankI > rankJ
              else if IsPodReady pi \<and> IsPodReady pj \<and> podReadyTime pi \<noteq> podReadyTime pj
              then afterOrZero (podReadyTime pi) (podReadyTime pj)
              else if maxContainerRestarts pi \<noteq> maxContainerRestarts pj
              then maxContainerRestarts pi > maxContainerRestarts pj
              else if CreationTimestamp pi \<noteq> CreationTimestamp pj
              then afterOrZero (CreationTimestamp pi) (CreationTimestamp pj)
              else False)"

text \<open>The order of \<open>kubecontroller.ActivePods\<close>.\<close>

definition ActivePods_Less :: "pod \<Rightarrow> pod \<Rightarrow> bool" where
  "ActivePods_Less pi pj =
     (if NodeName (Spec pi) \<noteq> NodeName (Spec pj) \<and> (NodeName (Spec pi) = [] \<or> NodeName (Spec pj) = [])
      then NodeName (Spec pi) = []
      else if phase_ordinal (Phase (Status pi)) \<noteq> phase_ordinal (Phase (Status pj))
      then phase_ordinal (Phase (Status pi)) < phase_ordinal (Phase (Status pj))
      else if IsPodReady pi \<noteq> IsPodReady pj then \<not> IsPodReady pi
      else if IsPodReady pi \<and> IsPodReady pj \<and> podReadyTime pi \<noteq> podReadyTime pj
      then afterOrZero (podReadyTime pi) (podReadyTime pj)
      else if maxContainerRestarts pi \<noteq> maxContainerRestarts pj then maxContainerRestarts pi > maxContainerRestarts pj
      else if CreationTimestamp pi \<noteq> CreationTimestamp pj then afterOrZero (CreationTimestamp pi) (CreationTimestamp pj)
      else False)"

type_synonym pod_sorter = "(pod \<Rightarrow> pod \<Rightarrow> bool) \<Rightarrow> pod list \<Rightarrow> pod list"

text \<open>Pods by node, in the order in which the nodes are first met.\<close>

definition group_by_node :: "pod list \<Rightarrow> (string \<times> pod list) list" where
  "group_by_node pods =
     foldl (\<lambda>m p. if NodeName (Spec p) \<noteq> []
              then AList.update (NodeName (Spec p))
                     ((case map_of m (NodeName (Spec p)) of None \<Rightarrow> [] | Some ps \<Rightarrow> ps) @ [p]) m
              else m) [] pods"

definition rank_node :: "pod_sorter \<Rightarrow> pod list \<Rightarrow> (string \<rightharpoonup> 'r :: linordered_idom) \<Rightarrow> (string \<rightharpoonup> 'r)" where
  "rank_node srt ps ranks =
     (if length ps \<le> 1 then ranks
      else let ps' = butlast (srt (Less (None :: (pod \<Rightarrow> int) option) None) ps)
           in foldl (\<lambda>m (i, p). m(UID p \<mapsto> of_nat (length ps' - i))) ranks (enumerate 0 ps'))"

definition NewSameNodeRanker :: "pod_sorter \<Rightarrow> pod list \<Rightarrow> pod \<Rightarrow> 'r :: linordered_idom" where
  "NewSameNodeRanker srt pods p =
     (case foldl (\<lambda>m (n, ps). rank_node srt ps m) Map.empty (group_by_node pods) (UID p) of
        None \<Rightarrow> 0 | Some r \<Rightarrow> r)"

record spread_constraint =
  SpreadKey :: string
  LimitedValues :: "string list"

text \<open>The nodes that could be read, with their labels, and the pods on them.\<close>

definition spread_nodes :: "(string \<Rightarrow> labels option) \<Rightarrow> pod list \<Rightarrow> (string \<times> labels) list \<times> (string \<times> pod list) list" where
  "spread_nodes getNode pods =
     foldl (\<lambda>(nodes, on) p.
        let n = NodeName (Spec p) in
        if n = [] then (nodes, on)
        else if map_of nodes n \<noteq> None then
          (nodes, AList.update n ((case map_of on n of None \<Rightarrow> [] | Some ps \<Rightarrow> ps) @ [p]) on)
        else (case getNode n of
                None \<Rightarrow> (nodes, on)
              | Some ls \<Rightarrow>
                  (nodes @ [(n, ls)], AList.update n ((case map_of on n of None \<Rightarrow> [] | Some ps \<Rightarrow> ps) @ [p]) on)))
       ([], []) pods"

definition spread_topologies ::
  "spread_constraint \<Rightarrow> (string \<times> labels) list \<Rightarrow> (string \<times> pod list) list \<Rightarrow> (string \<times> pod list) list" where
  "spread_topologies c nodes on =
     foldl (\<lambda>m (n, ls).
        case ls (SpreadKey c) of
          None \<Rightarrow> m
        | Some v \<Rightarrow>
            if LimitedValues c \<noteq> [] \<and> v \<notin> set (LimitedValues c) then m
            else AList.update v ((case map_of m v of None \<Rightarrow> [] | Some ps \<Rightarrow> ps)
                   @ (case map_of on n of None \<Rightarrow> [] | Some ps \<Rightarrow> ps)) m) [] nodes"

text \<open>The weight of a topology, \<open>math.Log(float64(size + 2))\<close>, is the argument \<open>weight\<close>.\<close>

definition NewSpreadConstraintsRanker ::
  "pod_sorter \<Rightarrow> (nat \<Rightarrow> 'r :: linordered_idom) \<Rightarrow> (string \<Rightarrow> labels option) \<Rightarrow> pod list \<Rightarrow> spread_constraint list
   \<Rightarrow> pod \<Rightarrow> 'r" where
  "NewSpreadConstraintsRanker srt weight getNode pods constraints p =
     (let (nodes, on) = spread_nodes getNode pods;
          smRanker = NewSameNodeRanker srt pods :: pod \<Rightarrow> 'r;
          ranks = foldl (\<lambda>m c.
            let tops = spread_topologies c nodes on;
                useRanker = (if SpreadKey c \<noteq> ''kubernetes.io/hostname'' then Some smRanker else None);
                w = weight (length tops)
            in foldl (\<lambda>m (v, ps).
                 let ps' = srt (Less useRanker None) ps
                 in foldl (\<lambda>m (i, q). m(UID q \<mapsto>
                      (case m (UID q) of None \<Rightarrow> 0 | Some r \<Rightarrow> r) + of_nat (length ps' - i) * w)) m (enumerate 0 ps'))
               m tops) Map.empty constraints
      in case ranks (UID p) of None \<Rightarrow> 0 | Some r \<Rightarrow> r)"

end
