(* ===== verification/CloneSet_Order.thy ===== *)
theory CloneSet_Order
  imports CloneSet_Utils
begin

text \<open>
  Properties of the CloneSet helpers: the comparison of pods is a strict weak order, so sorting with
  it means what \<open>package sort\<close> promises; a written revision hash is recognised; the volumes of a pod
  refer to its claims.
\<close>

section \<open>The comparison of pods\<close>

lemma strict_weak_bool: "strict_weak (\<lambda>x y. \<not> f x \<and> f y)"
  by (auto simp: strict_weak_def)

lemma strict_weak_desc: "strict_weak (\<lambda>x y. f x > (f y :: 'b :: linorder))"
  by (auto simp: strict_weak_def not_less)

lemma strict_weak_afterOrZero: "strict_weak (\<lambda>x y. f x \<noteq> f y \<and> afterOrZero (f x) (f y))"
  by (auto simp: strict_weak_def afterOrZero_def)

lemma strict_weak_never: "strict_weak (\<lambda>x y. False)"
  by (simp add: strict_weak_def)

text \<open>The comparison as a chain of criteria.\<close>

definition less_chain :: "(pod \<Rightarrow> 'r :: linordered_idom) option \<Rightarrow> (pod \<Rightarrow> bool) option \<Rightarrow> pod \<Rightarrow> pod \<Rightarrow> bool" where
  "less_chain ranker availableFunc =
     then_by (\<lambda>x y. \<not> NodeName (Spec x) \<noteq> [] \<and> NodeName (Spec y) \<noteq> [])
    (then_by (\<lambda>x y. phase_ordinal (Phase (Status x)) < phase_ordinal (Phase (Status y)))
    (then_by (\<lambda>x y. case availableFunc of None \<Rightarrow> False | Some f \<Rightarrow> \<not> f x \<and> f y)
    (then_by (\<lambda>x y. \<not> IsPodReady x \<and> IsPodReady y)
    (then_by (\<lambda>x y. getDeletionCostFromPodAnnotations (Annotations x) < getDeletionCostFromPodAnnotations (Annotations y))
    (then_by (\<lambda>x y. (case ranker of None \<Rightarrow> 0 | Some r \<Rightarrow> r x) > (case ranker of None \<Rightarrow> 0 | Some r \<Rightarrow> r y))
    (then_by (\<lambda>x y. podReadyTime x \<noteq> podReadyTime y \<and> afterOrZero (podReadyTime x) (podReadyTime y))
    (then_by (\<lambda>x y. maxContainerRestarts x > maxContainerRestarts y)
      (\<lambda>x y. CreationTimestamp x \<noteq> CreationTimestamp y \<and> afterOrZero (CreationTimestamp x) (CreationTimestamp y)))))))))"

lemma strict_weak_less_chain: "strict_weak (less_chain ranker availableFunc)"
proof -
  have avail: "strict_weak (\<lambda>x y. case availableFunc of None \<Rightarrow> False | Some f \<Rightarrow> \<not> f x \<and> f y)"
    by (cases availableFunc) (simp_all add: strict_weak_never strict_weak_bool)
  show ?thesis
    unfolding less_chain_def
    by (intro strict_weak_then_by strict_weak_key strict_weak_bool strict_weak_desc strict_weak_afterOrZero avail)
qed

lemma afterOrZero_asym: "s \<noteq> t \<Longrightarrow> afterOrZero s t \<Longrightarrow> \<not> afterOrZero t s"
  and afterOrZero_total: "s \<noteq> t \<Longrightarrow> \<not> afterOrZero s t \<Longrightarrow> afterOrZero t s"
  by (auto simp: afterOrZero_def split: if_splits)

lemma podReadyTime_not_ready: "\<not> IsPodReady p \<Longrightarrow> podReadyTime p = 0"
  by (simp add: podReadyTime_def)

lemma then_by_split:
  "then_by l1 l2 x y = (if l1 x y then True else if l1 y x then False else l2 x y)"
  by (simp add: then_by_def)

lemma Less_chain: "Less ranker availableFunc x y = less_chain ranker availableFunc x y"
proof (cases "IsPodReady x \<and> IsPodReady y")
  case True
  then show ?thesis
    unfolding Less_def less_chain_def then_by_split Let_def
    by (cases availableFunc) (auto dest: afterOrZero_asym afterOrZero_total)
next
  case False
  then show ?thesis
    unfolding Less_def less_chain_def then_by_split Let_def
    by (cases availableFunc) (auto dest: afterOrZero_asym afterOrZero_total simp: podReadyTime_not_ready)
qed

lemma Less_strict_weak: "strict_weak (Less ranker availableFunc)"
proof -
  have "Less ranker availableFunc = less_chain ranker availableFunc" by (intro ext) (rule Less_chain)
  then show ?thesis by (simp add: strict_weak_less_chain)
qed

text \<open>
  C10: \<open>ActivePodsWithRanks.Less\<close> is a strict weak order whatever the ranker and the availability test
  are; so when the first pods of a sorted list are deleted, no pod that is kept compares less than a
  deleted one: an assigned pod is not deleted while an unassigned one is kept, nor, among pods that
  are assigned alike, a running one while a pending one is kept.
\<close>

theorem deletion_prefers_smaller:
  assumes "go_sorter srt" and "x \<in> set (take n (srt (Less ranker availableFunc) pods))"
    and "y \<in> set (drop n (srt (Less ranker availableFunc) pods))"
  shows "strict_weak (Less ranker availableFunc) \<and> \<not> Less ranker availableFunc y x
    \<and> (NodeName (Spec y) = [] \<longrightarrow> NodeName (Spec x) = [])
    \<and> ((NodeName (Spec y) = []) = (NodeName (Spec x) = []) \<longrightarrow>
        phase_ordinal (Phase (Status x)) \<le> phase_ordinal (Phase (Status y)))"
proof -
  have not_less: "\<not> Less ranker availableFunc y x"
    using go_sorter.srt_prefix_minimal [OF assms(1) Less_strict_weak assms(2,3)] .
  then have "\<not> less_chain ranker availableFunc y x" by (simp add: Less_chain)
  then show ?thesis
    using not_less Less_strict_weak [of ranker availableFunc]
    by (auto simp: less_chain_def then_by_split split: if_splits)
qed

theorem deletion_prefers_smaller_witness:
  "\<not> Less (None :: (pod \<Rightarrow> int) option) None
      (zero_pod\<lparr>Spec := zero_pod_spec\<lparr>NodeName := ''n1''\<rparr>\<rparr>) zero_pod"
proof -
  let ?a = "zero_pod\<lparr>Spec := zero_pod_spec\<lparr>NodeName := ''n1''\<rparr>\<rparr>"
  let ?L = "Less (None :: (pod \<Rightarrow> int) option) None"
  have "go_sort ?L [?a, zero_pod] = [zero_pod, ?a]"
    by (simp add: go_sort_def Less_def zero_defs)
  then show ?thesis
    using deletion_prefers_smaller [OF insertion.go_sorter_axioms, of zero_pod 1 "None :: (pod \<Rightarrow> int) option" None
      "[?a, zero_pod]" ?a] by simp
qed

section \<open>Revision hashes\<close>

lemma GetShortHash_no_dash: "CHR ''-'' \<notin> set (GetShortHash h)"
  by (simp add: GetShortHash_def last_split_on_no_sep)

lemma GetShortHash_idem [simp]: "GetShortHash (GetShortHash h) = GetShortHash h"
  using split_on_no_sep [OF GetShortHash_no_dash [of h]] by (simp add: GetShortHash_def [of "GetShortHash h"])

lemma key_hash_neq [simp]: "DefaultDeploymentUniqueLabelKey \<noteq> ControllerRevisionHashLabelKey"
  "ControllerRevisionHashLabelKey \<noteq> DefaultDeploymentUniqueLabelKey"
  by (simp_all add: DefaultDeploymentUniqueLabelKey_def ControllerRevisionHashLabelKey_def)

text \<open>
  an object that a revision hash has been written to is recognised as one of that revision,
  under either setting of the short-hash feature gate at the time of writing, and is recognised as one
  of another revision exactly when the two names end in the same hash.
\<close>

theorem revision_hash_roundtrip:
  "CSEqualToRevisionHash (CSWriteRevisionHash gate hash obj) hash
   \<and> (CSEqualToRevisionHash (CSWriteRevisionHash gate hash obj) hash' \<longleftrightarrow> GetShortHash hash = GetShortHash hash')"
  by (auto simp: CSEqualToRevisionHash_def CSWriteRevisionHash_def Let_def)

section \<open>Storage\<close>

lemma Name_instance_claim [simp]:
  "Name (instance_claim cs p t) = getPersistentVolumeClaimName cs t (GetInstanceID p)"
  by (simp add: instance_claim_def)

lemma claims_spec:
  assumes "distinct (map Name (VolumeClaimTemplates (CSpec cs)))"
  shows "GetPersistentVolumeClaims cs p = map (\<lambda>t. (Name t, instance_claim cs p t)) (VolumeClaimTemplates (CSpec cs))"
proof -
  have upd: "AList.update k v al = al @ [(k, v)]" if "k \<notin> fst ` set al" for k :: string and v :: pvc and al
    using that by (induction al) auto
  have "foldl (\<lambda>m t. AList.update (Name t) (instance_claim cs p t) m) acc ts =
      acc @ map (\<lambda>t. (Name t, instance_claim cs p t)) ts"
    if "distinct (map Name ts)" "fst ` set acc \<inter> Name ` set ts = {}" for acc ts
    using that
  proof (induction ts arbitrary: acc)
    case (Cons t ts)
    then show ?case using upd [of "Name t" acc] by simp
  qed simp
  from this [OF assms, of "[]"] show ?thesis by (simp add: GetPersistentVolumeClaims_def)
qed

text \<open>
  C18: after \<open>UpdateStorage\<close>, the pod has for each claim template one volume of that name, which
  refers to the claim of this pod's instance, and keeps the volumes of other names.
\<close>

theorem update_storage_volumes:
  assumes "distinct (map Name (VolumeClaimTemplates (CSpec cs)))"
  shows "(\<forall>t\<in>set (VolumeClaimTemplates (CSpec cs)).
      filter (\<lambda>v. VolName v = Name t) (Volumes (Spec (UpdateStorage cs p)))
        = [\<lparr>VolName = Name t, ClaimName = getPersistentVolumeClaimName cs t (GetInstanceID p)\<rparr>])
    \<and> filter (\<lambda>v. VolName v \<notin> Name ` set (VolumeClaimTemplates (CSpec cs))) (Volumes (Spec (UpdateStorage cs p)))
        = filter (\<lambda>v. VolName v \<notin> Name ` set (VolumeClaimTemplates (CSpec cs))) (Volumes (Spec p))"
proof -
  let ?T = "VolumeClaimTemplates (CSpec cs)"
  let ?vol = "\<lambda>t. \<lparr>VolName = Name t, ClaimName = getPersistentVolumeClaimName cs t (GetInstanceID p)\<rparr>"
  have dom: "map_of (map (\<lambda>t. (Name t, instance_claim cs p t)) ts) n = None \<longleftrightarrow> n \<notin> Name ` set ts" for ts n
    by (induction ts) auto
  have vols: "Volumes (Spec (UpdateStorage cs p)) =
      map ?vol ?T @ filter (\<lambda>v. VolName v \<notin> Name ` set ?T) (Volumes (Spec p))"
    by (simp add: UpdateStorage_def claims_spec [OF assms] Let_def dom comp_def)
  have one: "filter (\<lambda>v. VolName v = Name t) (map ?vol ts) = [?vol t]"
    if "distinct (map Name ts)" "t \<in> set ts" for t ts
    using that
  proof (induction ts)
    case (Cons u ts)
    have none: "filter (\<lambda>v. VolName v = Name u) (map ?vol ts) = []"
      using Cons.prems(1) by (auto simp: filter_empty_conv) (metis image_eqI)
    show ?case
    proof (cases "t = u")
      case True
      then show ?thesis using none by simp
    next
      case False
      then show ?thesis using Cons by (auto simp: rev_image_eqI)
    qed
  qed simp
  have tail: "filter (\<lambda>v. VolName v = Name t) (filter (\<lambda>v. VolName v \<notin> Name ` set ?T) (Volumes (Spec p))) = []"
    if "t \<in> set ?T" for t
    using that by (auto simp: filter_empty_conv)
  show ?thesis
    unfolding vols filter_append
    using one [OF assms] tail by (auto simp: filter_empty_conv)
qed

theorem update_storage_volumes_witness:
  "\<exists>cs :: cloneset. VolumeClaimTemplates (CSpec cs) \<noteq> []
     \<and> (\<forall>t\<in>set (VolumeClaimTemplates (CSpec cs)).
          filter (\<lambda>v. VolName v = Name t) (Volumes (Spec (UpdateStorage cs zero_pod))) \<noteq> [])"
proof -
  let ?t = "object_meta.extend (zero_meta\<lparr>Name := ''data''\<rparr>) (pvc.fields [])"
  fix cs0 :: cloneset
  let ?cs = "cs0\<lparr>CSpec := (CSpec cs0)\<lparr>VolumeClaimTemplates := [?t]\<rparr>\<rparr>"
  have "distinct (map Name (VolumeClaimTemplates (CSpec ?cs)))" by simp
  from update_storage_volumes [OF this, of zero_pod] show ?thesis by (intro exI [of _ ?cs]) auto
qed

end
