(* ===== verification/CloneSet_Sync.thy ===== *)
theory CloneSet_Sync
  imports CloneSet_Order Inplace_Correct
begin

text \<open>
  The decisions of the CloneSet controller: the core control (\<open>core/cloneset_core.go\<close>) and the
  numbers of pods to scale and to update (\<open>sync/cloneset_sync_utils.go\<close>).  The feature gates, the
  controller's flag and the clock are one record.  Replica counts are unbounded integers in place of
  Go's 64-bit \<open>int\<close>; the API keeps them within 32 bits.
\<close>

record cs_env =
  PartitionRollback :: bool
  PreparingUpdateAsUpdate :: bool
  ShortHash :: bool
  scalingExcludePreparingDelete :: bool
  time_now :: int

section \<open>Core control\<close>

definition IsPodUpdateReady :: "cs_env \<Rightarrow> pod \<Rightarrow> int \<Rightarrow> bool" where
  "IsPodUpdateReady env p minReadySeconds \<longleftrightarrow>
     IsRunningAndAvailable (time_now env) p minReadySeconds
     \<and> (case GetCondition p InPlaceUpdateReady of None \<Rightarrow> True | Some c \<Rightarrow> CondStatus c = ConditionTrue)"

definition GetPodSpreadConstraint :: "cloneset \<Rightarrow> spread_constraint list" where
  "GetPodSpreadConstraint cs =
     map (\<lambda>t. \<lparr>SpreadKey = TopologyKey t, LimitedValues = []\<rparr>)
       (TopologySpreadConstraints (TplSpec (Template (CSpec cs))))"

text \<open>The update options, with the defaults of \<open>SetOptionsDefaults\<close>.\<close>

definition GetUpdateOptions ::
  "(pod \<Rightarrow> string \<Rightarrow> pod option) \<Rightarrow> (container \<Rightarrow> nat) \<Rightarrow> ((string \<times> anno) list \<Rightarrow> nat)
   \<Rightarrow> int \<Rightarrow> cloneset \<Rightarrow> update_options" where
  "GetUpdateOptions merge HashContainer hashEnvs now cs =
     \<lparr>GracePeriodSeconds = (case InPlaceGraceSeconds (UpdateStrategy (CSpec cs)) of None \<Rightarrow> 0 | Some s \<Rightarrow> s),
      AdditionalFuncs = [],
      PatchSpecToPod = defaultPatchUpdateSpecToPod merge now,
      CheckContainersUpdateCompleted = defaultCheckContainersInPlaceUpdateCompleted HashContainer hashEnvs\<rparr>"

text \<open>The JSON patch between the templates' specs is an argument; \<open>None\<close> is its failure.\<close>

definition template_image_path :: "string \<Rightarrow> bool" where
  "template_image_path path =
     (case split_on (CHR ''/'') path of
        [a, b, c, d] \<Rightarrow> a = [] \<and> b = ''containers'' \<and> c \<noteq> [] \<and> list_all is_digit c \<and> d = ''image''
      | _ \<Rightarrow> False)"

definition ValidateCloneSetUpdate ::
  "(pod_spec \<Rightarrow> pod_spec \<Rightarrow> json_op list option) \<Rightarrow> cloneset \<Rightarrow> cloneset \<Rightarrow> string option" where
  "ValidateCloneSetUpdate CreatePatch oldCS newCS =
     (if UpdateType (UpdateStrategy (CSpec newCS)) \<noteq> InPlaceOnly then None
      else case CreatePatch (TplSpec (Template (CSpec oldCS))) (TplSpec (Template (CSpec newCS))) of
             None \<Rightarrow> Some ''failed calculate patches between old/new template spec''
           | Some patches \<Rightarrow>
               if list_all (\<lambda>p. Operation p = ''replace'' \<and> template_image_path (Path p)) patches then None
               else Some ''only allowed to update images in spec'')"

definition hook_finalizer_changed :: "lifecycle_hook option \<Rightarrow> pod \<Rightarrow> pod \<Rightarrow> bool" where
  "hook_finalizer_changed hook oldPod curPod =
     (case hook of None \<Rightarrow> False
      | Some h \<Rightarrow> list_ex (\<lambda>f. (f \<in> set (Finalizers oldPod)) \<noteq> (f \<in> set (Finalizers curPod))) (FinalizersHandler h))"

definition lifecycleFinalizerChanged :: "cloneset \<Rightarrow> pod \<Rightarrow> pod \<Rightarrow> bool" where
  "lifecycleFinalizerChanged cs oldPod curPod =
     (case CSLifecycle (CSpec cs) of None \<Rightarrow> False
      | Some l \<Rightarrow> hook_finalizer_changed (PreDelete l) oldPod curPod
                  \<or> hook_finalizer_changed (InPlaceUpdate l) oldPod curPod)"

definition containersUpdateCompleted :: "pod \<Rightarrow> (pod \<Rightarrow> inplace_state \<Rightarrow> api_error option) \<Rightarrow> api_error option" where
  "containersUpdateCompleted p checkFunc =
     (case GetInPlaceUpdateState p of
        None \<Rightarrow> Some (OtherError ''no in-place update state'')
      | Some (StateJSON state) \<Rightarrow> checkFunc p state
      | Some _ \<Rightarrow> Some (OtherError ''unmarshal''))"

definition IgnorePodUpdateEvent ::
  "(container \<Rightarrow> nat) \<Rightarrow> ((string \<times> anno) list \<Rightarrow> nat) \<Rightarrow> cloneset \<Rightarrow> pod \<Rightarrow> pod \<Rightarrow> bool" where
  "IgnorePodUpdateEvent HashContainer hashEnvs cs oldPod curPod =
     (if Generation oldPod \<noteq> Generation curPod then False
      else if lifecycleFinalizerChanged cs oldPod curPod then False
      else if IsPodReady oldPod \<noteq> IsPodReady curPod then False
      else if containsReadinessGate curPod InPlaceUpdateReady
              \<and> containersUpdateCompleted curPod (defaultCheckContainersInPlaceUpdateCompleted HashContainer hashEnvs) = None
              \<and> (case GetCondition curPod InPlaceUpdateReady of None \<Rightarrow> True
                  | Some c \<Rightarrow> CondStatus c \<noteq> ConditionTrue)
      then False else True)"

definition new_pod :: "cs_env \<Rightarrow> cloneset \<Rightarrow> string \<Rightarrow> string \<Rightarrow> pod" where
  "new_pod env cs rv i =
     (let p0 = pod_from_template (Template (CSpec cs))
                 (NewControllerRef cs ''apps.kruise.io/v1alpha1'' ''CloneSet'');
          p1 = CSWriteRevisionHash (ShortHash env) rv p0;
          p2 = p1\<lparr>Name := Name cs @ ''-'' @ i, Namespace := Namespace cs,
                  Labels := (Labels p1)(CloneSetInstanceID \<mapsto> i)\<rparr>
      in UpdateStorage cs (InjectReadinessGate p2))"

text \<open>The new pods and the ids that are left.\<close>

fun newVersionedPods :: "cs_env \<Rightarrow> cloneset \<Rightarrow> string \<Rightarrow> nat \<Rightarrow> string list \<Rightarrow> pod list \<times> string list" where
  "newVersionedPods env cs rv 0 ids = ([], ids)"
| "newVersionedPods env cs rv (Suc n) [] = ([], [])"
| "newVersionedPods env cs rv (Suc n) (i # ids) =
     (let (ps, rest) = newVersionedPods env cs rv n ids in (new_pod env cs rv i # ps, rest))"

definition NewVersionedPods ::
  "cs_env \<Rightarrow> cloneset \<Rightarrow> cloneset \<Rightarrow> string \<Rightarrow> string \<Rightarrow> int \<Rightarrow> int \<Rightarrow> string list \<Rightarrow> pod list" where
  "NewVersionedPods env currentCS updateCS currentRevision updateRevision
      expectedCreations expectedCurrentCreations availableIDs =
     (if expectedCreations \<le> expectedCurrentCreations
      then fst (newVersionedPods env currentCS currentRevision (nat expectedCreations) availableIDs)
      else let (ps, rest) = newVersionedPods env currentCS currentRevision (nat expectedCurrentCreations) availableIDs
           in ps @ fst (newVersionedPods env updateCS updateRevision
                          (nat (expectedCreations - expectedCurrentCreations)) rest))"

section \<open>Calculating the differences\<close>

record expectation_diffs =
  scaleUpNum :: int
  scaleUpNumOldRevision :: int
  scaleDownNum :: int
  scaleDownNumOldRevision :: int
  scaleUpLimit :: int
  deleteReadyLimit :: int
  useSurge :: int
  useSurgeOldRevision :: int
  updateNum :: int
  updateMaxUnavailable :: int

definition zero_diffs :: expectation_diffs where
  "zero_diffs = \<lparr>scaleUpNum = 0, scaleUpNumOldRevision = 0, scaleDownNum = 0, scaleDownNumOldRevision = 0,
     scaleUpLimit = 0, deleteReadyLimit = 0, useSurge = 0, useSurgeOldRevision = 0, updateNum = 0,
     updateMaxUnavailable = 0\<rparr>"

definition isEmpty :: "expectation_diffs \<Rightarrow> bool" where
  "isEmpty e \<longleftrightarrow> e = zero_diffs"

definition CSIsPodAvailable :: "cs_env \<Rightarrow> pod \<Rightarrow> int \<Rightarrow> bool" where
  "CSIsPodAvailable env p minReadySeconds \<longleftrightarrow>
     (let state = GetPodLifecycleState p
      in if state \<noteq> [] \<and> state \<noteq> StateNormal then False else IsPodUpdateReady env p minReadySeconds)"

definition isPodReady :: "cs_env \<Rightarrow> pod \<Rightarrow> bool" where
  "isPodReady env p = CSIsPodAvailable env p 0"

definition isSpecifiedDelete :: "cloneset \<Rightarrow> pod \<Rightarrow> bool" where
  "isSpecifiedDelete cs p \<longleftrightarrow> IsSpecifiedDelete p \<or> Name p \<in> set (PodsToDelete (ScaleStrategy (CSpec cs)))"

definition CloneSetScalingExcludePreparingDeleteKey :: string where
  "CloneSetScalingExcludePreparingDeleteKey = ''apps.kruise.io/cloneset-scaling-exclude-preparing-delete''"

definition shouldScalingExcludePreparingDelete :: "cs_env \<Rightarrow> cloneset \<Rightarrow> bool" where
  "shouldScalingExcludePreparingDelete env cs \<longleftrightarrow> scalingExcludePreparingDelete env
     \<or> lget (Labels cs) CloneSetScalingExcludePreparingDeleteKey = ''true''"

text \<open>The counts of the pods of one revision.\<close>

record rev_counts =
  revCount :: int
  activeCount :: int
  unavailableCount :: int
  toDeleteCount :: int
  preDeletingCount :: int

definition count_pods :: "cs_env \<Rightarrow> cloneset \<Rightarrow> (pod \<Rightarrow> bool) \<Rightarrow> pod list \<Rightarrow> rev_counts" where
  "count_pods env cs inRev pods =
     foldl (\<lambda>c p.
        if \<not> inRev p then c
        else let c1 = c\<lparr>revCount := revCount c + 1\<rparr> in
          if GetPodLifecycleState p = StatePreparingDelete
          then c1\<lparr>preDeletingCount := preDeletingCount c1 + 1\<rparr>
          else let c2 = c1\<lparr>activeCount := activeCount c1 + 1\<rparr> in
            if isSpecifiedDelete cs p then c2\<lparr>toDeleteCount := toDeleteCount c2 + 1\<rparr>
            else if \<not> CSIsPodAvailable env p (MinReadySeconds (CSpec cs))
            then c2\<lparr>unavailableCount := unavailableCount c2 + 1\<rparr>
            else c2)
       \<lparr>revCount = 0, activeCount = 0, unavailableCount = 0, toDeleteCount = 0, preDeletingCount = 0\<rparr> pods"

text \<open>The surge and its part of old revision.\<close>

definition use_surge :: "int \<Rightarrow> int \<Rightarrow> rev_counts \<Rightarrow> rev_counts \<Rightarrow> int \<Rightarrow> int \<Rightarrow> int \<Rightarrow> int \<times> int" where
  "use_surge maxSurge maxUnavailable new old totalUnavailable updateOldDiff updateNewDiff =
     (if maxSurge > 0 then
        let toDelete = toDeleteCount new + toDeleteCount old;
            scaleSurge = (if toDelete > 0
                          then min (max ((totalUnavailable + toDelete) - maxUnavailable) 0) toDelete else 0);
            scaleOldRevisionSurge = (if toDelete > 0 \<and> scaleSurge > toDeleteCount new
                                     then scaleSurge - toDeleteCount new else 0);
            (updateSurge, updateOldRevisionSurge) =
              (if IsIntPlusAndMinus updateOldDiff updateNewDiff then
                 (if IntAbs updateOldDiff \<le> IntAbs updateNewDiff
                  then (IntAbs updateOldDiff, if updateOldDiff < 0 then IntAbs updateOldDiff else 0)
                  else (IntAbs updateNewDiff, if updateNewDiff > 0 then IntAbs updateNewDiff else 0))
               else (0, 0))
        in if scaleSurge \<ge> updateSurge
           then (min maxSurge scaleSurge, min (min maxSurge scaleSurge) scaleOldRevisionSurge)
           else (min maxSurge updateSurge, min (min maxSurge updateSurge) updateOldRevisionSurge)
      else (0, 0))"

text \<open>The integer values of the strategy; a nil pointer to the replicas panics, which the callers exclude.\<close>

definition cs_replicas :: "cloneset \<Rightarrow> int" where
  "cs_replicas cs = (case Replicas (CSpec cs) of None \<Rightarrow> 0 | Some r \<Rightarrow> r)"

definition cs_partition :: "cloneset \<Rightarrow> int" where
  "cs_partition cs =
     (case Partition (UpdateStrategy (CSpec cs)) of
        None \<Rightarrow> 0
      | Some v \<Rightarrow> (case CalculatePartitionReplicas (Some v) (Replicas (CSpec cs)) of None \<Rightarrow> 0 | Some n \<Rightarrow> n))"

definition cs_maxSurge :: "cloneset \<Rightarrow> int" where
  "cs_maxSurge cs =
     (case MaxSurge (UpdateStrategy (CSpec cs)) of
        None \<Rightarrow> 0
      | Some v \<Rightarrow> if Paused (UpdateStrategy (CSpec cs)) then 0
                   else fst (GetValueFromIntOrPercent (Some v) (cs_replicas cs) True))"

definition cs_maxUnavailable :: "cloneset \<Rightarrow> int" where
  "cs_maxUnavailable cs =
     fst (GetValueFromIntOrPercent
       (Some (ValueOrDefault (MaxUnavailable (UpdateStrategy (CSpec cs))) (StrVal ''20%'')))
       (cs_replicas cs) (cs_maxSurge cs = 0))"

definition cs_scaleMaxUnavailable :: "cloneset \<Rightarrow> int" where
  "cs_scaleMaxUnavailable cs =
     fst (GetValueFromIntOrPercent
       (Some (ValueOrDefault (ScaleMaxUnavailable (ScaleStrategy (CSpec cs))) (IntVal 2147483647)))
       (cs_replicas cs) True)"

definition calculateDiffsWithExpectation ::
  "cs_env \<Rightarrow> cloneset \<Rightarrow> pod list \<Rightarrow> string \<Rightarrow> string \<Rightarrow> (pod \<Rightarrow> string \<Rightarrow> bool) option \<Rightarrow> expectation_diffs" where
  "calculateDiffsWithExpectation env cs pods currentRevision updateRevision isPodUpdate =
     (let replicas = cs_replicas cs;
          part = cs_partition cs;
          maxSurge = cs_maxSurge cs;
          maxUnavailable = cs_maxUnavailable cs;
          scaleMaxUnavailable = cs_scaleMaxUnavailable cs;
          isUpd = (case isPodUpdate of None \<Rightarrow> CSEqualToRevisionHash | Some f \<Rightarrow> f);
          new = count_pods env cs (\<lambda>p. isUpd p updateRevision) pods;
          old = count_pods env cs (\<lambda>p. \<not> isUpd p updateRevision) pods;
          oldDiff = activeCount old - part;
          newDiff = activeCount new - (replicas - part);
          totalUnavailable = preDeletingCount new + preDeletingCount old + unavailableCount new + unavailableCount old;
          oneWay = (updateRevision = currentRevision \<or> \<not> PartitionRollback env);
          updateOldDiff = (if oneWay then max oldDiff 0 else oldDiff);
          updateNewDiff = (if oneWay then min newDiff 0 else newDiff);
          (surge, surgeOld) = use_surge maxSurge maxUnavailable new old totalUnavailable updateOldDiff updateNewDiff;
          exclude = shouldScalingExcludePreparingDelete env cs;
          currentTotalCount = int (length pods)
            - (if exclude then preDeletingCount old + preDeletingCount new else 0);
          currentTotalOldCount = revCount old - (if exclude then preDeletingCount old else 0);
          expectedTotalCount = replicas + surge;
          expectedTotalOldCount = part + surgeOld;
          up = expectedTotalCount - currentTotalCount;
          down = currentTotalCount - toDeleteCount old - toDeleteCount new - expectedTotalCount;
          upd = (if IntAbs updateOldDiff \<le> IntAbs updateNewDiff then updateOldDiff else 0 - updateNewDiff)
      in \<lparr>scaleUpNum = (if up > 0 then up else 0),
          scaleUpNumOldRevision = (if up > 0 then max (expectedTotalOldCount - currentTotalOldCount) 0 else 0),
          scaleDownNum = (if down > 0 then down else 0),
          scaleDownNumOldRevision =
            (if down > 0 then max (currentTotalOldCount - toDeleteCount old - expectedTotalOldCount) 0 else 0),
          scaleUpLimit = (if up > 0 then min up (max (scaleMaxUnavailable - totalUnavailable) 0) else 0),
          deleteReadyLimit =
            (if toDeleteCount new > 0 \<or> toDeleteCount old > 0 \<or> down > 0
             then max (maxUnavailable + (int (length pods) - replicas) - totalUnavailable) 0 else 0),
          useSurge = surge, useSurgeOldRevision = surgeOld,
          updateNum = upd,
          updateMaxUnavailable = (if upd \<noteq> 0 then maxUnavailable + int (length pods) - replicas else 0)\<rparr>)"

section \<open>What the differences promise\<close>

text \<open>An empty CloneSet, from which examples are built.\<close>

definition zero_cloneset :: cloneset where
  "zero_cloneset = object_meta.extend zero_meta (cloneset.fields
     \<lparr>Replicas = Some 0, Selector = None,
      Template = \<lparr>TplLabels = Map.empty, TplAnnotations = Map.empty, TplFinalizers = [], TplSpec = zero_pod_spec\<rparr>,
      VolumeClaimTemplates = [],
      ScaleStrategy = \<lparr>PodsToDelete = [], ScaleMaxUnavailable = None, DisablePVCReuse = False\<rparr>,
      UpdateStrategy = \<lparr>UpdateType = ReCreate, Partition = None, MaxUnavailable = Some (IntVal 1), MaxSurge = None,
        Paused = False, PriorityStrategy = None, ScatterStrategy = [], InPlaceGraceSeconds = None\<rparr>,
      RevisionHistoryLimit = None, MinReadySeconds = 0, CSLifecycle = None\<rparr>
     \<lparr>ObservedGeneration = 0, StatusReplicas = 0, ReadyReplicas = 0, AvailableReplicas = 0, UpdatedReplicas = 0,
      UpdatedReadyReplicas = 0, UpdatedAvailableReplicas = 0, ExpectedUpdatedReplicas = 0, UpdateRevision = [],
      CurrentRevision = [], CollisionCount = None, CSConditions = [], LabelSelectorText = []\<rparr>)"

lemmas zero_cs_defs = zero_cloneset_def cloneset.defs zero_defs

definition demo_env :: "bool \<Rightarrow> cs_env" where
  "demo_env rollback = \<lparr>PartitionRollback = rollback, PreparingUpdateAsUpdate = False, ShortHash = False,
     scalingExcludePreparingDelete = False, time_now = 0\<rparr>"

text \<open>The counts are lengths of filtered lists.\<close>

definition pre_deleting :: "pod \<Rightarrow> bool" where
  "pre_deleting p \<longleftrightarrow> GetPodLifecycleState p = StatePreparingDelete"

definition num :: "(pod \<Rightarrow> bool) \<Rightarrow> pod list \<Rightarrow> int" where
  "num P pods = int (length (filter P pods))"

lemma num_simps [simp]: "num P [] = 0" "num P (ps @ [p]) = num P ps + (if P p then 1 else 0)"
  by (simp_all add: num_def)

lemma num_nonneg [simp]: "0 \<le> num P ps"
  by (simp add: num_def)

lemma num_split: "num (\<lambda>p. P p \<and> Q p) ps + num (\<lambda>p. P p \<and> \<not> Q p) ps = num P ps"
  by (induction ps rule: rev_induct) auto

lemma num_compl: "num P ps + num (\<lambda>p. \<not> P p) ps = int (length ps)"
  by (induction ps rule: rev_induct) auto

lemma count_pods_eq:
  "count_pods env cs inRev pods =
     \<lparr>revCount = num inRev pods,
      activeCount = num (\<lambda>p. inRev p \<and> \<not> pre_deleting p) pods,
      unavailableCount = num (\<lambda>p. inRev p \<and> \<not> pre_deleting p \<and> \<not> isSpecifiedDelete cs p
                              \<and> \<not> CSIsPodAvailable env p (MinReadySeconds (CSpec cs))) pods,
      toDeleteCount = num (\<lambda>p. inRev p \<and> \<not> pre_deleting p \<and> isSpecifiedDelete cs p) pods,
      preDeletingCount = num (\<lambda>p. inRev p \<and> pre_deleting p) pods\<rparr>"
proof (induction pods rule: rev_induct)
  case Nil
  show ?case by (simp add: count_pods_def)
next
  case (snoc p ps)
  have "count_pods env cs inRev (ps @ [p]) =
    (let c = count_pods env cs inRev ps in
        if \<not> inRev p then c
        else let c1 = c\<lparr>revCount := revCount c + 1\<rparr> in
          if pre_deleting p then c1\<lparr>preDeletingCount := preDeletingCount c1 + 1\<rparr>
          else let c2 = c1\<lparr>activeCount := activeCount c1 + 1\<rparr> in
            if isSpecifiedDelete cs p then c2\<lparr>toDeleteCount := toDeleteCount c2 + 1\<rparr>
            else if \<not> CSIsPodAvailable env p (MinReadySeconds (CSpec cs))
            then c2\<lparr>unavailableCount := unavailableCount c2 + 1\<rparr> else c2)"
    by (simp add: count_pods_def pre_deleting_def Let_def)
  then show ?case unfolding snoc.IH Let_def by simp
qed

text \<open>The pods of the updated revision, as a scale or an update sees them.\<close>

definition in_update_rev :: "(pod \<Rightarrow> string \<Rightarrow> bool) option \<Rightarrow> string \<Rightarrow> pod \<Rightarrow> bool" where
  "in_update_rev isPodUpdate updateRevision p =
     (case isPodUpdate of None \<Rightarrow> CSEqualToRevisionHash p updateRevision | Some f \<Rightarrow> f p updateRevision)"

definition active_new :: "(pod \<Rightarrow> bool) \<Rightarrow> pod list \<Rightarrow> int" where
  "active_new isUpd pods = num (\<lambda>p. isUpd p \<and> \<not> pre_deleting p) pods"

definition active_old :: "(pod \<Rightarrow> bool) \<Rightarrow> pod list \<Rightarrow> int" where
  "active_old isUpd pods = num (\<lambda>p. \<not> isUpd p \<and> \<not> pre_deleting p) pods"

definition one_way :: "cs_env \<Rightarrow> string \<Rightarrow> string \<Rightarrow> bool" where
  "one_way env currentRevision updateRevision \<longleftrightarrow> updateRevision = currentRevision \<or> \<not> PartitionRollback env"

lemma in_update_rev_case:
  "(case f of None \<Rightarrow> CSEqualToRevisionHash | Some g \<Rightarrow> g) = (\<lambda>p r. in_update_rev f r p)"
  by (rule ext)+ (simp add: in_update_rev_def split: option.split)

lemma use_surge_shape:
  assumes "0 \<le> toDeleteCount new" and "0 \<le> toDeleteCount old"
  obtains sc sco up upo where "0 \<le> sc" "0 \<le> sco" "0 \<le> up" "0 \<le> upo"
    "use_surge ms mu new old tu od nd =
       (if ms > 0 then (if sc \<ge> up then (min ms sc, min (min ms sc) sco) else (min ms up, min (min ms up) upo))
        else (0, 0))"
    "toDeleteCount new + toDeleteCount old = 0 \<Longrightarrow> sc = 0"
    "\<not> IsIntPlusAndMinus od nd \<Longrightarrow> up = 0"
proof -
  define d where "d = toDeleteCount new + toDeleteCount old"
  define sc where "sc = (if d > 0 then min (max ((tu + d) - mu) 0) d else 0)"
  define sco where "sco = (if d > 0 \<and> sc > toDeleteCount new then sc - toDeleteCount new else 0)"
  define u where "u = (if IsIntPlusAndMinus od nd then
              (if IntAbs od \<le> IntAbs nd then (IntAbs od, if od < 0 then IntAbs od else 0)
               else (IntAbs nd, if nd > 0 then IntAbs nd else 0)) else (0, 0))"
  show thesis
  proof (rule that [of sc sco "fst u" "snd u"])
    show "0 \<le> sc" by (simp add: sc_def)
    show "0 \<le> sco" by (simp add: sco_def)
    show "0 \<le> fst u" and "0 \<le> snd u" by (simp_all add: u_def IntAbs_def)
    show "use_surge ms mu new old tu od nd =
       (if ms > 0 then (if sc \<ge> fst u then (min ms sc, min (min ms sc) sco)
                        else (min ms (fst u), min (min ms (fst u)) (snd u))) else (0, 0))"
      unfolding use_surge_def Let_def case_prod_beta d_def [symmetric] sc_def [symmetric]
        sco_def [symmetric] u_def [symmetric] by (rule refl)
    show "sc = 0" if "toDeleteCount new + toDeleteCount old = 0" using that by (simp add: sc_def d_def)
    show "fst u = 0" if "\<not> IsIntPlusAndMinus od nd" using that by (simp add: u_def)
  qed
qed

lemma use_surge_bounds:
  assumes "0 \<le> toDeleteCount new" and "0 \<le> toDeleteCount old"
  shows "0 \<le> snd (use_surge ms mu new old tu od nd)
    \<and> snd (use_surge ms mu new old tu od nd) \<le> fst (use_surge ms mu new old tu od nd)
    \<and> fst (use_surge ms mu new old tu od nd) \<le> max ms 0"
proof -
  obtain sc sco up upo where nn: "0 \<le> sc" "0 \<le> sco" "0 \<le> up" "0 \<le> upo"
    and eq: "use_surge ms mu new old tu od nd =
       (if ms > 0 then (if sc \<ge> up then (min ms sc, min (min ms sc) sco) else (min ms up, min (min ms up) upo))
        else (0, 0))"
    by (rule use_surge_shape [OF assms])
  show ?thesis
    using nn by (cases "ms > 0"; cases "sc \<ge> up") (simp_all add: eq min_le_iff_disj)
qed

lemma use_surge_none:
  assumes "toDeleteCount new = 0" and "toDeleteCount old = 0" and "\<not> IsIntPlusAndMinus od nd"
  shows "use_surge ms mu new old tu od nd = (0, 0)"
  using assms by (simp add: use_surge_def Let_def)

lemmas diffs_unfold = calculateDiffsWithExpectation_def Let_def in_update_rev_case case_prod_beta

lemma toDelete_nonneg [simp]: "0 \<le> toDeleteCount (count_pods env cs P pods)"
  by (simp add: count_pods_eq)

text \<open>The differences as arithmetic over the surge and the counts.\<close>

lemma diffs_shape:
  fixes env cs pods currentRevision updateRevision isPodUpdate
  defines "new \<equiv> count_pods env cs (in_update_rev isPodUpdate updateRevision) pods"
    and "old \<equiv> count_pods env cs (\<lambda>p. \<not> in_update_rev isPodUpdate updateRevision p) pods"
  obtains s so tu upd where
    "calculateDiffsWithExpectation env cs pods currentRevision updateRevision isPodUpdate =
      (let ex = shouldScalingExcludePreparingDelete env cs;
           N = int (length pods) - (if ex then preDeletingCount old + preDeletingCount new else 0);
           No = revCount old - (if ex then preDeletingCount old else 0);
           up = cs_replicas cs + s - N;
           down = N - toDeleteCount old - toDeleteCount new - (cs_replicas cs + s)
       in \<lparr>scaleUpNum = (if up > 0 then up else 0),
          scaleUpNumOldRevision = (if up > 0 then max (cs_partition cs + so - No) 0 else 0),
          scaleDownNum = (if down > 0 then down else 0),
          scaleDownNumOldRevision = (if down > 0 then max (No - toDeleteCount old - (cs_partition cs + so)) 0 else 0),
          scaleUpLimit = (if up > 0 then min up (max (cs_scaleMaxUnavailable cs - tu) 0) else 0),
          deleteReadyLimit =
            (if toDeleteCount new > 0 \<or> toDeleteCount old > 0 \<or> down > 0
             then max (cs_maxUnavailable cs + (int (length pods) - cs_replicas cs) - tu) 0 else 0),
          useSurge = s, useSurgeOldRevision = so, updateNum = upd,
          updateMaxUnavailable = (if upd \<noteq> 0 then cs_maxUnavailable cs + int (length pods) - cs_replicas cs else 0)\<rparr>)"
    and "0 \<le> so" and "so \<le> s" and "s \<le> max (cs_maxSurge cs) 0"
    and "tu = preDeletingCount new + preDeletingCount old + unavailableCount new + unavailableCount old"
    and "upd = (let od = activeCount old - cs_partition cs; nd = activeCount new - (cs_replicas cs - cs_partition cs);
                   ow = one_way env currentRevision updateRevision;
                   od' = (if ow then max od 0 else od); nd' = (if ow then min nd 0 else nd)
               in if IntAbs od' \<le> IntAbs nd' then od' else 0 - nd')"
    and "\<lbrakk>toDeleteCount new = 0; toDeleteCount old = 0; upd = 0\<rbrakk> \<Longrightarrow> s = 0"
proof -
  have nn: "0 \<le> toDeleteCount new" "0 \<le> toDeleteCount old" by (simp_all add: new_def old_def)
  define od where "od = activeCount old - cs_partition cs"
  define nd where "nd = activeCount new - (cs_replicas cs - cs_partition cs)"
  define od' where "od' = (if one_way env currentRevision updateRevision then max od 0 else od)"
  define nd' where "nd' = (if one_way env currentRevision updateRevision then min nd 0 else nd)"
  define tu where "tu = preDeletingCount new + preDeletingCount old + unavailableCount new + unavailableCount old"
  define su where "su = use_surge (cs_maxSurge cs) (cs_maxUnavailable cs) new old tu od' nd'"
  have su: "0 \<le> snd su" "snd su \<le> fst su" "fst su \<le> max (cs_maxSurge cs) 0"
    using use_surge_bounds [OF nn] by (auto simp: su_def)
  show thesis
  proof (rule that [of "fst su" "snd su" tu "if IntAbs od' \<le> IntAbs nd' then od' else 0 - nd'", OF _ su tu_def])
    show "fst su = 0"
      if "toDeleteCount new = 0" "toDeleteCount old = 0" "(if IntAbs od' \<le> IntAbs nd' then od' else 0 - nd') = 0"
      using that(3) unfolding su_def
      by (subst use_surge_none [OF that(1,2)]) (auto simp: IsIntPlusAndMinus_def IntAbs_def split: if_splits)
  qed (unfold diffs_unfold one_way_def [symmetric] new_def [symmetric] old_def [symmetric] tu_def [symmetric]
        od_def [symmetric] nd_def [symmetric] od'_def [symmetric] nd'_def [symmetric] su_def [symmetric], (rule refl)+)
qed

text \<open>
  C8: The scale numbers are bounded: nothing is negative, a reconcile never both creates and chooses
  pods to remove, it creates at most what is missing, the surge stays within \<open>maxSurge\<close> and the old
  revision's part of it within the surge.
\<close>

theorem diffs_bounds:
  "let d = calculateDiffsWithExpectation env cs pods currentRevision updateRevision isPodUpdate in
    0 \<le> scaleUpLimit d \<and> scaleUpLimit d \<le> scaleUpNum d \<and> 0 \<le> scaleDownNum d
    \<and> (scaleUpNum d = 0 \<or> scaleDownNum d = 0)
    \<and> 0 \<le> scaleUpNumOldRevision d \<and> 0 \<le> scaleDownNumOldRevision d \<and> 0 \<le> deleteReadyLimit d
    \<and> 0 \<le> useSurgeOldRevision d \<and> useSurgeOldRevision d \<le> useSurge d \<and> useSurge d \<le> max (cs_maxSurge cs) 0"
proof -
  have arith: "0 \<le> (if x > 0 then min x (max y 0) else 0)"
    "(if x > 0 then min x (max y 0) else 0) \<le> (if x > 0 then x else 0)"
    "0 \<le> (if x > 0 then x else 0)" "0 \<le> (if x > 0 then max y 0 else 0)" "0 \<le> (if P then max y 0 else 0)"
    for x y :: int and P by simp_all
  have excl: "(if t - N > 0 then t - N else 0) = 0 \<or> (if N - a - b - t > 0 then N - a - b - t else 0) = 0"
    if "0 \<le> a" "0 \<le> b" for t N a b :: int using that by auto
  show ?thesis
  proof (rule diffs_shape [of env cs pods currentRevision updateRevision isPodUpdate], goal_cases)
    case (1 s so tu upd)
    show ?case
      unfolding "1"(1) unfolding Let_def expectation_diffs.simps
      by (intro conjI arith excl toDelete_nonneg "1"(2-4))
  qed
qed

text \<open>
  The number of pods to update.  When updates only go forward it is the smaller of the old pods
  above the partition and the updated pods missing for it, so an update never crosses the partition;
  with rollback and as many active pods as replicas it is exactly the distance to the partition.
\<close>

theorem diffs_update_num:
  "let d = calculateDiffsWithExpectation env cs pods currentRevision updateRevision isPodUpdate;
       isUpd = in_update_rev isPodUpdate updateRevision in
    (one_way env currentRevision updateRevision \<longrightarrow>
      updateNum d = min (max (active_old isUpd pods - cs_partition cs) 0)
                        (max (cs_replicas cs - cs_partition cs - active_new isUpd pods) 0))
    \<and> (\<not> one_way env currentRevision updateRevision
        \<and> active_old isUpd pods + active_new isUpd pods = cs_replicas cs \<longrightarrow>
      updateNum d = active_old isUpd pods - cs_partition cs)"
proof -
  let ?isUpd = "in_update_rev isPodUpdate updateRevision"
  have "updateNum (calculateDiffsWithExpectation env cs pods currentRevision updateRevision isPodUpdate) =
    (let od = active_old ?isUpd pods - cs_partition cs;
         nd = active_new ?isUpd pods - (cs_replicas cs - cs_partition cs);
         ow = one_way env currentRevision updateRevision;
         od' = (if ow then max od 0 else od); nd' = (if ow then min nd 0 else nd)
     in if IntAbs od' \<le> IntAbs nd' then od' else 0 - nd')"
    unfolding diffs_unfold expectation_diffs.simps
    by (simp only: count_pods_eq rev_counts.simps active_new_def active_old_def one_way_def)
  note eq = this
  have fwd: "(if IntAbs (max (a - p) 0) \<le> IntAbs (min (b - (r - p)) 0) then max (a - p) 0 else 0 - min (b - (r - p)) 0)
      = min (max (a - p) 0) (max (r - p - b) 0)" for a b p r :: int by (simp add: IntAbs_def min_def max_def)
  have both: "a + b = r \<longrightarrow> (if IntAbs (a - p) \<le> IntAbs (b - (r - p)) then a - p else 0 - (b - (r - p))) = a - p"
    for a b p r :: int by (auto simp: IntAbs_def)
  show ?thesis
    using both [of "active_old ?isUpd pods" "active_new ?isUpd pods" "cs_replicas cs" "cs_partition cs"]
    unfolding eq Let_def
    by (cases "one_way env currentRevision updateRevision") (simp_all only: if_True if_False fwd simp_thms)
qed

theorem diffs_update_num_witness:
  "updateNum (calculateDiffsWithExpectation (demo_env True)
     (zero_cloneset\<lparr>CSpec := (CSpec zero_cloneset)\<lparr>Replicas := Some 2\<rparr>\<rparr>)
     [zero_pod, zero_pod\<lparr>Name := ''b''\<rparr>] ''v1'' ''v2'' (Some (\<lambda>p r. False))) = 2"
proof -
  let ?cs = "zero_cloneset\<lparr>CSpec := (CSpec zero_cloneset)\<lparr>Replicas := Some 2\<rparr>\<rparr>"
  let ?ps = "[zero_pod, zero_pod\<lparr>Name := ''b''\<rparr>]" and ?f = "Some (\<lambda>(p :: pod) (r :: string). False)"
  have "active_old (in_update_rev ?f ''v2'') ?ps = 2" and "active_new (in_update_rev ?f ''v2'') ?ps = 0"
    by (simp_all add: active_old_def active_new_def num_def in_update_rev_def pre_deleting_def
        GetPodLifecycleState_def zero_defs state_defs)
  moreover have "cs_replicas ?cs = 2" and "cs_partition ?cs = 0"
    by (simp_all add: cs_replicas_def cs_partition_def zero_cs_defs)
  ultimately show ?thesis
    using diffs_update_num [of "demo_env True" ?cs ?ps "''v1''" "''v2''" ?f]
    by (simp add: one_way_def demo_env_def Let_def)
qed

text \<open>
  The reconcile has nothing to do exactly in the desired state: with no pod being deleted, the
  differences are empty if and only if there are as many pods as replicas and the old pods are within
  the partition (exactly at it when a rollback is possible).
\<close>

theorem diffs_empty_iff:
  assumes "\<forall>p\<in>set pods. \<not> pre_deleting p \<and> \<not> isSpecifiedDelete cs p"
  shows "isEmpty (calculateDiffsWithExpectation env cs pods currentRevision updateRevision isPodUpdate) \<longleftrightarrow>
    int (length pods) = cs_replicas cs
    \<and> (let old = num (\<lambda>p. \<not> in_update_rev isPodUpdate updateRevision p) pods in
       if one_way env currentRevision updateRevision then old \<le> cs_partition cs else old = cs_partition cs)"
proof -
  let ?u = "in_update_rev isPodUpdate updateRevision"
  have cong: "num P pods = num Q pods" if "\<And>p. p \<in> set pods \<Longrightarrow> P p = Q p" for P Q
    using that by (auto simp: num_def cong: filter_cong)
  have none: "num P pods = 0" if "\<And>p. p \<in> set pods \<Longrightarrow> \<not> P p" for P
    using that by (auto simp: num_def filter_False)
  have c: "toDeleteCount (count_pods env cs P pods) = 0" "preDeletingCount (count_pods env cs P pods) = 0"
    "activeCount (count_pods env cs P pods) = num P pods" for P
    using assms by (auto simp: count_pods_eq intro: none cong)
  define old where "old = num (\<lambda>p. \<not> ?u p) pods"
  have new: "num ?u pods = int (length pods) - old" using num_compl [of ?u pods] by (simp add: old_def)
  show ?thesis
  proof (rule diffs_shape [of env cs pods currentRevision updateRevision isPodUpdate], goal_cases)
    case (1 s so tu upd)
    have upd: "upd = (let od = old - cs_partition cs; nd = int (length pods) - old - (cs_replicas cs - cs_partition cs);
                   ow = one_way env currentRevision updateRevision;
                   od' = (if ow then max od 0 else od); nd' = (if ow then min nd 0 else nd)
               in if IntAbs od' \<le> IntAbs nd' then od' else 0 - nd')"
      using "1"(6) unfolding c new old_def .
    have "isEmpty (calculateDiffsWithExpectation env cs pods currentRevision updateRevision isPodUpdate) \<longleftrightarrow>
      s = 0 \<and> so = 0 \<and> upd = 0 \<and> int (length pods) = cs_replicas cs"
      unfolding "1"(1) Let_def c isEmpty_def zero_diffs_def by auto
    moreover have "s = 0 \<and> so = 0" if "upd = 0" using "1"(2,3) "1"(7) [OF c(1) c(1) that] by simp
    moreover have "upd = 0 \<longleftrightarrow> (if one_way env currentRevision updateRevision then old \<le> cs_partition cs else old = cs_partition cs)"
      if "int (length pods) = cs_replicas cs" using that unfolding upd by (auto simp: Let_def IntAbs_def)
    ultimately show ?case unfolding old_def [symmetric] Let_def by blast
  qed
qed

theorem diffs_empty_iff_witness:
  "isEmpty (calculateDiffsWithExpectation (demo_env False)
     (zero_cloneset\<lparr>CSpec := (CSpec zero_cloneset)\<lparr>Replicas := Some 2\<rparr>\<rparr>)
     [zero_pod, zero_pod\<lparr>Name := ''b''\<rparr>] ''v1'' ''v2'' (Some (\<lambda>p r. True)))"
  by (subst diffs_empty_iff)
    (simp_all add: pre_deleting_def isSpecifiedDelete_def IsSpecifiedDelete_def GetPodLifecycleState_def num_def
      in_update_rev_def one_way_def demo_env_def cs_replicas_def cs_partition_def zero_cs_defs state_defs)

end
