(* ===== verification/CloneSet_Scale.thy ===== *)
theory CloneSet_Scale
  imports CloneSet_Sync
begin

text \<open>
  Scaling a CloneSet (\<open>sync/cloneset_scale.go\<close>): creating pods and their claims, deleting pods and
  their claims, and the bookkeeping of both in the expectations.

  The API server, the sorting library, the nodes and the random source are arguments; the stores of the
  expectations and the position in the random source are state.  A batch of creations runs its calls
  in the order of the channel.  \<open>None\<close> is a search for a free instance id that never ends.
\<close>

section \<open>What scaling uses\<close>

record ('w, 'r) sync_ctl =
  SortPods :: pod_sorter
  SortMessages :: message_sorter
  FormatTime :: "int \<Rightarrow> string"
  Adapter :: "'w patch_adapter"
  CreatePod :: "pod \<Rightarrow> 'w \<Rightarrow> api_error option \<times> 'w"
  CreatePVC :: "pvc \<Rightarrow> 'w \<Rightarrow> api_error option \<times> 'w"
  DeletePod :: "pod \<Rightarrow> 'w \<Rightarrow> api_error option \<times> 'w"
  DeletePVC :: "pvc \<Rightarrow> 'w \<Rightarrow> api_error option \<times> 'w"
  GetNodeLabels :: "string \<Rightarrow> labels option"
  SpreadWeight :: "nat \<Rightarrow> 'r"
  RandString :: "nat \<Rightarrow> string"
  PopAny :: "string set \<Rightarrow> string"

record 'w sync_state =
  ScaleExp :: scale_exps
  RVExp :: rv_exps
  Durations :: duration_store
  RandPos :: nat
  World :: 'w

type_synonym 'w outcome = "(bool \<times> api_error option) \<times> 'w sync_state"

section \<open>Instance ids\<close>

partial_function (option) rand_id :: "(nat \<Rightarrow> string) \<Rightarrow> string set \<Rightarrow> nat \<Rightarrow> (string \<times> nat) option" where
  "rand_id rnd existingIDs i =
     (if rnd i \<notin> existingIDs then Some (rnd i, i + 1) else rand_id rnd existingIDs (i + 1))"

definition getOrGenInstanceID ::
  "('w, 'r) sync_ctl \<Rightarrow> string set \<Rightarrow> string set \<Rightarrow> nat \<Rightarrow> (string \<times> string set \<times> nat) option" where
  "getOrGenInstanceID ctl existingIDs availableIDs i =
     (let (i0, rest) = (if availableIDs = {} then ([], {})
                        else (PopAny ctl availableIDs, availableIDs - {PopAny ctl availableIDs}))
      in if i0 = [] then map_option (\<lambda>(r, j). (r, rest, j)) (rand_id (RandString ctl) existingIDs i)
         else Some (i0, rest, i))"

fun gen_ids :: "('w, 'r) sync_ctl \<Rightarrow> nat \<Rightarrow> string set \<Rightarrow> string set \<Rightarrow> string set \<Rightarrow> nat \<Rightarrow> (string set \<times> nat) option" where
  "gen_ids ctl 0 existingIDs availableIDs retIDs i = Some (retIDs, i)"
| "gen_ids ctl (Suc n) existingIDs availableIDs retIDs i =
     (case getOrGenInstanceID ctl existingIDs availableIDs i of
        None \<Rightarrow> None
      | Some (x, rest, j) \<Rightarrow> gen_ids ctl n existingIDs rest (insert x retIDs) j)"

definition instance_ids :: "'a object_meta_scheme list \<Rightarrow> string set" where
  "instance_ids objs = {i. i \<in> GetInstanceID ` set objs \<and> i \<noteq> []}"

definition getOrGenAvailableIDs ::
  "('w, 'r) sync_ctl \<Rightarrow> int \<Rightarrow> pod list \<Rightarrow> pvc list \<Rightarrow> nat \<Rightarrow> (string set \<times> nat) option" where
  "getOrGenAvailableIDs ctl n pods pvcs i =
     gen_ids ctl (nat n) (instance_ids pvcs \<union> instance_ids pods) (instance_ids pvcs - instance_ids pods) {} i"

section \<open>Creating pods\<close>

fun create_claims ::
  "('w, 'r) sync_ctl \<Rightarrow> string \<Rightarrow> string set \<Rightarrow> pvc list \<Rightarrow> 'w sync_state \<Rightarrow> api_error option \<times> 'w sync_state" where
  "create_claims ctl key existingPVCNames [] st = (None, st)"
| "create_claims ctl key existingPVCNames (c # cs) st =
     (if Name c \<in> existingPVCNames then create_claims ctl key existingPVCNames cs st
      else let st1 = st\<lparr>ScaleExp := ExpectScale key Create (Name c) (ScaleExp st)\<rparr>
           in case CreatePVC ctl c (World st1) of
                (Some e, w) \<Rightarrow> (Some e, st1\<lparr>World := w, ScaleExp := ObserveScale key Create (Name c) (ScaleExp st1)\<rparr>)
              | (None, w) \<Rightarrow> create_claims ctl key existingPVCNames cs (st1\<lparr>World := w\<rparr>))"

definition createOnePod ::
  "('w, 'r) sync_ctl \<Rightarrow> cloneset \<Rightarrow> pod \<Rightarrow> string set \<Rightarrow> 'w sync_state \<Rightarrow> api_error option \<times> 'w sync_state" where
  "createOnePod ctl cs p existingPVCNames st =
     (case create_claims ctl (GetControllerKey cs) existingPVCNames (map snd (GetPersistentVolumeClaims cs p)) st of
        (Some e, st1) \<Rightarrow> (Some e, st1)
      | (None, st1) \<Rightarrow> (case CreatePod ctl p (World st1) of (r, w) \<Rightarrow> (r, st1\<lparr>World := w\<rparr>)))"

text \<open>What the calls of one slow start share: the channel, the counter and the created names.\<close>

record 'w creation =
  podsCreationChan :: "pod list"
  created :: int
  successPodNames :: "string set"
  creationState :: "'w sync_state"

definition create_next ::
  "('w, 'r) sync_ctl \<Rightarrow> cs_env \<Rightarrow> cloneset \<Rightarrow> cloneset \<Rightarrow> string \<Rightarrow> string set \<Rightarrow> 'w creation
   \<Rightarrow> api_error option \<times> 'w creation" where
  "create_next ctl env currentCS updateCS currentRevision existingPVCNames s =
     (case podsCreationChan s of
        [] \<Rightarrow> (Some (OtherError ''deadlock''), s)
      | p # ps \<Rightarrow>
          (let cs = (if CSEqualToRevisionHash p currentRevision then currentCS else updateCS);
               q = SetPodLifecycle (FormatTime ctl) (time_now env) StatePreparingNormal p;
               s1 = s\<lparr>podsCreationChan := ps\<rparr>
           in case createOnePod ctl cs q existingPVCNames (creationState s) of
                (Some e, st) \<Rightarrow> (Some e, s1\<lparr>creationState := st\<rparr>)
              | (None, st) \<Rightarrow> (None, s1\<lparr>created := created s + 1,
                                     successPodNames := insert (Name q) (successPodNames s),
                                     creationState := st\<rparr>)))"

definition createPods ::
  "('w, 'r) sync_ctl \<Rightarrow> cs_env \<Rightarrow> int \<Rightarrow> int \<Rightarrow> cloneset \<Rightarrow> cloneset \<Rightarrow> string \<Rightarrow> string \<Rightarrow> string list
   \<Rightarrow> string set \<Rightarrow> 'w sync_state \<Rightarrow> 'w outcome" where
  "createPods ctl env expectedCreations expectedCurrentCreations currentCS updateCS currentRevision updateRevision
      availableIDs existingPVCNames st =
     (let newPods = NewVersionedPods env currentCS updateCS currentRevision updateRevision
                      expectedCreations expectedCurrentCreations availableIDs;
          key = GetControllerKey updateCS;
          st1 = st\<lparr>ScaleExp := fold (\<lambda>p. ExpectScale key Create (Name p)) newPods (ScaleExp st)\<rparr>;
          ((_, err), s) = DoItSlowly (int (length newPods)) 1
             (create_next ctl env currentCS updateCS currentRevision existingPVCNames)
             \<lparr>podsCreationChan = newPods, created = 0, successPodNames = {}, creationState = st1\<rparr>;
          st2 = creationState s;
          st3 = st2\<lparr>ScaleExp := fold (\<lambda>p. ObserveScale key Create (Name p))
                  (filter (\<lambda>p. Name p \<notin> successPodNames s) newPods) (ScaleExp st2)\<rparr>
      in ((created s \<noteq> 0, err), st3))"

section \<open>Deleting pods\<close>

fun delete_claims ::
  "('w, 'r) sync_ctl \<Rightarrow> string \<Rightarrow> pod \<Rightarrow> pvc list \<Rightarrow> 'w sync_state \<Rightarrow> api_error option \<times> 'w sync_state" where
  "delete_claims ctl key p [] st = (None, st)"
| "delete_claims ctl key p (c # cs) st =
     (if GetInstanceID c \<noteq> GetInstanceID p then delete_claims ctl key p cs st
      else let st1 = st\<lparr>ScaleExp := ExpectScale key Delete (Name c) (ScaleExp st)\<rparr>
           in case DeletePVC ctl c (World st1) of
                (Some e, w) \<Rightarrow> (Some e, st1\<lparr>World := w, ScaleExp := ObserveScale key Delete (Name c) (ScaleExp st1)\<rparr>)
              | (None, w) \<Rightarrow> delete_claims ctl key p cs (st1\<lparr>World := w\<rparr>))"

fun deletePods ::
  "('w, 'r) sync_ctl \<Rightarrow> cs_env \<Rightarrow> cloneset \<Rightarrow> bool \<Rightarrow> pod list \<Rightarrow> pvc list \<Rightarrow> 'w sync_state \<Rightarrow> 'w outcome" where
  "deletePods ctl env cs modified [] pvcs st = ((modified, None), st)"
| "deletePods ctl env cs modified (p # ps) pvcs st =
     (case (case CSLifecycle (CSpec cs) of
              None \<Rightarrow> None
            | Some l \<Rightarrow> if IsPodHooked (PreDelete l) p then PreDelete l else None) of
        Some hook \<Rightarrow>
          (case UpdatePodLifecycle (SortMessages ctl) (FormatTime ctl) (Adapter ctl) (time_now env) p
                  StatePreparingDelete (MarkPodNotReady hook) (World st) of
             ((_, Inl e), w) \<Rightarrow> ((False, Some e), st\<lparr>World := w\<rparr>)
           | ((updated, Inr gotPod), w) \<Rightarrow>
               (if updated
                then deletePods ctl env cs True ps pvcs (st\<lparr>World := w, RVExp := RVExpect gotPod (RVExp st)\<rparr>)
                else deletePods ctl env cs modified ps pvcs (st\<lparr>World := w\<rparr>)))
      | None \<Rightarrow>
          (let key = GetControllerKey cs;
               st1 = st\<lparr>ScaleExp := ExpectScale key Delete (Name p) (ScaleExp st)\<rparr>
           in case DeletePod ctl p (World st1) of
                (Some e, w) \<Rightarrow>
                  ((modified, Some e), st1\<lparr>World := w, ScaleExp := ObserveScale key Delete (Name p) (ScaleExp st1)\<rparr>)
              | (None, w) \<Rightarrow>
                  (case delete_claims ctl key p pvcs (st1\<lparr>World := w\<rparr>) of
                     (Some e, st2) \<Rightarrow> ((True, Some e), st2)
                   | (None, st2) \<Rightarrow> deletePods ctl env cs True ps pvcs st2)))"

definition getPlannedDeletedPods :: "cloneset \<Rightarrow> pod list \<Rightarrow> pod list \<times> pod list \<times> nat" where
  "getPlannedDeletedPods cs pods =
     (let podsSpecifiedToDelete = filter (isSpecifiedDelete cs) pods;
          podsInPreDelete = filter (\<lambda>p. GetPodLifecycleState p = StatePreparingDelete) pods
      in (podsSpecifiedToDelete, podsInPreDelete,
          card (Name ` set podsSpecifiedToDelete \<union> Name ` set podsInPreDelete)))"

fun cancel_deletions ::
  "('w, 'r) sync_ctl \<Rightarrow> cs_env \<Rightarrow> cloneset \<Rightarrow> int \<Rightarrow> bool \<Rightarrow> pod list \<Rightarrow> 'w sync_state \<Rightarrow> 'w outcome" where
  "cancel_deletions ctl env cs diff modified [] st = ((modified, None), st)"
| "cancel_deletions ctl env cs diff modified (p # ps) st =
     (if diff \<le> 0 then ((modified, None), st)
      else if isSpecifiedDelete cs p then cancel_deletions ctl env cs diff modified ps st
      else case UpdatePodLifecycle (SortMessages ctl) (FormatTime ctl) (Adapter ctl) (time_now env) p
                  StatePreparingNormal False (World st) of
             ((_, Inl e), w) \<Rightarrow> ((modified, Some e), st\<lparr>World := w\<rparr>)
           | ((updated, Inr gotPod), w) \<Rightarrow>
               (if updated
                then cancel_deletions ctl env cs (diff - 1) True ps
                       (st\<lparr>World := w, RVExp := RVExpect gotPod (RVExp st)\<rparr>)
                else cancel_deletions ctl env cs (diff - 1) modified ps (st\<lparr>World := w\<rparr>)))"

definition managePreparingDelete ::
  "('w, 'r) sync_ctl \<Rightarrow> cs_env \<Rightarrow> cloneset \<Rightarrow> pod list \<Rightarrow> pod list \<Rightarrow> nat \<Rightarrow> 'w sync_state \<Rightarrow> 'w outcome" where
  "managePreparingDelete ctl env cs pods podsInPreDelete numToDelete st =
     (if IsLifecycleMarkPodNotReady (CSLifecycle (CSpec cs)) then ((False, None), st)
      else cancel_deletions ctl env cs (cs_replicas cs - int (length pods) + int numToDelete) False podsInPreDelete st)"

text \<open>The pods a deletion may take: those not ready, and ready ones up to the limit.\<close>

fun limit_ready :: "cs_env \<Rightarrow> int \<Rightarrow> pod list \<Rightarrow> pod list" where
  "limit_ready env limit [] = []"
| "limit_ready env limit (p # ps) =
     (if \<not> isPodReady env p then p # limit_ready env limit ps
      else if limit > 0 then p # limit_ready env (limit - 1) ps
      else limit_ready env limit ps)"

definition choose_pods :: "('w, 'r :: linordered_idom) sync_ctl \<Rightarrow> cs_env \<Rightarrow> cloneset \<Rightarrow> pod list \<Rightarrow> int \<Rightarrow> pod list" where
  "choose_pods ctl env cs pods diff =
     (if diff < int (length pods) then
        let constraints = GetPodSpreadConstraint cs;
            ranker = (if constraints \<noteq> []
                      then NewSpreadConstraintsRanker (SortPods ctl) (SpreadWeight ctl) (GetNodeLabels ctl) pods constraints
                      else NewSameNodeRanker (SortPods ctl) pods)
        in take (nat diff) (SortPods ctl
             (Less (Some ranker) (Some (\<lambda>p. CSIsPodAvailable env p (MinReadySeconds (CSpec cs))))) pods)
      else if diff > int (length pods) then pods
      else take (nat diff) pods)"

definition choosePodsToDelete ::
  "('w, 'r :: linordered_idom) sync_ctl \<Rightarrow> cs_env \<Rightarrow> cloneset \<Rightarrow> int \<Rightarrow> int \<Rightarrow> pod list \<Rightarrow> pod list \<Rightarrow> pod list" where
  "choosePodsToDelete ctl env cs totalDiff currentRevDiff notUpdatedPods updatedPods =
     (if currentRevDiff \<ge> totalDiff then choose_pods ctl env cs notUpdatedPods totalDiff
      else if currentRevDiff > 0
      then choose_pods ctl env cs notUpdatedPods currentRevDiff @ choose_pods ctl env cs updatedPods (totalDiff - currentRevDiff)
      else choose_pods ctl env cs updatedPods totalDiff)"

section \<open>Scale\<close>

text \<open>A step that ends the handler when it fails or changes something.\<close>

definition or_else :: "'w outcome \<Rightarrow> ('w sync_state \<Rightarrow> 'w outcome) \<Rightarrow> 'w outcome" where
  "or_else r k = (case r of ((modified, err), st) \<Rightarrow> if err \<noteq> None \<or> modified then r else k st)"

definition scale_in ::
  "('w, 'r :: linordered_idom) sync_ctl \<Rightarrow> cs_env \<Rightarrow> cloneset \<Rightarrow> string \<Rightarrow> expectation_diffs \<Rightarrow> int \<Rightarrow> nat
   \<Rightarrow> pod list \<Rightarrow> pvc list \<Rightarrow> 'w sync_state \<Rightarrow> 'w outcome" where
  "scale_in ctl env cs updateRevision diffRes readyLimit numToDelete pods pvcs st =
     (let (updatedPods, notUpdatedPods) = GroupUpdateAndNotUpdatePods (PreparingUpdateAsUpdate env) pods updateRevision
      in if scaleDownNum diffRes > 0 then
           (if numToDelete > 0 then ((False, None), st)
            else deletePods ctl env cs False
                   (limit_ready env readyLimit
                     (choosePodsToDelete ctl env cs (scaleDownNum diffRes) (scaleDownNumOldRevision diffRes)
                        notUpdatedPods updatedPods)) pvcs st)
         else ((False, None), st))"

text \<open>The limit that is left when ready pods have been taken.\<close>

definition limit_left :: "cs_env \<Rightarrow> int \<Rightarrow> pod list \<Rightarrow> int" where
  "limit_left env limit ps = limit - int (length (filter (isPodReady env) (limit_ready env limit ps)))"

definition Scale ::
  "('w, 'r :: linordered_idom) sync_ctl \<Rightarrow> cs_env \<Rightarrow> cloneset \<Rightarrow> cloneset \<Rightarrow> string \<Rightarrow> string \<Rightarrow> pod list \<Rightarrow> pvc list
   \<Rightarrow> 'w sync_state \<Rightarrow> 'w outcome option" where
  "Scale ctl env currentCS updateCS currentRevision updateRevision pods pvcs st =
     (if Replicas (CSpec updateCS) = None then Some ((False, Some (OtherError ''spec.Replicas is nil'')), st)
      else
        (let (podsSpecifiedToDelete, podsInPreDelete, numToDelete) = getPlannedDeletedPods updateCS pods;
             ((modified, err), st1) = managePreparingDelete ctl env updateCS pods podsInPreDelete numToDelete st
         in if err \<noteq> None \<or> modified then Some ((modified, err), st1)
            else
              (let diffRes = calculateDiffsWithExpectation env updateCS pods currentRevision updateRevision
                               (Some (IsPodUpdate (PreparingUpdateAsUpdate env)))
               in if scaleUpNum diffRes > 0 then
                    (case getOrGenAvailableIDs ctl (scaleUpLimit diffRes) pods pvcs (RandPos st1) of
                       None \<Rightarrow> None
                     | Some (availableIDs, pos) \<Rightarrow>
                         Some (createPods ctl env (scaleUpLimit diffRes) (scaleUpNumOldRevision diffRes) currentCS updateCS
                                 currentRevision updateRevision (sorted_list_of_set availableIDs) (Name ` set pvcs)
                                 (st1\<lparr>RandPos := pos\<rparr>)))
                  else
                    (let podsToDelete = DiffPods podsSpecifiedToDelete podsInPreDelete;
                         limit = deleteReadyLimit diffRes
                     in Some (or_else (deletePods ctl env updateCS False podsInPreDelete pvcs st1) (\<lambda>st2.
                          or_else (deletePods ctl env updateCS False (limit_ready env limit podsToDelete) pvcs st2) (\<lambda>st3.
                            scale_in ctl env updateCS updateRevision diffRes (limit_left env limit podsToDelete)
                              numToDelete pods pvcs st3)))))))"

end
