(* ===== verification/CloneSet_Scale_Correct.thy ===== *)
theory CloneSet_Scale_Correct
  imports CloneSet_Scale
begin

text \<open>
  What scaling a CloneSet guarantees: the pods that stay available, the pods chosen, the instance ids,
  and the agreement of the expectations with what the API server has done.
\<close>

section \<open>The pods that stay available\<close>

lemma limit_ready_set: "set (limit_ready env limit ps) \<subseteq> set ps"
  by (induction env limit ps rule: limit_ready.induct) auto

lemma limit_ready_count: "num (isPodReady env) (limit_ready env limit ps) \<le> max limit 0"
  by (induction env limit ps rule: limit_ready.induct) (auto simp: num_def)

lemma limit_ready_unready: "p \<in> set ps \<Longrightarrow> \<not> isPodReady env p \<Longrightarrow> p \<in> set (limit_ready env limit ps)"
  by (induction env limit ps rule: limit_ready.induct) auto

lemma limit_ready_distinct: "distinct ps \<Longrightarrow> distinct (limit_ready env limit ps)"
  by (induction env limit ps rule: limit_ready.induct) (use limit_ready_set in \<open>auto dest: subsetD\<close>)

lemma available_ready: "CSIsPodAvailable env p m \<Longrightarrow> isPodReady env p"
  by (auto simp: CSIsPodAvailable_def isPodReady_def IsPodUpdateReady_def IsRunningAndAvailable_def
      IsPodAvailable_def Let_def split: if_splits option.splits)

lemma available_not_pre_deleting: "CSIsPodAvailable env p m \<Longrightarrow> \<not> pre_deleting p"
  by (auto simp: CSIsPodAvailable_def pre_deleting_def state_defs Let_def split: if_splits)

lemma num_mono: "(\<And>p. p \<in> set ps \<Longrightarrow> P p \<Longrightarrow> Q p) \<Longrightarrow> num P ps \<le> num Q ps"
  by (induction ps) (auto simp: num_def)

lemma num_distinct: "distinct ps \<Longrightarrow> num P ps = int (card {p \<in> set ps. P p})"
  by (simp add: num_def distinct_length_filter Int_def conj_commute)

text \<open>Taking away the pods \<open>xs\<close> takes at most so many available ones.\<close>

lemma num_without:
  assumes "distinct pods"
  shows "num P pods \<le> num P (filter (\<lambda>p. p \<notin> set xs) pods) + num P xs"
proof -
  have "{p \<in> set pods. P p} \<subseteq> {p \<in> set (filter (\<lambda>p. p \<notin> set xs) pods). P p} \<union> {p \<in> set xs. P p}" by auto
  then have "card {p \<in> set pods. P p} \<le> card ({p \<in> set (filter (\<lambda>p. p \<notin> set xs) pods). P p} \<union> {p \<in> set xs. P p})"
    by (intro card_mono) auto
  also have "\<dots> \<le> card {p \<in> set (filter (\<lambda>p. p \<notin> set xs) pods). P p} + card {p \<in> set xs. P p}"
    by (rule card_Un_le)
  also have "card {p \<in> set xs. P p} \<le> length (filter P xs)"
    by (metis card_length set_filter)
  finally show ?thesis
    using assms num_distinct [of pods P] num_distinct [of "filter (\<lambda>p. p \<notin> set xs) pods" P]
    by (simp add: num_def [of P xs])
qed

lemma num_partition4:
  "num A pods = int (length pods) - num D pods - num (\<lambda>p. \<not> D p \<and> \<not> S p \<and> \<not> A p) pods
     - num (\<lambda>p. \<not> D p \<and> S p \<and> \<not> A p) pods" if "\<And>p. A p \<Longrightarrow> \<not> D p"
  using that by (induction pods) (auto simp: num_def)

lemma deleteReadyLimit_le:
  "deleteReadyLimit (calculateDiffsWithExpectation env cs pods currentRevision updateRevision f) \<le>
     max (cs_maxUnavailable cs + (int (length pods) - cs_replicas cs)
       - (num pre_deleting pods
          + num (\<lambda>p. \<not> pre_deleting p \<and> \<not> isSpecifiedDelete cs p
                  \<and> \<not> CSIsPodAvailable env p (MinReadySeconds (CSpec cs))) pods)) 0"
proof (rule diffs_shape [of env cs pods currentRevision updateRevision f], goal_cases)
  case (1 s so tu upd)
  have join: "num (\<lambda>p. P p \<and> Q p) pods + num (\<lambda>p. \<not> P p \<and> Q p) pods = num Q pods" for P Q
    by (induction pods) (auto simp: num_def)
  have "tu = num pre_deleting pods + num (\<lambda>p. \<not> pre_deleting p \<and> \<not> isSpecifiedDelete cs p
      \<and> \<not> CSIsPodAvailable env p (MinReadySeconds (CSpec cs))) pods"
    unfolding "1"(5) count_pods_eq rev_counts.simps
    using join [of "in_update_rev f updateRevision" pre_deleting]
      join [of "in_update_rev f updateRevision" "\<lambda>p. \<not> pre_deleting p \<and> \<not> isSpecifiedDelete cs p
        \<and> \<not> CSIsPodAvailable env p (MinReadySeconds (CSpec cs))"] by linarith
  moreover have "(if c then max x 0 else 0) \<le> max x 0" for c and x :: int by simp
  ultimately show ?case unfolding "1"(1) Let_def expectation_diffs.simps by (simp only:)
qed

text \<open>
  C9: Whatever pods a scale wants to delete, the ones the limit lets it take leave at least
  \<open>replicas - maxUnavailable\<close> available pods, or as many as there were, not counting those pods that
  are specified to be deleted and are not available.
\<close>

theorem deletion_keeps_available:
  assumes "distinct pods"
  shows "let d = calculateDiffsWithExpectation env cs pods currentRevision updateRevision f;
             available = (\<lambda>p. CSIsPodAvailable env p (MinReadySeconds (CSpec cs)));
             taken = limit_ready env (deleteReadyLimit d) wanted
    in min (num available pods)
         (cs_replicas cs - cs_maxUnavailable cs
           - num (\<lambda>p. \<not> pre_deleting p \<and> isSpecifiedDelete cs p \<and> \<not> available p) pods)
       \<le> num available (filter (\<lambda>p. p \<notin> set taken) pods)"
proof -
  define A where "A p = CSIsPodAvailable env p (MinReadySeconds (CSpec cs))" for p
  define L where "L = deleteReadyLimit (calculateDiffsWithExpectation env cs pods currentRevision updateRevision f)"
  have "num A (limit_ready env L wanted) \<le> num (isPodReady env) (limit_ready env L wanted)"
    by (rule num_mono) (auto simp: A_def intro: available_ready)
  also have "\<dots> \<le> max L 0" by (rule limit_ready_count)
  finally have "num A pods - max L 0 \<le> num A (filter (\<lambda>p. p \<notin> set (limit_ready env L wanted)) pods)"
    using num_without [OF assms, of A "limit_ready env L wanted"] by linarith
  moreover have "L \<le> max (cs_maxUnavailable cs + (int (length pods) - cs_replicas cs) - (num pre_deleting pods
       + num (\<lambda>p. \<not> pre_deleting p \<and> \<not> isSpecifiedDelete cs p \<and> \<not> A p) pods)) 0"
    unfolding L_def A_def by (rule deleteReadyLimit_le)
  moreover have "num A pods = int (length pods) - num pre_deleting pods
      - num (\<lambda>p. \<not> pre_deleting p \<and> \<not> isSpecifiedDelete cs p \<and> \<not> A p) pods
      - num (\<lambda>p. \<not> pre_deleting p \<and> isSpecifiedDelete cs p \<and> \<not> A p) pods"
    by (rule num_partition4) (simp add: A_def available_not_pre_deleting)
  ultimately show ?thesis unfolding Let_def A_def [symmetric] L_def [symmetric] by linarith
qed

text \<open>Three pods of a CloneSet with three replicas, of which two are specified to be deleted.\<close>

definition demo_pod :: "string \<Rightarrow> bool \<Rightarrow> pod" where
  "demo_pod n rdy = zero_pod\<lparr>Name := n, UID := n, Status := (Status zero_pod)\<lparr>Phase := PodRunning,
     Conditions := (if rdy then [\<lparr>CondType = PodReady, CondStatus = ConditionTrue, LastTransitionTime = 0,
       Reason = [], Message = MsgText []\<rparr>] else [])\<rparr>\<rparr>"

definition demo_cs :: "int \<Rightarrow> string list \<Rightarrow> cloneset" where
  "demo_cs r names = zero_cloneset\<lparr>CSpec := (CSpec zero_cloneset)\<lparr>Replicas := Some r,
     ScaleStrategy := (ScaleStrategy (CSpec zero_cloneset))\<lparr>PodsToDelete := names\<rparr>\<rparr>\<rparr>"

lemma demo_pod_available:
  "CSIsPodAvailable env (demo_pod n rdy) m \<longleftrightarrow> rdy \<and> m = 0"
  by (simp add: CSIsPodAvailable_def demo_pod_def IsPodUpdateReady_def IsRunningAndAvailable_def IsPodAvailable_def
      GetCondition_def GetPodLifecycleState_def zero_defs state_defs key_defs)

lemma demo_pod_simps [simp]:
  "Name (demo_pod n rdy) = n" "isPodReady env (demo_pod n rdy) = rdy" "\<not> pre_deleting (demo_pod n rdy)"
  "isSpecifiedDelete (demo_cs r names) (demo_pod n rdy) \<longleftrightarrow> n \<in> set names"
  by (simp_all only: isPodReady_def demo_pod_available)
    (simp_all add: pre_deleting_def demo_pod_def GetPodLifecycleState_def zero_defs
      state_defs isSpecifiedDelete_def IsSpecifiedDelete_def demo_cs_def zero_cs_defs)

lemma demo_pod_eq [simp]: "demo_pod n r = demo_pod n' r' \<longleftrightarrow> n = n' \<and> r = r'"
proof
  assume eq: "demo_pod n r = demo_pod n' r'"
  from arg_cong [OF eq, of Name] arg_cong [OF eq, of "isPodReady (demo_env False)"] show "n = n' \<and> r = r'" by simp
qed simp

lemma demo_cs_simps [simp]:
  "MinReadySeconds (CSpec (demo_cs r names)) = 0" "cs_replicas (demo_cs r names) = r"
  "cs_maxUnavailable (demo_cs r names) = 1" "cs_maxSurge (demo_cs r names) = 0" "cs_partition (demo_cs r names) = 0"
  by (simp_all add: demo_cs_def cs_replicas_def cs_maxUnavailable_def cs_maxSurge_def cs_partition_def
      GetValueFromIntOrPercent_def ValueOrDefault_def getIntOrPercentValue_def zero_cs_defs IntValue_def)

lemma demo_cs_counts_all [simp]: "\<not> shouldScalingExcludePreparingDelete (demo_env b) (demo_cs r names)"
  by (simp add: shouldScalingExcludePreparingDelete_def demo_env_def demo_cs_def zero_cs_defs)

theorem deletion_keeps_available_witness:
  "distinct [demo_pod ''a'' True, demo_pod ''b'' True, demo_pod ''c'' True] \<and>
   2 \<le> num (\<lambda>p. CSIsPodAvailable (demo_env False) p 0)
     (filter (\<lambda>p. p \<notin> set (limit_ready (demo_env False)
         (deleteReadyLimit (calculateDiffsWithExpectation (demo_env False) (demo_cs 3 [''b'', ''c''])
            [demo_pod ''a'' True, demo_pod ''b'' True, demo_pod ''c'' True] ''v1'' ''v2'' None))
         [demo_pod ''b'' True, demo_pod ''c'' True]))
       [demo_pod ''a'' True, demo_pod ''b'' True, demo_pod ''c'' True])"
proof -
  have d: "distinct [demo_pod ''a'' True, demo_pod ''b'' True, demo_pod ''c'' True]"
    by simp
  from deletion_keeps_available [OF d, of "demo_env False" "demo_cs 3 [''b'', ''c'']" "''v1''" "''v2''" None
      "[demo_pod ''b'' True, demo_pod ''c'' True]"]
  have "2 \<le> num (\<lambda>p. CSIsPodAvailable (demo_env False) p 0)
     (filter (\<lambda>p. p \<notin> set (limit_ready (demo_env False)
         (deleteReadyLimit (calculateDiffsWithExpectation (demo_env False) (demo_cs 3 [''b'', ''c''])
            [demo_pod ''a'' True, demo_pod ''b'' True, demo_pod ''c'' True] ''v1'' ''v2'' None))
         [demo_pod ''b'' True, demo_pod ''c'' True]))
       [demo_pod ''a'' True, demo_pod ''b'' True, demo_pod ''c'' True])"
    unfolding Let_def demo_cs_simps by (simp add: num_def demo_pod_available)
  with d show ?thesis by blast
qed

text \<open>
  C15: The pods specified to be deleted are not counted as unavailable even when they are, so one scale
  can leave more than \<open>maxUnavailable\<close> pods unavailable: of three pods for three replicas and
  \<open>maxUnavailable\<close> 1, two are specified and one of these is not ready; two are available, the
  limit lets both specified ones go, and one available pod is left.
\<close>

theorem unready_specified_exceeds_maxUnavailable:
  "let pods = [demo_pod ''a'' True, demo_pod ''b'' True, demo_pod ''c'' False];
       cs = demo_cs 3 [''b'', ''c''];
       d = calculateDiffsWithExpectation (demo_env False) cs pods ''v1'' ''v2'' None;
       taken = limit_ready (demo_env False) (deleteReadyLimit d) [demo_pod ''b'' True, demo_pod ''c'' False];
       available = (\<lambda>p. CSIsPodAvailable (demo_env False) p 0)
   in cs_replicas cs - cs_maxUnavailable cs = 2 \<and> num available pods = 2
      \<and> num available (filter (\<lambda>p. p \<notin> set taken) pods) = 1"
proof -
  let ?pods = "[demo_pod ''a'' True, demo_pod ''b'' True, demo_pod ''c'' False]" and ?cs = "demo_cs 3 [''b'', ''c'']"
  have eq: "CSEqualToRevisionHash (demo_pod n r) ''v2'' = False" for n r
    by (simp add: CSEqualToRevisionHash_def GetShortHash_def demo_pod_def zero_defs)
  have "deleteReadyLimit (calculateDiffsWithExpectation (demo_env False) ?cs ?pods ''v1'' ''v2'' None) = 1"
    unfolding calculateDiffsWithExpectation_def Let_def case_prod_beta expectation_diffs.simps count_pods_eq
      rev_counts.simps demo_cs_simps
    by (simp add: num_def demo_pod_available eq)
  then show ?thesis by (simp add: Let_def num_def demo_pod_available)
qed

section \<open>The pods chosen\<close>

lemma cs_partition_range:
  assumes "0 \<le> cs_replicas cs" and "Replicas (CSpec cs) \<noteq> None"
  shows "0 \<le> cs_partition cs \<and> cs_partition cs \<le> cs_replicas cs"
  using assms CalculatePartition_range [of "Partition (UpdateStrategy (CSpec cs))" "Replicas (CSpec cs)"]
  by (auto simp: cs_partition_def cs_replicas_def split: option.splits)

lemma choose_pods_spec:
  assumes "go_sorter (SortPods ctl)" and "0 \<le> k" and "k \<le> int (length ps)"
  shows "mset (choose_pods ctl env cs ps k) \<subseteq># mset ps \<and> int (length (choose_pods ctl env cs ps k)) = k"
proof -
  have take: "mset (take n xs) \<subseteq># mset xs" for n and xs :: "pod list"
    by (metis append_take_drop_id mset_append mset_subset_eq_add_left)
  show ?thesis
  proof (cases "k < int (length ps)")
    case True
    define xs where "xs = SortPods ctl (Less (Some (if GetPodSpreadConstraint cs \<noteq> []
        then NewSpreadConstraintsRanker (SortPods ctl) (SpreadWeight ctl) (GetNodeLabels ctl) ps (GetPodSpreadConstraint cs)
        else NewSameNodeRanker (SortPods ctl) ps))
        (Some (\<lambda>p. CSIsPodAvailable env p (MinReadySeconds (CSpec cs))))) ps"
    have "mset xs = mset ps" unfolding xs_def by (rule go_sorter.srt_perm [OF assms(1)])
    moreover from this have "length xs = length ps" by (metis size_mset)
    moreover have "choose_pods ctl env cs ps k = take (nat k) xs"
      using True by (simp add: choose_pods_def xs_def Let_def)
    ultimately show ?thesis using take [of "nat k" xs] assms(2) True by simp
  next
    case False
    then show ?thesis using assms take by (simp add: choose_pods_def)
  qed
qed

lemma num_length: "(\<And>p. p \<in> set xs \<Longrightarrow> P p) \<Longrightarrow> num P xs = int (length xs)"
  by (induction xs) (auto simp: num_def)

lemma num_zero: "(\<And>p. p \<in> set xs \<Longrightarrow> \<not> P p) \<Longrightarrow> num P xs = 0"
  by (induction xs) (auto simp: num_def)

lemma num_append [simp]: "num P (xs @ ys) = num P xs + num P ys"
  by (simp add: num_def)

text \<open>The choice between the revisions, when there are enough pods of each.\<close>

lemma choosePodsToDelete_spec:
  assumes srt: "go_sorter (SortPods ctl)" and "0 \<le> a" and "0 \<le> b" and "a \<le> num P pods + b"
    and "b \<le> int (length pods) - num P pods" and "a \<le> int (length pods)"
  shows "let xs = choosePodsToDelete ctl env cs a b (filter (\<lambda>p. \<not> P p) pods) (filter P pods) in
    mset xs \<subseteq># mset pods \<and> int (length xs) = a \<and> num (\<lambda>p. \<not> P p) xs = min a b"
proof -
  let ?o = "filter (\<lambda>p. \<not> P p) pods" and ?n = "filter P pods"
  let ?c = "\<lambda>ps k. choose_pods ctl env cs ps k"
  have len: "int (length ?n) = num P pods" "int (length ?o) = int (length pods) - num P pods"
    using num_compl [of P pods] by (simp_all add: num_def)
  have sub: "mset xs \<subseteq># mset ps \<Longrightarrow> p \<in> set xs \<Longrightarrow> p \<in> set ps" for xs ps :: "pod list" and p
    by (metis mset_subset_eqD set_mset_mset)
  have old: "num (\<lambda>p. \<not> P p) xs = int (length xs)" if "mset xs \<subseteq># mset ?o" for xs
    using sub [OF that] by (intro num_length) auto
  have new: "num (\<lambda>p. \<not> P p) xs = 0" if "mset xs \<subseteq># mset ?n" for xs
    using sub [OF that] by (intro num_zero) auto
  have all: "mset ?o + mset ?n = mset pods" by (induction pods) auto
  then have incl: "mset ?o \<subseteq># mset pods" "mset ?n \<subseteq># mset pods"
    by (metis mset_subset_eq_add_left, metis mset_subset_eq_add_right)
  consider "b \<ge> a" | "b < a" "b > 0" | "b < a" "b = 0" using assms(3) by linarith
  then show ?thesis
  proof cases
    case 1
    then have "mset (?c ?o a) \<subseteq># mset ?o \<and> int (length (?c ?o a)) = a"
      by (intro choose_pods_spec [OF srt]) (use len assms in linarith)+
    with 1 incl old show ?thesis
      by (auto simp: choosePodsToDelete_def Let_def simp del: mset_filter intro: subset_mset.order_trans)
  next
    case 2
    then have "mset (?c ?o b) \<subseteq># mset ?o \<and> int (length (?c ?o b)) = b"
      and "mset (?c ?n (a - b)) \<subseteq># mset ?n \<and> int (length (?c ?n (a - b))) = a - b"
      by (intro choose_pods_spec [OF srt]; use len assms in linarith)+
    with 2 old new show ?thesis
      using subset_mset.add_mono [of "mset (?c ?o b)" "mset ?o" "mset (?c ?n (a - b))" "mset ?n"] all
      by (simp add: choosePodsToDelete_def Let_def del: mset_filter)
  next
    case 3
    then have "mset (?c ?n a) \<subseteq># mset ?n \<and> int (length (?c ?n a)) = a"
      by (intro choose_pods_spec [OF srt]) (use len assms in linarith)+
    with 3 incl new show ?thesis
      by (auto simp: choosePodsToDelete_def Let_def simp del: mset_filter intro: subset_mset.order_trans)
  qed
qed

text \<open>
  C10: A scale-in takes exactly the surplus.  When no pod is being deleted, the pods chosen are pods of
  the CloneSet, each at most as often as it occurs, as many as \<open>scaleDownNum\<close> says; the chosen pods
  of the old revision are \<open>scaleDownNumOldRevision\<close> many, or all; and what is left are the replicas
  and the surge in use.
\<close>

theorem scale_in_exact:
  assumes "go_sorter (SortPods ctl)" and "Replicas (CSpec cs) \<noteq> None" and "0 \<le> cs_replicas cs"
    and "\<forall>p\<in>set pods. \<not> pre_deleting p \<and> \<not> isSpecifiedDelete cs p"
  shows "let d = calculateDiffsWithExpectation env cs pods currentRevision updateRevision
                   (Some (IsPodUpdate (PreparingUpdateAsUpdate env)));
             (updatedPods, notUpdatedPods) = GroupUpdateAndNotUpdatePods (PreparingUpdateAsUpdate env) pods updateRevision;
             chosen = choosePodsToDelete ctl env cs (scaleDownNum d) (scaleDownNumOldRevision d) notUpdatedPods updatedPods
    in mset chosen \<subseteq># mset pods \<and> int (length chosen) = scaleDownNum d
       \<and> num (\<lambda>p. \<not> IsPodUpdate (PreparingUpdateAsUpdate env) p updateRevision) chosen
           = min (scaleDownNum d) (scaleDownNumOldRevision d)
       \<and> (scaleDownNum d > 0 \<longrightarrow> int (length pods) - int (length chosen) = cs_replicas cs + useSurge d)"
proof -
  define P where "P p = IsPodUpdate (PreparingUpdateAsUpdate env) p updateRevision" for p
  have u: "in_update_rev (Some (IsPodUpdate (PreparingUpdateAsUpdate env))) updateRevision = P"
    by (rule ext) (simp add: in_update_rev_def P_def)
  have zero: "num Q pods = 0" if "\<And>p. p \<in> set pods \<Longrightarrow> \<not> Q p" for Q using that by (rule num_zero)
  have c: "toDeleteCount (count_pods env cs Q pods) = 0" "preDeletingCount (count_pods env cs Q pods) = 0"
    "revCount (count_pods env cs Q pods) = num Q pods" for Q
    using assms(4) by (auto simp: count_pods_eq intro: zero)
  note part = cs_partition_range [OF assms(3,2)]
  have no: "num (\<lambda>p. \<not> P p) pods = int (length pods) - num P pods" using num_compl [of P pods] by simp
  show ?thesis
  proof (rule diffs_shape [of env cs pods currentRevision updateRevision
        "Some (IsPodUpdate (PreparingUpdateAsUpdate env))"], goal_cases)
    case (1 s so tu upd)
    define d where "d = calculateDiffsWithExpectation env cs pods currentRevision updateRevision
        (Some (IsPodUpdate (PreparingUpdateAsUpdate env)))"
    let ?N = "int (length pods)" and ?T = "cs_replicas cs + s"
    have d: "scaleDownNum d = (if ?N - ?T > 0 then ?N - ?T else 0)" "useSurge d = s"
      "scaleDownNumOldRevision d = (if ?N - ?T > 0 then max (?N - num P pods - (cs_partition cs + so)) 0 else 0)"
      unfolding d_def "1"(1) Let_def expectation_diffs.simps u c no by simp_all
    have "0 \<le> num P pods" "num P pods \<le> ?N" by (simp_all add: num_def)
    then have "let xs = choosePodsToDelete ctl env cs (scaleDownNum d) (scaleDownNumOldRevision d)
        (filter (\<lambda>p. \<not> P p) pods) (filter P pods) in
      mset xs \<subseteq># mset pods \<and> int (length xs) = scaleDownNum d
      \<and> num (\<lambda>p. \<not> P p) xs = min (scaleDownNum d) (scaleDownNumOldRevision d)"
      using part "1"(2,3) assms(3) by (intro choosePodsToDelete_spec [OF assms(1)]) (auto simp: d)
    then show ?case
      unfolding d_def [symmetric] GroupUpdateAndNotUpdatePods_def P_def [symmetric] Let_def prod.case
      by (simp add: d)
  qed
qed

definition demo_ctl :: "'w patch_adapter \<Rightarrow> ('w, int) sync_ctl" where
  "demo_ctl adp = \<lparr>SortPods = go_sort, SortMessages = go_sort, FormatTime = show_int, Adapter = adp,
     CreatePod = (\<lambda>p w. (None, w)), CreatePVC = (\<lambda>c w. (None, w)), DeletePod = (\<lambda>p w. (None, w)),
     DeletePVC = (\<lambda>c w. (None, w)), GetNodeLabels = (\<lambda>n. None), SpreadWeight = (\<lambda>n. 1),
     RandString = show_nat, PopAny = (\<lambda>S. Min S)\<rparr>"

theorem scale_in_exact_witness:
  "go_sorter (SortPods (demo_ctl InformerLifecycle)) \<and>
   length (choosePodsToDelete (demo_ctl InformerLifecycle) (demo_env False) (demo_cs 1 []) 1 2
     [demo_pod ''a'' True, demo_pod ''b'' False] []) = 1"
proof -
  let ?pods = "[demo_pod ''a'' True, demo_pod ''b'' False]"
  let ?d = "calculateDiffsWithExpectation (demo_env False) (demo_cs 1 []) ?pods ''v1'' ''v2''
      (Some (IsPodUpdate (PreparingUpdateAsUpdate (demo_env False))))"
  have upd: "\<not> IsPodUpdate (PreparingUpdateAsUpdate (demo_env False)) (demo_pod n r) ''v2''" for n r
    by (simp add: IsPodUpdate_def equalToRevisionHash_def getShortHash_def demo_env_def demo_pod_def zero_defs)
  have "scaleDownNum ?d = 1" and "scaleDownNumOldRevision ?d = 2"
    unfolding calculateDiffsWithExpectation_def Let_def case_prod_beta expectation_diffs.simps count_pods_eq
      rev_counts.simps demo_cs_simps
    by (simp_all add: num_def demo_pod_available upd use_surge_def)
  moreover have "go_sorter (SortPods (demo_ctl InformerLifecycle))"
    by (simp add: demo_ctl_def insertion.go_sorter_axioms)
  moreover have "Replicas (CSpec (demo_cs 1 [])) \<noteq> None" by (simp add: demo_cs_def zero_cs_defs)
  ultimately show ?thesis
    using scale_in_exact [of "demo_ctl InformerLifecycle" "demo_cs 1 []" ?pods "demo_env False" "''v1''" "''v2''"]
    by (simp add: GroupUpdateAndNotUpdatePods_def upd Let_def)
qed

section \<open>Instance ids\<close>

text \<open>A random source that leaves every finite set again and again.\<close>

definition fair_source :: "(nat \<Rightarrow> string) \<Rightarrow> bool" where
  "fair_source rnd \<longleftrightarrow> (\<forall>S i. finite S \<longrightarrow> (\<exists>j\<ge>i. rnd j \<notin> S))"

definition pops_member :: "(string set \<Rightarrow> string) \<Rightarrow> bool" where
  "pops_member pop \<longleftrightarrow> (\<forall>S. finite S \<and> S \<noteq> {} \<longrightarrow> pop S \<in> S)"

lemma rand_id_reaches: "rnd (i + k) \<notin> S \<Longrightarrow> \<exists>x j. rand_id rnd S i = Some (x, j) \<and> x \<notin> S"
proof (induction k arbitrary: i)
  case 0
  then show ?case by (simp add: rand_id.simps)
next
  case (Suc k)
  show ?case
  proof (cases "rnd i \<notin> S")
    case False
    with Suc.IH [of "i + 1"] Suc.prems show ?thesis by (simp add: rand_id.simps [of rnd S i])
  qed (simp add: rand_id.simps)
qed

lemma getOrGenInstanceID_spec:
  assumes "fair_source (RandString ctl)" and "pops_member (PopAny ctl)" and "finite E" and "finite F" and "[] \<notin> F"
  shows "\<exists>x j. getOrGenInstanceID ctl E F i = Some (x, F - {x}, j) \<and> (if F = {} then x \<notin> E else x \<in> F)"
proof (cases "F = {}")
  case True
  obtain k where "RandString ctl (i + k) \<notin> E"
    using assms(1,3) unfolding fair_source_def by (metis le_Suc_ex)
  with True show ?thesis using rand_id_reaches [of "RandString ctl" i k E] by (auto simp: getOrGenInstanceID_def)
next
  case False
  then have "PopAny ctl F \<in> F" using assms(2,4) by (simp add: pops_member_def)
  with assms(5) False show ?thesis by (auto simp: getOrGenInstanceID_def)
qed

lemma gen_ids_spec:
  assumes "fair_source (RandString ctl)" and "pops_member (PopAny ctl)" and "finite E"
  shows "finite F \<Longrightarrow> [] \<notin> F \<Longrightarrow> F \<subseteq> E \<Longrightarrow> finite R \<Longrightarrow> F \<inter> R = {} \<Longrightarrow>
    \<exists>ids j. gen_ids ctl n E F R i = Some (R \<union> ids, j) \<and> finite ids \<and> ids \<inter> (E - F) = {} \<and> card ids \<le> n
      \<and> (if n \<le> card F then ids \<subseteq> F \<and> card ids = n else F \<subseteq> ids)"
proof (induction n arbitrary: F R i)
  case 0
  then show ?case by (auto intro: exI [of _ "{}"])
next
  case (Suc n)
  obtain x j where x: "getOrGenInstanceID ctl E F i = Some (x, F - {x}, j)" "if F = {} then x \<notin> E else x \<in> F"
    using getOrGenInstanceID_spec [OF assms Suc.prems(1,2)] by blast
  have prems: "finite (F - {x})" "[] \<notin> F - {x}" "F - {x} \<subseteq> E" "finite (insert x R)" "(F - {x}) \<inter> insert x R = {}"
    using Suc.prems by auto
  obtain ids k where g: "gen_ids ctl n E (F - {x}) (insert x R) j = Some (insert x R \<union> ids, k)" "finite ids"
    "ids \<inter> (E - (F - {x})) = {}" "card ids \<le> n"
    "if n \<le> card (F - {x}) then ids \<subseteq> F - {x} \<and> card ids = n else F - {x} \<subseteq> ids"
    using Suc.IH [OF prems] by blast
  have "x \<notin> ids" if "x \<in> F" using g(3) that Suc.prems(3) by auto
  moreover have "card F = Suc (card (F - {x}))" if "x \<in> F"
    using that Suc.prems(1) by (metis card.remove)
  ultimately show ?case
    using x g Suc.prems(1,3)
    by (intro exI [of _ "insert x ids"] exI [of _ k]) (auto simp: card_insert_if split: if_splits)
qed


lemma fair_show_nat: "fair_source show_nat"
  unfolding fair_source_def
proof (intro allI impI)
  fix S :: "string set" and i
  assume "finite S"
  have inj: "inj show_nat" by (rule inj_on_inverseI [where g = digits_val]) simp
  then have "infinite (show_nat ` {i..})" by (metis finite_imageD infinite_Ici inj_on_subset subset_UNIV)
  with \<open>finite S\<close> have "\<not> show_nat ` {i..} \<subseteq> S" using finite_subset by blast
  then show "\<exists>j\<ge>i. show_nat j \<notin> S" by auto
qed


end
