(* ===== verification/CloneSet_Expect.thy ===== *)
theory CloneSet_Expect
  imports CloneSet_Scale_Correct
begin

text \<open>
  The expectations of a scale agree with what it made the API server do.  The server is seen through
  the names of the pods and of the claims that have been created in it.
\<close>

text \<open>
  A creation that returns no error has created a new object; one that returns an error has not.
\<close>

definition creates :: "('o \<Rightarrow> string) \<Rightarrow> ('o \<Rightarrow> 'w \<Rightarrow> api_error option \<times> 'w) \<Rightarrow> ('w \<Rightarrow> string set) \<Rightarrow> ('w \<Rightarrow> string set) \<Rightarrow> bool" where
  "creates nm create own other \<longleftrightarrow>
     (\<forall>x w r w'. create x w = (r, w') \<longrightarrow> other w' = other w \<and>
        (if r = None then nm x \<notin> own w \<and> own w' = insert (nm x) (own w) else own w' = own w))"

lemma createsD:
  assumes "creates nm create own other" and "create x w = (r, w')"
  shows "other w' = other w" and "r = None \<Longrightarrow> nm x \<notin> own w \<and> own w' = insert (nm x) (own w)"
    and "r \<noteq> None \<Longrightarrow> own w' = own w"
  using assms unfolding creates_def by (metis, metis, metis)

text \<open>
  What is expected of a state, seen from the world \<open>w0\<close> a scale started in: the creations of the
  pods \<open>names\<close> and of the new claims, none of which is one of the names to avoid.
\<close>

definition agrees ::
  "('w \<Rightarrow> string set) \<Rightarrow> ('w \<Rightarrow> string set) \<Rightarrow> 'w \<Rightarrow> string \<Rightarrow> string set \<Rightarrow> string set \<Rightarrow> string set \<Rightarrow> 'w sync_state
   \<Rightarrow> bool" where
  "agrees madePods madeClaims w0 key names avoid made st \<longleftrightarrow>
     scale_pending (ScaleExp st) key = {Create} \<times> (names \<union> (madeClaims (World st) - madeClaims w0))
     \<and> madePods (World st) - madePods w0 = made \<and> madePods w0 \<subseteq> madePods (World st)
     \<and> (madeClaims (World st) - madeClaims w0) \<inter> avoid = {} \<and> madeClaims w0 \<subseteq> madeClaims (World st)"

lemma agrees_mono: "agrees mp mc w0 key names avoid made st \<Longrightarrow> avoid' \<subseteq> avoid \<Longrightarrow> agrees mp mc w0 key names avoid' made st"
  unfolding agrees_def by blast

lemma create_claims_agrees:
  assumes law: "creates Name (CreatePVC ctl) madeClaims madePods"
  shows "agrees madePods madeClaims w0 key names (avoid \<union> Name ` set cs) made st \<Longrightarrow> distinct (map Name cs) \<Longrightarrow>
    Name ` set cs \<inter> avoid = {} \<Longrightarrow> names \<subseteq> avoid \<Longrightarrow>
    agrees madePods madeClaims w0 key names avoid made (snd (create_claims ctl key ex cs st))"
proof (induction cs arbitrary: st)
  case (Cons c cs)
  let ?agr = "agrees madePods madeClaims w0 key names"
  have rest: "distinct (map Name cs)" "Name ` set cs \<inter> avoid = {}" using Cons.prems by auto
  note IH = Cons.IH [OF _ rest Cons.prems(4)]
  show ?case
  proof (cases "Name c \<in> ex")
    case True
    with IH [of st] agrees_mono [OF Cons.prems(1)] show ?thesis by auto
  next
    case False
    obtain r w where cr: "CreatePVC ctl c (World st) = (r, w)" by (cases "CreatePVC ctl c (World st)")
    note law = createsD [OF law cr]
    show ?thesis
    proof (cases r)
      case None
      let ?st = "st\<lparr>ScaleExp := ExpectScale key Create (Name c) (ScaleExp st), World := w\<rparr>"
      have "Name c \<notin> madeClaims w0" using law(2) [OF None] Cons.prems(1) unfolding agrees_def by auto
      then have "?agr (avoid \<union> Name ` set cs) made ?st"
        using Cons.prems law(1) law(2) [OF None] unfolding agrees_def by auto
      with IH [of ?st] None cr False show ?thesis by (simp add: Let_def)
    next
      case (Some e)
      then have "madeClaims w = madeClaims (World st)" using law(3) by simp
      moreover have "Name c \<notin> names" "Name c \<notin> madeClaims (World st) - madeClaims w0"
        using Cons.prems unfolding agrees_def by auto
      ultimately have "?agr avoid made (st\<lparr>World := w,
          ScaleExp := ObserveScale key Create (Name c) (ExpectScale key Create (Name c) (ScaleExp st))\<rparr>)"
        using Cons.prems(1) law(1) unfolding agrees_def by auto
      with Some cr False show ?thesis by (simp add: Let_def)
    qed
  qed
qed simp

text \<open>The claims that are created with a new pod.\<close>

definition cs_of :: "cloneset \<Rightarrow> cloneset \<Rightarrow> string \<Rightarrow> pod \<Rightarrow> cloneset" where
  "cs_of currentCS updateCS currentRevision p =
     (if CSEqualToRevisionHash p currentRevision then currentCS else updateCS)"

definition claim_names ::
  "('w, 'r) sync_ctl \<Rightarrow> cs_env \<Rightarrow> cloneset \<Rightarrow> cloneset \<Rightarrow> string \<Rightarrow> pod \<Rightarrow> string list" where
  "claim_names ctl env currentCS updateCS currentRevision p =
     map (Name \<circ> snd) (GetPersistentVolumeClaims (cs_of currentCS updateCS currentRevision p)
       (SetPodLifecycle (FormatTime ctl) (time_now env) StatePreparingNormal p))"

text \<open>What holds between two creations, for the new pods \<open>names\<close>.\<close>

definition creating ::
  "(pod \<Rightarrow> string list) \<Rightarrow> ('w \<Rightarrow> string set) \<Rightarrow> ('w \<Rightarrow> string set) \<Rightarrow> 'w \<Rightarrow> string \<Rightarrow> string set \<Rightarrow> 'w creation \<Rightarrow> bool" where
  "creating claims madePods madeClaims w0 key names s \<longleftrightarrow>
     agrees madePods madeClaims w0 key names (names \<union> set (concat (map claims (podsCreationChan s))))
       (successPodNames s) (creationState s)
     \<and> distinct (concat (map claims (podsCreationChan s)))
     \<and> set (concat (map claims (podsCreationChan s))) \<inter> names = {}
     \<and> successPodNames s \<union> Name ` set (podsCreationChan s) \<subseteq> names
     \<and> 0 \<le> created s \<and> (created s = 0 \<longleftrightarrow> successPodNames s = {})"

lemma Name_SetPodLifecycle [simp]: "Name (SetPodLifecycle fmt now state p) = Name p"
  by (simp add: SetPodLifecycle_def)

lemma create_next_creating:
  fixes ctl :: "('w, 'r) sync_ctl" and env currentCS updateCS currentRevision
  defines "claims \<equiv> claim_names ctl env currentCS updateCS currentRevision"
  assumes laws: "creates Name (CreatePVC ctl) madeClaims madePods" "creates Name (CreatePod ctl) madePods madeClaims"
    and keys: "GetControllerKey currentCS = key" "GetControllerKey updateCS = key"
    and inv: "creating claims madePods madeClaims w0 key names s"
    and step: "create_next ctl env currentCS updateCS currentRevision ex s = (r, s')"
  shows "creating claims madePods madeClaims w0 key names s'"
proof (cases "podsCreationChan s")
  case Nil
  with inv step show ?thesis by (simp add: create_next_def)
next
  case (Cons p ps)
  let ?cs = "cs_of currentCS updateCS currentRevision p"
  define q where "q = SetPodLifecycle (FormatTime ctl) (time_now env) StatePreparingNormal p"
  define cl where "cl = map snd (GetPersistentVolumeClaims ?cs q)"
  let ?avoid = "names \<union> set (concat (map claims ps))"
  have key: "GetControllerKey ?cs = key" using keys by (simp add: cs_of_def)
  have cl: "map Name cl = claims p" by (simp add: claims_def claim_names_def cl_def q_def)
  then have nm: "Name ` set cl = set (claims p)" by (metis list.set_map)
  obtain e1 st1 where cc: "create_claims ctl key ex cl (creationState s) = (e1, st1)"
    by (cases "create_claims ctl key ex cl (creationState s)")
  have agr: "agrees madePods madeClaims w0 key names (names \<union> set (concat (map claims (p # ps))))
      (successPodNames s) (creationState s)"
    and dist: "distinct (concat (map claims (p # ps)))" and disj: "set (concat (map claims (p # ps))) \<inter> names = {}"
    and rest': "successPodNames s \<subseteq> names" "Name p \<in> names" "Name ` set ps \<subseteq> names" "0 \<le> created s" "created s = 0 \<longleftrightarrow> successPodNames s = {}"
    using inv unfolding creating_def Cons by auto
  have "agrees madePods madeClaims w0 key names ?avoid (successPodNames s)
      (snd (create_claims ctl key ex cl (creationState s)))"
  proof (rule create_claims_agrees [OF laws(1)])
    show "agrees madePods madeClaims w0 key names (?avoid \<union> Name ` set cl) (successPodNames s) (creationState s)"
      by (rule agrees_mono [OF agr]) (auto simp: nm)
    show "distinct (map Name cl)" using dist cl by simp
    show "Name ` set cl \<inter> ?avoid = {}" using dist disj unfolding nm by auto
  qed blast
  then have claims_made: "agrees madePods madeClaims w0 key names ?avoid (successPodNames s) st1" by (simp add: cc)
  have rest: "distinct (concat (map claims ps))" "set (concat (map claims ps)) \<inter> names = {}"
    using dist disj by auto
  note rest = rest rest'
  have nxt: "create_next ctl env currentCS updateCS currentRevision ex s =
    (case createOnePod ctl ?cs q ex (creationState s) of
       (Some e, st) \<Rightarrow> (Some e, s\<lparr>podsCreationChan := ps, creationState := st\<rparr>)
     | (None, st) \<Rightarrow> (None, s\<lparr>podsCreationChan := ps, created := created s + 1,
                           successPodNames := insert (Name q) (successPodNames s), creationState := st\<rparr>))"
    by (simp only: create_next_def Cons list.case Let_def cs_of_def q_def)
  obtain e2 w2 where cp: "CreatePod ctl q (World st1) = (e2, w2)" by (cases "CreatePod ctl q (World st1)")
  have one: "createOnePod ctl ?cs q ex (creationState s) =
      (case e1 of Some e \<Rightarrow> (Some e, st1) | None \<Rightarrow> (e2, st1\<lparr>World := w2\<rparr>))"
    using cc cp by (simp add: createOnePod_def key cl_def split: option.split)
  note law = createsD [OF laws(2) cp]
  have nq: "Name q = Name p" by (simp add: q_def)
  show ?thesis
  proof (cases "e1 = None \<and> e2 = None")
    case True
    have "agrees madePods madeClaims w0 key names ?avoid (insert (Name p) (successPodNames s)) (st1\<lparr>World := w2\<rparr>)"
      using claims_made law(1) law(2) True unfolding agrees_def nq by auto
    moreover from True step have "s' = s\<lparr>podsCreationChan := ps, created := created s + 1,
        successPodNames := insert (Name p) (successPodNames s), creationState := st1\<lparr>World := w2\<rparr>\<rparr>"
      unfolding nxt one by (simp add: nq)
    ultimately show ?thesis using rest by (simp add: creating_def)
  next
    case False
    have "agrees madePods madeClaims w0 key names ?avoid (successPodNames s) (if e1 = None then st1\<lparr>World := w2\<rparr> else st1)"
      using claims_made law(1) law(3) False unfolding agrees_def by auto
    moreover from False step
    have "s' = s\<lparr>podsCreationChan := ps, creationState := (if e1 = None then st1\<lparr>World := w2\<rparr> else st1)\<rparr>"
      unfolding nxt one by (cases e1; cases e2) auto
    ultimately show ?thesis using rest by (simp add: creating_def)
  qed
qed

lemma pending_fold_Expect:
  "scale_pending (fold (\<lambda>p. ExpectScale key a (Name p)) ps r) key = scale_pending r key \<union> {a} \<times> Name ` set ps"
  by (induction ps arbitrary: r) auto

lemma pending_fold_Observe:
  "scale_pending (fold (\<lambda>p. ObserveScale key a (Name p)) ps r) key = scale_pending r key - {a} \<times> Name ` set ps"
  by (induction ps arbitrary: r) auto

text \<open>As long as no call fails, the channel is worked off and its pods are created.\<close>

definition worked_off :: "pod list \<Rightarrow> nat \<Rightarrow> 'w creation \<Rightarrow> bool" where
  "worked_off newPods k s \<longleftrightarrow>
     podsCreationChan s = drop k newPods \<and> Name ` set (take k newPods) \<subseteq> successPodNames s"

lemma create_next_worked_off:
  assumes "worked_off newPods k s" and "create_next ctl env currentCS updateCS currentRevision ex s = (None, s')"
  shows "worked_off newPods (Suc k) s'"
proof (cases "podsCreationChan s")
  case Nil
  with assms(2) show ?thesis by (simp add: create_next_def)
next
  case (Cons p ps)
  then have dr: "drop k newPods = p # ps" using assms(1) by (simp add: worked_off_def)
  then have "take (Suc k) newPods = take k newPods @ [p]" and "drop (Suc k) newPods = ps"
    by (metis drop_eq_Nil hd_drop_conv_nth leI list.distinct(1) list.sel(1) take_Suc_conv_app_nth)
      (metis dr drop_Suc list.sel(3) tl_drop)
  moreover from assms(2) Cons have "podsCreationChan s' = ps" "successPodNames s' = insert (Name p) (successPodNames s)"
    by (auto simp: create_next_def Let_def split: prod.splits option.splits)
  ultimately show ?thesis using assms(1) by (auto simp: worked_off_def)
qed


text \<open>A server that keeps the names of its pods and of its claims.\<close>

definition named_create :: "('o \<Rightarrow> string) \<Rightarrow> 'o \<Rightarrow> string set \<Rightarrow> api_error option \<times> string set" where
  "named_create nm x S = (if nm x \<in> S then (Some (OtherError ''AlreadyExists''), S) else (None, insert (nm x) S))"

definition store_ctl :: "(string set \<times> string set) patch_adapter \<Rightarrow> (string set \<times> string set, int) sync_ctl" where
  "store_ctl adp = (demo_ctl adp)\<lparr>
     CreatePod := (\<lambda>p (P, C). let (r, P') = named_create Name p P in (r, P', C)),
     CreatePVC := (\<lambda>c (P, C). let (r, C') = named_create Name c C in (r, P, C'))\<rparr>"

lemma store_creates:
  "creates Name (CreatePVC (store_ctl adp)) snd fst" "creates Name (CreatePod (store_ctl adp)) fst snd"
  by (auto simp: creates_def store_ctl_def named_create_def split: if_splits)


end
