(* ===== verification/CloneSet_Update.thy ===== *)
theory CloneSet_Update
  imports CloneSet_Scale
begin

text \<open>
  Updating a CloneSet (\<open>sync/cloneset_update.go\<close>): refreshing the lifecycle states, choosing,
  ordering and limiting the pods to update, and updating one pod in place or by recreation.

  \<open>sort.Slice\<close>, the patch libraries, the hashes of the container metadata and the check of the
  PodUnavailableBudget are further arguments.
\<close>

section \<open>What updating uses\<close>

record ('w, 'r) update_ctl = "('w, 'r) sync_ctl" +
  SortIndexes :: "(nat \<Rightarrow> nat \<Rightarrow> bool) \<Rightarrow> nat list \<Rightarrow> nat list"
  ClientPatch :: "pod \<Rightarrow> pod_patch \<Rightarrow> 'w \<Rightarrow> (api_error + pod) \<times> 'w"
  PubValidatePod :: "pod \<Rightarrow> 'w \<Rightarrow> (bool \<times> api_error option) \<times> 'w"
  PubUpdateGate :: bool
  EnvFromMetadataGate :: bool
  MergePatch :: "pod \<Rightarrow> string \<Rightarrow> pod option"
  HashContainer :: "container \<Rightarrow> nat"
  HashEnvs :: "(string \<times> anno) list \<Rightarrow> nat"
  RevisionPatch :: "controller_revision \<Rightarrow> controller_revision \<Rightarrow> json_op list option"
  RevisionTemplate :: "controller_revision \<Rightarrow> pod_template option"
  TwoWayPatch :: "pod_template \<Rightarrow> pod_template \<Rightarrow> string option"

definition cs_revision_adapter :: "cs_env \<Rightarrow> revision_adapter" where
  "cs_revision_adapter env =
     \<lparr>EqualToRevisionHash = CSEqualToRevisionHash, WriteRevisionHash = CSWriteRevisionHash (ShortHash env)\<rparr>"

definition update_opts :: "('w, 'r, 'z) update_ctl_scheme \<Rightarrow> cs_env \<Rightarrow> cloneset \<Rightarrow> update_options" where
  "update_opts ctl env cs = GetUpdateOptions (MergePatch ctl) (HashContainer ctl) (HashEnvs ctl) (time_now env) cs"

section \<open>Refreshing the state of a pod\<close>

definition hook_of :: "(lifecycle \<Rightarrow> lifecycle_hook option) \<Rightarrow> cloneset \<Rightarrow> lifecycle_hook option" where
  "hook_of sel cs = (case CSLifecycle (CSpec cs) of None \<Rightarrow> None | Some l \<Rightarrow> sel l)"

definition after_update :: "cloneset \<Rightarrow> pod \<Rightarrow> string" where
  "after_update cs p =
     (if CSLifecycle (CSpec cs) \<noteq> None \<and> \<not> IsPodAllHooked (hook_of InPlaceUpdate cs) p
      then StateUpdated else StateNormal)"

text \<open>The state a pod moves to; empty when it stays.\<close>

definition refresh_target ::
  "('w, 'r, 'z) update_ctl_scheme \<Rightarrow> cloneset \<Rightarrow> pod \<Rightarrow> string \<Rightarrow> string" where
  "refresh_target ctl cs p updateRevision =
     (let state = GetPodLifecycleState p in
      if state = StatePreparingNormal then
        (if hook_of PreNormal cs = None \<or> IsPodAllHooked (hook_of PreNormal cs) p then StateNormal else [])
      else if state = StatePreparingUpdate then
        (if CSEqualToRevisionHash p updateRevision then after_update cs p else [])
      else if state = StateUpdating then
        (if DefaultCheckInPlaceUpdateCompleted (HashContainer ctl) (HashEnvs ctl) p = None then after_update cs p else [])
      else if state = StateUpdated then
        (if hook_of InPlaceUpdate cs = None \<or> IsPodAllHooked (hook_of InPlaceUpdate cs) p then StateNormal else [])
      else [])"

definition refreshPodState ::
  "('w, 'r, 'z) update_ctl_scheme \<Rightarrow> cs_env \<Rightarrow> cloneset \<Rightarrow> pod \<Rightarrow> string \<Rightarrow> 'w sync_state
   \<Rightarrow> (bool \<times> int \<times> api_error option) \<times> 'w sync_state" where
  "refreshPodState ctl env cs p updateRevision st =
     (case Refresh (cs_revision_adapter env) (Adapter ctl) (time_now env) p (update_opts ctl env cs) (World st) of
        (res, w1) \<Rightarrow>
          (case RefreshErr res of
             Some e \<Rightarrow> ((False, 0, Some e), st\<lparr>World := w1\<rparr>)
           | None \<Rightarrow>
               (let state = refresh_target ctl cs p updateRevision in
                if state = [] then ((False, DelayDuration res, None), st\<lparr>World := w1\<rparr>)
                else
                  (let markPodNotReady = (case hook_of InPlaceUpdate cs of None \<Rightarrow> False | Some h \<Rightarrow> MarkPodNotReady h)
                   in case UpdatePodLifecycle (SortMessages ctl) (FormatTime ctl) (Adapter ctl) (time_now env) p state
                             markPodNotReady w1 of
                        ((_, Inl e), w2) \<Rightarrow> ((False, 0, Some e), st\<lparr>World := w2\<rparr>)
                      | ((updated, Inr gotPod), w2) \<Rightarrow>
                          (if updated
                           then ((True, DelayDuration res, None), st\<lparr>World := w2, RVExp := RVExpect gotPod (RVExp st)\<rparr>)
                           else ((False, DelayDuration res, None), st\<lparr>World := w2\<rparr>))))))"

definition fixPodTemplateHashLabel ::
  "('w, 'r, 'z) update_ctl_scheme \<Rightarrow> pod \<Rightarrow> 'w sync_state \<Rightarrow> (bool \<times> api_error option) \<times> 'w sync_state" where
  "fixPodTemplateHashLabel ctl p st =
     (if Labels p DefaultDeploymentUniqueLabelKey \<noteq> None then ((False, None), st)
      else case ClientPatch ctl p
                  \<lparr>PatchLabels = [(DefaultDeploymentUniqueLabelKey,
                                   GetShortHash (lget (Labels p) ControllerRevisionHashLabelKey))],
                   PatchAnnotations = [], PatchFinalizers = []\<rparr> (World st) of
             (Inl e, w) \<Rightarrow> ((False, Some e), st\<lparr>World := w\<rparr>)
           | (Inr q, w) \<Rightarrow> ((True, None), st\<lparr>World := w, RVExp := RVExpect q (RVExp st)\<rparr>))"

fun refresh_all ::
  "('w, 'r, 'z) update_ctl_scheme \<Rightarrow> cs_env \<Rightarrow> cloneset \<Rightarrow> string \<Rightarrow> bool \<Rightarrow> pod list \<Rightarrow> 'w sync_state
   \<Rightarrow> (bool \<times> api_error option) \<times> 'w sync_state" where
  "refresh_all ctl env cs updateRevision modified [] st = ((modified, None), st)"
| "refresh_all ctl env cs updateRevision modified (p # ps) st =
     (case refreshPodState ctl env cs p updateRevision st of
        ((patchedState, delay, Some e), st1) \<Rightarrow> ((modified, Some e), st1)
      | ((patchedState, delay, None), st1) \<Rightarrow>
          (let st2 = (if delay > 0 then st1\<lparr>Durations := DurationPush (GetControllerKey cs) delay (Durations st1)\<rparr>
                      else st1)
           in case fixPodTemplateHashLabel ctl p st2 of
                ((patchedHash, Some e), st3) \<Rightarrow> ((modified, Some e), st3)
              | ((patchedHash, None), st3) \<Rightarrow>
                  refresh_all ctl env cs updateRevision (modified \<or> patchedState \<or> patchedHash) ps st3))"

section \<open>Updating a pod\<close>

text \<open>The pod is marked for deletion, and a scale recreates it at the new revision.\<close>

definition recreate_pod ::
  "('w, 'r, 'z) update_ctl_scheme \<Rightarrow> pod \<Rightarrow> 'w sync_state \<Rightarrow> (int \<times> api_error option) \<times> 'w sync_state" where
  "recreate_pod ctl p st =
     (case PatchPodSpecifiedDelete (ClientPatch ctl) p ''true'' (World st) of
        ((_, Inl e), w) \<Rightarrow> ((0, Some e), st\<lparr>World := w\<rparr>)
      | ((patched, Inr q), w) \<Rightarrow>
          ((0, None), if patched then st\<lparr>World := w, RVExp := RVExpect q (RVExp st)\<rparr> else st\<lparr>World := w\<rparr>))"

text \<open>The outcome of moving the pod to \<open>PreparingUpdate\<close>.\<close>

definition lifecycle_outcome ::
  "(bool \<times> (api_error + pod)) \<times> 'w \<Rightarrow> 'w sync_state \<Rightarrow> (int \<times> api_error option) \<times> 'w sync_state" where
  "lifecycle_outcome r st =
     (case r of
        ((_, Inl e), w) \<Rightarrow> ((0, Some e), st\<lparr>World := w\<rparr>)
      | ((updated, Inr gotPod), w) \<Rightarrow>
          ((0, None), if updated then st\<lparr>World := w, RVExp := RVExpect gotPod (RVExp st)\<rparr> else st\<lparr>World := w\<rparr>))"

text \<open>Whether a lifecycle hook still holds the pod back; \<open>None\<close> lets the update go on.\<close>

definition before_inplace ::
  "('w, 'r, 'z) update_ctl_scheme \<Rightarrow> cs_env \<Rightarrow> cloneset \<Rightarrow> pod \<Rightarrow> 'w sync_state
   \<Rightarrow> ((int \<times> api_error option) \<times> 'w sync_state) option" where
  "before_inplace ctl env cs p st =
     (let state = GetPodLifecycleState p; hook = hook_of InPlaceUpdate cs in
      if state = [] \<or> state = StatePreparingNormal \<or> state = StateNormal then
        (case hook of
           None \<Rightarrow> None
         | Some h \<Rightarrow>
             if IsPodHooked hook p
             then Some (lifecycle_outcome (UpdatePodLifecycle (SortMessages ctl) (FormatTime ctl) (Adapter ctl)
                    (time_now env) p StatePreparingUpdate (MarkPodNotReady h) (World st)) st)
             else None)
      else if state = StateUpdated then
        Some (lifecycle_outcome (UpdatePodLifecycleWithHandler (SortMessages ctl) (FormatTime ctl) (Adapter ctl)
               (time_now env) p StatePreparingUpdate hook (World st)) st)
      else if state = StatePreparingUpdate then
        (if IsPodHooked hook p then Some ((0, None), st) else None)
      else if state = StateUpdating then None
      else Some ((0, Some (OtherError ''not allowed to in-place update pod'')), st))"

definition updatePod ::
  "('w, 'r, 'z) update_ctl_scheme \<Rightarrow> cs_env \<Rightarrow> cloneset \<Rightarrow> controller_revision \<Rightarrow> controller_revision list \<Rightarrow> pod
   \<Rightarrow> 'w sync_state \<Rightarrow> (int \<times> api_error option) \<times> 'w sync_state" where
  "updatePod ctl env cs updateRevision revisions p st =
     (let ty = UpdateType (UpdateStrategy (CSpec cs)); opts = update_opts ctl env cs in
      if ty = ReCreate then recreate_pod ctl p st
      else
        (let oldRevision = find (\<lambda>r. CSEqualToRevisionHash p (Name r)) revisions;
             back_off = (if ty = InPlaceOnly
                         then ((0, Some (OtherError ''update strategy is InPlaceOnly but can not update in-place'')), st)
                         else recreate_pod ctl p st)
         in case defaultCalculateInPlaceUpdateSpec (RevisionPatch ctl) (RevisionTemplate ctl) (TwoWayPatch ctl)
                   (EnvFromMetadataGate ctl) (GracePeriodSeconds opts) None oldRevision (Some updateRevision) of
              Inl e \<Rightarrow> ((0, Some e), st)
            | Inr None \<Rightarrow> back_off
            | Inr (Some spec) \<Rightarrow>
                (case before_inplace ctl env cs p st of
                   Some r \<Rightarrow> r
                 | None \<Rightarrow>
                     (case InPlaceUpdatePod (cs_revision_adapter env) (Adapter ctl) (time_now env) p (Some spec)
                             (opts\<lparr>AdditionalFuncs := AdditionalFuncs opts
                                @ [SetPodLifecycle (FormatTime ctl) (time_now env) StateUpdating]\<rparr>) (World st) of
                        (res, w) \<Rightarrow>
                          (case UpdateErr res of
                             None \<Rightarrow> ((UpdateDelay res, None), st\<lparr>World := w,
                                       RVExp := RVExpect (zero_meta\<lparr>UID := UID p,
                                                  ResourceVersion := NewResourceVersion res\<rparr>) (RVExp st)\<rparr>)
                           | Some e \<Rightarrow> ((UpdateDelay res, Some e), st\<lparr>World := w\<rparr>))))))"

section \<open>Ordering and limiting\<close>

definition SortUpdateIndexes ::
  "('w, 'r, 'z) update_ctl_scheme \<Rightarrow> update_strategy \<Rightarrow> pod list \<Rightarrow> nat list \<Rightarrow> nat list" where
  "SortUpdateIndexes ctl strategy pods waitUpdateIndexes =
     (let i1 = SortIndexes ctl (\<lambda>i j. ActivePods_Less (pods ! i) (pods ! j)) waitUpdateIndexes;
          i2 = PrioritySort (PriorityStrategy strategy) (map Some pods) i1;
          i3 = ScatterSort (ScatterStrategy strategy) (map Some pods) i2;
          preparing = (\<lambda>i. GetPodLifecycleState (pods ! i) = StatePreparingUpdate)
      in go_sort (\<lambda>i j. if preparing i \<noteq> preparing j then preparing i else False) i3)"

fun can_update :: "(nat \<Rightarrow> bool) \<Rightarrow> int \<Rightarrow> int \<Rightarrow> int \<Rightarrow> int \<Rightarrow> nat list \<Rightarrow> int" where
  "can_update available maxUnavailable targetUnavailable unavailable canUpdateCount [] = canUpdateCount"
| "can_update available maxUnavailable targetUnavailable unavailable canUpdateCount (i # is) =
     (if targetUnavailable + canUpdateCount \<ge> maxUnavailable then canUpdateCount
      else if available i then
        (if unavailable \<ge> maxUnavailable then canUpdateCount
         else can_update available maxUnavailable targetUnavailable (unavailable + 1) (canUpdateCount + 1) is)
      else can_update available maxUnavailable targetUnavailable unavailable (canUpdateCount + 1) is)"

definition limitUpdateIndexes ::
  "cs_env \<Rightarrow> int \<Rightarrow> expectation_diffs \<Rightarrow> nat list \<Rightarrow> pod list \<Rightarrow> string \<Rightarrow> nat list" where
  "limitUpdateIndexes env minReadySeconds diffRes waitUpdateIndexes pods targetRevisionHash =
     (let updateDiff = IntAbs (updateNum diffRes);
          idx = (if updateDiff < int (length waitUpdateIndexes) then take (nat updateDiff) waitUpdateIndexes
                 else waitUpdateIndexes);
          unavailable = filter (\<lambda>p. \<not> CSIsPodAvailable env p minReadySeconds) pods;
          cnt = can_update (\<lambda>i. CSIsPodAvailable env (pods ! i) minReadySeconds) (updateMaxUnavailable diffRes)
                  (int (length (filter (\<lambda>p. CSEqualToRevisionHash p targetRevisionHash) unavailable)))
                  (int (length unavailable)) 0 idx
      in if cnt < int (length idx) then take (nat cnt) idx else idx)"

section \<open>Update\<close>

definition can_wait :: "expectation_diffs \<Rightarrow> string \<Rightarrow> pod \<Rightarrow> bool" where
  "can_wait diffRes updateRevision p =
     (let waitUpdate = (if updateNum diffRes > 0 then \<not> CSEqualToRevisionHash p updateRevision
                        else CSEqualToRevisionHash p updateRevision);
          state = GetPodLifecycleState p
      in waitUpdate \<and>
         (if state = StatePreparingDelete then False
          else if state = StateUpdated then True
          else GetInPlaceUpdateGrace p = None \<or> GetInPlaceUpdateGrace p = Some (Text [])))"

fun update_pods ::
  "('w, 'r, 'z) update_ctl_scheme \<Rightarrow> cs_env \<Rightarrow> cloneset \<Rightarrow> controller_revision \<Rightarrow> controller_revision list \<Rightarrow> pod list
   \<Rightarrow> 'w sync_state \<Rightarrow> api_error option \<times> 'w sync_state" where
  "update_pods ctl env cs targetRevision revisions [] st = (None, st)"
| "update_pods ctl env cs targetRevision revisions (p # ps) st =
     (let ((allowed, err), w) = (if PubUpdateGate ctl then PubValidatePod ctl p (World st) else ((True, None), World st));
          st1 = st\<lparr>World := w\<rparr>; key = GetControllerKey cs
      in case err of
           Some e \<Rightarrow> (Some e, st1)
         | None \<Rightarrow>
             if \<not> allowed then (None, st1\<lparr>Durations := DurationPush key second (Durations st1)\<rparr>)
             else case updatePod ctl env cs targetRevision revisions p st1 of
                    ((delay, err2), st2) \<Rightarrow>
                      (let st3 = (if delay > 0 then st2\<lparr>Durations := DurationPush key delay (Durations st2)\<rparr> else st2)
                       in case err2 of
                            Some e \<Rightarrow> (Some e, st3)
                          | None \<Rightarrow> update_pods ctl env cs targetRevision revisions ps st3))"

definition Update ::
  "('w, 'r, 'z) update_ctl_scheme \<Rightarrow> cs_env \<Rightarrow> cloneset \<Rightarrow> controller_revision \<Rightarrow> controller_revision
   \<Rightarrow> controller_revision list \<Rightarrow> pod list \<Rightarrow> 'w sync_state \<Rightarrow> api_error option \<times> 'w sync_state" where
  "Update ctl env cs currentRevision updateRevision revisions pods st =
     (case refresh_all ctl env cs (Name updateRevision) False pods st of
        ((_, Some e), st1) \<Rightarrow> (Some e, st1)
      | ((modified, None), st1) \<Rightarrow>
          if modified \<or> Paused (UpdateStrategy (CSpec cs)) then (None, st1)
          else
            (let diffRes = calculateDiffsWithExpectation env cs pods (Name currentRevision) (Name updateRevision) None in
             if updateNum diffRes = 0 then (None, st1)
             else
               (let targetRevision = (if updateNum diffRes < 0 then currentRevision else updateRevision);
                    wait = filter (\<lambda>i. can_wait diffRes (Name updateRevision) (pods ! i)) [0..<length pods];
                    srt = SortUpdateIndexes ctl (UpdateStrategy (CSpec cs)) pods wait;
                    idx = limitUpdateIndexes env (MinReadySeconds (CSpec cs)) diffRes srt pods (Name targetRevision)
                in update_pods ctl env cs targetRevision revisions (map (\<lambda>i. pods ! i) idx) st1)))"

end
