(* ===== verification/CloneSet_Update_Correct.thy ===== *)
theory CloneSet_Update_Correct
  imports CloneSet_Update CloneSet_Scale_Correct
begin

text \<open>What updating a CloneSet guarantees.\<close>

section \<open>The limit\<close>

lemma can_update_spec:
  "let c = can_update A mx t u can is in
     can \<le> c \<and> c \<le> can + int (length is) \<and> t + c \<le> max (t + can) mx
     \<and> u + int (length (filter A (take (nat (c - can)) is))) \<le> max u mx"
proof (induction A mx t u can "is" rule: can_update.induct)
  case (2 A mx t u can i "is")
  have suc: "nat (c - can) = Suc (nat (c - (can + 1)))" if "can + 1 \<le> c" for c using that by simp
  show ?case
  proof (cases "t + can \<ge> mx \<or> (A i \<and> u \<ge> mx)")
    case True
    then show ?thesis by (auto simp: Let_def)
  next
    case False
    then show ?thesis
      using "2.IH" suc by (cases "A i") (auto simp: Let_def)
  qed
qed simp

text \<open>The pods that are updated come first, are at most as many as asked for, and respect the limit.\<close>

lemma limitUpdateIndexes_spec:
  defines "A \<equiv> \<lambda>env m (p :: pod). CSIsPodAvailable env p m"
  shows "\<exists>k. limitUpdateIndexes env m d wait pods tgt = take k wait \<and> k \<le> length wait \<and> int k \<le> \<bar>updateNum d\<bar>
    \<and> num (\<lambda>p. \<not> A env m p) pods + int (length (filter (\<lambda>i. A env m (pods ! i)) (take k wait)))
        \<le> max (num (\<lambda>p. \<not> A env m p) pods) (updateMaxUnavailable d)"
proof -
  define n where "n = min (nat \<bar>updateNum d\<bar>) (length wait)"
  define idx where "idx = take n wait"
  define U where "U = filter (\<lambda>p. \<not> A env m p) pods"
  define c where "c = can_update (\<lambda>i. A env m (pods ! i)) (updateMaxUnavailable d)
      (int (length (filter (\<lambda>p. CSEqualToRevisionHash p tgt) U))) (int (length U)) 0 idx"
  have idx: "(if IntAbs (updateNum d) < int (length wait) then take (nat (IntAbs (updateNum d))) wait else wait) = idx"
    by (auto simp: idx_def n_def IntAbs_def min_def)
  have len: "length idx = n" by (simp add: idx_def n_def)
  from can_update_spec [of "\<lambda>i. A env m (pods ! i)" "updateMaxUnavailable d" _ "int (length U)" 0 idx]
  have c: "0 \<le> c" "c \<le> int n"
    "int (length U) + int (length (filter (\<lambda>i. A env m (pods ! i)) (take (nat c) idx))) \<le> max (int (length U)) (updateMaxUnavailable d)"
    by (auto simp: c_def Let_def len)
  have eq: "limitUpdateIndexes env m d wait pods tgt = (if c < int (length idx) then take (nat c) idx else idx)"
    unfolding limitUpdateIndexes_def Let_def idx c_def U_def A_def by (rule refl)
  have "nat c \<le> n" using c(2) by simp
  then have take: "take (nat c) idx = take (nat c) wait" by (simp add: idx_def min_def)
  have "limitUpdateIndexes env m d wait pods tgt = take (nat c) wait"
    unfolding eq using c(2) take len by (auto simp: idx_def)
  then show ?thesis
    using c take by (intro exI [of _ "nat c"]) (auto simp: n_def U_def num_def)
qed

lemma num_map_nth: "num P (map (\<lambda>i. pods ! i) xs) = int (length (filter (\<lambda>i. P (pods ! i)) xs))"
  by (simp add: num_def filter_map comp_def)

lemma num_upt: "num P pods = int (length (filter (\<lambda>i. P (pods ! i)) [0..<length pods]))"
  by (metis map_nth num_map_nth)

lemma length_filter_split:
  assumes "distinct ys" and "set ys \<subseteq> set xs" and "distinct xs"
  shows "length (filter P xs) = length (filter P (filter (\<lambda>i. i \<notin> set ys) xs)) + length (filter P ys)"
proof -
  have "set (filter P xs) = set (filter P (filter (\<lambda>i. i \<notin> set ys) xs)) \<union> set (filter P ys)" using assms(2) by auto
  then have "card (set (filter P xs)) = card (set (filter P (filter (\<lambda>i. i \<notin> set ys) xs))) + card (set (filter P ys))"
    by (subst card_Un_disjoint [symmetric]) auto
  then show ?thesis by (metis assms(1,3) distinct_card distinct_filter)
qed

lemma updateMaxUnavailable_eq:
  "updateNum (calculateDiffsWithExpectation env cs pods cur upd f) \<noteq> 0 \<Longrightarrow>
   updateMaxUnavailable (calculateDiffsWithExpectation env cs pods cur upd f) =
     cs_maxUnavailable cs + int (length pods) - cs_replicas cs"
  by (rule diffs_shape [of env cs pods cur upd f]) (simp add: Let_def)

text \<open>
  C13: An update leaves at least \<open>replicas - maxUnavailable\<close> available pods untouched, or all that are
  available: the pods that \<open>limitUpdateIndexes\<close> lets an update take are a prefix of those that wait, at
  most \<open>updateNum\<close> many, and no more available ones than \<open>maxUnavailable\<close> allows.
\<close>

theorem update_keeps_available:
  assumes "distinct wait" and "set wait \<subseteq> {..<length pods}"
  shows "let d = calculateDiffsWithExpectation env cs pods currentRevision updateRevision f;
             available = (\<lambda>p. CSIsPodAvailable env p (MinReadySeconds (CSpec cs)));
             idx = limitUpdateIndexes env (MinReadySeconds (CSpec cs)) d wait pods target
    in (\<exists>k. idx = take k wait) \<and> int (length idx) \<le> \<bar>updateNum d\<bar>
       \<and> min (num available pods) (cs_replicas cs - cs_maxUnavailable cs)
         \<le> num available (map (\<lambda>i. pods ! i) (filter (\<lambda>i. i \<notin> set idx) [0..<length pods]))"
proof -
  define d where "d = calculateDiffsWithExpectation env cs pods currentRevision updateRevision f"
  define A where "A p = CSIsPodAvailable env p (MinReadySeconds (CSpec cs))" for p
  obtain k where k: "limitUpdateIndexes env (MinReadySeconds (CSpec cs)) d wait pods target = take k wait"
    "k \<le> length wait" "int k \<le> \<bar>updateNum d\<bar>"
    "num (\<lambda>p. \<not> A p) pods + int (length (filter (\<lambda>i. A (pods ! i)) (take k wait)))
        \<le> max (num (\<lambda>p. \<not> A p) pods) (updateMaxUnavailable d)"
    using limitUpdateIndexes_spec [of env "MinReadySeconds (CSpec cs)" d wait pods target] by (auto simp: A_def)
  let ?left = "filter (\<lambda>i. i \<notin> set (take k wait)) [0..<length pods]"
  have "num A pods = num A (map (\<lambda>i. pods ! i) ?left) + int (length (filter (\<lambda>i. A (pods ! i)) (take k wait)))"
    unfolding num_upt [of A pods] num_map_nth
    by (subst length_filter_split [of "take k wait"]) (use assms set_take_subset [of k wait] in \<open>auto simp: lessThan_atLeast0\<close>)
  moreover have "num (\<lambda>p. \<not> A p) pods = int (length pods) - num A pods" using num_compl [of A pods] by simp
  moreover have "updateMaxUnavailable d = cs_maxUnavailable cs + int (length pods) - cs_replicas cs \<or> k = 0"
    using k(3) updateMaxUnavailable_eq [of env cs pods currentRevision updateRevision f] by (auto simp: d_def)
  ultimately have "min (num A pods) (cs_replicas cs - cs_maxUnavailable cs) \<le> num A (map (\<lambda>i. pods ! i) ?left)"
    using k(4) by auto
  then show ?thesis
    using k unfolding Let_def d_def [symmetric] A_def [symmetric] by auto
qed

theorem update_keeps_available_witness:
  "distinct [1 :: nat, 0] \<and> set [1, 0] \<subseteq> {..<length [demo_pod ''a'' True, demo_pod ''b'' True]} \<and>
   1 \<le> num (\<lambda>p. CSIsPodAvailable (demo_env False) p 0)
     (map (\<lambda>i. [demo_pod ''a'' True, demo_pod ''b'' True] ! i)
       (filter (\<lambda>i. i \<notin> set (limitUpdateIndexes (demo_env False) 0
           (calculateDiffsWithExpectation (demo_env False) (demo_cs 2 []) [demo_pod ''a'' True, demo_pod ''b'' True]
              ''v1'' ''v2'' None) [1, 0] [demo_pod ''a'' True, demo_pod ''b'' True] ''v2''))
         [0..<length [demo_pod ''a'' True, demo_pod ''b'' True]]))"
proof -
  let ?pods = "[demo_pod ''a'' True, demo_pod ''b'' True]"
  have h: "distinct [1 :: nat, 0]" "set [1 :: nat, 0] \<subseteq> {..<length ?pods}" by auto
  from update_keeps_available [OF h, of "demo_env False" "demo_cs 2 []" "''v1''" "''v2''" None "''v2''"]
  have "min (num (\<lambda>p. CSIsPodAvailable (demo_env False) p 0) ?pods) (2 - 1) \<le>
     num (\<lambda>p. CSIsPodAvailable (demo_env False) p 0) (map (\<lambda>i. ?pods ! i)
       (filter (\<lambda>i. i \<notin> set (limitUpdateIndexes (demo_env False) 0
           (calculateDiffsWithExpectation (demo_env False) (demo_cs 2 []) ?pods ''v1'' ''v2'' None) [1, 0] ?pods ''v2''))
         [0..<length ?pods]))"
    unfolding Let_def demo_cs_simps by blast
  moreover have "num (\<lambda>p. CSIsPodAvailable (demo_env False) p 0) ?pods = 2" by (simp add: num_def demo_pod_available)
  ultimately show ?thesis using h by simp
qed

section \<open>The order\<close>

text \<open>
  C20: Pods that are preparing to be updated go first: whatever correct sort is used and whatever the
  priority and scatter strategies are, the pods that wait are only reordered, and as long as a pod in
  state \<open>PreparingUpdate\<close> is left out, only such pods are taken.
\<close>

theorem preparing_pods_first:
  assumes "go_sorter (SortIndexes ctl)"
  shows "let srt = SortUpdateIndexes ctl strategy pods wait;
             preparing = (\<lambda>i. GetPodLifecycleState (pods ! i) = StatePreparingUpdate)
    in mset srt = mset wait \<and>
       (\<forall>n x y. x \<in> set (take n srt) \<and> y \<in> set (drop n srt) \<and> preparing y \<longrightarrow> preparing x)"
proof -
  define prep where "prep i = (GetPodLifecycleState (pods ! i) = StatePreparingUpdate)" for i
  define lss where "lss i j = (if prep i \<noteq> prep j then prep i else False)" for i j
  define i3 where "i3 = ScatterSort (ScatterStrategy strategy) (map Some pods)
      (PrioritySort (PriorityStrategy strategy) (map Some pods)
        (SortIndexes ctl (\<lambda>i j. ActivePods_Less (pods ! i) (pods ! j)) wait))"
  have eq: "SortUpdateIndexes ctl strategy pods wait = go_sort lss i3"
    by (simp add: SortUpdateIndexes_def Let_def i3_def prep_def lss_def [abs_def])
  have "mset i3 = mset wait"
    unfolding i3_def scatter.srt_idx_perm priority.srt_idx_perm by (rule go_sorter.srt_perm [OF assms])
  then have perm: "mset (go_sort lss i3) = mset wait" by (simp only: insertion.srt_perm)
  have lss: "lss i j \<longleftrightarrow> prep i \<and> \<not> prep j" for i j by (auto simp: lss_def)
  have sw: "strict_weak lss" unfolding strict_weak_def lss by blast
  have "prep x" if "x \<in> set (take n (go_sort lss i3))" "y \<in> set (drop n (go_sort lss i3))" "prep y" for n x y
    using insertion.srt_prefix_minimal [OF sw that(1,2)] that(3) unfolding lss by blast
  with perm show ?thesis unfolding eq Let_def prep_def [symmetric] by blast
qed

theorem preparing_pods_first_witness:
  "\<exists>ctl :: (unit, int) update_ctl. go_sorter (SortIndexes ctl) \<and>
     mset (SortUpdateIndexes ctl (UpdateStrategy (CSpec (demo_cs 2 [])))
       [demo_pod ''a'' True, demo_pod ''b'' True] [0, 1]) = {#0, 1#}"
proof -
  fix ctl0 :: "(unit, int) update_ctl"
  let ?ctl = "ctl0\<lparr>SortIndexes := go_sort\<rparr>"
  have srt: "go_sorter (SortIndexes ?ctl)" by (simp add: insertion.go_sorter_axioms)
  with preparing_pods_first [OF srt, of "UpdateStrategy (CSpec (demo_cs 2 []))"
      "[demo_pod ''a'' True, demo_pod ''b'' True]" "[0, 1]"]
  show ?thesis by (intro exI [of _ ?ctl]) (simp add: Let_def add_mset_commute)
qed

end
