(* ===== verification/Revision_History.thy ===== *)
theory Revision_History
  imports Inplace_Update
begin

text \<open>
  The history of a workload's revisions (\<open>pkg/util/history/controller_history.go\<close>) and the comparison
  of revisions of the Kubernetes library it uses.  The client is an argument, a record of functions
  over the world; so is the hash of a revision's data.  The loop that looks for a free name of a new
  revision may run forever against an adversarial server and is a partial function.
\<close>

section \<open>Comparing and sorting revisions\<close>

definition ControllerRevisionHashLabel :: string where
  "ControllerRevisionHashLabel = ''controller.kubernetes.io/hash''"

definition hash_label :: "controller_revision \<Rightarrow> int option" where
  "hash_label r = (case Labels r ControllerRevisionHashLabel of None \<Rightarrow> None | Some hs \<Rightarrow> ParseInt hs 32)"

definition EqualRevision :: "controller_revision \<Rightarrow> controller_revision \<Rightarrow> bool" where
  "EqualRevision lhs rhs =
     (if hash_label lhs \<noteq> None \<and> hash_label rhs \<noteq> None \<and> hash_label lhs \<noteq> hash_label rhs then False
      else RevData lhs = RevData rhs)"

definition FindEqualRevisions :: "controller_revision list \<Rightarrow> controller_revision \<Rightarrow> controller_revision list" where
  "FindEqualRevisions revisions needle = filter (\<lambda>r. EqualRevision r needle) revisions"

definition byRevision_Less :: "controller_revision \<Rightarrow> controller_revision \<Rightarrow> bool" where
  "byRevision_Less a b =
     (if RevisionNum a = RevisionNum b then
        (if CreationTimestamp b = CreationTimestamp a then Name a < Name b
         else CreationTimestamp b > CreationTimestamp a)
      else RevisionNum a < RevisionNum b)"

definition SortControllerRevisions :: "controller_revision list \<Rightarrow> controller_revision list" where
  "SortControllerRevisions revisions = go_sort byRevision_Less revisions"

definition ControllerRevisionName :: "string \<Rightarrow> string \<Rightarrow> string" where
  "ControllerRevisionName prefix hash = (if length prefix > 223 then take 223 prefix else prefix) @ ''-'' @ hash"

definition NewControllerRevision ::
  "(controller_revision \<Rightarrow> int \<Rightarrow> string) \<Rightarrow> 'a object_meta_scheme \<Rightarrow> string \<Rightarrow> string \<Rightarrow> labels \<Rightarrow> string \<Rightarrow> int \<Rightarrow> int
   \<Rightarrow> controller_revision" where
  "NewControllerRevision hashRev parent apiVersion kind templateLabels patch revision collisionCount =
     (let cr = object_meta.extend (zero_meta\<lparr>Labels := templateLabels,
                   OwnerReferences := [NewControllerRef parent apiVersion kind]\<rparr>)
                 (controller_revision.fields revision patch);
          hash = hashRev cr collisionCount
      in cr\<lparr>Name := ControllerRevisionName (Name parent) hash,
            Labels := (Labels cr)(ControllerRevisionHashLabel \<mapsto> hash)\<rparr>)"

section \<open>The client\<close>

record 'w revision_client =
  ListRevisions :: "string \<Rightarrow> (labels \<Rightarrow> bool) \<Rightarrow> 'w \<Rightarrow> api_error + controller_revision list"
  CreateRevision :: "controller_revision \<Rightarrow> 'w \<Rightarrow> (api_error + controller_revision) \<times> 'w"
  GetRevision :: "string \<Rightarrow> string \<Rightarrow> 'w \<Rightarrow> api_error + controller_revision"
  UpdateRevision' :: "controller_revision \<Rightarrow> 'w \<Rightarrow> (api_error + controller_revision) \<times> 'w"
  DeleteRevision :: "controller_revision \<Rightarrow> 'w \<Rightarrow> api_error option \<times> 'w"

section \<open>The operations\<close>

definition ListControllerRevisions ::
  "'w revision_client \<Rightarrow> 'a object_meta_scheme \<Rightarrow> (labels \<Rightarrow> bool) \<Rightarrow> 'w \<Rightarrow> api_error + controller_revision list" where
  "ListControllerRevisions rh parent selector w =
     (case ListRevisions rh (Namespace parent) selector w of
        Inl e \<Rightarrow> Inl e
      | Inr revisions \<Rightarrow>
          Inr (filter (\<lambda>r. case GetControllerOf r of None \<Rightarrow> True | Some ref \<Rightarrow> OwnerUID ref = UID parent) revisions))"

text \<open>Incrementing an \<open>int32\<close>.\<close>

definition incr32 :: "int \<Rightarrow> int" where
  "incr32 c = (if c = 2147483647 then - 2147483648 else c + 1)"

partial_function (option) create_revision_loop ::
  "'w revision_client \<Rightarrow> (controller_revision \<Rightarrow> int \<Rightarrow> string) \<Rightarrow> string \<Rightarrow> string \<Rightarrow> controller_revision \<Rightarrow> int \<Rightarrow> 'w
   \<Rightarrow> ((api_error + controller_revision) \<times> int \<times> 'w) option" where
  "create_revision_loop rh hashRev ns parentName revision collisionCount w =
     (let clone = revision\<lparr>Name := ControllerRevisionName parentName (hashRev revision collisionCount)\<rparr>
      in case CreateRevision rh (clone\<lparr>Namespace := ns\<rparr>) w of
           (Inr created, w1) \<Rightarrow> Some (Inr created, collisionCount, w1)
         | (Inl e, w1) \<Rightarrow>
             if e = AlreadyExists then
               (case GetRevision rh ns (Name clone) w1 of
                  Inl e2 \<Rightarrow> Some (Inl e2, collisionCount, w1)
                | Inr exists \<Rightarrow>
                    if RevData exists = RevData clone then Some (Inr exists, collisionCount, w1)
                    else create_revision_loop rh hashRev ns parentName revision (incr32 collisionCount) w1)
             else Some (Inl e, collisionCount, w1))"

definition CreateControllerRevision ::
  "'w revision_client \<Rightarrow> (controller_revision \<Rightarrow> int \<Rightarrow> string) \<Rightarrow> 'a object_meta_scheme \<Rightarrow> controller_revision
   \<Rightarrow> int option \<Rightarrow> 'w \<Rightarrow> ((api_error + controller_revision) \<times> int option \<times> 'w) option" where
  "CreateControllerRevision rh hashRev parent revision collisionCount w =
     (case collisionCount of
        None \<Rightarrow> Some (Inl (OtherError ''collisionCount should not be nil''), None, w)
      | Some c \<Rightarrow> map_option (\<lambda>(r, c', w'). (r, Some c', w'))
                   (create_revision_loop rh hashRev (Namespace parent) (Name parent) revision c w))"

text \<open>
  The closures of the retries keep the captured \<open>clone\<close> in their state.  A failed update is followed
  by a read, whose result replaces the clone only when the read succeeds.
\<close>

definition retry_update ::
  "'w revision_client \<Rightarrow> string \<Rightarrow> string \<Rightarrow> controller_revision \<Rightarrow> 'w
   \<Rightarrow> api_error option \<times> controller_revision \<times> 'w" where
  "retry_update rh ns n clone w =
     (case UpdateRevision' rh clone w of
        (Inr stored, w1) \<Rightarrow> (None, stored, w1)
      | (Inl e, w1) \<Rightarrow> (Some e, (case GetRevision rh ns n w1 of Inl _ \<Rightarrow> clone | Inr got \<Rightarrow> got), w1))"

definition update_revision_once ::
  "'w revision_client \<Rightarrow> string \<Rightarrow> string \<Rightarrow> int \<Rightarrow> controller_revision \<times> 'w
   \<Rightarrow> api_error option \<times> controller_revision \<times> 'w" where
  "update_revision_once rh ns n newRevision = (\<lambda>(clone, w).
     if RevisionNum clone = newRevision then (None, clone, w)
     else retry_update rh ns n (clone\<lparr>RevisionNum := newRevision\<rparr>) w)"

definition UpdateControllerRevision ::
  "'w revision_client \<Rightarrow> controller_revision \<Rightarrow> int \<Rightarrow> 'w \<Rightarrow> api_error option \<times> controller_revision \<times> 'w" where
  "UpdateControllerRevision rh revision newRevision w =
     RetryOnConflict DefaultBackoff (update_revision_once rh (Namespace revision) (Name revision) newRevision) (revision, w)"

definition DeleteControllerRevision ::
  "'w revision_client \<Rightarrow> controller_revision \<Rightarrow> 'w \<Rightarrow> api_error option \<times> 'w" where
  "DeleteControllerRevision rh revision w = DeleteRevision rh revision w"

definition adopt_revision_once ::
  "'w revision_client \<Rightarrow> string \<Rightarrow> string \<Rightarrow> owner_ref \<Rightarrow> controller_revision \<times> 'w
   \<Rightarrow> api_error option \<times> controller_revision \<times> 'w" where
  "adopt_revision_once rh ns n ref = (\<lambda>(clone, w).
     if GetControllerOf clone \<noteq> None then (Some (OtherError ''attempt to adopt revision owned by''), clone, w)
     else retry_update rh ns n (clone\<lparr>OwnerReferences := OwnerReferences clone @ [ref]\<rparr>) w)"

definition AdoptControllerRevision ::
  "'w revision_client \<Rightarrow> 'a object_meta_scheme \<Rightarrow> string \<Rightarrow> string \<Rightarrow> controller_revision \<Rightarrow> 'w
   \<Rightarrow> (api_error + controller_revision) \<times> 'w" where
  "AdoptControllerRevision rh parent apiVersion kind revision w =
     (case RetryOnConflict DefaultBackoff (adopt_revision_once rh (Namespace revision) (Name revision)
             (NewControllerRef parent apiVersion kind)) (revision, w) of
        (Some e, clone, w1) \<Rightarrow> (Inl e, w1)
      | (None, clone, w1) \<Rightarrow> (Inr clone, w1))"

definition release_revision_once ::
  "'w revision_client \<Rightarrow> string \<Rightarrow> string \<Rightarrow> string \<Rightarrow> controller_revision \<times> 'w
   \<Rightarrow> api_error option \<times> controller_revision \<times> 'w" where
  "release_revision_once rh ns n parentUID = (\<lambda>(clone, w).
     if GetControllerOf clone \<noteq> None then (Some (OtherError ''attempt to adopt revision owned by''), clone, w)
     else retry_update rh ns n
            (clone\<lparr>OwnerReferences := filter (\<lambda>o'. OwnerUID o' \<noteq> parentUID) (OwnerReferences clone)\<rparr>) w)"

text \<open>A revision that is gone or invalid is ignored: no revision and no error.\<close>

definition ReleaseControllerRevision ::
  "'w revision_client \<Rightarrow> 'a object_meta_scheme \<Rightarrow> controller_revision \<Rightarrow> 'w
   \<Rightarrow> (api_error + controller_revision option) \<times> 'w" where
  "ReleaseControllerRevision rh parent revision w =
     (case RetryOnConflict DefaultBackoff (release_revision_once rh (Namespace revision) (Name revision) (UID parent))
             (revision, w) of
        (Some e, clone, w1) \<Rightarrow> (if e = NotFound \<or> e = Invalid then Inr None else Inl e, w1)
      | (None, clone, w1) \<Rightarrow> (Inr (Some clone), w1))"

section \<open>What the operations do to the stored revisions\<close>

text \<open>
  The server as its clients see it: \<open>stored\<close> is what it holds under a name.  A creation under a name
  that is taken fails with \<open>AlreadyExists\<close>, a failed request changes nothing, and a read returns
  what is stored.
\<close>

definition stores_revisions ::
  "'w revision_client \<Rightarrow> ('w \<Rightarrow> string \<rightharpoonup> controller_revision) \<Rightarrow> bool" where
  "stores_revisions rh stored \<longleftrightarrow>
     (\<forall>r w x w'. CreateRevision rh r w = (x, w') \<longrightarrow>
        (case x of
           Inr c \<Rightarrow> stored w (Name r) = None \<and> Name c = Name r \<and> RevData c = RevData r
                    \<and> stored w' = (stored w)(Name r \<mapsto> c)
         | Inl e \<Rightarrow> stored w' = stored w \<and> (e = AlreadyExists \<longrightarrow> stored w (Name r) \<noteq> None)))
     \<and> (\<forall>r w x w'. UpdateRevision' rh r w = (x, w') \<longrightarrow>
        (case x of
           Inr c \<Rightarrow> Name c = Name r \<and> RevData c = RevData r \<and> RevisionNum c = RevisionNum r
                    \<and> stored w' = (stored w)(Name r \<mapsto> c)
         | Inl e \<Rightarrow> stored w' = stored w))
     \<and> (\<forall>ns n w c. GetRevision rh ns n w = Inr c \<longrightarrow> stored w n = Some c \<and> Name c = n)"

lemma stores_create:
  assumes "stores_revisions rh stored" and "CreateRevision rh r w = (x, w')"
  shows "x = Inr c \<Longrightarrow> stored w (Name r) = None \<and> Name c = Name r \<and> RevData c = RevData r
      \<and> stored w' = (stored w)(Name r \<mapsto> c)"
    and "x = Inl e \<Longrightarrow> stored w' = stored w \<and> (e = AlreadyExists \<longrightarrow> stored w (Name r) \<noteq> None)"
  using assms(1) [unfolded stores_revisions_def, THEN conjunct1, THEN spec, THEN spec, THEN spec, THEN spec,
      THEN mp, OF assms(2)] by simp_all

lemma stores_update:
  assumes "stores_revisions rh stored" and "UpdateRevision' rh r w = (x, w')"
  shows "x = Inr c \<Longrightarrow> Name c = Name r \<and> RevData c = RevData r \<and> RevisionNum c = RevisionNum r
      \<and> stored w' = (stored w)(Name r \<mapsto> c)"
    and "x = Inl e \<Longrightarrow> stored w' = stored w"
  using assms(1) [unfolded stores_revisions_def, THEN conjunct2, THEN conjunct1, THEN spec, THEN spec, THEN spec,
      THEN spec, THEN mp, OF assms(2)] by simp_all

lemma stores_get: "stores_revisions rh stored \<Longrightarrow> GetRevision rh ns n w = Inr c \<Longrightarrow> stored w n = Some c \<and> Name c = n"
  unfolding stores_revisions_def by blast

text \<open>The name of the attempt after \<open>k\<close> collisions.\<close>

definition attempt_name :: "(controller_revision \<Rightarrow> int \<Rightarrow> string) \<Rightarrow> string \<Rightarrow> controller_revision \<Rightarrow> int \<Rightarrow> nat \<Rightarrow> string" where
  "attempt_name hashRev parentName revision c k =
     ControllerRevisionName parentName (hashRev revision ((incr32 ^^ k) c))"

lemma attempt_name_Suc: "attempt_name h pn r c (Suc k) = attempt_name h pn r (incr32 c) k"
  by (simp add: attempt_name_def funpow_swap1)

text \<open>One attempt, by what the server answers.\<close>

lemma create_revision_loop_step:
  fixes hashRev :: "controller_revision \<Rightarrow> int \<Rightarrow> string" and pn revision c
  defines "cl \<equiv> revision\<lparr>Name := ControllerRevisionName pn (hashRev revision c)\<rparr>"
  assumes cr: "CreateRevision rh (cl\<lparr>Namespace := ns\<rparr>) w = (x, w1)"
  shows "x = Inr r \<Longrightarrow> create_revision_loop rh hashRev ns pn revision c w = Some (Inr r, c, w1)"
    and "x = Inl e \<Longrightarrow> e \<noteq> AlreadyExists \<Longrightarrow> create_revision_loop rh hashRev ns pn revision c w = Some (Inl e, c, w1)"
    and "x = Inl AlreadyExists \<Longrightarrow> GetRevision rh ns (Name cl) w1 = Inl e2 \<Longrightarrow>
      create_revision_loop rh hashRev ns pn revision c w = Some (Inl e2, c, w1)"
    and "x = Inl AlreadyExists \<Longrightarrow> GetRevision rh ns (Name cl) w1 = Inr got \<Longrightarrow>
      create_revision_loop rh hashRev ns pn revision c w =
        (if RevData got = RevData revision then Some (Inr got, c, w1)
         else create_revision_loop rh hashRev ns pn revision (incr32 c) w1)"
  using cr unfolding cl_def
  by (simp_all add: create_revision_loop.simps [of rh hashRev ns pn revision c w] Let_def del: create_revision_loop.simps)

lemma create_revision_loop_returns:
  fixes rh :: "'w revision_client" and stored :: "'w \<Rightarrow> string \<rightharpoonup> controller_revision"
  defines "good w x w' revision \<equiv>
    (\<forall>r. x = Inr r \<longrightarrow> stored w' (Name r) = Some r \<and> RevData r = RevData revision)
    \<and> (\<forall>n. stored w n \<noteq> None \<longrightarrow> stored w' n = stored w n)"
  assumes laws: "stores_revisions rh stored"
  shows "stored w (attempt_name hashRev pn revision c k) = None \<Longrightarrow>
    \<exists>x c' w'. create_revision_loop rh hashRev ns pn revision c w = Some (x, c', w') \<and> good w x w' revision"
proof (induction k arbitrary: c w)
  case (0 c w)
  let ?cl = "revision\<lparr>Name := ControllerRevisionName pn (hashRev revision c), Namespace := ns\<rparr>"
  obtain x w' where cr: "CreateRevision rh ?cl w = (x, w')" by (cases "CreateRevision rh ?cl w")
  note step = create_revision_loop_step [where hashRev = hashRev and revision = revision and c = c and pn = pn, OF cr] and law = stores_create [OF laws cr]
  show ?case
  proof (cases x)
    case (Inr r)
    then show ?thesis using step(1) [OF Inr] law(1) [OF Inr] by (auto simp: good_def)
  next
    case (Inl e)
    then have "e \<noteq> AlreadyExists" using law(2) [OF Inl] 0 by (auto simp: attempt_name_def)
    then show ?thesis using step(2) [OF Inl] law(2) [OF Inl] Inl by (auto simp: good_def)
  qed
next
  case (Suc k c w)
  let ?cl = "revision\<lparr>Name := ControllerRevisionName pn (hashRev revision c), Namespace := ns\<rparr>"
  obtain x w1 where cr: "CreateRevision rh ?cl w = (x, w1)" by (cases "CreateRevision rh ?cl w")
  note step = create_revision_loop_step [where hashRev = hashRev and revision = revision and c = c and pn = pn, OF cr] and law = stores_create [OF laws cr]
  show ?case
  proof (cases x)
    case (Inr r)
    then show ?thesis using step(1) [OF Inr] law(1) [OF Inr] by (auto simp: good_def)
  next
    case (Inl e)
    then have st: "stored w1 = stored w" using law(2) by blast
    have IH: "\<exists>x c' w'. create_revision_loop rh hashRev ns pn revision (incr32 c) w1 = Some (x, c', w')
        \<and> good w1 x w' revision"
      using Suc.prems by (intro Suc.IH) (simp add: st attempt_name_Suc)
    have same: "good w1 x w' revision = good w x w' revision" for x w' by (simp add: good_def st)
    consider "e \<noteq> AlreadyExists" | e2 where "e = AlreadyExists" "GetRevision rh ns (Name ?cl) w1 = Inl e2"
      | got where "e = AlreadyExists" "GetRevision rh ns (Name ?cl) w1 = Inr got"
      by (cases "GetRevision rh ns (Name ?cl) w1") auto
    then show ?thesis
    proof cases
      case 1
      then show ?thesis using step(2) [OF Inl] st by (auto simp: good_def)
    next
      case 2
      then show ?thesis using step(3) Inl st by (auto simp: good_def)
    next
      case 3
      then have "stored w1 (Name got) = Some got" using stores_get [OF laws 3(2)] by simp
      then show ?thesis
        using step(4) [of got] 3 Inl IH same st by (cases "RevData got = RevData revision") (auto simp: good_def)
    qed
  qed
qed

text \<open>
  C14: Creating a revision returns as soon as one of the names it would try is free.  The revision it
  returns without an error is stored under its name and has the data asked for, and no stored revision
  is changed.
\<close>

theorem create_revision_returns:
  assumes "stores_revisions rh stored"
    and "stored w (attempt_name hashRev (Name parent) revision c k) = None"
  shows "\<exists>x c' w'. CreateControllerRevision rh hashRev parent revision (Some c) w = Some (x, Some c', w')
    \<and> (\<forall>r. x = Inr r \<longrightarrow> stored w' (Name r) = Some r \<and> RevData r = RevData revision)
    \<and> (\<forall>n. stored w n \<noteq> None \<longrightarrow> stored w' n = stored w n)"
proof -
  obtain x c' w' where "create_revision_loop rh hashRev (Namespace parent) (Name parent) revision c w = Some (x, c', w')"
    and "\<forall>r. x = Inr r \<longrightarrow> stored w' (Name r) = Some r \<and> RevData r = RevData revision"
    and "\<forall>n. stored w n \<noteq> None \<longrightarrow> stored w' n = stored w n"
    using create_revision_loop_returns [OF assms] by blast
  then show ?thesis by (intro exI [of _ x] exI [of _ c'] exI [of _ w']) (simp add: CreateControllerRevision_def)
qed

text \<open>A server that stores revisions by name and answers every request.\<close>

definition map_revisions :: "(string \<rightharpoonup> controller_revision) revision_client" where
  "map_revisions = \<lparr>ListRevisions = (\<lambda>ns sel w. Inr []),
     CreateRevision = (\<lambda>r w. if w (Name r) = None then (Inr r, w(Name r \<mapsto> r)) else (Inl AlreadyExists, w)),
     GetRevision = (\<lambda>ns n w. case w n of None \<Rightarrow> Inl NotFound | Some c \<Rightarrow> if Name c = n then Inr c else Inl NotFound),
     UpdateRevision' = (\<lambda>r w. (Inr r, w(Name r \<mapsto> r))),
     DeleteRevision = (\<lambda>r w. (None, w(Name r := None)))\<rparr>"

lemma map_revisions_stores: "stores_revisions map_revisions id"
  unfolding stores_revisions_def by (auto simp: map_revisions_def split: if_splits option.splits)

theorem create_revision_returns_witness:
  "\<exists>x c' w'. CreateControllerRevision map_revisions (\<lambda>r c. if c = 0 then ''0'' else ''1'') (zero_meta\<lparr>Name := ''web''\<rparr>)
      (object_meta.extend zero_meta (controller_revision.fields 1 ''data'')) (Some 0)
      [''web-0'' \<mapsto> object_meta.extend (zero_meta\<lparr>Name := ''web-0''\<rparr>) (controller_revision.fields 1 ''old'')]
    = Some (x, Some c', w')"
proof -
  let ?old = "object_meta.extend (zero_meta\<lparr>Name := ''web-0''\<rparr>) (controller_revision.fields 1 ''old'')"
  let ?r = "object_meta.extend zero_meta (controller_revision.fields 1 ''data'')"
  have "attempt_name (\<lambda>r c. if c = 0 then ''0'' else ''1'') (Name (zero_meta\<lparr>Name := ''web''\<rparr>)) ?r 0 1 = ''web-1''"
    by (simp add: attempt_name_def ControllerRevisionName_def incr32_def zero_defs)
  then have "id [''web-0'' \<mapsto> ?old] (attempt_name (\<lambda>r c. if c = 0 then ''0'' else ''1'') (Name (zero_meta\<lparr>Name := ''web''\<rparr>)) ?r 0 1) = None"
    by simp
  from create_revision_returns [where hashRev = "\<lambda>r c. if c = 0 then ''0'' else ''1''" and w = "[''web-0'' \<mapsto> ?old]"
      and parent = "zero_meta\<lparr>Name := ''web''\<rparr>" and revision = ?r and c = 0 and k = 1, OF map_revisions_stores this]
  show ?thesis by blast
qed

text \<open>An update retried against a server whose reads succeed.\<close>

lemma update_revision_once_written:
  assumes laws: "stores_revisions rh stored" and reads: "\<And>ns n w. stored w n \<noteq> None \<Longrightarrow> \<not> isl (GetRevision rh ns n w)"
    and "Name clone = n" and "RevisionNum clone \<noteq> newRevision \<or> stored w n = Some clone" and "stored w n \<noteq> None"
    and step: "update_revision_once rh ns n newRevision (clone, w) = (e, clone', w')"
  shows "if e = None then \<exists>r. stored w' n = Some r \<and> RevisionNum r = newRevision
    else Name clone' = n \<and> stored w' n = Some clone'"
proof (cases "RevisionNum clone = newRevision")
  case True
  then show ?thesis using assms by (auto simp: update_revision_once_def)
next
  case False
  let ?cl = "clone\<lparr>RevisionNum := newRevision\<rparr>"
  obtain x w1 where up: "UpdateRevision' rh ?cl w = (x, w1)" by (cases "UpdateRevision' rh ?cl w")
  note law = stores_update [OF laws up]
  show ?thesis
  proof (cases x)
    case (Inr c)
    then show ?thesis using step False up law(1) [OF Inr] assms(3)
      by (auto simp: update_revision_once_def retry_update_def)
  next
    case (Inl err)
    then have st: "stored w1 = stored w" using law(2) by blast
    then obtain got where got: "GetRevision rh ns n w1 = Inr got"
      using reads [of w1 n ns] assms(5) by (cases "GetRevision rh ns n w1") auto
    then show ?thesis using step False up Inl stores_get [OF laws got]
      by (auto simp: update_revision_once_def retry_update_def)
  qed
qed

lemma update_revision_written:
  assumes laws: "stores_revisions rh stored" and reads: "\<And>ns n w. stored w n \<noteq> None \<Longrightarrow> \<not> isl (GetRevision rh ns n w)"
    and "RevisionNum revision \<noteq> newRevision" and "stored w (Name revision) \<noteq> None"
    and run: "UpdateControllerRevision rh revision newRevision w = (None, clone, w')"
  shows "\<exists>r. stored w' (Name revision) = Some r \<and> RevisionNum r = newRevision"
proof -
  let ?f = "update_revision_once rh (Namespace revision) (Name revision) newRevision"
  let ?I = "\<lambda>(c, v). Name c = Name revision
      \<and> (RevisionNum c \<noteq> newRevision \<or> stored v (Name revision) = Some c) \<and> stored v (Name revision) \<noteq> None"
  let ?Q = "\<lambda>(e, c, v). e = None \<longrightarrow> (\<exists>r. stored v (Name revision) = Some r \<and> RevisionNum r = newRevision)"
  have once: "if e = None then ?Q (e, s') else ?I s'" if I: "?I s" and f: "?f s = (e, s')" for s e s'
  proof -
    obtain c v where s: "s = (c, v)" by (cases s)
    obtain c' v' where s': "s' = (c', v')" by (cases s')
    show ?thesis
      using update_revision_once_written [OF laws reads _ _ _ f [unfolded s s']] I s' by (simp add: s)
  qed
  have "?Q (RetryOnConflict (Suc 3) ?f (revision, w))"
  proof (rule RetryOnConflict_rule [where I = ?I])
    fix s s' assume "?I s" and "?f s = (Some Conflict, s')"
    then show "?I s'" using once [of s "Some Conflict" s'] by simp
  next
    fix s assume "?I s"
    then show "?Q (?f s)" using once [of s "fst (?f s)" "snd (?f s)"] by (cases "?f s") (auto split: if_splits)
  next
    show "?I (revision, w)" using assms by simp
  qed
  then show ?thesis using run by (simp add: UpdateControllerRevision_def DefaultBackoff_def)
qed

text \<open>
  C15: \<open>UpdateControllerRevision\<close> can report success without having written anything: when the update
  conflicts and the read after it fails, the retry finds the number already set in its own copy and
  stops there.  The revision stored on the server keeps its old number.
\<close>

theorem update_revision_reports_unwritten:
  assumes "\<forall>r w. UpdateRevision' rh r w = (Inl Conflict, w)" and "\<forall>ns n w. GetRevision rh ns n w = Inl e"
    and "RevisionNum revision \<noteq> newRevision"
  shows "UpdateControllerRevision rh revision newRevision w = (None, revision\<lparr>RevisionNum := newRevision\<rparr>, w)"
proof -
  have "RetryOnConflict (Suc (Suc n)) (update_revision_once rh (Namespace revision) (Name revision) newRevision) (revision, w)
      = (None, revision\<lparr>RevisionNum := newRevision\<rparr>, w)" for n
    using assms by (simp add: update_revision_once_def retry_update_def)
  from this [of 2] show ?thesis by (simp add: UpdateControllerRevision_def DefaultBackoff_def numeral_eq_Suc)
qed

theorem update_revision_reports_unwritten_witness:
  "let rh = map_revisions\<lparr>UpdateRevision' := \<lambda>r w. (Inl Conflict, w), GetRevision := \<lambda>ns n w. Inl (OtherError ''timeout'')\<rparr>;
       r = object_meta.extend (zero_meta\<lparr>Name := ''web-0''\<rparr>) (controller_revision.fields 1 ''data'');
       (err, _, w) = UpdateControllerRevision rh r 2 [''web-0'' \<mapsto> r]
   in err = None \<and> w ''web-0'' = Some r \<and> RevisionNum r = 1"
proof -
  let ?rh = "map_revisions\<lparr>UpdateRevision' := \<lambda>r w. (Inl Conflict, w), GetRevision := \<lambda>ns n w. Inl (OtherError ''timeout'')\<rparr>"
  let ?r = "object_meta.extend (zero_meta\<lparr>Name := ''web-0''\<rparr>) (controller_revision.fields 1 ''data'')"
  have num: "RevisionNum ?r = 1" by (simp add: object_meta.defs controller_revision.defs)
  have "UpdateControllerRevision ?rh ?r 2 [''web-0'' \<mapsto> ?r] = (None, ?r\<lparr>RevisionNum := 2\<rparr>, [''web-0'' \<mapsto> ?r])"
    by (rule update_revision_reports_unwritten [where e = "OtherError ''timeout''"]) (simp_all add: num)
  then show ?thesis using num by simp
qed

text \<open>
  Releasing is refused for every revision that has a controller, its parent included: the guard is
  the one of adopting.
\<close>

lemma release_owned_refused:
  assumes "GetControllerOf revision \<noteq> None"
  shows "ReleaseControllerRevision rh parent revision w = (Inl (OtherError ''attempt to adopt revision owned by''), w)"
proof -
  have "RetryOnConflict (Suc n) (release_revision_once rh ns nm uid) (revision, w) =
      (Some (OtherError ''attempt to adopt revision owned by''), revision, w)" for n ns nm uid
    using assms by (simp add: release_revision_once_def)
  from this [of 3] show ?thesis by (simp add: ReleaseControllerRevision_def DefaultBackoff_def numeral_eq_Suc)
qed

end
