(* ===== verification/Ref_Manager.thy ===== *)
theory Ref_Manager
  imports Pod_Readiness Util_Selector
begin

text \<open>
  Claiming objects by selector (\<open>pkg/util/refmanager/ref_manager.go\<close>): adopting orphans that match and
  releasing owned objects that do not.  The client and \<open>controllerutil.SetControllerReference\<close> are
  arguments.  The result of the check that runs at most once is state.
\<close>

record ('w, 'o) ref_manager =
  MgrOwner :: object_meta
  MgrSelector :: selector
  MgrHasSchema :: bool
  GetOwnerObject :: "string \<Rightarrow> string \<Rightarrow> 'w \<Rightarrow> api_error + object_meta"
  UpdateObject :: "'o \<Rightarrow> 'w \<Rightarrow> api_error option \<times> 'w"
  SetControllerReference :: "'o \<Rightarrow> api_error + 'o"

record 'w claim_state =
  canAdoptErr :: "api_error option option"
  ClaimWorld :: 'w

definition wrap_error :: "string \<Rightarrow> api_error \<Rightarrow> api_error" where
  "wrap_error text e = OtherError text"

definition canAdopt :: "('w, 'o) ref_manager \<Rightarrow> 'w \<Rightarrow> api_error option" where
  "canAdopt mgr w =
     (case GetOwnerObject mgr (Namespace (MgrOwner mgr)) (Name (MgrOwner mgr)) w of
        Inl e \<Rightarrow> Some e
      | Inr fresh \<Rightarrow>
          if UID fresh \<noteq> UID (MgrOwner mgr) then Some (OtherError ''original owner is gone'')
          else if DeletionTimestamp fresh \<noteq> None then Some (OtherError ''has just been deleted'')
          else None)"

definition canAdoptOnce :: "('w, 'o) ref_manager \<Rightarrow> 'w claim_state \<Rightarrow> api_error option \<times> 'w claim_state" where
  "canAdoptOnce mgr st =
     (case canAdoptErr st of
        Some r \<Rightarrow> (r, st)
      | None \<Rightarrow> let r = canAdopt mgr (ClaimWorld st) in (r, st\<lparr>canAdoptErr := Some r\<rparr>))"

text \<open>The object is changed in place: it is returned with its new owner references.\<close>

definition adopt ::
  "('w, 'a object_meta_scheme) ref_manager \<Rightarrow> 'a object_meta_scheme \<Rightarrow> 'w claim_state
   \<Rightarrow> api_error option \<times> 'a object_meta_scheme \<times> 'w claim_state" where
  "adopt mgr obj st =
     (case canAdoptOnce mgr st of
        (Some e, st1) \<Rightarrow> (Some (wrap_error ''can't adopt Object'' e), obj, st1)
      | (None, st1) \<Rightarrow>
          if \<not> MgrHasSchema mgr then (None, obj, st1)
          else case SetControllerReference mgr obj of
                 Inl e \<Rightarrow> (Some (wrap_error ''can't set Object owner reference'' e), obj, st1)
               | Inr obj1 \<Rightarrow>
                   (case UpdateObject mgr obj1 (ClaimWorld st1) of
                      (Some e, w) \<Rightarrow> (Some (wrap_error ''can't update Object owner reference'' e), obj1, st1\<lparr>ClaimWorld := w\<rparr>)
                    | (None, w) \<Rightarrow> (None, obj1, st1\<lparr>ClaimWorld := w\<rparr>)))"

fun remove_first_ref :: "string \<Rightarrow> owner_ref list \<Rightarrow> owner_ref list" where
  "remove_first_ref uid [] = []"
| "remove_first_ref uid (r # rs) = (if OwnerUID r = uid then rs else r # remove_first_ref uid rs)"

definition release ::
  "('w, 'a object_meta_scheme) ref_manager \<Rightarrow> 'a object_meta_scheme \<Rightarrow> 'w claim_state
   \<Rightarrow> api_error option \<times> 'w claim_state" where
  "release mgr obj st =
     (if list_ex (\<lambda>r. OwnerUID r = UID (MgrOwner mgr)) (OwnerReferences obj) then
        (case UpdateObject mgr (obj\<lparr>OwnerReferences := remove_first_ref (UID (MgrOwner mgr)) (OwnerReferences obj)\<rparr>)
                (ClaimWorld st) of
           (Some e, w) \<Rightarrow> (Some (wrap_error ''can't remove Pod owner reference'' e), st\<lparr>ClaimWorld := w\<rparr>)
         | (None, w) \<Rightarrow> (None, st\<lparr>ClaimWorld := w\<rparr>))
      else (None, st))"

definition claimObject ::
  "('w, 'a object_meta_scheme) ref_manager \<Rightarrow> ('a object_meta_scheme \<Rightarrow> bool) \<Rightarrow> 'a object_meta_scheme \<Rightarrow> 'w claim_state
   \<Rightarrow> (bool \<times> api_error option) \<times> 'a object_meta_scheme \<times> 'w claim_state" where
  "claimObject mgr match obj st =
     (case GetControllerOf obj of
        Some ref \<Rightarrow>
          if OwnerUID ref \<noteq> UID (MgrOwner mgr) then ((False, None), obj, st)
          else if match obj then ((True, None), obj, st)
          else if DeletionTimestamp (MgrOwner mgr) \<noteq> None then ((False, None), obj, st)
          else (case release mgr obj st of
                  (Some e, st1) \<Rightarrow> ((False, if e = NotFound then None else Some e), obj, st1)
                | (None, st1) \<Rightarrow> ((False, None), obj, st1))
      | None \<Rightarrow>
          if DeletionTimestamp (MgrOwner mgr) \<noteq> None \<or> \<not> match obj then ((False, None), obj, st)
          else if DeletionTimestamp obj \<noteq> None then ((False, None), obj, st)
          else (case adopt mgr obj st of
                  (Some e, obj1, st1) \<Rightarrow> ((False, if e = NotFound then None else Some e), obj1, st1)
                | (None, obj1, st1) \<Rightarrow> ((True, None), obj1, st1)))"

fun claim_all ::
  "('w, 'a object_meta_scheme) ref_manager \<Rightarrow> ('a object_meta_scheme \<Rightarrow> bool) \<Rightarrow> 'a object_meta_scheme list \<Rightarrow> 'w claim_state
   \<Rightarrow> ('a object_meta_scheme list \<times> api_error list) \<times> 'w claim_state" where
  "claim_all mgr match [] st = (([], []), st)"
| "claim_all mgr match (obj # objs) st =
     (case claimObject mgr match obj st of
        ((ok, err), obj1, st1) \<Rightarrow>
          (case claim_all mgr match objs st1 of
             ((claimed, errs), st2) \<Rightarrow>
               (case err of
                  Some e \<Rightarrow> ((claimed, e # errs), st2)
                | None \<Rightarrow> ((if ok then obj1 # claimed else claimed, errs), st2))))"

definition ClaimOwnedObjects ::
  "('w, 'a object_meta_scheme) ref_manager \<Rightarrow> ('a object_meta_scheme \<Rightarrow> bool) list \<Rightarrow> 'a object_meta_scheme list \<Rightarrow> 'w
   \<Rightarrow> ('a object_meta_scheme list \<times> api_error list) \<times> 'w" where
  "ClaimOwnedObjects mgr filters objs w =
     (case claim_all mgr (\<lambda>obj. selector_matches (MgrSelector mgr) (Labels obj) \<and> list_all (\<lambda>f. f obj) filters) objs
             \<lparr>canAdoptErr = None, ClaimWorld = w\<rparr> of
        (r, st) \<Rightarrow> (r, ClaimWorld st))"

section \<open>What is claimed\<close>

text \<open>
  \<open>SetControllerReference\<close> makes the owner the controller of the object and leaves its labels and
  its deletion timestamp as they are.
\<close>

definition sets_controller :: "('w, 'a object_meta_scheme) ref_manager \<Rightarrow> bool" where
  "sets_controller mgr \<longleftrightarrow>
     (\<forall>obj obj'. SetControllerReference mgr obj = Inr obj' \<longrightarrow>
        (\<exists>r. GetControllerOf obj' = Some r \<and> OwnerUID r = UID (MgrOwner mgr)) \<and> Labels obj' = Labels obj)"

definition controlled_by :: "string \<Rightarrow> 'a object_meta_scheme \<Rightarrow> bool" where
  "controlled_by uid obj = (case GetControllerOf obj of None \<Rightarrow> False | Some r \<Rightarrow> OwnerUID r = uid)"

lemma claimObject_true:
  assumes "sets_controller mgr" and "MgrHasSchema mgr" and "claimObject mgr m obj st = ((True, None), obj', st')"
  shows "controlled_by (UID (MgrOwner mgr)) obj' \<and> Labels obj' = Labels obj \<and> m obj"
proof (cases "GetControllerOf obj")
  case (Some ref)
  with assms(3) show ?thesis
    by (auto simp: claimObject_def controlled_by_def split: if_splits prod.splits option.splits)
next
  case None
  obtain e obj1 st1 where ad: "adopt mgr obj st = (e, obj1, st1)" by (cases "adopt mgr obj st")
  from assms(3) None ad have "e = None" and o: "obj' = obj1" and "m obj"
    by (auto simp: claimObject_def split: if_splits option.splits)
  then obtain "SetControllerReference mgr obj = Inr obj1"
    using ad assms(2) by (auto simp: adopt_def split: prod.splits option.splits sum.splits if_splits)
  with assms(1) o \<open>m obj\<close> show ?thesis by (fastforce simp: sets_controller_def controlled_by_def)
qed

lemma claim_all_claimed:
  assumes "sets_controller mgr" and "MgrHasSchema mgr"
  shows "claim_all mgr m objs st = ((claimed, errs), st') \<Longrightarrow> obj' \<in> set claimed \<Longrightarrow>
    controlled_by (UID (MgrOwner mgr)) obj' \<and> (\<exists>obj\<in>set objs. Labels obj' = Labels obj \<and> m obj)"
proof (induction objs arbitrary: claimed errs st st')
  case (Cons obj objs)
  obtain ok err obj1 st1 where c: "claimObject mgr m obj st = ((ok, err), obj1, st1)"
    by (metis surj_pair)
  obtain cl es st2 where r: "claim_all mgr m objs st1 = ((cl, es), st2)" by (metis surj_pair)
  show ?case
  proof (cases "ok \<and> err = None \<and> obj' = obj1")
    case True
    then have "claimObject mgr m obj st = ((True, None), obj', st1)" using c by simp
    from claimObject_true [OF assms this] show ?thesis by auto
  next
    case False
    then have "obj' \<in> set cl" using Cons.prems c r by (auto split: option.splits if_splits)
    then show ?thesis using Cons.IH [OF r] by auto
  qed
qed simp

lemma claim_all_owned:
  assumes "obj \<in> set objs" and "controlled_by (UID (MgrOwner mgr)) obj" and "m obj"
  shows "obj \<in> set (fst (fst (claim_all mgr m objs st)))"
  using assms(1)
proof (induction objs arbitrary: st)
  case (Cons o' objs)
  have own: "claimObject mgr m obj st = ((True, None), obj, st)" for st
    using assms(2,3) by (auto simp: claimObject_def controlled_by_def split: option.splits)
  obtain ok err obj1 st1 where c: "claimObject mgr m o' st = ((ok, err), obj1, st1)" by (metis surj_pair)
  obtain cl es st2 where r: "claim_all mgr m objs st1 = ((cl, es), st2)" by (metis surj_pair)
  show ?case
  proof (cases "o' = obj")
    case True
    then show ?thesis using c r own [of st] by simp
  next
    case False
    then have "obj \<in> set cl" using Cons.IH [of st1] Cons.prems r by simp
    then show ?thesis using c r by (auto split: option.splits)
  qed
qed simp

text \<open>
  C16: What \<open>ClaimOwnedObjects\<close> returns: every claimed object is controlled by the owner and has the
  labels of a given object that matches, and every given object that the owner already controls and
  that matches is claimed, whatever the API server answers.
\<close>

theorem claimed_exactly_owned:
  assumes "sets_controller mgr" and "MgrHasSchema mgr"
    and "ClaimOwnedObjects mgr filters objs w = ((claimed, errs), w')"
  shows "(\<forall>obj'\<in>set claimed. controlled_by (UID (MgrOwner mgr)) obj'
      \<and> selector_matches (MgrSelector mgr) (Labels obj'))
    \<and> {obj \<in> set objs. controlled_by (UID (MgrOwner mgr)) obj \<and> selector_matches (MgrSelector mgr) (Labels obj)
        \<and> list_all (\<lambda>f. f obj) filters} \<subseteq> set claimed"
proof -
  let ?m = "\<lambda>obj. selector_matches (MgrSelector mgr) (Labels obj) \<and> list_all (\<lambda>f. f obj) filters"
  obtain st' where run: "claim_all mgr ?m objs \<lparr>canAdoptErr = None, ClaimWorld = w\<rparr> = ((claimed, errs), st')"
    using assms(3) by (auto simp: ClaimOwnedObjects_def split: prod.splits)
  show ?thesis
  proof
    show "\<forall>obj'\<in>set claimed. controlled_by (UID (MgrOwner mgr)) obj' \<and> selector_matches (MgrSelector mgr) (Labels obj')"
      using claim_all_claimed [OF assms(1,2) run] by fastforce
    show "{obj \<in> set objs. controlled_by (UID (MgrOwner mgr)) obj \<and> selector_matches (MgrSelector mgr) (Labels obj)
        \<and> list_all (\<lambda>f. f obj) filters} \<subseteq> set claimed"
      using claim_all_owned [of _ objs mgr ?m "\<lparr>canAdoptErr = None, ClaimWorld = w\<rparr>"] run by auto
  qed
qed

theorem claimed_exactly_owned_witness:
  "\<exists>mgr :: (unit, pod) ref_manager. sets_controller mgr \<and> MgrHasSchema mgr \<and>
     (\<exists>claimed errs w'. ClaimOwnedObjects mgr [] [zero_pod] () = ((claimed, errs), w')
        \<and> (\<forall>p\<in>set claimed. controlled_by ''u'' p))"
proof -
  let ?mgr = "\<lparr>MgrOwner = zero_meta\<lparr>UID := ''u''\<rparr>, MgrSelector = Requirements [], MgrHasSchema = True,
      GetOwnerObject = (\<lambda>ns n w. Inr (zero_meta\<lparr>UID := ''u''\<rparr>)), UpdateObject = (\<lambda>x w. (None, w)),
      SetControllerReference = (\<lambda>p. Inr (p\<lparr>OwnerReferences := [NewControllerRef (zero_meta\<lparr>UID := ''u''\<rparr>) [] []]\<rparr>))\<rparr>
    :: (unit, pod) ref_manager"
  have s: "sets_controller ?mgr"
    by (auto simp: sets_controller_def GetControllerOf_def NewControllerRef_def)
  have h: "MgrHasSchema ?mgr" by simp
  obtain claimed errs w' where run: "ClaimOwnedObjects ?mgr [] [zero_pod] () = ((claimed, errs), w')" by (metis surj_pair)
  from claimed_exactly_owned [OF s h run] have "\<forall>p\<in>set claimed. controlled_by ''u'' p" by simp
  with s h run show ?thesis by blast
qed

text \<open>
  The errors of adopting and releasing are wrapped, so the test for \<open>NotFound\<close> never succeeds: that an
  object no longer exists is reported as an error.
\<close>

lemma not_found_not_ignored:
  assumes "GetControllerOf obj = Some ref" and "OwnerUID ref = UID (MgrOwner mgr)" and "\<not> m obj"
    and "DeletionTimestamp (MgrOwner mgr) = None" and "ref \<in> set (OwnerReferences obj)"
    and "\<forall>x w. UpdateObject mgr x w = (Some NotFound, w)"
  shows "claimObject mgr m obj st = ((False, Some (OtherError ''can't remove Pod owner reference'')), obj, st)"
  using assms by (auto simp: claimObject_def release_def wrap_error_def list_ex_iff)

end
