(* ===== verification/CloneSet_Controller.thy ===== *)
theory CloneSet_Controller
  imports CloneSet_Update CloneSet_Expect Revision_History Ref_Manager
begin

text \<open>
  The CloneSet controller: status (\<open>cloneset_status.go\<close>), revisions (\<open>revision/cloneset_revision.go\<close>),
  the reconcile (\<open>cloneset_controller.go\<close>) and the event handlers (\<open>cloneset_event_handler.go\<close>).

  The encoding of a template as the data of a revision is an argument with its inverse; listing,
  reading and writing objects are arguments over the world.  Creating and deleting the jobs that
  pre-download images are functions on the state, whose errors the reconcile only logs.
\<close>

section \<open>What the reconcile uses\<close>

record ('w, 'r) reconciler = "('w, 'r) update_ctl" +
  GetCloneSet :: "string \<times> string \<Rightarrow> 'w \<Rightarrow> api_error + cloneset"
  ListCloneSets :: "string \<Rightarrow> 'w \<Rightarrow> api_error + cloneset list"
  ListOwnedPods :: "cloneset \<Rightarrow> 'w \<Rightarrow> pod list option"
  ListOwnedPVCs :: "cloneset \<Rightarrow> 'w \<Rightarrow> api_error + pvc list"
  UpdatePVC :: "pvc \<Rightarrow> 'w \<Rightarrow> api_error option \<times> 'w"
  UpdateCloneSet :: "cloneset \<Rightarrow> 'w \<Rightarrow> api_error option \<times> 'w"
  UpdateStatus :: "cloneset \<Rightarrow> 'w \<Rightarrow> api_error option \<times> 'w"
  RevisionClient :: "'w revision_client"
  HashRevision :: "controller_revision \<Rightarrow> int \<Rightarrow> string"
  EncodeTemplate :: "pod_template \<Rightarrow> string"
  DecodeTemplate :: "string \<Rightarrow> pod_template option"
  PodRefManager :: "cloneset \<Rightarrow> selector \<Rightarrow> ('w, pod) ref_manager"
  SelectorString :: "selector \<Rightarrow> string"
  LabelSelectorAsSelector :: "label_selector option \<Rightarrow> selector option"
  isPreDownloadDisabled :: bool
  CreateImagePullJobs ::
    "cloneset \<Rightarrow> controller_revision \<Rightarrow> controller_revision \<Rightarrow> 'w sync_state \<Rightarrow> 'w sync_state"
  DeleteImagePullJobs :: "cloneset \<Rightarrow> 'w \<Rightarrow> 'w"
  EventHandlerOptimization :: bool
  RangeOrder :: range_ord

section \<open>Status\<close>

definition count_pod :: "cs_env \<Rightarrow> cloneset \<Rightarrow> cloneset_status \<Rightarrow> pod \<Rightarrow> cloneset_status" where
  "count_pod env cs s p =
     (let ready = IsPodUpdateReady env p 0; available = CSIsPodAvailable env p (MinReadySeconds (CSpec cs));
          updated = CSEqualToRevisionHash p (UpdateRevision s); b = (\<lambda>x :: bool. if x then 1 else 0)
      in s\<lparr>StatusReplicas := StatusReplicas s + 1,
           ReadyReplicas := ReadyReplicas s + b ready,
           AvailableReplicas := AvailableReplicas s + b available,
           UpdatedReplicas := UpdatedReplicas s + b updated,
           UpdatedReadyReplicas := UpdatedReadyReplicas s + b (updated \<and> ready),
           UpdatedAvailableReplicas := UpdatedAvailableReplicas s + b (updated \<and> available)\<rparr>)"

definition calculateStatus :: "cs_env \<Rightarrow> cloneset \<Rightarrow> cloneset_status \<Rightarrow> pod list \<Rightarrow> cloneset_status" where
  "calculateStatus env cs newStatus pods =
     (let s1 = foldl (count_pod env cs) newStatus pods;
          s2 = (if UpdatedReplicas s1 = StatusReplicas s1 \<and> StatusReplicas s1 = cs_replicas cs
                then s1\<lparr>CurrentRevision := UpdateRevision s1\<rparr> else s1)
      in case CalculatePartitionReplicas (Partition (UpdateStrategy (CSpec cs))) (Replicas (CSpec cs)) of
           None \<Rightarrow> s2
         | Some part \<Rightarrow> s2\<lparr>ExpectedUpdatedReplicas := cs_replicas cs - part\<rparr>)"

definition inconsistentStatus :: "cloneset \<Rightarrow> cloneset_status \<Rightarrow> bool" where
  "inconsistentStatus cs newStatus \<longleftrightarrow>
     (let oldStatus = CStatus cs in
      ObservedGeneration newStatus > ObservedGeneration oldStatus
      \<or> StatusReplicas newStatus \<noteq> StatusReplicas oldStatus
      \<or> ReadyReplicas newStatus \<noteq> ReadyReplicas oldStatus
      \<or> AvailableReplicas newStatus \<noteq> AvailableReplicas oldStatus
      \<or> UpdatedReadyReplicas newStatus \<noteq> UpdatedReadyReplicas oldStatus
      \<or> UpdatedReplicas newStatus \<noteq> UpdatedReplicas oldStatus
      \<or> UpdatedAvailableReplicas newStatus \<noteq> UpdatedAvailableReplicas oldStatus
      \<or> ExpectedUpdatedReplicas newStatus \<noteq> ExpectedUpdatedReplicas oldStatus
      \<or> UpdateRevision newStatus \<noteq> UpdateRevision oldStatus
      \<or> CurrentRevision newStatus \<noteq> CurrentRevision oldStatus
      \<or> LabelSelectorText newStatus \<noteq> LabelSelectorText oldStatus)"

definition updateStatus ::
  "('w, 'r) reconciler \<Rightarrow> cloneset \<Rightarrow> cloneset_status \<Rightarrow> 'w \<Rightarrow> api_error option \<times> 'w" where
  "updateStatus r cs newStatus =
     RetryOnConflict DefaultBackoff (\<lambda>w.
       case GetCloneSet r (Namespace cs, Name cs) w of
         Inl e \<Rightarrow> (Some e, w)
       | Inr clone \<Rightarrow> UpdateStatus r (clone\<lparr>CStatus := newStatus\<rparr>) w)"

definition UpdateCloneSetStatus ::
  "('w, 'r) reconciler \<Rightarrow> cs_env \<Rightarrow> cloneset \<Rightarrow> cloneset_status \<Rightarrow> pod list \<Rightarrow> 'w
   \<Rightarrow> api_error option \<times> cloneset_status \<times> 'w" where
  "UpdateCloneSetStatus r env cs newStatus pods w =
     (let s = calculateStatus env cs newStatus pods
      in if \<not> inconsistentStatus cs s then (None, s, w)
         else case updateStatus r cs s w of (e, w1) \<Rightarrow> (e, s, w1))"

section \<open>Revisions\<close>

definition getPatch :: "('w, 'r) reconciler \<Rightarrow> cloneset \<Rightarrow> string" where
  "getPatch r cs = EncodeTemplate r (Template (CSpec cs))"

definition NewRevision :: "('w, 'r) reconciler \<Rightarrow> cloneset \<Rightarrow> int \<Rightarrow> int \<Rightarrow> controller_revision" where
  "NewRevision r cs revision collisionCount =
     (let cr = object_meta.extend (zero_meta\<lparr>Labels := TplLabels (Template (CSpec cs)),
                   OwnerReferences := [NewControllerRef cs ''apps.kruise.io/v1alpha1'' ''CloneSet'']\<rparr>)
                 (controller_revision.fields revision (getPatch r cs));
          hash = HashRevision r cr collisionCount
      in cr\<lparr>Name := ControllerRevisionName (Name cs) hash,
            Labels := (Labels cr)(ControllerRevisionHashLabel \<mapsto> hash),
            Annotations := Annotations cs\<rparr>)"

definition ApplyRevision :: "('w, 'r) reconciler \<Rightarrow> cloneset \<Rightarrow> controller_revision \<Rightarrow> api_error + cloneset" where
  "ApplyRevision r cs revision =
     (case DecodeTemplate r (RevData revision) of
        None \<Rightarrow> Inl (OtherError ''patch'')
      | Some t \<Rightarrow> Inr (cs\<lparr>CSpec := (CSpec cs)\<lparr>Template := t\<rparr>\<rparr>))"

text \<open>The current and the update revision and the collision count; \<open>None\<close> is an endless creation.\<close>

definition getActiveRevisions ::
  "('w, 'r) reconciler \<Rightarrow> cloneset \<Rightarrow> controller_revision list \<Rightarrow> 'w
   \<Rightarrow> ((api_error + controller_revision \<times> controller_revision \<times> int) \<times> 'w) option" where
  "getActiveRevisions r cs revisions w =
     (let collisionCount = (case CollisionCount (CStatus cs) of None \<Rightarrow> 0 | Some c \<Rightarrow> c);
          new = NewRevision r cs (NextRevision revisions) collisionCount;
          equalRevisions = FindEqualRevisions revisions new;
          finish = (\<lambda>upd c w1.
             let cur = (case find (\<lambda>v. Name v = CurrentRevision (CStatus cs)) revisions of None \<Rightarrow> upd | Some v \<Rightarrow> v)
             in Some (Inr (cur, upd, c), w1))
      in if equalRevisions \<noteq> [] \<and> EqualRevision (last revisions) (last equalRevisions)
         then finish (last revisions) collisionCount w
         else if equalRevisions \<noteq> [] then
           (case UpdateControllerRevision (RevisionClient r) (last equalRevisions) (RevisionNum new) w of
              (Some e, _, w1) \<Rightarrow> Some (Inl e, w1)
            | (None, upd, w1) \<Rightarrow> finish upd collisionCount w1)
         else
           (case CreateControllerRevision (RevisionClient r) (HashRevision r) cs new (Some collisionCount) w of
              None \<Rightarrow> None
            | Some (Inl e, _, w1) \<Rightarrow> Some (Inl e, w1)
            | Some (Inr upd, c, w1) \<Rightarrow> finish upd (case c of None \<Rightarrow> collisionCount | Some c' \<Rightarrow> c') w1))"

definition non_live :: "pod list \<Rightarrow> controller_revision \<Rightarrow> controller_revision \<Rightarrow> controller_revision \<Rightarrow> bool" where
  "non_live pods cur upd v \<longleftrightarrow>
     Name v \<noteq> Name cur \<and> Name v \<noteq> Name upd \<and> \<not> list_ex (\<lambda>p. CSEqualToRevisionHash p (Name v)) pods"

fun delete_revisions ::
  "('w, 'r) reconciler \<Rightarrow> controller_revision list \<Rightarrow> 'w \<Rightarrow> api_error option \<times> 'w" where
  "delete_revisions r [] w = (None, w)"
| "delete_revisions r (v # vs) w =
     (case DeleteControllerRevision (RevisionClient r) v w of
        (Some e, w1) \<Rightarrow> (Some e, w1)
      | (None, w1) \<Rightarrow> delete_revisions r vs w1)"

text \<open>The revisions to delete; a negative limit would make the slice panic and is rejected on admission.\<close>

definition truncated_revisions ::
  "cloneset \<Rightarrow> pod list \<Rightarrow> controller_revision list \<Rightarrow> controller_revision \<Rightarrow> controller_revision \<Rightarrow> controller_revision list" where
  "truncated_revisions cs pods revisions cur upd =
     (let noLive = filter (non_live pods cur upd) revisions; historyLen = int (length noLive);
          historyLimit = (case RevisionHistoryLimit (CSpec cs) of None \<Rightarrow> 10 | Some l \<Rightarrow> l)
      in if historyLen \<le> historyLimit then [] else take (nat (historyLen - historyLimit)) noLive)"

definition truncateHistory ::
  "('w, 'r) reconciler \<Rightarrow> cloneset \<Rightarrow> pod list \<Rightarrow> controller_revision list \<Rightarrow> controller_revision \<Rightarrow> controller_revision
   \<Rightarrow> 'w \<Rightarrow> api_error option \<times> 'w" where
  "truncateHistory r cs pods revisions cur upd w = delete_revisions r (truncated_revisions cs pods revisions cur upd) w"

section \<open>Pods, claims and the reconcile\<close>

definition truncatePodsToDelete :: "('w, 'r) reconciler \<Rightarrow> cloneset \<Rightarrow> pod list \<Rightarrow> 'w \<Rightarrow> api_error option \<times> 'w" where
  "truncatePodsToDelete r cs pods w =
     (let names = PodsToDelete (ScaleStrategy (CSpec cs)); newNames = filter (\<lambda>n. n \<in> Name ` set pods) names
      in if names = [] \<or> length newNames = length names then (None, w)
         else UpdateCloneSet r (cs\<lparr>CSpec := (CSpec cs)\<lparr>ScaleStrategy :=
                (ScaleStrategy (CSpec cs))\<lparr>PodsToDelete := newNames\<rparr>\<rparr>\<rparr>) w)"

definition getOwnedPVCs :: "('w, 'r) reconciler \<Rightarrow> cloneset \<Rightarrow> 'w \<Rightarrow> api_error + pvc list" where
  "getOwnedPVCs r cs w =
     (case ListOwnedPVCs r cs w of Inl e \<Rightarrow> Inl e | Inr cl \<Rightarrow> Inr (filter (\<lambda>c. DeletionTimestamp c = None) cl))"

definition updateClaimOwnerRefToPod :: "pvc \<Rightarrow> cloneset \<Rightarrow> pod \<Rightarrow> pvc \<times> bool" where
  "updateClaimOwnerRefToPod c cs p = SetOwnerRef (fst (RemoveOwnerRef c cs)) p ''v1'' ''Pod''"

definition deleteOnePVC ::
  "('w, 'r) reconciler \<Rightarrow> cloneset \<Rightarrow> pvc \<Rightarrow> 'w sync_state \<Rightarrow> api_error option \<times> 'w sync_state" where
  "deleteOnePVC r cs c st =
     (let key = GetControllerKey cs; st1 = st\<lparr>ScaleExp := ExpectScale key Delete (Name c) (ScaleExp st)\<rparr>
      in case DeletePVC r c (World st1) of
           (Some e, w) \<Rightarrow> (Some e, st1\<lparr>World := w, ScaleExp := ObserveScale key Delete (Name c) (ScaleExp st1)\<rparr>)
         | (None, w) \<Rightarrow> (None, st1\<lparr>World := w\<rparr>))"

fun update_claims ::
  "('w, 'r) reconciler \<Rightarrow> cloneset \<Rightarrow> (string \<rightharpoonup> pod) \<Rightarrow> pvc list \<Rightarrow> 'w sync_state \<Rightarrow> api_error option \<times> 'w sync_state" where
  "update_claims r cs owners [] st = (None, st)"
| "update_claims r cs owners (c # cl) st =
     (case owners (GetInstanceID c) of
        None \<Rightarrow> update_claims r cs owners cl st
      | Some p \<Rightarrow>
          (case UpdatePVC r (fst (updateClaimOwnerRefToPod c cs p)) (World st) of
             (e, w) \<Rightarrow> if e \<noteq> None \<and> e \<noteq> Some NotFound then (e, st\<lparr>World := w\<rparr>)
                        else update_claims r cs owners cl (st\<lparr>World := w\<rparr>)))"

fun delete_unused_claims ::
  "('w, 'r) reconciler \<Rightarrow> cloneset \<Rightarrow> pvc list \<Rightarrow> 'w sync_state \<Rightarrow> api_error option \<times> 'w sync_state" where
  "delete_unused_claims r cs [] st = (None, st)"
| "delete_unused_claims r cs (c # cl) st =
     (case deleteOnePVC r cs c st of
        (e, st1) \<Rightarrow> if e \<noteq> None \<and> e \<noteq> Some NotFound then (e, st1) else delete_unused_claims r cs cl st1)"

definition cleanupPVCs ::
  "('w, 'r) reconciler \<Rightarrow> cloneset \<Rightarrow> pod list \<Rightarrow> pod list \<Rightarrow> pvc list \<Rightarrow> 'w sync_state
   \<Rightarrow> (api_error + pvc list) \<times> 'w sync_state" where
  "cleanupPVCs r cs activePods inactivePods pvcs st =
     (let activeIds = instance_ids activePods;
          inactiveIds = foldl (\<lambda>m p. if GetInstanceID p \<noteq> [] then m(GetInstanceID p \<mapsto> p) else m) Map.empty inactivePods;
          activePVCs = filter (\<lambda>c. GetInstanceID c \<in> activeIds) pvcs;
          unused = filter (\<lambda>c. GetInstanceID c \<notin> activeIds) pvcs;
          inactivePVCs = filter (\<lambda>c. inactiveIds (GetInstanceID c) \<noteq> None) unused;
          toDeletePVCs = filter (\<lambda>c. inactiveIds (GetInstanceID c) = None) unused
      in case update_claims r cs inactiveIds inactivePVCs st of
           (Some e, st1) \<Rightarrow> (Inl e, st1)
         | (None, st1) \<Rightarrow>
             (case delete_unused_claims r cs toDeletePVCs st1 of
                (Some e, st2) \<Rightarrow> (Inl e, st2)
              | (None, st2) \<Rightarrow> (Inr activePVCs, st2)))"

definition claimPods ::
  "('w, 'r) reconciler \<Rightarrow> cloneset \<Rightarrow> pod list \<Rightarrow> 'w \<Rightarrow> (api_error + pod list) \<times> 'w" where
  "claimPods r cs pods w =
     (case ValidatedLabelSelectorAsSelector (Selector (CSpec cs)) of
        None \<Rightarrow> (Inl (OtherError ''selector''), w)
      | Some s \<Rightarrow>
          (case ClaimOwnedObjects (PodRefManager r cs s) [] pods w of
             ((claimed, errs), w1) \<Rightarrow> (if errs = [] then Inr claimed else Inl (OtherError ''aggregate''), w1)))"

definition failed_condition :: "string \<Rightarrow> int \<Rightarrow> api_error \<Rightarrow> cs_condition" where
  "failed_condition ty now e = \<lparr>CSCondType = ty, CSCondStatus = ConditionTrue, CSCondTime = now, CSCondError = e\<rparr>"

text \<open>The error, the status with the conditions of failures, and the state.\<close>

definition syncCloneSet ::
  "('w, 'r :: linordered_idom) reconciler \<Rightarrow> cs_env \<Rightarrow> cloneset \<Rightarrow> cloneset_status \<Rightarrow> controller_revision \<Rightarrow> controller_revision
   \<Rightarrow> controller_revision list \<Rightarrow> pod list \<Rightarrow> pvc list \<Rightarrow> 'w sync_state
   \<Rightarrow> (api_error option \<times> cloneset_status \<times> 'w sync_state) option" where
  "syncCloneSet r env cs newStatus cur upd revisions pods pvcs st =
     (if DeletionTimestamp cs \<noteq> None then Some (None, newStatus, st)
      else case (ApplyRevision r cs cur, ApplyRevision r cs upd) of
        (Inl e, _) \<Rightarrow> Some (Some e, newStatus, st)
      | (Inr _, Inl e) \<Rightarrow> Some (Some e, newStatus, st)
      | (Inr currentSet, Inr updateSet) \<Rightarrow>
          (case Scale (sync_ctl.truncate r) env currentSet updateSet (Name cur) (Name upd) pods pvcs st of
             None \<Rightarrow> None
           | Some ((scaling, scaleErr), st1) \<Rightarrow>
               (let s1 = (case scaleErr of None \<Rightarrow> newStatus
                          | Some e \<Rightarrow> newStatus\<lparr>CSConditions := CSConditions newStatus
                                        @ [failed_condition ''FailedScale'' (time_now env) e]\<rparr>)
                in if scaling then Some (scaleErr, s1, st1)
                   else case Update r env updateSet cur upd revisions pods st1 of
                          (None, st2) \<Rightarrow> Some (scaleErr, s1, st2)
                        | (Some e, st2) \<Rightarrow>
                            Some (if scaleErr = None then Some e else scaleErr,
                                  s1\<lparr>CSConditions := CSConditions s1 @ [failed_condition ''FailedUpdate'' (time_now env) e]\<rparr>,
                                  st2))))"

definition no_wait :: "('w, 'r) reconciler \<Rightarrow> cloneset \<Rightarrow> controller_revision \<Rightarrow> bool" where
  "no_wait r cs upd \<longleftrightarrow>
     (let minUpdatedReadyPodsCount =
            (case Annotations cs ImagePreDownloadMinUpdatedReadyPods of
               Some (Text v) \<Rightarrow>
                 (case GetScaledValueFromIntOrPercent (Some (intstr_Parse v)) (cs_replicas cs) True of
                    None \<Rightarrow> 0 | Some n \<Rightarrow> n)
             | _ \<Rightarrow> 0);
          updatedReadyReplicas = (if Name upd \<noteq> UpdateRevision (CStatus cs) then 0 else UpdatedReadyReplicas (CStatus cs))
      in signed_take_bit 31 minUpdatedReadyPodsCount \<le> updatedReadyReplicas)"

definition pre_download ::
  "('w, 'r) reconciler \<Rightarrow> cloneset \<Rightarrow> controller_revision \<Rightarrow> controller_revision \<Rightarrow> 'w sync_state \<Rightarrow> 'w sync_state" where
  "pre_download r cs cur upd st =
     (if isPreDownloadDisabled r then st
      else if Name cur \<noteq> Name upd then (if no_wait r cs upd then CreateImagePullJobs r cs cur upd st else st)
      else st\<lparr>World := DeleteImagePullJobs r cs (World st)\<rparr>)"

text \<open>The pods are observed in turn; the result is the delay after which to come back, if one is not up to date.\<close>

fun observe_pods :: "int \<Rightarrow> pod list \<Rightarrow> rv_exps \<Rightarrow> int option \<times> rv_exps" where
  "observe_pods now [] e = (None, e)"
| "observe_pods now (p # ps) e =
     (case RVIsSatisfied now p (RVObserve p e) of
        ((True, _), e1) \<Rightarrow> observe_pods now ps e1
      | ((False, d), e1) \<Rightarrow> (Some (if d \<ge> ExpectationTimeout then 0 else ExpectationTimeout - d), e1))"

definition observe_revision :: "int \<Rightarrow> controller_revision \<Rightarrow> rv_exps \<Rightarrow> int option \<times> rv_exps" where
  "observe_revision now upd e =
     (case RVIsSatisfied now upd (RVObserve upd e) of
        ((True, _), e1) \<Rightarrow> (None, e1)
      | ((False, d), e1) \<Rightarrow> if d < ExpectationTimeout then (Some (ExpectationTimeout - d), e1) else (None, RVDelete upd e1))"

type_synonym 'w reconciled = "(int \<times> api_error option) \<times> 'w sync_state"

definition new_status :: "cloneset \<Rightarrow> string \<Rightarrow> string \<Rightarrow> int \<Rightarrow> string \<Rightarrow> cloneset_status" where
  "new_status cs cur upd collisionCount selectorText =
     \<lparr>ObservedGeneration = Generation cs, StatusReplicas = 0, ReadyReplicas = 0, AvailableReplicas = 0,
      UpdatedReplicas = 0, UpdatedReadyReplicas = 0, UpdatedAvailableReplicas = 0, ExpectedUpdatedReplicas = 0,
      UpdateRevision = upd, CurrentRevision = cur, CollisionCount = Some collisionCount,
      CSConditions = [], LabelSelectorText = selectorText\<rparr>"

text \<open>From the status on: pre-downloading, scaling and updating, writing the status, truncating.\<close>

definition sync_and_status ::
  "('w, 'r :: linordered_idom) reconciler \<Rightarrow> cs_env \<Rightarrow> string \<Rightarrow> cloneset \<Rightarrow> selector
   \<Rightarrow> controller_revision \<times> controller_revision \<times> int \<Rightarrow> controller_revision list \<Rightarrow> pod list \<Rightarrow> pvc list
   \<Rightarrow> 'w sync_state \<Rightarrow> 'w reconciled option" where
  "sync_and_status r env key cs selector active revisions pods pvcs st =
     (let (cur, upd, collisionCount) = active;
          newStatus = new_status cs (Name cur) (Name upd) collisionCount (SelectorString r selector)
      in case syncCloneSet r env cs newStatus cur upd revisions pods pvcs (pre_download r cs cur upd st) of
           None \<Rightarrow> None
         | Some (syncErr, s1, st1) \<Rightarrow>
             (case UpdateCloneSetStatus r env cs s1 pods (World st1) of
                (Some e, s2, w) \<Rightarrow> Some ((0, Some e), st1\<lparr>World := w\<rparr>)
              | (None, s2, w) \<Rightarrow>
                  (let w1 = snd (truncatePodsToDelete r cs pods w);
                       w2 = snd (truncateHistory r cs pods revisions cur upd w1);
                       ds = (if syncErr = None \<and> MinReadySeconds (CSpec cs) > 0 \<and> AvailableReplicas s2 \<noteq> ReadyReplicas s2
                             then DurationPush key (second * MinReadySeconds (CSpec cs)) (Durations st1) else Durations st1);
                       (d, ds1) = DurationPop key ds
                   in Some ((d, syncErr), st1\<lparr>World := w2, Durations := ds1\<rparr>))))"

text \<open>With the pods and the claims listed: cleaning up claims, claiming pods and finding the revisions.\<close>

definition reconcile_owned ::
  "('w, 'r :: linordered_idom) reconciler \<Rightarrow> cs_env \<Rightarrow> string \<Rightarrow> cloneset \<Rightarrow> selector \<Rightarrow> pod list \<Rightarrow> pod list \<Rightarrow> pvc list
   \<Rightarrow> 'w sync_state \<Rightarrow> 'w reconciled option" where
  "reconcile_owned r env key cs selector active inactive listed st =
     (case (if DisablePVCReuse (ScaleStrategy (CSpec cs)) then cleanupPVCs r cs active inactive listed st else (Inr listed, st)) of
        (Inl e, st1) \<Rightarrow> Some ((0, Some e), st1)
      | (Inr pvcs, st1) \<Rightarrow>
          (case claimPods r cs active (World st1) of
             (Inl e, w) \<Rightarrow> Some ((0, Some e), st1\<lparr>World := w\<rparr>)
           | (Inr pods, w) \<Rightarrow>
               (case ListControllerRevisions (RevisionClient r) cs (selector_matches selector) w of
                  Inl e \<Rightarrow> Some ((0, Some e), st1\<lparr>World := w\<rparr>)
                | Inr found \<Rightarrow>
                    (let revisions = SortControllerRevisions found in
                     case getActiveRevisions r cs revisions w of
                       None \<Rightarrow> None
                     | Some (Inl e, w1) \<Rightarrow> Some ((0, Some e), st1\<lparr>World := w1\<rparr>)
                     | Some (Inr (cur, upd, c), w1) \<Rightarrow>
                         (case observe_revision (time_now env) upd (RVExp st1) of
                            (Some d, e) \<Rightarrow> Some ((d, None), st1\<lparr>World := w1, RVExp := e\<rparr>)
                          | (None, e) \<Rightarrow>
                              (case observe_pods (time_now env) pods e of
                                 (Some d, e1) \<Rightarrow> Some ((d, None), st1\<lparr>World := w1, RVExp := e1\<rparr>)
                               | (None, e1) \<Rightarrow>
                                   sync_and_status r env key cs selector (cur, upd, c) revisions pods pvcs
                                     (st1\<lparr>World := w1, RVExp := e1\<rparr>)))))))"

definition reconcile_body ::
  "('w, 'r :: linordered_idom) reconciler \<Rightarrow> cs_env \<Rightarrow> string \<times> string \<Rightarrow> 'w sync_state \<Rightarrow> 'w reconciled option" where
  "reconcile_body r env req st =
     (let key = req_key req in
      case GetCloneSet r req (World st) of
        Inl e \<Rightarrow> if e = NotFound then Some ((0, None), st\<lparr>ScaleExp := DeleteExpectations key (ScaleExp st)\<rparr>)
                 else Some ((0, Some e), st)
      | Inr cs \<Rightarrow>
          (case ValidatedLabelSelectorAsSelector (Selector (CSpec cs)) of
             None \<Rightarrow> Some ((0, None), st)
           | Some selector \<Rightarrow>
               (case ScaleSatisfied (RangeOrder r) (time_now env) key (ScaleExp st) of
                  ((False, d, _), e) \<Rightarrow>
                    Some ((if d \<ge> ExpectationTimeout then 0 else ExpectationTimeout - d, None), st\<lparr>ScaleExp := e\<rparr>)
                | ((True, _, _), e) \<Rightarrow>
                    (let st1 = st\<lparr>ScaleExp := e\<rparr> in
                     case GetActiveAndInactivePods (ListOwnedPods r cs (World st1)) of
                       None \<Rightarrow> Some ((0, Some (OtherError ''list'')), st1)
                     | Some (active, inactive) \<Rightarrow>
                         (case getOwnedPVCs r cs (World st1) of
                            Inl err \<Rightarrow> Some ((0, Some err), st1)
                          | Inr pvcs \<Rightarrow> reconcile_owned r env key cs selector active inactive pvcs st1)))))"

text \<open>The deferred function clears the duration of the key on every return.\<close>

definition doReconcile ::
  "('w, 'r :: linordered_idom) reconciler \<Rightarrow> cs_env \<Rightarrow> string \<times> string \<Rightarrow> 'w sync_state \<Rightarrow> 'w reconciled option" where
  "doReconcile r env req st =
     map_option (\<lambda>(res, st1). (res, st1\<lparr>Durations := snd (DurationPop (req_key req) (Durations st1))\<rparr>))
       (reconcile_body r env req st)"

end
