(* ===== verification/CloneSet_Events.thy ===== *)
theory CloneSet_Events
  imports CloneSet_Controller
begin

text \<open>
  The event handlers of the CloneSet controller (\<open>cloneset_event_handler.go\<close>): what a pod or claim event
  does to the expectations, and the requests it puts into the work queue.  The queue is the list of
  the additions made to it.

  The rate limiter of the first events is keyed by the pointer to the request that \<open>resolveControllerRef\<close>
  allocates; addresses are numbers, and an allocation takes the next one.
\<close>

section \<open>The state of the handlers\<close>

datatype queue_op = Add "string \<times> string" | AddAfter "string \<times> string" int

record rate_limiter =
  failures :: "nat \<rightharpoonup> nat"
  nextAddr :: nat

record 'w event_state = "'w sync_state" +
  Queue :: "queue_op list"
  initialingRateLimiter :: rate_limiter

definition When :: "nat \<Rightarrow> rate_limiter \<Rightarrow> int \<times> rate_limiter" where
  "When item l =
     (let n = (case failures l item of None \<Rightarrow> 0 | Some k \<Rightarrow> k);
          backoff = 3 * second * 2 ^ n; maxDelay = 30 * second
      in (if backoff > 9223372036854775807 then maxDelay else if backoff > maxDelay then maxDelay else backoff,
          l\<lparr>failures := (failures l)(item \<mapsto> n + 1)\<rparr>))"

definition Forget :: "nat \<Rightarrow> rate_limiter \<Rightarrow> rate_limiter" where
  "Forget item l = l\<lparr>failures := (failures l)(item := None)\<rparr>"

section \<open>Resolving the controller\<close>

definition resolveControllerRef :: "string \<Rightarrow> owner_ref \<Rightarrow> (string \<times> string) option" where
  "resolveControllerRef ns ref =
     (case ParseGroup (OwnerAPIVersion ref) of
        None \<Rightarrow> None
      | Some grp \<Rightarrow>
          if OwnerKind ref = ''CloneSet'' \<and> grp = ''apps.kruise.io'' then Some (ns, OwnerName ref) else None)"

definition owner_request :: "'a object_meta_scheme \<Rightarrow> (string \<times> string) option" where
  "owner_request obj = Option.bind (GetControllerOf obj) (resolveControllerRef (Namespace obj))"

fun selector_empty :: "selector \<Rightarrow> bool" where
  "selector_empty Nothing = False"
| "selector_empty (Requirements rs) = (rs = [])"

definition getPodCloneSets :: "('w, 'r) reconciler \<Rightarrow> pod \<Rightarrow> 'w \<Rightarrow> cloneset list" where
  "getPodCloneSets r p w =
     (case ListCloneSets r (Namespace p) w of
        Inl _ \<Rightarrow> []
      | Inr items \<Rightarrow>
          filter (\<lambda>cs. case LabelSelectorAsSelector r (Selector (CSpec cs)) of
                         None \<Rightarrow> False
                       | Some s \<Rightarrow> \<not> selector_empty s \<and> selector_matches s (Labels p)) items)"

section \<open>Queueing\<close>

definition q_add :: "string \<times> string \<Rightarrow> 'w event_state \<Rightarrow> 'w event_state" where
  "q_add req st = st\<lparr>Queue := Queue st @ [Add req]\<rparr>"

definition add_matching :: "('w, 'r) reconciler \<Rightarrow> pod \<Rightarrow> 'w event_state \<Rightarrow> 'w event_state" where
  "add_matching r p st =
     st\<lparr>Queue := Queue st @ map (\<lambda>cs. Add (Namespace cs, Name cs)) (getPodCloneSets r p (World st))\<rparr>"

text \<open>A creation that was expected is queued at once; one that was not is queued after a delay.\<close>

definition observe_created ::
  "('w, 'r) reconciler \<Rightarrow> cs_env \<Rightarrow> string \<times> string \<Rightarrow> string \<Rightarrow> 'w event_state \<Rightarrow> 'w event_state" where
  "observe_created r env req n st =
     (let key = req_key req; l = initialingRateLimiter st; addr = nextAddr l; l1 = l\<lparr>nextAddr := addr + 1\<rparr>;
          ((isSatisfied, _, _), e) = ScaleSatisfied (RangeOrder r) (time_now env) key (ScaleExp st);
          st1 = st\<lparr>ScaleExp := ObserveScale key Create n e\<rparr>
      in if isSatisfied then
           (let (d, l2) = When addr l1 in st1\<lparr>Queue := Queue st1 @ [AddAfter req d], initialingRateLimiter := l2\<rparr>)
         else q_add req (st1\<lparr>initialingRateLimiter := Forget addr l1\<rparr>))"

definition observe_deleted :: "string \<times> string \<Rightarrow> string \<Rightarrow> 'w event_state \<Rightarrow> 'w event_state" where
  "observe_deleted req n st = q_add req (st\<lparr>ScaleExp := ObserveScale (req_key req) Delete n (ScaleExp st)\<rparr>)"

section \<open>Pod events\<close>

definition pod_Delete :: "pod \<Rightarrow> 'w event_state \<Rightarrow> 'w event_state" where
  "pod_Delete p st =
     (let st1 = st\<lparr>RVExp := RVDelete p (RVExp st)\<rparr>
      in case owner_request p of None \<Rightarrow> st1 | Some req \<Rightarrow> observe_deleted req (Name p) st1)"

definition pod_Create :: "('w, 'r) reconciler \<Rightarrow> cs_env \<Rightarrow> pod \<Rightarrow> 'w event_state \<Rightarrow> 'w event_state" where
  "pod_Create r env p st =
     (if DeletionTimestamp p \<noteq> None then pod_Delete p st
      else case GetControllerOf p of
             None \<Rightarrow> add_matching r p st
           | Some ref \<Rightarrow>
               (case resolveControllerRef (Namespace p) ref of
                  None \<Rightarrow> st
                | Some req \<Rightarrow> observe_created r env req (Name p) st))"

definition shouldIgnoreUpdate :: "('w, 'r) reconciler \<Rightarrow> string \<times> string \<Rightarrow> pod \<Rightarrow> pod \<Rightarrow> 'w \<Rightarrow> bool" where
  "shouldIgnoreUpdate r req oldPod curPod w =
     (case GetCloneSet r req w of
        Inl _ \<Rightarrow> False
      | Inr cs \<Rightarrow> IgnorePodUpdateEvent (HashContainer r) (HashEnvs r) cs oldPod curPod)"

definition pod_Update :: "('w, 'r) reconciler \<Rightarrow> pod \<Rightarrow> pod \<Rightarrow> 'w event_state \<Rightarrow> 'w event_state" where
  "pod_Update r oldPod curPod st =
     (if ResourceVersion curPod = ResourceVersion oldPod then st
      else
        (let labelChanged = (Labels curPod \<noteq> Labels oldPod) in
         if DeletionTimestamp curPod \<noteq> None then
           (let st1 = pod_Delete curPod st in if labelChanged then pod_Delete oldPod st1 else st1)
         else
           (let controllerRefChanged = (GetControllerOf curPod \<noteq> GetControllerOf oldPod);
                st1 = (case owner_request oldPod of
                         Some req \<Rightarrow> if controllerRefChanged then q_add req st else st
                       | None \<Rightarrow> st)
            in case GetControllerOf curPod of
                 Some ref \<Rightarrow>
                   (case resolveControllerRef (Namespace curPod) ref of
                      None \<Rightarrow> st1
                    | Some req \<Rightarrow>
                        if EventHandlerOptimization r \<and> \<not> controllerRefChanged \<and> \<not> labelChanged
                           \<and> shouldIgnoreUpdate r req oldPod curPod (World st1) then st1
                        else q_add req st1)
               | None \<Rightarrow> if labelChanged \<or> controllerRefChanged then add_matching r curPod st1 else st1)))"

section \<open>Claim events\<close>

definition pvc_Delete :: "pvc \<Rightarrow> 'w event_state \<Rightarrow> 'w event_state" where
  "pvc_Delete c st =
     (case owner_request c of None \<Rightarrow> st | Some req \<Rightarrow> observe_deleted req (Name c) st)"

definition pvc_Create :: "('w, 'r) reconciler \<Rightarrow> cs_env \<Rightarrow> pvc \<Rightarrow> 'w event_state \<Rightarrow> 'w event_state" where
  "pvc_Create r env c st =
     (if DeletionTimestamp c \<noteq> None then pvc_Delete c st
      else case owner_request c of None \<Rightarrow> st | Some req \<Rightarrow> observe_created r env req (Name c) st)"

definition pvc_Update :: "pvc \<Rightarrow> 'w event_state \<Rightarrow> 'w event_state" where
  "pvc_Update c st = (if DeletionTimestamp c \<noteq> None then pvc_Delete c st else st)"

section \<open>All events\<close>

datatype cs_event =
    PodCreated pod | PodUpdated pod pod | PodDeleted pod
  | ClaimCreated pvc | ClaimUpdated pvc | ClaimDeleted pvc

fun handle_event :: "('w, 'r) reconciler \<Rightarrow> cs_env \<Rightarrow> cs_event \<Rightarrow> 'w event_state \<Rightarrow> 'w event_state" where
  "handle_event r env (PodCreated p) st = pod_Create r env p st"
| "handle_event r env (PodUpdated p q) st = pod_Update r p q st"
| "handle_event r env (PodDeleted p) st = pod_Delete p st"
| "handle_event r env (ClaimCreated c) st = pvc_Create r env c st"
| "handle_event r env (ClaimUpdated c) st = pvc_Update c st"
| "handle_event r env (ClaimDeleted c) st = pvc_Delete c st"

end
