(* ===== verification/CloneSet_Controller_Correct.thy ===== *)
theory CloneSet_Controller_Correct
  imports CloneSet_Events
begin

text \<open>
  What the CloneSet controller guarantees: the reported status, the revisions it works with and those
  it deletes, the claims it deletes, and how the reconcile and the event handlers work together through
  the scale expectations.
\<close>

section \<open>Status\<close>

lemma count_pods_status:
  "foldl (count_pod env cs) s pods =
     s\<lparr>StatusReplicas := StatusReplicas s + num (\<lambda>_. True) pods,
       ReadyReplicas := ReadyReplicas s + num (\<lambda>p. IsPodUpdateReady env p 0) pods,
       AvailableReplicas := AvailableReplicas s + num (\<lambda>p. CSIsPodAvailable env p (MinReadySeconds (CSpec cs))) pods,
       UpdatedReplicas := UpdatedReplicas s + num (\<lambda>p. CSEqualToRevisionHash p (UpdateRevision s)) pods,
       UpdatedReadyReplicas := UpdatedReadyReplicas s
         + num (\<lambda>p. CSEqualToRevisionHash p (UpdateRevision s) \<and> IsPodUpdateReady env p 0) pods,
       UpdatedAvailableReplicas := UpdatedAvailableReplicas s
         + num (\<lambda>p. CSEqualToRevisionHash p (UpdateRevision s) \<and> CSIsPodAvailable env p (MinReadySeconds (CSpec cs))) pods\<rparr>"
  by (induction pods arbitrary: s) (simp_all add: count_pod_def Let_def num_def)

lemma available_update_ready: "CSIsPodAvailable env p m \<Longrightarrow> IsPodUpdateReady env p 0"
  by (auto simp: CSIsPodAvailable_def IsPodUpdateReady_def IsRunningAndAvailable_def IsPodAvailable_def Let_def
      split: if_splits option.splits)

text \<open>
  The status counts what it names: all pods, the ready ones, the available ones, and those of the
  update revision.  An available pod is ready, so the counts are nested.  The current revision moves
  only to the update revision, and just when all pods are updated and as many as specified.
\<close>

theorem status_counts:
  "let s0 = new_status cs cur upd c sel; s = calculateStatus env cs s0 pods
   in StatusReplicas s = int (length pods)
      \<and> 0 \<le> UpdatedAvailableReplicas s \<and> UpdatedAvailableReplicas s \<le> UpdatedReadyReplicas s
      \<and> UpdatedReadyReplicas s \<le> UpdatedReplicas s \<and> UpdatedReplicas s \<le> StatusReplicas s
      \<and> UpdatedAvailableReplicas s \<le> AvailableReplicas s \<and> AvailableReplicas s \<le> ReadyReplicas s
      \<and> UpdatedReadyReplicas s \<le> ReadyReplicas s \<and> ReadyReplicas s \<le> StatusReplicas s
      \<and> CurrentRevision s = (if list_all (\<lambda>p. CSEqualToRevisionHash p upd) pods \<and> int (length pods) = cs_replicas cs
                             then upd else cur)"
proof -
  have all: "num (\<lambda>_. True) pods = int (length pods)" by (simp add: num_def)
  have upd_all: "num (\<lambda>p. CSEqualToRevisionHash p upd) pods = int (length pods)
      \<longleftrightarrow> list_all (\<lambda>p. CSEqualToRevisionHash p upd) pods"
    using num_compl [of "\<lambda>p. CSEqualToRevisionHash p upd" pods]
    by (auto simp: num_def list_all_iff filter_empty_conv)
  have le: "num P pods \<le> int (length pods)" for P by (simp add: num_def)
  then have le_eq: "int (length pods) = n \<Longrightarrow> num P pods \<le> n" for P n by metis
  show ?thesis
    unfolding Let_def calculateStatus_def count_pods_status
    by (auto simp: new_status_def all upd_all le le_eq intro!: num_mono dest: available_update_ready split: option.splits)
qed

text \<open>A change of the conditions or of the collision count alone is never written.\<close>

lemma conditions_not_written:
  "\<not> inconsistentStatus cs ((CStatus cs)\<lparr>CSConditions := conds, CollisionCount := c\<rparr>)"
  by (simp add: inconsistentStatus_def Let_def)

section \<open>Revisions\<close>

text \<open>
  What is used of the server and of the encoding: the data of a revision never change, and a template
  is restored from what was recorded of it.
\<close>

definition immutable_data :: "'w revision_client \<Rightarrow> controller_revision list \<Rightarrow> bool" where
  "immutable_data rh revisions \<longleftrightarrow>
     (\<forall>v w v'. fst (CreateRevision rh v w) = Inr v' \<longrightarrow> RevData v' = RevData v)
     \<and> (\<forall>v w v'. fst (UpdateRevision' rh v w) = Inr v' \<longrightarrow> RevData v' = RevData v)
     \<and> (\<forall>v\<in>set revisions. \<forall>w v'. GetRevision rh (Namespace v) (Name v) w = Inr v' \<longrightarrow> RevData v' = RevData v)"

definition restores :: "('w, 'r) reconciler \<Rightarrow> cloneset \<Rightarrow> bool" where
  "restores r cs \<longleftrightarrow> DecodeTemplate r (EncodeTemplate r (Template (CSpec cs))) = Some (Template (CSpec cs))"

lemma NewRevision_data [simp]: "RevData (NewRevision r cs n c) = EncodeTemplate r (Template (CSpec cs))"
  by (simp add: NewRevision_def getPatch_def Let_def object_meta.defs controller_revision.defs)

lemma create_loop_data:
  assumes "create_revision_loop rh h ns pn v c w = Some y" and "immutable_data rh revisions"
  shows "\<forall>v'. fst y = Inr v' \<longrightarrow> RevData v' = RevData v"
proof -
  have "immutable_data rh revisions \<longrightarrow> (\<forall>v'. fst y = Inr v' \<longrightarrow> RevData v' = RevData v)"
  proof (rule create_revision_loop.raw_induct [where P = "\<lambda>rh h ns pn v c w y.
        immutable_data rh revisions \<longrightarrow> (\<forall>v'. fst y = Inr v' \<longrightarrow> RevData v' = RevData v)", OF _ assms(1)], goal_cases)
    case (1 loop rh h ns pn v c w y)
    let ?clone = "v\<lparr>Name := ControllerRevisionName pn (h v c), Namespace := ns\<rparr>"
    have "RevData v' = RevData v" if "immutable_data rh revisions" "CreateRevision rh ?clone w = (Inr v', w1)" for v' w1
    proof -
      have "fst (CreateRevision rh ?clone w) = Inr v'" using that by simp
      then have "RevData v' = RevData ?clone" using that(1) unfolding immutable_data_def by blast
      then show ?thesis by simp
    qed
    with 1 show ?case
      by (auto simp: Let_def split: prod.splits sum.splits if_splits)
  qed
  with assms(2) show ?thesis by blast
qed

lemma update_once_data:
  assumes "immutable_data rh revisions" and "v \<in> set revisions" and "RevData clone = RevData v"
    and "update_revision_once rh (Namespace v) (Name v) n (clone, w) = (e, clone', w')"
  shows "RevData clone' = RevData v"
proof (cases "RevisionNum clone = n")
  case True
  with assms show ?thesis by (simp add: update_revision_once_def)
next
  case False
  obtain x w1 where upd: "UpdateRevision' rh (clone\<lparr>RevisionNum := n\<rparr>) w = (x, w1)" by fastforce
  have "RevData v' = RevData v" if "x = Inr v'" for v'
  proof -
    have "fst (UpdateRevision' rh (clone\<lparr>RevisionNum := n\<rparr>) w) = Inr v'" using upd that by simp
    then have "RevData v' = RevData (clone\<lparr>RevisionNum := n\<rparr>)" using assms(1) unfolding immutable_data_def by blast
    then show ?thesis using assms(3) by simp
  qed
  moreover have "RevData v' = RevData v" if "GetRevision rh (Namespace v) (Name v) w1 = Inr v'" for v'
    using assms(1,2) that unfolding immutable_data_def by blast
  ultimately show ?thesis
    using assms(3,4) False upd by (auto simp: update_revision_once_def retry_update_def split: sum.splits)
qed

lemma update_revision_data:
  assumes "immutable_data (rh :: 'a revision_client) revisions" and "v \<in> set revisions"
    and "UpdateControllerRevision rh v n w = (e, v', w')"
  shows "RevData v' = RevData v"
proof -
  let ?f = "update_revision_once rh (Namespace v) (Name v) n" and ?I = "\<lambda>(clone, _). RevData clone = RevData v"
  have once: "?I s \<Longrightarrow> ?f s = (x, s') \<Longrightarrow> ?I s'" for x s s'
    using update_once_data [OF assms(1,2), of "fst s" n "snd s" x "fst s'" "snd s'"] by (simp add: case_prod_beta)
  have "?I (snd (RetryOnConflict (Suc 3) ?f (v, w)))"
  proof (rule RetryOnConflict_rule [where I = ?I and Q = "\<lambda>x. ?I (snd x)"])
    fix s s' assume "?I s" "?f s = (Some Conflict, s')"
    then show "?I s'" by (rule once)
  next
    fix s :: "controller_revision \<times> 'a" assume "?I s"
    then show "?I (snd (?f s))" by (rule once [OF _ prod.collapse [symmetric]])
  qed simp
  then show ?thesis using assms(3) by (simp add: UpdateControllerRevision_def DefaultBackoff_def)
qed

lemma equal_revision_data: "EqualRevision a b \<Longrightarrow> RevData a = RevData b"
  by (auto simp: EqualRevision_def split: if_splits)

lemma last_equal:
  assumes "FindEqualRevisions revisions v \<noteq> []"
  shows "last (FindEqualRevisions revisions v) \<in> set revisions" "RevData (last (FindEqualRevisions revisions v)) = RevData v"
proof -
  have "last (FindEqualRevisions revisions v) \<in> set (FindEqualRevisions revisions v)" using assms by (rule last_in_set)
  then show "last (FindEqualRevisions revisions v) \<in> set revisions" "RevData (last (FindEqualRevisions revisions v)) = RevData v"
    by (auto simp: FindEqualRevisions_def dest: equal_revision_data)
qed

lemma active_update_data:
  assumes laws: "immutable_data (RevisionClient r) revisions"
    and run: "getActiveRevisions r cs revisions w = Some (Inr (cur, upd, c), w')"
  shows "RevData upd = EncodeTemplate r (Template (CSpec cs))"
proof -
  define c0 where "c0 = (case CollisionCount (CStatus cs) of None \<Rightarrow> 0 | Some c \<Rightarrow> c)"
  define new where "new = NewRevision r cs (NextRevision revisions) c0"
  let ?eq = "FindEqualRevisions revisions new"
  note run' = run [unfolded getActiveRevisions_def Let_def, folded c0_def, folded new_def]
  have new: "RevData new = EncodeTemplate r (Template (CSpec cs))" by (simp add: new_def)
  show ?thesis
  proof (cases "?eq = []")
    case True
    obtain y where y: "create_revision_loop (RevisionClient r) (HashRevision r) (Namespace cs) (Name cs) new c0 w = Some y"
      "fst y = Inr upd"
      using run' True by (auto simp: CreateControllerRevision_def split: option.splits sum.splits prod.splits)
    then show ?thesis using create_loop_data [OF y(1) laws] new by simp
  next
    case False
    note eq = last_equal [OF False]
    show ?thesis
    proof (cases "EqualRevision (last revisions) (last ?eq)")
      case True
      then show ?thesis using run' False eq new by (auto dest: equal_revision_data)
    next
      case neq: False
      obtain w1 where "UpdateControllerRevision (RevisionClient r) (last ?eq) (RevisionNum new) w = (None, upd, w1)"
        using run' False neq by (auto split: prod.splits option.splits)
      from update_revision_data [OF laws eq(1) this] show ?thesis using eq new by simp
    qed
  qed
qed

lemma active_current:
  assumes run: "getActiveRevisions r cs revisions w = Some (Inr (cur, upd, c), w')"
  shows "cur = upd \<or> cur \<in> set revisions \<and> Name cur = CurrentRevision (CStatus cs)"
  using run unfolding getActiveRevisions_def Let_def
  by (auto simp: find_Some_iff in_set_conv_nth split: if_splits option.splits prod.splits sum.splits)


definition demo_reconciler ::
  "(string \<rightharpoonup> controller_revision, int) reconciler \<Rightarrow> (string \<rightharpoonup> controller_revision, int) reconciler" where
  "demo_reconciler r = r\<lparr>RevisionClient := map_revisions, EncodeTemplate := \<lambda>_. ''template'',
     DecodeTemplate := \<lambda>_. Some (Template (CSpec (demo_cs 1 []))), HashRevision := \<lambda>_ _. ''abc''\<rparr>"

lemma demo_reconciler_simps [simp]:
  "RevisionClient (demo_reconciler r) = map_revisions" "HashRevision (demo_reconciler r) = (\<lambda>_ _. ''abc'')"
  by (simp_all add: demo_reconciler_def)

lemma create_first_revision:
  "\<exists>v w'. create_revision_loop map_revisions h ns pn v0 c Map.empty = Some (Inr v, c, w')"
  by (subst create_revision_loop.simps) (simp add: map_revisions_def Let_def)


section \<open>Deleting history and claims\<close>

text \<open>A deletion removes the named object or, when it fails, nothing.\<close>

definition deletes :: "('o \<Rightarrow> string) \<Rightarrow> ('o \<Rightarrow> 'w \<Rightarrow> api_error option \<times> 'w) \<Rightarrow> ('w \<Rightarrow> string set) \<Rightarrow> bool" where
  "deletes nm del names \<longleftrightarrow>
     (\<forall>x w. names (snd (del x w)) = (if fst (del x w) = None then names w - {nm x} else names w))"

lemma deletesD:
  assumes "deletes nm del names" and "del x w = (e, w')"
  shows "names w' = (if e = None then names w - {nm x} else names w)"
  using assms unfolding deletes_def by (metis fst_conv snd_conv)

lemma delete_revisions_names:
  assumes law: "deletes Name (DeleteRevision (RevisionClient r)) names" and "delete_revisions r vs w = (e, w')"
  shows "names w - Name ` set vs \<subseteq> names w' \<and> names w' \<subseteq> names w
    \<and> (e = None \<longrightarrow> names w' = names w - Name ` set vs)"
  using assms(2)
proof (induction vs arbitrary: w)
  case (Cons v vs)
  obtain x w1 where del: "DeleteRevision (RevisionClient r) v w = (x, w1)" by fastforce
  note names = deletesD [OF law del]
  show ?case
  proof (cases x)
    case None
    then have "delete_revisions r vs w1 = (e, w')" using Cons.prems del by (simp add: DeleteControllerRevision_def)
    from Cons.IH [OF this] names None show ?thesis by auto
  next
    case (Some y)
    then show ?thesis using Cons.prems del names by (auto simp: DeleteControllerRevision_def)
  qed
qed simp

lemma filter_not_taken:
  assumes "distinct (map f xs)"
  shows "filter (\<lambda>x. f x \<notin> f ` set (take k xs)) xs = drop k xs"
proof -
  have "f x \<notin> f ` set (take k xs)" if "x \<in> set (drop k xs)" for x
    using assms that
    by (metis IntI append_take_drop_id distinct_append empty_iff image_eqI image_set map_append)
  then have "filter (\<lambda>x. f x \<notin> f ` set (take k xs)) (take k xs @ drop k xs) = drop k xs"
    unfolding filter_append by simp
  then show ?thesis by simp
qed


definition demo_revision :: "string \<Rightarrow> controller_revision" where
  "demo_revision n = object_meta.extend (zero_meta\<lparr>Name := n\<rparr>) (controller_revision.fields 1 n)"

lemma demo_revision_simps [simp]: "Name (demo_revision n) = n"
  by (simp add: demo_revision_def zero_defs object_meta.defs)

lemma map_revisions_deletes: "deletes Name (DeleteRevision map_revisions) dom"
  by (auto simp: deletes_def map_revisions_def split: if_splits)


text \<open>
  Cleaning up claims deletes only claims whose instance has no pod left, active or inactive, when
  updating a claim deletes none.
\<close>

lemma update_claims_names:
  assumes "\<And>c w. names (snd (UpdatePVC r c w)) = names w" and "update_claims r cs owners cl st = (e, st')"
  shows "names (World st') = names (World st)"
  using assms(2)
proof (induction cl arbitrary: st)
  case (Cons c cl)
  show ?case
  proof (cases "owners (GetInstanceID c)")
    case None
    then show ?thesis using Cons by simp
  next
    case (Some p)
    obtain x w where upd: "UpdatePVC r (fst (updateClaimOwnerRefToPod c cs p)) (World st) = (x, w)" by fastforce
    then have "names w = names (World st)" using assms(1) by (metis snd_conv)
    then show ?thesis using Cons.prems Cons.IH [of "st\<lparr>World := w\<rparr>"] Some upd by (auto split: if_splits)
  qed
qed simp

lemma delete_unused_claims_names:
  assumes "deletes Name (DeletePVC r) names" and "delete_unused_claims r cs cl st = (e, st')"
  shows "names (World st) - Name ` set cl \<subseteq> names (World st')"
  using assms(2)
proof (induction cl arbitrary: st)
  case (Cons c cl)
  obtain x st1 where del: "deleteOnePVC r cs c st = (x, st1)" by fastforce
  obtain y w where "DeletePVC r c (World st) = (y, w)" by fastforce
  then have "names (World st) - {Name c} \<subseteq> names (World st1)"
    using del deletesD [OF assms(1)] by (auto simp: deleteOnePVC_def Let_def split: option.splits)
  then show ?case using Cons.prems Cons.IH [of st1] del by (auto split: if_splits)
qed simp

lemma inactive_ids:
  "foldl (\<lambda>m p. if GetInstanceID p \<noteq> [] then m(GetInstanceID p \<mapsto> p) else m) m0 ps i = None
   \<Longrightarrow> m0 i = None \<and> (\<forall>p\<in>set ps. GetInstanceID p \<noteq> [] \<longrightarrow> GetInstanceID p \<noteq> i)"
proof (induction ps arbitrary: m0)
  case (Cons p ps)
  let ?m = "if GetInstanceID p \<noteq> [] then m0(GetInstanceID p \<mapsto> p) else m0"
  from Cons.IH [of ?m] Cons.prems show ?case by (auto split: if_splits)
qed simp

lemma cleanup_spares_used:
  assumes "deletes Name (DeletePVC r) names" and "\<And>c w. names (snd (UpdatePVC r c w)) = names w"
    and "cleanupPVCs r cs active inactive pvcs st = (res, st')" and "n \<in> names (World st)" and "n \<notin> names (World st')"
  shows "\<exists>c\<in>set pvcs. Name c = n \<and> (\<forall>p\<in>set active \<union> set inactive. GetInstanceID p \<noteq> [] \<longrightarrow> GetInstanceID p \<noteq> GetInstanceID c)"
proof -
  define ids where "ids = foldl (\<lambda>m p. if GetInstanceID p \<noteq> [] then m(GetInstanceID p \<mapsto> p) else m) Map.empty inactive"
  let ?unused = "filter (\<lambda>c. GetInstanceID c \<notin> instance_ids active) pvcs"
  let ?del = "filter (\<lambda>c. ids (GetInstanceID c) = None) ?unused"
  obtain e1 st1 where u: "update_claims r cs ids (filter (\<lambda>c. ids (GetInstanceID c) \<noteq> None) ?unused) st = (e1, st1)" by fastforce
  obtain e2 st2 where d: "delete_unused_claims r cs ?del st1 = (e2, st2)" by fastforce
  have "st' = st1 \<or> st' = st2"
    using assms(3) u d unfolding cleanupPVCs_def Let_def ids_def [symmetric] by (auto split: option.splits)
  with update_claims_names [OF assms(2) u] delete_unused_claims_names [OF assms(1) d] assms(4,5)
  have "n \<in> Name ` set ?del" by auto
  then obtain c where c: "c \<in> set pvcs" "Name c = n" "GetInstanceID c \<notin> instance_ids active" "ids (GetInstanceID c) = None"
    by auto
  with inactive_ids [of Map.empty inactive "GetInstanceID c"]
  have "\<forall>p\<in>set active \<union> set inactive. GetInstanceID p \<noteq> [] \<longrightarrow> GetInstanceID p \<noteq> GetInstanceID c"
    by (auto simp: ids_def instance_ids_def image_iff)
  with c show ?thesis by blast
qed

section \<open>The reconcile and the expectations\<close>

lemma reconcile_pending:
  assumes "scale_pending (ScaleExp st) (req_key req) \<noteq> {}"
  shows "\<exists>d e st'. doReconcile r env req st = Some ((d, e), st') \<and> World st' = World st \<and> RVExp st' = RVExp st
    \<and> (\<forall>err. e = Some err \<longrightarrow> GetCloneSet r req (World st) = Inl err)
    \<and> (GetCloneSet r req (World st) \<noteq> Inl NotFound \<longrightarrow>
         scale_pending (ScaleExp st') (req_key req) = scale_pending (ScaleExp st) (req_key req))"
proof -
  obtain b d x e where sat: "ScaleSatisfied (RangeOrder r) (time_now env) (req_key req) (ScaleExp st) = ((b, d, x), e)"
    by (metis surj_pair)
  with ScaleSatisfied_iff [of "RangeOrder r" "time_now env" "req_key req" "ScaleExp st"] assms
  have b: "\<not> b" by simp
  have pending: "scale_pending e key = scale_pending (ScaleExp st) key" for key
    using pending_ScaleSatisfied [of "RangeOrder r" "time_now env" "req_key req" "ScaleExp st"] sat by simp
  show ?thesis
    using sat b pending by (auto simp: doReconcile_def reconcile_body_def Let_def split: sum.splits option.splits)
qed

lemma reconcile_pending_kept:
  assumes "scale_pending (ScaleExp st) (req_key req) \<noteq> {}" and "\<forall>w. GetCloneSet r req w \<noteq> Inl NotFound"
  shows "\<exists>x st'. doReconcile r env req st = Some (x, st') \<and> World st' = World st
    \<and> scale_pending (ScaleExp st') (req_key req) = scale_pending (ScaleExp st) (req_key req)"
  using reconcile_pending [OF assms(1), of r env] assms(2) by fastforce

text \<open>
  C19: While a creation or deletion is still expected the reconcile does nothing: it returns, leaves
  the cluster as it is and reports no error of its own, and what is expected stays so unless the
  CloneSet is gone.
\<close>

theorem reconcile_waits:
  assumes "scale_pending (ScaleExp st) (req_key req) \<noteq> {}"
  shows "\<exists>d e st'. doReconcile r env req st = Some ((d, e), st') \<and> World st' = World st \<and> RVExp st' = RVExp st
    \<and> (\<forall>err. e = Some err \<longrightarrow> GetCloneSet r req (World st) = Inl err)
    \<and> (GetCloneSet r req (World st) \<noteq> Inl NotFound \<longrightarrow>
         scale_pending (ScaleExp st') (req_key req) = scale_pending (ScaleExp st) (req_key req))"
  using assms by (rule reconcile_pending)

theorem reconcile_waits_witness:
  "\<forall>r env req w. \<exists>d e st'. doReconcile (r :: (nat, int) reconciler) env req
      \<lparr>ScaleExp = ExpectScale (req_key req) Create ''web-0'' Map.empty, RVExp = Map.empty, Durations = Map.empty, RandPos = 0, World = w\<rparr>
      = Some ((d, e), st') \<and> World st' = w"
proof (intro allI)
  fix r :: "(nat, int) reconciler" and env req and w :: nat
  let ?st = "\<lparr>ScaleExp = ExpectScale (req_key req) Create ''web-0'' Map.empty, RVExp = Map.empty, Durations = Map.empty,
    RandPos = 0, World = w\<rparr>"
  have "scale_pending (ScaleExp ?st) (req_key req) \<noteq> {}" by simp
  from reconcile_waits [OF this, of r env]
  show "\<exists>d e st'. doReconcile r env req ?st = Some ((d, e), st') \<and> World st' = w" by auto
qed

section \<open>Events\<close>

text \<open>What an event lets the expectations observe: the key, the action and the name.\<close>

definition observes :: "'a object_meta_scheme \<Rightarrow> scale_action \<Rightarrow> (string \<times> scale_action \<times> string) set" where
  "observes obj a = (case owner_request obj of None \<Rightarrow> {} | Some req \<Rightarrow> {(req_key req, a, Name obj)})"

fun observed :: "cs_event \<Rightarrow> (string \<times> scale_action \<times> string) set" where
  "observed (PodCreated p) = observes p (if DeletionTimestamp p = None then Create else Delete)"
| "observed (PodUpdated p q) =
     (if ResourceVersion q = ResourceVersion p \<or> DeletionTimestamp q = None then {}
      else observes q Delete \<union> (if Labels q = Labels p then {} else observes p Delete))"
| "observed (PodDeleted p) = observes p Delete"
| "observed (ClaimCreated c) = observes c (if DeletionTimestamp c = None then Create else Delete)"
| "observed (ClaimUpdated c) = (if DeletionTimestamp c = None then {} else observes c Delete)"
| "observed (ClaimDeleted c) = observes c Delete"

lemma pending_q_add [simp]: "ScaleExp (q_add req st) = ScaleExp st"
  by (simp add: q_add_def)

lemma pending_add_matching [simp]: "ScaleExp (add_matching r p st) = ScaleExp st"
  by (simp add: add_matching_def)

lemma pending_observe_deleted [simp]:
  "scale_pending (ScaleExp (observe_deleted req n st)) key =
     scale_pending (ScaleExp st) key - {(a, m). (key, a, m) = (req_key req, Delete, n)}"
  by (auto simp: observe_deleted_def)

lemma pending_observe_created [simp]:
  "scale_pending (ScaleExp (observe_created r env req n st)) key =
     scale_pending (ScaleExp st) key - {(a, m). (key, a, m) = (req_key req, Create, n)}"
proof -
  obtain b d x e where sat: "ScaleSatisfied (RangeOrder r) (time_now env) (req_key req) (ScaleExp st) = ((b, d, x), e)"
    by (metis surj_pair)
  have "scale_pending e k = scale_pending (ScaleExp st) k" for k
    using pending_ScaleSatisfied [of "RangeOrder r" "time_now env" "req_key req" "ScaleExp st"] sat by simp
  with sat show ?thesis
    by (cases b) (auto simp: observe_created_def Let_def q_add_def split: prod.splits)
qed

lemma pending_pod_Delete:
  "scale_pending (ScaleExp (pod_Delete p st)) key =
     scale_pending (ScaleExp st) key - {(a, m). (key, a, m) \<in> observes p Delete}"
  by (auto simp: pod_Delete_def observes_def Let_def split: option.splits)

lemma pending_pvc_Delete:
  "scale_pending (ScaleExp (pvc_Delete c st)) key =
     scale_pending (ScaleExp st) key - {(a, m). (key, a, m) \<in> observes c Delete}"
  by (auto simp: pvc_Delete_def observes_def split: option.splits)

lemma pending_event:
  "scale_pending (ScaleExp (handle_event r env ev st)) key =
     scale_pending (ScaleExp st) key - {(a, m). (key, a, m) \<in> observed ev}"
proof (cases ev)
  case (PodCreated p)
  then show ?thesis
    by (auto simp: pod_Create_def pending_pod_Delete observes_def owner_request_def split: option.splits)
next
  case (PodUpdated p q)
  then show ?thesis
    by (auto simp: pod_Update_def pending_pod_Delete Let_def split: option.splits if_splits)
next
  case (ClaimCreated c)
  then show ?thesis by (auto simp: pvc_Create_def pending_pvc_Delete observes_def split: option.splits)
qed (auto simp: pending_pod_Delete pending_pvc_Delete pvc_Update_def)

section \<open>Sequences of events and reconciles\<close>

definition handle_events :: "('w, 'r) reconciler \<Rightarrow> (cs_env \<times> cs_event) list \<Rightarrow> 'w event_state \<Rightarrow> 'w event_state" where
  "handle_events r evs st = fold (\<lambda>(env, ev). handle_event r env ev) evs st"

lemma handle_events_simps [simp]:
  "handle_events r [] st = st"
  "handle_events r ((env, ev) # evs) st = handle_events r evs (handle_event r env ev st)"
  by (simp_all add: handle_events_def)

lemma pending_events:
  "scale_pending (ScaleExp (handle_events r evs st)) key =
     scale_pending (ScaleExp st) key - {(a, m). \<exists>(env, ev)\<in>set evs. (key, a, m) \<in> observed ev}"
  by (induction evs arbitrary: st) (auto simp: pending_event)

definition requeued :: "string \<Rightarrow> 'w event_state \<Rightarrow> bool" where
  "requeued key st \<longleftrightarrow> (\<exists>req. req_key req = key \<and> Add req \<in> set (Queue st))"

lemma requeued_q_add [simp]: "requeued key (q_add req st) \<longleftrightarrow> key = req_key req \<or> requeued key st"
  unfolding requeued_def q_add_def by (simp del: split_paired_Ex) blast

lemma queue_mono:
  "requeued key st \<Longrightarrow> requeued key (handle_event r env ev st)"
  by (cases ev) (auto simp: requeued_def q_add_def add_matching_def pod_Create_def pod_Update_def pod_Delete_def
      pvc_Create_def pvc_Update_def pvc_Delete_def observe_created_def observe_deleted_def Let_def
      split: option.splits if_splits prod.splits)

lemma observe_deleted_requeues [simp]: "requeued (req_key req) (observe_deleted req n st)"
  by (simp add: observe_deleted_def)

lemma observe_created_requeues:
  assumes "scale_pending (ScaleExp st) (req_key req) \<noteq> {}"
  shows "requeued (req_key req) (observe_created r env req n st)"
proof -
  obtain b d x e where sat: "ScaleSatisfied (RangeOrder r) (time_now env) (req_key req) (ScaleExp st) = ((b, d, x), e)"
    by (metis surj_pair)
  with ScaleSatisfied_iff [of "RangeOrder r" "time_now env" "req_key req" "ScaleExp st"] assms have "\<not> b" by simp
  with sat show ?thesis by (simp add: observe_created_def Let_def)
qed

lemma observesE:
  assumes "(key, a, n) \<in> observes obj b"
  obtains req where "owner_request obj = Some req" "req_key req = key" "a = b" "n = Name obj"
  using assms by (auto simp: observes_def split: option.splits)

lemma deletes_requeue:
  "(key, a, n) \<in> observes p b \<Longrightarrow> requeued key (pod_Delete p st)"
  "(key, a, n) \<in> observes c b \<Longrightarrow> requeued key (pvc_Delete c st)"
  by (auto elim!: observesE simp: pod_Delete_def pvc_Delete_def Let_def)

lemma creates_requeue:
  assumes "scale_pending (ScaleExp st) key \<noteq> {}"
  shows "(key, a, n) \<in> observes p b \<Longrightarrow> requeued key (pod_Create r env p st)"
    and "(key, a, n) \<in> observes c b \<Longrightarrow> requeued key (pvc_Create r env c st)"
proof -
  assume p: "(key, a, n) \<in> observes p b"
  then obtain req where "owner_request p = Some req" "req_key req = key" by (rule observesE)
  then show "requeued key (pod_Create r env p st)"
    using deletes_requeue(1) [OF p, of st] observe_created_requeues [of st req r env "Name p"] assms
    by (auto simp: pod_Create_def owner_request_def bind_eq_Some_conv)
next
  assume c: "(key, a, n) \<in> observes c b"
  then obtain req where "owner_request c = Some req" "req_key req = key" by (rule observesE)
  then show "requeued key (pvc_Create r env c st)"
    using deletes_requeue(2) [OF c, of st] observe_created_requeues [of st req r env "Name c"] assms
    by (auto simp: pvc_Create_def)
qed

lemma event_requeues:
  assumes "scale_pending (ScaleExp st) key \<noteq> {}" and "(key, a, n) \<in> observed ev"
  shows "requeued key (handle_event r env ev st)"
proof (cases ev)
  case (PodUpdated p q)
  have keep: "requeued key (pod_Delete obj s)" if "requeued key s" for obj and s :: "'a event_state"
    using queue_mono [OF that, where ev = "PodDeleted obj"] by simp
  show ?thesis
    using PodUpdated assms(2) by (auto simp: pod_Update_def Let_def intro: deletes_requeue keep split: if_splits)
qed (use assms in \<open>auto intro: deletes_requeue creates_requeue simp: pvc_Update_def split: if_splits\<close>)

lemma events_keep_requeued: "requeued key st \<Longrightarrow> requeued key (handle_events r evs st)"
  by (induction evs arbitrary: st) (auto simp: queue_mono)

text \<open>
  C20: Expectations are met by events.  Once the handlers have seen an event for each expected creation
  and deletion, whatever other events are mixed in and in any order, nothing is expected any more and the
  CloneSet is in the queue without delay, so that the reconcile goes on.
\<close>

theorem events_resume_reconcile:
  assumes "scale_pending (ScaleExp st) key \<noteq> {}"
    and "\<forall>(a, n)\<in>scale_pending (ScaleExp st) key. \<exists>(env, ev)\<in>set evs. (key, a, n) \<in> observed ev"
  shows "scale_pending (ScaleExp (handle_events r evs st)) key = {} \<and> requeued key (handle_events r evs st)"
proof
  show "scale_pending (ScaleExp (handle_events r evs st)) key = {}"
    using assms(2) by (auto simp: pending_events)
  obtain env ev a n where "(env, ev) \<in> set evs" "(key, a, n) \<in> observed ev" using assms by fastforce
  then show "requeued key (handle_events r evs st)"
    using assms(1)
  proof (induction evs arbitrary: st)
    case (Cons x evs)
    obtain env1 ev1 where x: "x = (env1, ev1)" by fastforce
    show ?case
    proof (cases "\<exists>b m. (key, b, m) \<in> observed ev1")
      case True
      then have "requeued key (handle_event r env1 ev1 st)" using event_requeues [OF Cons.prems(3)] by blast
      then show ?thesis by (simp add: x events_keep_requeued)
    next
      case False
      then have "scale_pending (ScaleExp (handle_event r env1 ev1 st)) key \<noteq> {}" using Cons.prems(3) by (simp add: pending_event)
      moreover have "(env, ev) \<in> set evs" using Cons.prems(1,2) False by (auto simp: x)
      ultimately show ?thesis using Cons.IH Cons.prems(2) by (simp add: x)
    qed
  qed simp
qed

text \<open>One pod that was created and one that was deleted.\<close>

definition owned_pod :: "string \<Rightarrow> int option \<Rightarrow> pod" where
  "owned_pod n deleted = zero_pod\<lparr>Name := n, Namespace := ''ns'', DeletionTimestamp := deleted,
     OwnerReferences := [\<lparr>OwnerAPIVersion = ''apps.kruise.io/v1alpha1'', OwnerKind = ''CloneSet'', OwnerName = ''web'',
       OwnerUID = ''1'', OwnerController = Some True\<rparr>]\<rparr>"

lemma owned_pod_simps [simp]:
  "owner_request (owned_pod n d) = Some (''ns'', ''web'')" "Name (owned_pod n d) = n" "DeletionTimestamp (owned_pod n d) = d"
  by (simp_all add: owned_pod_def owner_request_def GetControllerOf_def resolveControllerRef_def ParseGroup_def)

definition start_state :: "scale_exps \<Rightarrow> nat event_state" where
  "start_state e = \<lparr>ScaleExp = e, RVExp = Map.empty, Durations = Map.empty, RandPos = 0, World = 0, Queue = [],
     initialingRateLimiter = \<lparr>failures = Map.empty, nextAddr = 0\<rparr>\<rparr>"

theorem events_resume_reconcile_witness:
  "\<forall>r :: (nat, int) reconciler. \<forall>env.
     let key = req_key (''ns'', ''web'');
         st = start_state (ExpectScale key Delete ''b'' (ExpectScale key Create ''a'' Map.empty));
         st' = handle_events r [(env, PodDeleted (owned_pod ''b'' (Some 1))), (env, PodCreated (owned_pod ''a'' None))] st
     in scale_pending (ScaleExp st') key = {} \<and> requeued key st'"
proof (intro allI, unfold Let_def)
  fix r :: "(nat, int) reconciler" and env :: cs_env
  let ?key = "req_key (''ns'', ''web'')"
  let ?st = "start_state (ExpectScale ?key Delete ''b'' (ExpectScale ?key Create ''a'' Map.empty))"
  let ?evs = "[(env, PodDeleted (owned_pod ''b'' (Some 1))), (env, PodCreated (owned_pod ''a'' None))]"
  have pending: "scale_pending (ScaleExp ?st) ?key = {(Delete, ''b''), (Create, ''a'')}"
    by (simp add: start_state_def scale_pending_def [of Map.empty])
  then have "scale_pending (ScaleExp ?st) ?key \<noteq> {}" by simp
  moreover from pending
  have "\<forall>(a, n)\<in>scale_pending (ScaleExp ?st) ?key. \<exists>(env, ev)\<in>set ?evs. (?key, a, n) \<in> observed ev"
    by (simp add: observes_def)
  ultimately show "scale_pending (ScaleExp (handle_events r ?evs ?st)) ?key = {} \<and> requeued ?key (handle_events r ?evs ?st)"
    by (rule events_resume_reconcile)
qed

text \<open>A step of the controller: an event, a reconcile, or a change others make to the cluster.\<close>

datatype 'w cs_step = Event cs_env cs_event | Reconcile cs_env | Others "'w \<Rightarrow> 'w"

definition put_sync :: "'w sync_state \<Rightarrow> 'w event_state \<Rightarrow> 'w event_state" where
  "put_sync s st = st\<lparr>ScaleExp := ScaleExp s, RVExp := RVExp s, Durations := Durations s, RandPos := RandPos s, World := World s\<rparr>"

fun run_step ::
  "('w, 'r :: linordered_idom) reconciler \<Rightarrow> string \<times> string \<Rightarrow> 'w cs_step \<Rightarrow> 'w event_state \<Rightarrow> 'w event_state" where
  "run_step r req (Event env ev) st = handle_event r env ev st"
| "run_step r req (Reconcile env) st =
     (case doReconcile r env req (sync_state.truncate st) of None \<Rightarrow> st | Some (_, s) \<Rightarrow> put_sync s st)"
| "run_step r req (Others f) st = st\<lparr>World := f (World st)\<rparr>"

lemma truncate_simps [simp]:
  "ScaleExp (sync_state.truncate st) = ScaleExp st" "World (sync_state.truncate st) = World st"
  "RVExp (sync_state.truncate st) = RVExp st"
  by (simp_all add: sync_state.defs)

lemma run_step_pending:
  assumes found: "\<forall>w. GetCloneSet r req w \<noteq> Inl NotFound"
    and "(a, n) \<in> scale_pending (ScaleExp st) (req_key req)"
    and "\<forall>env ev. s = Event env ev \<longrightarrow> (req_key req, a, n) \<notin> observed ev"
  shows "(a, n) \<in> scale_pending (ScaleExp (run_step r req s st)) (req_key req)"
proof (cases s)
  case (Reconcile env)
  have "scale_pending (ScaleExp (sync_state.truncate st)) (req_key req) \<noteq> {}" using assms(2) by auto
  from reconcile_pending_kept [OF this found, of env] show ?thesis
    using Reconcile assms(2) by (auto simp: put_sync_def)
qed (use assms in \<open>auto simp: pending_event\<close>)

text \<open>
  C21: A creation that is never shown to the handlers stops the controller for good.  This is what
  happens to a pod that is first listed when it is already being deleted: its events are taken as a
  deletion.  As long as the CloneSet exists, whatever events, reconciles and changes to the cluster
  follow, and however late, the reconcile does not touch the cluster.
\<close>

theorem lost_creation_blocks:
  assumes "(Create, n) \<in> scale_pending (ScaleExp st) (req_key req)"
    and "\<forall>w. GetCloneSet r req w \<noteq> Inl NotFound"
    and "\<forall>s\<in>set steps. \<forall>e ev. s = Event e ev \<longrightarrow> (req_key req, Create, n) \<notin> observed ev"
  shows "let st' = fold (run_step r req) steps st
         in (Create, n) \<in> scale_pending (ScaleExp st') (req_key req)
            \<and> World (run_step r req (Reconcile env) st') = World st'"
proof -
  define st' where "st' = fold (run_step r req) steps st"
  have pending: "(Create, n) \<in> scale_pending (ScaleExp st') (req_key req)"
    using assms(1,3) unfolding st'_def
    by (induction steps arbitrary: st) (simp_all add: run_step_pending [OF assms(2)])
  then have "scale_pending (ScaleExp (sync_state.truncate st')) (req_key req) \<noteq> {}" by auto
  from reconcile_pending_kept [OF this assms(2), of env] pending show ?thesis
    unfolding Let_def st'_def [symmetric] by (auto simp: put_sync_def)
qed

theorem lost_creation_blocks_witness:
  "\<forall>r0 :: (nat, int) reconciler. \<forall>env. \<forall>now :: int. \<forall>f.
     let r = r0\<lparr>GetCloneSet := \<lambda>req w. Inr (demo_cs 1 [])\<rparr>; req = (''ns'', ''web'');
         st = start_state (ExpectScale (req_key req) Create ''a'' Map.empty);
         st' = fold (run_step r req) [Event env (PodCreated (owned_pod ''a'' (Some 1))), Reconcile env, Others f,
                 Event env (PodDeleted (owned_pod ''a'' (Some 1)))] st
     in World (run_step r req (Reconcile (env\<lparr>time_now := now\<rparr>)) st') = World st'"
proof (intro allI, unfold Let_def)
  fix r0 :: "(nat, int) reconciler" and env :: cs_env and now :: int and f :: "nat \<Rightarrow> nat"
  let ?r = "r0\<lparr>GetCloneSet := \<lambda>req w. Inr (demo_cs 1 [])\<rparr>" and ?req = "(''ns'', ''web'')"
  let ?st = "start_state (ExpectScale (req_key ?req) Create ''a'' Map.empty)"
  let ?steps = "[Event env (PodCreated (owned_pod ''a'' (Some 1))), Reconcile env, Others f,
    Event env (PodDeleted (owned_pod ''a'' (Some 1)))]"
  have "(Create, ''a'') \<in> scale_pending (ScaleExp ?st) (req_key ?req)" by (simp add: start_state_def)
  moreover have "\<forall>w. GetCloneSet ?r ?req w \<noteq> Inl NotFound" by simp
  moreover have "\<forall>s\<in>set ?steps. \<forall>e ev. s = Event e ev \<longrightarrow> (req_key ?req, Create, ''a'') \<notin> observed ev"
    by (simp add: observes_def)
  ultimately show "World (run_step ?r ?req (Reconcile (env\<lparr>time_now := now\<rparr>)) (fold (run_step ?r ?req) ?steps ?st))
      = World (fold (run_step ?r ?req) ?steps ?st)"
    using lost_creation_blocks [of "''a''" ?st ?req ?r ?steps "env\<lparr>time_now := now\<rparr>"] unfolding Let_def by blast
qed

section \<open>The delay of unexpected events\<close>

fun is_delayed :: "queue_op \<Rightarrow> bool" where
  "is_delayed (AddAfter req d) = True"
| "is_delayed (Add req) = False"

fun delay_steady :: "queue_op \<Rightarrow> bool" where
  "delay_steady (AddAfter req d) \<longleftrightarrow> d = 3 * second"
| "delay_steady (Add req) \<longleftrightarrow> True"

definition steady :: "'w event_state \<Rightarrow> bool" where
  "steady st \<longleftrightarrow> list_all delay_steady (Queue st)
     \<and> finite (dom (failures (initialingRateLimiter st)))
     \<and> dom (failures (initialingRateLimiter st)) \<subseteq> {..<nextAddr (initialingRateLimiter st)}
     \<and> card (dom (failures (initialingRateLimiter st))) = length (filter is_delayed (Queue st))"

lemma steady_simps [simp]:
  "steady (q_add req st) = steady st" "steady (add_matching r p st) = steady st"
  "steady (st\<lparr>ScaleExp := e\<rparr>) = steady st" "steady (st\<lparr>RVExp := v\<rparr>) = steady st"
  "steady (observe_deleted req n st) = steady st"
  by (simp_all add: steady_def q_add_def add_matching_def observe_deleted_def list.pred_map filter_map comp_def list.pred_True)

lemma steady_observe_created:
  assumes "steady st"
  shows "steady (observe_created r env req n st)"
proof -
  obtain b d x e where sat: "ScaleSatisfied (RangeOrder r) (time_now env) (req_key req) (ScaleExp st) = ((b, d, x), e)"
    by (metis surj_pair)
  let ?l = "initialingRateLimiter st"
  have new: "nextAddr ?l \<notin> dom (failures ?l)" using assms by (auto simp: steady_def)
  then have none: "failures ?l (nextAddr ?l) = None" by auto
  then have "(failures ?l)(nextAddr ?l := None) = failures ?l" by auto
  moreover have "dom (failures ?l) \<subseteq> {..<Suc (nextAddr ?l)}" using assms by (auto simp: steady_def)
  ultimately show ?thesis
    using sat none new assms
    by (cases b) (auto simp: observe_created_def Let_def When_def Forget_def steady_def q_add_def second_def)
qed

lemma steady_pod_Delete [simp]: "steady (pod_Delete p st) = steady st"
  by (auto simp: pod_Delete_def Let_def split: option.splits)

lemma steady_pvc_Delete [simp]: "steady (pvc_Delete c st) = steady st"
  by (auto simp: pvc_Delete_def split: option.splits)

lemma steady_event: "steady st \<Longrightarrow> steady (handle_event r env ev st)"
  by (cases ev) (auto simp: pod_Create_def pod_Update_def pvc_Create_def pvc_Update_def Let_def steady_observe_created
      split: option.splits)

lemma steady_events: "steady st \<Longrightarrow> steady (handle_events r evs st)"
  by (induction evs arbitrary: st) (auto simp: steady_event)

text \<open>
  Whatever events the handlers see, a request that is queued with a delay is queued with the same
  three seconds: no address has failed before, since each event allocates a new one.  The limiter keeps
  an entry for each delayed request, and none is forgotten.
\<close>

theorem first_events_delay:
  "let st' = handle_events r evs (st\<lparr>Queue := [], initialingRateLimiter := \<lparr>failures = Map.empty, nextAddr = 0\<rparr>\<rparr>)
   in list_all delay_steady (Queue st')
      \<and> card (dom (failures (initialingRateLimiter st'))) = length (filter is_delayed (Queue st'))"
proof -
  have "steady (st\<lparr>Queue := [], initialingRateLimiter := \<lparr>failures = Map.empty, nextAddr = 0\<rparr>\<rparr>)"
    by (simp add: steady_def)
  from steady_events [OF this, of r evs] show ?thesis by (simp add: steady_def Let_def)
qed

end
