(* ===== verification/United_Allocator.thy ===== *)
theory United_Allocator
  imports Go_Sort Util_Tools K8s_Model Util_Selector "HOL-Library.Signed_Division" "HOL-Library.AList"
begin

text \<open>
  The replicas of a UnitedDeployment's subsets: parsing them (\<open>uniteddeployment_controller_utils.go\<close>),
  allocating them (\<open>allocator.go\<close>), the partitions that follow (\<open>uniteddeployment_controller.go\<close>), and
  the admission check of them (\<open>uniteddeployment_validation.go\<close>).

  A Go map that is summed or ranged over is an association list without duplicate keys; \<open>int32\<close> sums
  wrap.  \<open>sort.Sort\<close> is an argument.
\<close>

section \<open>UnitedDeployments\<close>

record ud_subset =
  SubName :: string
  SubReplicas :: "int_or_string option"
  MinReplicas :: "int_or_string option"
  MaxReplicas :: "int_or_string option"
  SubPatch :: string

record workload_template =
  WTLabels :: labels
  WTBody :: string

record subset_template =
  StatefulSetTemplate :: "workload_template option"
  AdvancedStatefulSetTemplate :: "workload_template option"
  CloneSetTemplate :: "workload_template option"
  DeploymentTemplate :: "workload_template option"

record ud_spec =
  UDReplicas :: "int option"
  UDSelector :: "label_selector option"
  UDTemplate :: subset_template
  Subsets :: "ud_subset list"
  ManualUpdateType :: bool
  ManualPartitions :: "(string \<rightharpoonup> int) option"
  UDHistoryLimit :: int

section \<open>Replicas of a subset\<close>

text \<open>
  \<open>None\<close> is an error, with which the code returns 0.  The quotient is computed in floating point; the
  product is exact and the quotient is nowhere near a half unless it is one, so it is rounded half up.
\<close>

definition ParseSubsetReplicas :: "int \<Rightarrow> int_or_string \<Rightarrow> int option" where
  "ParseSubsetReplicas udReplicas subsetReplicas =
     (case subsetReplicas of
        IntVal i \<Rightarrow> if i < 0 then None else Some i
      | StrVal s \<Rightarrow>
          if udReplicas < 0 then None
          else if \<not> has_suffix1 s (CHR ''%'') then None
          else case ParseInt (butlast s) 32 of
                 None \<Rightarrow> None
               | Some percent \<Rightarrow>
                   if percent > 100 \<or> percent < 0 then None
                   else Some (int32 ((udReplicas * percent + 50) div 100)))"

section \<open>The specific allocator\<close>

record nameToReplicas =
  SubsetName :: string
  InfoReplicas :: int
  Specified :: bool

type_synonym info_sorter = "(nameToReplicas \<Rightarrow> nameToReplicas \<Rightarrow> bool) \<Rightarrow> nameToReplicas list \<Rightarrow> nameToReplicas list"

definition subsetInfos_Less :: "nameToReplicas \<Rightarrow> nameToReplicas \<Rightarrow> bool" where
  "subsetInfos_Less a b =
     (if InfoReplicas a \<noteq> InfoReplicas b then InfoReplicas a < InfoReplicas b else SubsetName a < SubsetName b)"

fun getSpecifiedSubsetReplicas :: "int \<Rightarrow> ud_subset list \<Rightarrow> (string \<times> int) list \<Rightarrow> (string \<times> int) list" where
  "getSpecifiedSubsetReplicas replicas [] limits = limits"
| "getSpecifiedSubsetReplicas replicas (s # ss) limits =
     getSpecifiedSubsetReplicas replicas ss
       (case SubReplicas s of
          None \<Rightarrow> limits
        | Some v \<Rightarrow>
            (case ParseSubsetReplicas replicas v of
               None \<Rightarrow> limits
             | Some n \<Rightarrow> AList.update (SubName s) n limits))"

definition getSubsetInfos :: "(string \<rightharpoonup> int) \<Rightarrow> ud_subset list \<Rightarrow> nameToReplicas list" where
  "getSubsetInfos current subsets =
     map (\<lambda>s. \<lparr>SubsetName = SubName s, InfoReplicas = (case current (SubName s) of None \<Rightarrow> 0 | Some r \<Rightarrow> r),
               Specified = False\<rparr>) subsets"

definition validateReplicas :: "int \<Rightarrow> (string \<times> int) list \<Rightarrow> nameToReplicas list \<Rightarrow> string option" where
  "validateReplicas replicas limits infos =
     (let specifiedReplicas = int32 (sum_list (map snd limits));
          specifiedCount = length (filter (\<lambda>s. map_of limits (SubsetName s) \<noteq> None) infos)
      in if replicas \<noteq> - 1 then
           (if specifiedReplicas > replicas then Some ''greater than UnitedDeployment replica''
            else if specifiedReplicas < replicas \<and> specifiedCount = length infos then Some ''less than UnitedDeployment replica''
            else None)
         else if specifiedCount \<noteq> length infos then Some ''all subsets must be specified''
         else None)"

text \<open>The unspecified subsets, from the last one on; the loop ends with the last of them.\<close>

fun spread :: "int \<Rightarrow> int \<Rightarrow> int \<Rightarrow> nameToReplicas list \<Rightarrow> nameToReplicas list" where
  "spread average remainder left [] = []"
| "spread average remainder left (s # ss) =
     (if Specified s then s # spread average remainder left ss
      else
        (let s' = s\<lparr>InfoReplicas := int32 (if remainder > 0 then average + 1 else average)\<rparr>;
             remainder' = (if remainder > 0 then remainder - 1 else remainder)
         in if left - 1 = 0 then s' # ss else s' # spread average remainder' (left - 1) ss))"

definition mark_specified :: "(string \<times> int) list \<Rightarrow> nameToReplicas \<Rightarrow> nameToReplicas" where
  "mark_specified limits s =
     (case map_of limits (SubsetName s) of None \<Rightarrow> s | Some r \<Rightarrow> s\<lparr>InfoReplicas := r, Specified := True\<rparr>)"

definition toSubsetReplicaMap :: "nameToReplicas list \<Rightarrow> string \<rightharpoonup> int" where
  "toSubsetReplicaMap infos = foldl (\<lambda>m s. m(SubsetName s \<mapsto> InfoReplicas s)) Map.empty infos"

definition normalAllocate :: "int \<Rightarrow> (string \<times> int) list \<Rightarrow> nameToReplicas list \<Rightarrow> string \<rightharpoonup> int" where
  "normalAllocate expectedReplicas limits infos =
     (let marked = map (mark_specified limits) infos;
          specifiedReplicas = int32 (sum_list (map InfoReplicas (filter Specified marked)));
          left = int (length marked) - int (length (filter Specified marked));
          allocatable = int32 (expectedReplicas - specifiedReplicas)
      in toSubsetReplicaMap
           (if left \<noteq> 0 then rev (spread (allocatable sdiv left) (allocatable smod left) left (rev marked)) else marked))"

definition AllocateReplicas :: "int \<Rightarrow> (string \<times> int) list \<Rightarrow> nameToReplicas list \<Rightarrow> string + (string \<rightharpoonup> int)" where
  "AllocateReplicas replicas limits infos =
     (case validateReplicas replicas limits infos of
        Some e \<Rightarrow> Inl e
      | None \<Rightarrow> Inr (normalAllocate replicas limits infos))"

definition specific_Alloc ::
  "info_sorter \<Rightarrow> int option \<Rightarrow> ud_subset list \<Rightarrow> (string \<rightharpoonup> int) \<Rightarrow> string + (string \<rightharpoonup> int)" where
  "specific_Alloc srt replicas subsets current =
     (let infos = srt subsetInfos_Less (getSubsetInfos current subsets);
          expectedReplicas = (case replicas of None \<Rightarrow> - 1 | Some n \<Rightarrow> n)
      in AllocateReplicas expectedReplicas (getSpecifiedSubsetReplicas expectedReplicas subsets []) infos)"

section \<open>The elastic allocator\<close>

definition parse_or :: "int \<Rightarrow> int \<Rightarrow> int_or_string option \<Rightarrow> int" where
  "parse_or dflt replicas v =
     (case v of None \<Rightarrow> dflt | Some x \<Rightarrow> (case ParseSubsetReplicas replicas x of None \<Rightarrow> 0 | Some n \<Rightarrow> n))"

definition validateAndCalculateMinMaxMap ::
  "int \<Rightarrow> ud_subset list \<Rightarrow> string + (string \<rightharpoonup> int) \<times> (string \<rightharpoonup> int)" where
  "validateAndCalculateMinMaxMap replicas subsets =
     (if list_ex (\<lambda>s. parse_or 0 replicas (MinReplicas s) > parse_or 1000000 replicas (MaxReplicas s)) subsets
      then Inl ''maxReplicas must be more than or equal to minReplicas''
      else Inr (foldl (\<lambda>m s. m(SubName s \<mapsto> parse_or 0 replicas (MinReplicas s))) Map.empty subsets,
                foldl (\<lambda>m s. m(SubName s \<mapsto> parse_or 1000000 replicas (MaxReplicas s))) Map.empty subsets))"

definition nget :: "(string \<rightharpoonup> int) \<Rightarrow> string \<Rightarrow> int" where
  "nget m k = (case m k of None \<Rightarrow> 0 | Some v \<Rightarrow> v)"

definition elastic_alloc ::
  "int \<Rightarrow> ud_subset list \<Rightarrow> (string \<rightharpoonup> int) \<Rightarrow> (string \<rightharpoonup> int) \<Rightarrow> string \<rightharpoonup> int" where
  "elastic_alloc replicas subsets mins maxs =
     (let (allocated, m) = foldl (\<lambda>(allocated, m) s.
            let add = max (min (nget mins (SubName s)) (replicas - allocated)) 0
            in (allocated + add, m(SubName s \<mapsto> add))) (0, Map.empty) subsets
      in if allocated \<ge> replicas then m
         else snd (foldl (\<lambda>(allocated, m) s.
            let add = max (min (nget maxs (SubName s) - nget mins (SubName s)) (replicas - allocated)) 0
            in (allocated + add, m(SubName s \<mapsto> nget m (SubName s) + add))) (allocated, m) subsets))"

definition elastic_Alloc :: "int option \<Rightarrow> ud_subset list \<Rightarrow> string + (string \<rightharpoonup> int)" where
  "elastic_Alloc replicas subsets =
     (let n = (case replicas of None \<Rightarrow> 1 | Some n \<Rightarrow> n)
      in case validateAndCalculateMinMaxMap n subsets of
           Inl e \<Rightarrow> Inl e
         | Inr (mins, maxs) \<Rightarrow> Inr (elastic_alloc n subsets mins maxs))"

text \<open>\<open>NewReplicaAllocator(ud).Alloc(nameToSubset)\<close>\<close>

definition Alloc ::
  "info_sorter \<Rightarrow> int option \<Rightarrow> ud_subset list \<Rightarrow> (string \<rightharpoonup> int) \<Rightarrow> string + (string \<rightharpoonup> int)" where
  "Alloc srt replicas subsets current =
     (if list_ex (\<lambda>s. MinReplicas s \<noteq> None \<or> MaxReplicas s \<noteq> None) subsets
      then elastic_Alloc replicas subsets
      else specific_Alloc srt replicas subsets current)"

section \<open>Partitions and the next update\<close>

record SubsetUpdate =
  NextReplicas :: int
  NextPartition :: int
  NextPatch :: string

definition next_partition :: "ud_spec \<Rightarrow> (string \<rightharpoonup> int) \<Rightarrow> string \<Rightarrow> int" where
  "next_partition spec nextReplicas n =
     (let p = (if ManualUpdateType spec
               then (case ManualPartitions spec of
                       None \<Rightarrow> 0
                     | Some parts \<Rightarrow> (case parts n of None \<Rightarrow> 0 | Some x \<Rightarrow> x)) else 0)
      in case nextReplicas n of None \<Rightarrow> p | Some r \<Rightarrow> if p > r then r else p)"

definition calcNextPartitions :: "ud_spec \<Rightarrow> (string \<rightharpoonup> int) \<Rightarrow> string \<rightharpoonup> int" where
  "calcNextPartitions spec nextReplicas =
     foldl (\<lambda>m s. m(SubName s \<mapsto> next_partition spec nextReplicas (SubName s))) Map.empty (Subsets spec)"

definition getNextUpdate :: "ud_spec \<Rightarrow> (string \<rightharpoonup> int) \<Rightarrow> (string \<rightharpoonup> int) \<Rightarrow> string \<rightharpoonup> SubsetUpdate" where
  "getNextUpdate spec nextReplicas nextPartitions =
     foldl (\<lambda>m s. m(SubName s \<mapsto>
        \<lparr>NextReplicas = nget nextReplicas (SubName s), NextPartition = nget nextPartitions (SubName s),
         NextPatch = SubPatch s\<rparr>)) Map.empty (Subsets spec)"

section \<open>Admission\<close>

definition parse_errs :: "int \<Rightarrow> int_or_string option \<Rightarrow> string list" where
  "parse_errs replicas v =
     (case v of None \<Rightarrow> [] | Some x \<Rightarrow> if ParseSubsetReplicas replicas x = None then [''invalid replicas''] else [])"

definition subset_errs :: "int \<Rightarrow> ud_subset \<Rightarrow> string list" where
  "subset_errs replicas s =
     parse_errs replicas (SubReplicas s) @ parse_errs replicas (MinReplicas s) @ parse_errs replicas (MaxReplicas s)
     @ (if parse_or 0 replicas (MinReplicas s) > parse_or 1000000 replicas (MaxReplicas s)
        then [''minReplicas must be more than or equal to maxReplicas''] else [])"

definition err_if :: "bool \<Rightarrow> string \<Rightarrow> string list" where
  "err_if b e = (if b then [e] else [])"

definition validateSubsetReplicas :: "int option \<Rightarrow> ud_subset list \<Rightarrow> string list" where
  "validateSubsetReplicas replicas subsets =
     (let n = (case replicas of None \<Rightarrow> - 1 | Some n \<Rightarrow> n);
          sumReplicas = sum_list (map (\<lambda>s. parse_or 0 n (SubReplicas s)) subsets);
          sumMin = sum_list (map (\<lambda>s. parse_or 0 n (MinReplicas s)) subsets);
          sumMax = sum_list (map (\<lambda>s. parse_or 1000000 n (MaxReplicas s)) subsets);
          countReplicas = length (filter (\<lambda>s. SubReplicas s \<noteq> None) subsets);
          countMax = length (filter (\<lambda>s. MaxReplicas s \<noteq> None) subsets);
          hasCapacity = list_ex (\<lambda>s. MinReplicas s \<noteq> None \<or> MaxReplicas s \<noteq> None) subsets;
          errs = concat (map (subset_errs n) subsets)
      in if countReplicas > 0 \<and> hasCapacity then errs @ [''mutually exclusive'']
         else if hasCapacity then
           errs @ err_if (n = - 1) ''spec.replicas must be not empty''
                @ err_if (countMax \<ge> length subsets) ''at least one subset.maxReplicas must be empty''
                @ err_if (sumMin > sumMax) ''sum of minReplicas should not be greater than sum of maxReplicas''
         else if n \<noteq> - 1 then
           errs @ err_if (sumReplicas > n) ''sum should not be greater than UnitedDeployment replicas''
                @ err_if (countReplicas > 0 \<and> countReplicas = length subsets \<and> sumReplicas \<noteq> n)
                    ''sum should equal UnitedDeployment replicas''
         else errs @ err_if (countReplicas \<noteq> length subsets) ''replicas of all subsets should be provided'')"

end
