(* ===== verification/United_Correct.thy ===== *)
theory United_Correct
  imports United_Allocator
begin

text \<open>
  What the allocation of replicas to the subsets of a UnitedDeployment guarantees: what admission accepts
  is allocated, completely, within the bounds of each subset and evenly.
\<close>

section \<open>Parsing\<close>

lemma ParseSubsetReplicas_nonneg:
  assumes "ParseSubsetReplicas n v = Some k" and "0 \<le> n" and "n \<le> 1000000"
  shows "0 \<le> k"
proof (cases v)
  case (StrVal s)
  then obtain p where p: "0 \<le> p" "p \<le> 100" "k = int32 ((n * p + 50) div 100)"
    using assms(1) by (auto simp: ParseSubsetReplicas_def not_less split: if_splits option.splits)
  have "n * p \<le> 1000000 * 100" using assms p by (intro mult_mono) auto
  moreover have "0 \<le> n * p" using assms p by simp
  ultimately show ?thesis using p(3) int32_id [of "(n * p + 50) div 100"] by simp
qed (use assms in \<open>auto simp: ParseSubsetReplicas_def split: if_splits\<close>)

lemma parse_or_nonneg: "0 \<le> n \<Longrightarrow> n \<le> 1000000 \<Longrightarrow> 0 \<le> d \<Longrightarrow> 0 \<le> parse_or d n v"
  by (auto simp: parse_or_def dest: ParseSubsetReplicas_nonneg split: option.splits)

section \<open>The elastic allocator\<close>

definition pass :: "int \<Rightarrow> (ud_subset \<Rightarrow> int) \<Rightarrow> ud_subset list \<Rightarrow> int \<times> (string \<rightharpoonup> int) \<Rightarrow> int \<times> (string \<rightharpoonup> int)" where
  "pass n k ss st = foldl (\<lambda>(a, m) s. let add = max (min (k s) (n - a)) 0
      in (a + add, m(SubName s \<mapsto> nget m (SubName s) + add))) st ss"

lemma pass_simps [simp]:
  "pass n k [] st = st"
  "pass n k (s # ss) (a, m) = pass n k ss
     (a + max (min (k s) (n - a)) 0, m(SubName s \<mapsto> nget m (SubName s) + max (min (k s) (n - a)) 0))"
  by (simp_all add: pass_def Let_def)

lemma nget_upd [simp]: "nget (m(x \<mapsto> v)) y = (if y = x then v else nget m y)"
  by (simp add: nget_def)

lemma first_pass:
  assumes "distinct (map SubName ss)" and "\<forall>s\<in>set ss. m (SubName s) = None"
  shows "foldl (\<lambda>(a, m) s. let add = max (min (k s) (n - a)) 0 in (a + add, m(SubName s \<mapsto> add))) (a, m) ss
    = pass n k ss (a, m)"
  using assms
proof (induction ss arbitrary: a m)
  case (Cons s ss)
  have "nget m (SubName s) = 0" using Cons.prems by (simp add: nget_def)
  moreover have "\<forall>x\<in>set ss. (m(SubName s \<mapsto> v)) (SubName x) = None" for v using Cons.prems by (auto simp: image_iff)
  ultimately show ?case using Cons by (simp add: Let_def del: fun_upd_apply)
qed simp

lemma pass_other:
  "x \<notin> SubName ` set ss \<Longrightarrow> nget (snd (pass n k ss (a, m))) x = nget m x"
  by (induction ss arbitrary: a m) auto

lemma pass_allocated:
  assumes "\<forall>s\<in>set ss. 0 \<le> k s" and "a \<le> n"
  shows "fst (pass n k ss (a, m)) = min (a + sum_list (map k ss)) n"
  using assms
proof (induction ss arbitrary: a m)
  case (Cons s ss)
  have "0 \<le> sum_list (map k ss)" using Cons.prems by (intro sum_list_nonneg) auto
  then show ?case using Cons by (auto simp: min_def max_def)
qed simp

lemma pass_added:
  assumes "distinct (map SubName ss)" and "\<forall>s\<in>set ss. 0 \<le> k s" and "a \<le> n" and "s \<in> set ss"
  shows "nget m (SubName s) \<le> nget (snd (pass n k ss (a, m))) (SubName s)
    \<and> nget (snd (pass n k ss (a, m))) (SubName s) \<le> nget m (SubName s) + k s
    \<and> (a + sum_list (map k ss) \<le> n \<longrightarrow> nget (snd (pass n k ss (a, m))) (SubName s) = nget m (SubName s) + k s)"
  using assms
proof (induction ss arbitrary: a m)
  case (Cons x ss)
  define add where "add = max (min (k x) (n - a)) 0"
  define m1 where "m1 = m(SubName x \<mapsto> nget m (SubName x) + add)"
  have pos: "0 \<le> sum_list (map k ss)" "0 \<le> k x" using Cons.prems by (auto intro!: sum_list_nonneg)
  have step: "pass n k (x # ss) (a, m) = pass n k ss (a + add, m1)" by (simp add: add_def m1_def)
  have add: "0 \<le> add" "add \<le> k x" "a + add \<le> n" "a + k x \<le> n \<Longrightarrow> add = k x"
    using Cons.prems(3) pos by (auto simp: add_def)
  show ?case
  proof (cases "s = x")
    case True
    then have "nget (snd (pass n k ss (a + add, m1))) (SubName s) = nget m (SubName s) + add"
      using Cons.prems(1) by (simp add: pass_other m1_def)
    then show ?thesis unfolding step using add pos True by auto
  next
    case False
    then have s: "s \<in> set ss" "nget m1 (SubName s) = nget m (SubName s)"
      using Cons.prems by (auto simp: image_iff m1_def)
    from Cons.IH [of "a + add" m1] Cons.prems s add(3) show ?thesis unfolding step using add pos by auto
  qed
qed simp

lemma pass_sum:
  assumes "distinct (map SubName ss)"
  shows "sum_list (map (\<lambda>s. nget (snd (pass n k ss (a, m))) (SubName s)) ss) + a
    = sum_list (map (\<lambda>s. nget m (SubName s)) ss) + fst (pass n k ss (a, m))"
  using assms
proof (induction ss arbitrary: a m)
  case (Cons x ss)
  let ?add = "max (min (k x) (n - a)) 0" and ?m = "m(SubName x \<mapsto> nget m (SubName x) + max (min (k x) (n - a)) 0)"
  have "map (\<lambda>s. nget ?m (SubName s)) ss = map (\<lambda>s. nget m (SubName s)) ss" using Cons.prems by (auto simp: image_iff)
  with Cons.IH [of "a + ?add" ?m] Cons.prems
  have "sum_list (map (\<lambda>s. nget (snd (pass n k ss (a + ?add, ?m))) (SubName s)) ss) + (a + ?add)
      = sum_list (map (\<lambda>s. nget m (SubName s)) ss) + fst (pass n k ss (a + ?add, ?m))" by (simp only: distinct.simps list.map)
  then show ?case using Cons.prems by (simp add: pass_other del: fun_upd_apply)
qed simp

lemma fold_map_of:
  assumes "distinct (map SubName (ss :: 'a ud_subset_scheme list))" and "s \<in> set ss"
  shows "foldl (\<lambda>m s. m(SubName s \<mapsto> f s)) m ss (SubName s) = Some (f s)"
proof -
  have other: "x \<notin> SubName ` set ss \<Longrightarrow> foldl (\<lambda>m s. m(SubName s \<mapsto> f s)) m ss x = m x" for m x and ss :: "'a ud_subset_scheme list"
    by (induction ss arbitrary: m) auto
  from assms show ?thesis by (induction ss arbitrary: m) (auto simp: other)
qed

definition min_of :: "int \<Rightarrow> ud_subset \<Rightarrow> int" where
  "min_of n s = parse_or 0 n (MinReplicas s)"

definition max_of :: "int \<Rightarrow> ud_subset \<Rightarrow> int" where
  "max_of n s = parse_or 1000000 n (MaxReplicas s)"

lemma elastic_alloc_passes:
  assumes "distinct (map SubName ss)" and "validateAndCalculateMinMaxMap n ss = Inr (mins, maxs)"
  shows "elastic_alloc n ss mins maxs =
    (let st = pass n (min_of n) ss (0, Map.empty)
     in if fst st \<ge> n then snd st else snd (pass n (\<lambda>s. max_of n s - min_of n s) ss st))"
proof -
  have get: "nget mins (SubName s) = min_of n s" "nget maxs (SubName s) = max_of n s" if "s \<in> set ss" for s
    using assms that
    by (auto simp: validateAndCalculateMinMaxMap_def nget_def fold_map_of min_of_def max_of_def split: if_splits)
  have "foldl (\<lambda>(a, m) s. let add = max (min (nget mins (SubName s)) (n - a)) 0 in (a + add, m(SubName s \<mapsto> add))) st ss
      = foldl (\<lambda>(a, m) s. let add = max (min (min_of n s) (n - a)) 0 in (a + add, m(SubName s \<mapsto> add))) st ss" for st
    by (intro foldl_cong) (auto simp: get)
  moreover have "foldl (\<lambda>(a, m) s. let add = max (min (nget maxs (SubName s) - nget mins (SubName s)) (n - a)) 0
        in (a + add, m(SubName s \<mapsto> nget m (SubName s) + add))) st ss
      = pass n (\<lambda>s. max_of n s - min_of n s) ss st" for st
    unfolding pass_def by (intro foldl_cong) (auto simp: get)
  ultimately show ?thesis
    using first_pass [of ss Map.empty "min_of n" n 0] assms(1) by (simp add: elastic_alloc_def Let_def case_prod_beta)
qed

lemma elastic_allocates:
  assumes names: "distinct (map SubName ss)" and n: "0 \<le> n" "n \<le> 1000000"
    and bounds: "\<forall>s\<in>set ss. min_of n s \<le> max_of n s" and total: "n \<le> sum_list (map (max_of n) ss)"
  shows "\<exists>m. elastic_Alloc (Some n) ss = Inr m \<and> sum_list (map (\<lambda>s. nget m (SubName s)) ss) = n
    \<and> (\<forall>s\<in>set ss. 0 \<le> nget m (SubName s) \<and> nget m (SubName s) \<le> max_of n s
        \<and> (sum_list (map (min_of n) ss) \<le> n \<longrightarrow> min_of n s \<le> nget m (SubName s)))"
proof -
  obtain mins maxs where calc: "validateAndCalculateMinMaxMap n ss = Inr (mins, maxs)"
    using bounds by (force simp: validateAndCalculateMinMaxMap_def min_of_def max_of_def list_ex_iff)
  define st where "st = pass n (min_of n) ss (0, Map.empty)"
  define m where "m = elastic_alloc n ss mins maxs"
  have min0: "\<forall>s\<in>set ss. 0 \<le> min_of n s" using n by (simp add: min_of_def parse_or_nonneg)
  have zero: "nget Map.empty x = 0" for x by (simp add: nget_def)
  note alloc = pass_allocated [OF min0 n(1), of Map.empty, folded st_def]
    and added = pass_added [OF names min0 n(1), of _ Map.empty, folded st_def, unfolded zero]
    and total1 = pass_sum [OF names, of n "min_of n" 0 Map.empty, folded st_def, unfolded zero]
  have run: "elastic_Alloc (Some n) ss = Inr m" using calc by (simp add: elastic_Alloc_def m_def)
  show ?thesis
  proof (cases "fst st \<ge> n")
    case True
    then have m: "m = snd st" by (simp add: m_def elastic_alloc_passes [OF names calc] st_def Let_def)
    have "fst st = n" using alloc True by simp
    with run m total1 added bounds show ?thesis by (intro exI [of _ m]) force
  next
    case False
    let ?k = "\<lambda>s. max_of n s - min_of n s"
    have m: "m = snd (pass n ?k ss (fst st, snd st))"
      using False by (simp add: m_def elastic_alloc_passes [OF names calc] st_def Let_def)
    have k0: "\<forall>s\<in>set ss. 0 \<le> ?k s" using bounds by simp
    have a: "fst st \<le> n" "fst st = sum_list (map (min_of n) ss)" using alloc False by auto
    have "fst (pass n ?k ss (fst st, snd st)) = n"
      unfolding pass_allocated [OF k0 a(1)] using a total by (simp add: sum_list_subtractf)
    then have "sum_list (map (\<lambda>s. nget m (SubName s)) ss) = n"
      using pass_sum [OF names, of n ?k "fst st" "snd st"] total1 m by simp
    moreover have "min_of n s \<le> nget m (SubName s) \<and> nget m (SubName s) \<le> max_of n s" if "s \<in> set ss" for s
      using pass_added [OF names k0 a(1) that, of "snd st"] added [OF that] a m by auto
    ultimately show ?thesis using run min0 by (intro exI [of _ m]) force
  qed
qed

section \<open>The specific allocator\<close>

definition spec_of :: "int \<Rightarrow> ud_subset \<Rightarrow> int option" where
  "spec_of n s = Option.bind (SubReplicas s) (ParseSubsetReplicas n)"

definition spec_entry :: "int \<Rightarrow> ud_subset \<Rightarrow> (string \<times> int) list" where
  "spec_entry n s = (case spec_of n s of None \<Rightarrow> [] | Some v \<Rightarrow> [(SubName s, v)])"

lemma update_new: "k \<notin> fst ` set l \<Longrightarrow> AList.update k v l = l @ [(k, v)]"
  by (induction l) auto

lemma specified_entries:
  assumes "distinct (map SubName ss)" and "fst ` set limits \<inter> SubName ` set ss = {}"
  shows "getSpecifiedSubsetReplicas n ss limits = limits @ concat (map (spec_entry n) ss)"
  using assms
proof (induction ss arbitrary: limits)
  case (Cons s ss)
  have step: "(case SubReplicas s of None \<Rightarrow> limits
        | Some v \<Rightarrow> (case ParseSubsetReplicas n v of None \<Rightarrow> limits | Some k \<Rightarrow> AList.update (SubName s) k limits))
      = limits @ spec_entry n s"
    using Cons.prems(2) by (auto simp: spec_entry_def spec_of_def update_new split: option.splits)
  have "fst ` set (limits @ spec_entry n s) \<inter> SubName ` set ss = {}"
    using Cons.prems by (auto simp: spec_entry_def split: option.splits)
  with Cons show ?case by (simp add: step)
qed simp

lemma map_of_entries:
  assumes "distinct (map SubName ss)" and "s \<in> set ss"
  shows "map_of (concat (map (spec_entry n) ss)) (SubName s) = spec_of n s"
proof -
  have none: "x \<notin> SubName ` set ss \<Longrightarrow> map_of (concat (map (spec_entry n) ss)) x = None" for x ss
    by (induction ss) (auto simp: spec_entry_def map_add_def split: option.splits)
  from assms show ?thesis
    by (induction ss) (auto simp: spec_entry_def none map_add_def image_iff split: option.splits)
qed

lemma sum_entries:
  "sum_list (map snd (concat (map (spec_entry n) ss))) = sum_list (map (\<lambda>s. parse_or 0 n (SubReplicas s)) ss)"
  by (induction ss) (auto simp: spec_entry_def spec_of_def parse_or_def split: option.splits)

lemma spread_keeps:
  "map SubsetName (spread avg rem left xs) = map SubsetName xs"
  "filter Specified (spread avg rem left xs) = filter Specified xs"
  by (induction xs arbitrary: rem left) (auto simp: Let_def)

text \<open>\<open>left\<close> counts the unspecified subsets, of which \<open>rem\<close> get one more than the average.\<close>

lemma spread_sum:
  assumes "left = int (length (filter (\<lambda>s. \<not> Specified s) xs))" and "0 \<le> rem" and "rem \<le> left"
    and "0 \<le> avg" and "avg < 2147483647"
  shows "sum_list (map InfoReplicas (spread avg rem left xs)) =
      sum_list (map InfoReplicas (filter Specified xs)) + avg * left + rem
    \<and> (\<forall>s\<in>set (spread avg rem left xs). \<not> Specified s \<longrightarrow> InfoReplicas s = avg \<or> InfoReplicas s = avg + 1 \<and> rem > 0)"
  using assms(1,2,3)
proof (induction xs arbitrary: rem left)
  case (Cons s xs)
  show ?case
  proof (cases "Specified s")
    case True
    then show ?thesis using Cons by simp
  next
    case False
    define rem' where "rem' = (if rem > 0 then rem - 1 else rem)"
    define v where "v = (if rem > 0 then avg + 1 else avg)"
    have v: "int32 v = v" using assms(4,5) by (intro int32_id) (auto simp: v_def)
    have len: "left - 1 = int (length (filter (\<lambda>s. \<not> Specified s) xs))" using Cons.prems(1) False by simp
    have rem': "0 \<le> rem'" "rem' \<le> left - 1" "v + rem' = avg + rem" using Cons.prems(2,3) len by (auto simp: rem'_def v_def)
    show ?thesis
    proof (cases "left - 1 = 0")
      case True
      then have all: "\<forall>s\<in>set xs. Specified s" using len by (auto simp: filter_empty_conv)
      then have "filter Specified xs = xs" by simp
      then show ?thesis using False True v rem' all Cons.prems(2) by (auto simp: v_def Let_def split: if_splits)
    next
      case more: False
      note IH = Cons.IH [OF len rem'(1,2)]
      have "spread avg rem left (s # xs) = s\<lparr>InfoReplicas := v\<rparr> # spread avg rem' (left - 1) xs"
        using False more v by (simp add: v_def rem'_def Let_def split: if_splits)
      then show ?thesis using IH False rem'(3) by (auto simp: v_def rem'_def algebra_simps split: if_splits)
    qed
  qed
qed simp

lemma replica_map:
  assumes "distinct (map SubsetName infos)"
  shows "s \<in> set infos \<Longrightarrow> toSubsetReplicaMap infos (SubsetName s) = Some (InfoReplicas s)"
proof -
  have other: "x \<notin> SubsetName ` set infos \<Longrightarrow>
      foldl (\<lambda>m s. m(SubsetName s \<mapsto> InfoReplicas s)) m infos x = m x" for m x and infos :: "nameToReplicas list"
    by (induction infos arbitrary: m) auto
  have "s \<in> set infos \<Longrightarrow> foldl (\<lambda>m s. m(SubsetName s \<mapsto> InfoReplicas s)) m infos (SubsetName s) = Some (InfoReplicas s)" for m
    using assms by (induction infos arbitrary: m) (auto simp: other)
  then show "s \<in> set infos \<Longrightarrow> toSubsetReplicaMap infos (SubsetName s) = Some (InfoReplicas s)"
    by (simp add: toSubsetReplicaMap_def)
qed

lemma sum_list_mset: "mset xs = mset ys \<Longrightarrow> sum_list (map f xs) = (sum_list (map f ys) :: int)"
  by (metis mset_map sum_mset_sum_list)

lemma marked_specified:
  assumes names: "distinct (map SubName ss)" and L_def: "L = concat (map (spec_entry n) ss)"
  shows "sum_list (map InfoReplicas (filter Specified (map (mark_specified L) (getSubsetInfos current ss))))
      = sum_list (map (\<lambda>s. parse_or 0 n (SubReplicas s)) ss)"
    and "length (filter (\<lambda>s. map_of L (SubsetName s) \<noteq> None) (getSubsetInfos current ss))
      = length (filter (\<lambda>s. spec_of n s \<noteq> None) ss)"
proof -
  have L: "map_of L (SubName s) = spec_of n s" if "s \<in> set ss" for s
    using map_of_entries [OF names that] by (simp add: L_def)
  have "sum_list (map InfoReplicas (filter Specified (map (mark_specified L) (getSubsetInfos current ts))))
      = sum_list (map (\<lambda>s. parse_or 0 n (SubReplicas s)) ts)" if "set ts \<subseteq> set ss" for ts
    using that
    by (induction ts) (auto simp: getSubsetInfos_def mark_specified_def L spec_of_def parse_or_def split: option.splits)
  from this [of ss]
  show "sum_list (map InfoReplicas (filter Specified (map (mark_specified L) (getSubsetInfos current ss))))
      = sum_list (map (\<lambda>s. parse_or 0 n (SubReplicas s)) ss)" by simp
  show "length (filter (\<lambda>s. map_of L (SubsetName s) \<noteq> None) (getSubsetInfos current ss))
      = length (filter (\<lambda>s. spec_of n s \<noteq> None) ss)"
    by (simp add: getSubsetInfos_def filter_map comp_def L cong: filter_cong)
qed

text \<open>The list that is turned into the map of replicas.\<close>

definition spread_list :: "int \<Rightarrow> nameToReplicas list \<Rightarrow> nameToReplicas list" where
  "spread_list n marked =
     (let left = int (length marked) - int (length (filter Specified marked));
          a = int32 (n - int32 (sum_list (map InfoReplicas (filter Specified marked))))
      in if left \<noteq> 0 then rev (spread (a sdiv left) (a smod left) left (rev marked)) else marked)"

lemma normalAllocate_spread: "normalAllocate n limits infos = toSubsetReplicaMap (spread_list n (map (mark_specified limits) infos))"
  by (simp add: normalAllocate_def spread_list_def Let_def)

lemma spread_list_keeps:
  "map SubsetName (spread_list n marked) = map SubsetName marked"
  "filter Specified (spread_list n marked) = filter Specified marked"
  using spread_keeps [of _ _ _ "rev marked"] by (simp_all add: spread_list_def Let_def rev_map [symmetric] rev_filter [symmetric])

lemma spread_list_sum:
  assumes "0 \<le> sum_list (map InfoReplicas (filter Specified marked))"
    and "sum_list (map InfoReplicas (filter Specified marked)) \<le> n" and "n \<le> 1000000"
    and "filter (\<lambda>s. \<not> Specified s) marked = [] \<Longrightarrow> sum_list (map InfoReplicas (filter Specified marked)) = n"
  shows "sum_list (map InfoReplicas (spread_list n marked)) = n
    \<and> (\<exists>q\<ge>0. \<forall>s\<in>set (spread_list n marked). \<not> Specified s \<longrightarrow> InfoReplicas s = q \<or> InfoReplicas s = q + 1)"
proof -
  define S where "S = sum_list (map InfoReplicas (filter Specified marked))"
  define left where "left = int (length (filter (\<lambda>s. \<not> Specified s) marked))"
  have len: "int (length marked) - int (length (filter Specified marked)) = left"
    using sum_length_filter_compl [of Specified marked] by (simp add: left_def)
  have a: "int32 (n - int32 S) = n - S" using assms(1-3) by (simp add: S_def int32_id)
  show ?thesis
  proof (cases "left = 0")
    case True
    then have none: "filter (\<lambda>s. \<not> Specified s) marked = []" by (simp add: left_def)
    then have "filter Specified marked = marked" by (auto simp: filter_empty_conv)
    then show ?thesis using True len none assms(4) by (auto simp: spread_list_def Let_def filter_empty_conv)
  next
    case False
    then have pos: "0 < left" by (simp add: left_def)
    let ?q = "(n - S) div left" and ?r = "(n - S) mod left"
    have nn: "0 \<le> n - S" using assms(2) by (simp add: S_def)
    have quot: "(n - S) sdiv left = ?q" "(n - S) smod left = ?r"
      using nn pos by (cases "n = S"; simp add: signed_divide_int_def signed_modulo_int_def sgn_if minus_div_mult_eq_mod)+
    have q: "0 \<le> ?q" "?q \<le> n - S" using nn pos zdiv_mono2 [of "n - S" 1 left] by (auto simp: pos_imp_zdiv_nonneg_iff)
    have lt: "?q < 2147483647" using q assms(1,3) by (simp add: S_def)
    have left: "left = int (length (filter (\<lambda>s. \<not> Specified s) (rev marked)))" by (simp add: left_def rev_filter [symmetric])
    have r: "0 \<le> ?r" "?r \<le> left" using pos by (simp_all add: less_imp_le)
    have "spread_list n marked = rev (spread ?q ?r left (rev marked))"
      using False by (simp add: spread_list_def Let_def len a [unfolded S_def] quot [unfolded S_def] S_def)
    moreover have "S + ?q * left + ?r = n" by (simp add: add.assoc)
    ultimately show ?thesis
      using spread_sum [OF left r q(1) lt] q(1)
      by (auto simp: rev_map [symmetric] rev_filter [symmetric] S_def [symmetric] sum_list_rev)
  qed
qed

lemma validate_admitted:
  assumes names: "distinct (map SubName ss)" and L: "L = concat (map (spec_entry n) ss)" and n: "0 \<le> n" "n \<le> 1000000"
    and perm: "mset infos = mset (getSubsetInfos current ss)"
    and total: "sum_list (map (\<lambda>s. parse_or 0 n (SubReplicas s)) ss) \<le> n"
    and full: "\<forall>s\<in>set ss. spec_of n s \<noteq> None \<Longrightarrow> sum_list (map (\<lambda>s. parse_or 0 n (SubReplicas s)) ss) = n"
  shows "validateReplicas n L infos = None"
proof -
  let ?S = "sum_list (map (\<lambda>s. parse_or 0 n (SubReplicas s)) ss)"
  have "0 \<le> ?S" using n by (auto intro!: sum_list_nonneg parse_or_nonneg)
  then have S: "int32 (sum_list (map snd L)) = ?S" using total n by (simp add: L sum_entries int32_id)
  have "length (filter (\<lambda>s. map_of L (SubsetName s) \<noteq> None) infos)
      = length (filter (\<lambda>s. map_of L (SubsetName s) \<noteq> None) (getSubsetInfos current ss))"
    by (rule mset_eq_length) (use perm in \<open>simp only: mset_filter\<close>)
  then have count: "length (filter (\<lambda>s. map_of L (SubsetName s) \<noteq> None) infos) = length (filter (\<lambda>s. spec_of n s \<noteq> None) ss)"
    using marked_specified(2) [OF names L] by simp
  have len: "length infos = length ss" using arg_cong [OF perm, of size] by (simp add: getSubsetInfos_def)
  have "\<forall>s\<in>set ss. spec_of n s \<noteq> None" if "length (filter (\<lambda>s. spec_of n s \<noteq> None) ss) = length ss"
    using that length_filter_less [of _ ss "\<lambda>s. spec_of n s \<noteq> None"] by fastforce
  then have "length (filter (\<lambda>s. spec_of n s \<noteq> None) ss) = length ss \<longrightarrow> ?S = n" using full by blast
  then show ?thesis unfolding validateReplicas_def Let_def S count len using total n by (simp, blast)
qed

lemma marked_info:
  assumes names: "distinct (map SubName ss)" and L: "L = concat (map (spec_entry n) ss)"
    and x: "x \<in> set (getSubsetInfos current ss)" and s: "s \<in> set ss" "SubsetName x = SubName s"
  shows "case spec_of n s of None \<Rightarrow> \<not> Specified (mark_specified L x)
    | Some v \<Rightarrow> Specified (mark_specified L x) \<and> InfoReplicas (mark_specified L x) = v"
proof -
  have "\<not> Specified x" using x by (auto simp: getSubsetInfos_def)
  then show ?thesis using map_of_entries [OF names s(1), of n] s(2) by (simp add: mark_specified_def L split: option.splits)
qed

lemma marked_perm:
  assumes names: "distinct (map SubName ss)" and L: "L = concat (map (spec_entry n) ss)"
    and perm: "mset infos = mset (getSubsetInfos current ss)"
  shows "sum_list (map InfoReplicas (filter Specified (map (mark_specified L) infos)))
      = sum_list (map (\<lambda>s. parse_or 0 n (SubReplicas s)) ss)"
    and "mset (map SubsetName (map (mark_specified L) infos)) = mset (map SubName ss)"
    and "filter (\<lambda>x. \<not> Specified x) (map (mark_specified L) infos) = [] \<Longrightarrow> \<forall>s\<in>set ss. spec_of n s \<noteq> None"
proof -
  have "mset (filter Specified (map (mark_specified L) infos))
      = mset (filter Specified (map (mark_specified L) (getSubsetInfos current ss)))"
    using perm by simp
  then show "sum_list (map InfoReplicas (filter Specified (map (mark_specified L) infos)))
      = sum_list (map (\<lambda>s. parse_or 0 n (SubReplicas s)) ss)"
    by (rule trans [OF sum_list_mset marked_specified(1) [OF names L]])
  have "map SubsetName (map (mark_specified L) infos) = map SubsetName infos" by (simp add: mark_specified_def option.case_eq_if)
  moreover have "mset (map SubsetName infos) = mset (map SubsetName (getSubsetInfos current ss))" using perm by simp
  moreover have "map SubsetName (getSubsetInfos current ss) = map SubName ss" by (simp add: getSubsetInfos_def)
  ultimately show "mset (map SubsetName (map (mark_specified L) infos)) = mset (map SubName ss)" by metis
  show "\<forall>s\<in>set ss. spec_of n s \<noteq> None" if none: "filter (\<lambda>x. \<not> Specified x) (map (mark_specified L) infos) = []"
  proof
    fix s assume s: "s \<in> set ss"
    define x where "x = \<lparr>SubsetName = SubName s, InfoReplicas = (case current (SubName s) of None \<Rightarrow> 0 | Some r \<Rightarrow> r), Specified = False\<rparr>"
    have x: "x \<in> set (getSubsetInfos current ss)" "SubsetName x = SubName s" using s by (auto simp: getSubsetInfos_def x_def)
    then have "Specified (mark_specified L x)" using none mset_eq_setD [OF perm] by (auto simp: filter_empty_conv)
    then show "spec_of n s \<noteq> None" using marked_info [OF names L x(1) s x(2)] by (auto split: option.splits)
  qed
qed

lemma mark_name [simp]: "SubsetName (mark_specified L x) = SubsetName x"
  by (simp add: mark_specified_def split: option.splits)

lemma allocated_value:
  assumes names: "distinct (map SubName ss)" and L: "L = concat (map (spec_entry n) ss)"
    and perm: "mset infos = mset (getSubsetInfos current ss)"
    and names_R: "mset (map SubsetName (spread_list n (map (mark_specified L) infos))) = mset (map SubName ss)"
    and s: "s \<in> set ss"
    and q: "\<forall>x\<in>set (spread_list n (map (mark_specified L) infos)). \<not> Specified x \<longrightarrow> InfoReplicas x = q \<or> InfoReplicas x = q + 1"
  shows "\<exists>y\<in>set (spread_list n (map (mark_specified L) infos)). SubsetName y = SubName s
    \<and> (case spec_of n s of Some v \<Rightarrow> InfoReplicas y = v | None \<Rightarrow> InfoReplicas y = q \<or> InfoReplicas y = q + 1)"
proof -
  let ?marked = "map (mark_specified L) infos"
  have keep: "{x \<in> set (spread_list n ?marked). Specified x} = {x \<in> set ?marked. Specified x}"
    using arg_cong [OF spread_list_keeps(2), of set n ?marked] by (simp only: set_filter)
  have infos: "set infos = set (getSubsetInfos current ss)" by (rule mset_eq_setD [OF perm])
  show ?thesis
  proof (cases "spec_of n s")
    case (Some v)
    define x where "x = \<lparr>SubsetName = SubName s, InfoReplicas = (case current (SubName s) of None \<Rightarrow> 0 | Some r \<Rightarrow> r), Specified = False\<rparr>"
    have x: "x \<in> set (getSubsetInfos current ss)" "SubsetName x = SubName s" using s by (auto simp: getSubsetInfos_def x_def)
    with marked_info [OF names L x(1) s x(2)] Some have "Specified (mark_specified L x)" "InfoReplicas (mark_specified L x) = v" by auto
    moreover from this x infos keep have "mark_specified L x \<in> set (spread_list n ?marked)" by auto
    ultimately show ?thesis using Some x by (auto intro!: bexI [of _ "mark_specified L x"])
  next
    case None
    obtain y where y: "y \<in> set (spread_list n ?marked)" "SubsetName y = SubName s"
      using mset_eq_setD [OF names_R] s by (metis image_iff image_set)
    have "\<not> Specified y"
    proof
      assume "Specified y"
      then obtain x where "x \<in> set infos" "y = mark_specified L x" using keep y by auto
      then show False using marked_info [OF names L, of x current s] None s y \<open>Specified y\<close> infos by auto
    qed
    with q y None show ?thesis by auto
  qed
qed

lemma specific_allocates:
  assumes srt: "go_sorter srt" and names: "distinct (map SubName ss)" and n: "0 \<le> n" "n \<le> 1000000"
    and total: "sum_list (map (\<lambda>s. parse_or 0 n (SubReplicas s)) ss) \<le> n"
    and full: "\<forall>s\<in>set ss. spec_of n s \<noteq> None \<Longrightarrow> sum_list (map (\<lambda>s. parse_or 0 n (SubReplicas s)) ss) = n"
  shows "\<exists>m. specific_Alloc srt (Some n) ss current = Inr m \<and> sum_list (map (\<lambda>s. nget m (SubName s)) ss) = n
    \<and> (\<exists>q\<ge>0. \<forall>s\<in>set ss. case spec_of n s of Some v \<Rightarrow> nget m (SubName s) = v
          | None \<Rightarrow> nget m (SubName s) = q \<or> nget m (SubName s) = q + 1)"
proof -
  define L where "L = concat (map (spec_entry n) ss)"
  define infos where "infos = srt subsetInfos_Less (getSubsetInfos current ss)"
  define marked where "marked = map (mark_specified L) infos"
  define R where "R = spread_list n marked"
  define m where "m = toSubsetReplicaMap R"
  have perm: "mset infos = mset (getSubsetInfos current ss)" unfolding infos_def by (rule go_sorter.srt_perm [OF srt])
  note marks = marked_perm [OF names L_def perm, folded marked_def]
  have S0: "0 \<le> sum_list (map (\<lambda>s. parse_or 0 n (SubReplicas s)) ss)" using n by (auto intro!: sum_list_nonneg parse_or_nonneg)
  note R = spread_list_sum [of marked n, folded R_def, unfolded marks(1), OF S0 total n(2) full [OF marks(3)]]
  have names_R: "mset (map SubsetName R) = mset (map SubName ss)" using marks(2) by (simp only: R_def spread_list_keeps(1))
  then have dist: "distinct (map SubsetName R)" using names mset_eq_imp_distinct_iff by metis
  have get: "nget m (SubsetName x) = InfoReplicas x" if "x \<in> set R" for x
    using replica_map [OF dist that] by (simp add: m_def nget_def)
  have run: "specific_Alloc srt (Some n) ss current = Inr m"
    using specified_entries [OF names, of "[]" n] validate_admitted [OF names L_def n perm total full]
    by (simp add: specific_Alloc_def AllocateReplicas_def normalAllocate_spread infos_def L_def m_def R_def marked_def)
  have "sum_list (map (nget m) (map SubName ss)) = sum_list (map (nget m) (map SubsetName R))"
    by (rule sum_list_mset [OF names_R [symmetric]])
  then have "sum_list (map (\<lambda>s. nget m (SubName s)) ss) = n" using R get by (simp add: comp_def cong: map_cong)
  moreover have "case spec_of n s of Some v \<Rightarrow> nget m (SubName s) = v
      | None \<Rightarrow> nget m (SubName s) = q \<or> nget m (SubName s) = q + 1"
    if q: "\<forall>x\<in>set R. \<not> Specified x \<longrightarrow> InfoReplicas x = q \<or> InfoReplicas x = q + 1" and s: "s \<in> set ss" for q s
    using allocated_value [OF names L_def perm names_R [unfolded R_def marked_def], folded marked_def, folded R_def, OF s q] get
    by (force split: option.splits)
  ultimately show ?thesis using run R by blast
qed

section \<open>What is admitted is allocated\<close>

lemma admitted_capacity:
  assumes "validateSubsetReplicas (Some n) ss = []" and "list_ex (\<lambda>s. MinReplicas s \<noteq> None \<or> MaxReplicas s \<noteq> None) ss"
    and "0 \<le> n" and "n \<le> 1000000"
  shows "\<forall>s\<in>set ss. SubReplicas s = None \<and> min_of n s \<le> max_of n s" and "n \<le> sum_list (map (max_of n) ss)"
proof -
  have errs: "\<forall>s\<in>set ss. subset_errs n s = []" and none: "filter (\<lambda>s. SubReplicas s \<noteq> None) ss = []"
    and max: "length (filter (\<lambda>s. MaxReplicas s \<noteq> None) ss) < length ss"
    using assms(1,2) by (auto simp: validateSubsetReplicas_def Let_def err_if_def not_le split: if_splits)
  show "\<forall>s\<in>set ss. SubReplicas s = None \<and> min_of n s \<le> max_of n s"
    using errs none by (auto simp: subset_errs_def min_of_def max_of_def filter_empty_conv split: if_splits)
  have "\<exists>s\<in>set ss. MaxReplicas s = None"
  proof (rule ccontr)
    assume "\<not> ?thesis"
    then have "filter (\<lambda>s. MaxReplicas s \<noteq> None) ss = ss" by simp
    with max show False by simp
  qed
  then obtain s where s: "s \<in> set ss" "max_of n s = 1000000" by (auto simp: max_of_def parse_or_def)
  have "max_of n s \<le> sum_list (map (max_of n) ss)"
    using s(1) assms(3,4) by (intro member_le_sum_list) (auto simp: max_of_def parse_or_nonneg)
  with s assms(4) show "n \<le> sum_list (map (max_of n) ss)" by simp
qed

lemma admitted_specific:
  assumes "validateSubsetReplicas (Some n) ss = []" and "\<not> list_ex (\<lambda>s. MinReplicas s \<noteq> None \<or> MaxReplicas s \<noteq> None) ss"
    and "0 \<le> n" and "ss \<noteq> []"
  shows "sum_list (map (\<lambda>s. parse_or 0 n (SubReplicas s)) ss) \<le> n"
    and "\<forall>s\<in>set ss. spec_of n s \<noteq> None \<Longrightarrow> sum_list (map (\<lambda>s. parse_or 0 n (SubReplicas s)) ss) = n"
proof -
  show "sum_list (map (\<lambda>s. parse_or 0 n (SubReplicas s)) ss) \<le> n"
    using assms(1-3) by (auto simp: validateSubsetReplicas_def Let_def err_if_def not_le split: if_splits)
  assume "\<forall>s\<in>set ss. spec_of n s \<noteq> None"
  then have "filter (\<lambda>s. SubReplicas s \<noteq> None) ss = ss" by (auto simp: spec_of_def filter_id_conv bind_eq_Some_conv)
  then show "sum_list (map (\<lambda>s. parse_or 0 n (SubReplicas s)) ss) = n"
    using assms by (auto simp: validateSubsetReplicas_def Let_def err_if_def split: if_splits)
qed


definition plain_subset :: "string \<Rightarrow> int_or_string option \<Rightarrow> ud_subset" where
  "plain_subset n r = \<lparr>SubName = n, SubReplicas = r, MinReplicas = None, MaxReplicas = None, SubPatch = []\<rparr>"


text \<open>
  C23: Percentages are rounded half up one by one, so that two subsets of 50% cannot be given an odd
  number of replicas: scaling such a UnitedDeployment to an odd number is rejected and, where admission
  is not asked, stops the reconcile.
\<close>

theorem halves_of_odd_rejected:
  assumes "odd n" and "0 < n" and "n \<le> 1000000" and "go_sorter srt"
  shows "let ss = [plain_subset ''a'' (Some (StrVal ''50%'')), plain_subset ''b'' (Some (StrVal ''50%''))]
         in validateSubsetReplicas (Some n) ss \<noteq> [] \<and> isl (Alloc srt (Some n) ss current)"
proof -
  let ?ss = "[plain_subset ''a'' (Some (StrVal ''50%'')), plain_subset ''b'' (Some (StrVal ''50%''))]"
  from assms(1) obtain k where k: "n = 2 * k + 1" by (auto elim: oddE)
  have half: "(n * 50 + 50) div 100 = (n + 1) div 2" by (simp add: k)
  have "ParseInt ''50'' 32 = Some 50"
    by (simp add: ParseInt_def Let_def is_digit_def less_eq_char_def digits_val_def digit_val_def)
  then have p: "ParseSubsetReplicas n (StrVal ''50%'') = Some ((n + 1) div 2)"
    using assms int32_id [of "(n + 1) div 2"] by (simp add: ParseSubsetReplicas_def has_suffix1_def half)
  have gt: "n < (n + 1) div 2 + (n + 1) div 2" by (simp add: k)
  have "validateSubsetReplicas (Some n) ?ss \<noteq> []"
    using gt assms(2) by (simp add: validateSubsetReplicas_def plain_subset_def Let_def parse_or_def p err_if_def)
  moreover have "getSpecifiedSubsetReplicas n ?ss [] = [(''a'', (n + 1) div 2), (''b'', (n + 1) div 2)]"
    by (simp add: plain_subset_def p)
  then have "validateReplicas n (getSpecifiedSubsetReplicas n ?ss []) infos = Some ''greater than UnitedDeployment replica''" for infos
    using gt assms(2,3) by (simp add: validateReplicas_def Let_def int32_id)
  then have "isl (Alloc srt (Some n) ?ss current)"
    by (simp add: Alloc_def specific_Alloc_def AllocateReplicas_def Let_def plain_subset_def)
  ultimately show ?thesis by (simp add: Let_def)
qed

theorem halves_of_odd_rejected_witness:
  "let ss = [plain_subset ''a'' (Some (StrVal ''50%'')), plain_subset ''b'' (Some (StrVal ''50%''))]
   in validateSubsetReplicas (Some 3) ss \<noteq> [] \<and> isl (Alloc go_sort (Some 3) ss Map.empty)"
  by (rule halves_of_odd_rejected [OF _ _ _ insertion.go_sorter_axioms]) simp_all

text \<open>A topology without subsets is admitted and then never allocated.\<close>

lemma empty_topology_rejected_late:
  assumes "0 < n"
  shows "validateSubsetReplicas (Some n) [] = [] \<and> isl (Alloc go_sort (Some n) [] current)"
  using assms
  by (simp add: validateSubsetReplicas_def err_if_def Alloc_def specific_Alloc_def AllocateReplicas_def validateReplicas_def
      getSubsetInfos_def Let_def int32_def)

lemma partitions_within_replicas:
  assumes "distinct (map SubName (Subsets spec))" and "s \<in> set (Subsets spec)" and "nextReplicas (SubName s) = Some r"
  shows "\<exists>p. calcNextPartitions spec nextReplicas (SubName s) = Some p \<and> p \<le> r"
  using assms fold_map_of [OF assms(1,2), of "\<lambda>s. next_partition spec nextReplicas (SubName s)" Map.empty]
  by (auto simp: calcNextPartitions_def next_partition_def Let_def)

end
