(* ===== verification/United_Control.thy ===== *)
theory United_Control
  imports United_Allocator Revision_History Ref_Manager
begin

text \<open>
  The UnitedDeployment controller: the subsets (\<open>subset.go\<close>, \<open>subset_control.go\<close>), provisioning and updating
  them (\<open>uniteddeployment_update.go\<close>), revisions (\<open>revision.go\<close>), and status and reconcile
  (\<open>uniteddeployment_controller.go\<close>).

  The client, the adapters of the kinds of workload and the order in which Go ranges over a map are
  arguments; a map that is ranged over is an association list.
\<close>

section \<open>Status and conditions\<close>

record ud_condition =
  UDCondType :: string
  UDCondStatus :: string
  UDCondTime :: int
  UDCondReason :: string
  UDCondMessage :: string

record ud_status =
  UObservedGeneration :: int
  UReadyReplicas :: int
  UReplicas :: int
  UUpdatedReplicas :: int
  UUpdatedReadyReplicas :: int
  UCollisionCount :: "int option"
  UCurrentRevision :: string
  USubsetReplicas :: "string \<rightharpoonup> int"
  UConditions :: "ud_condition list"
  UUpdateStatus :: "(string \<times> (string \<rightharpoonup> int)) option"
  ULabelSelector :: string

record united_deployment = object_meta +
  UDSpec :: ud_spec
  UDStatus :: ud_status

definition NewUnitedDeploymentCondition :: "int \<Rightarrow> string \<Rightarrow> string \<Rightarrow> string \<Rightarrow> string \<Rightarrow> ud_condition" where
  "NewUnitedDeploymentCondition now ty st reason msg =
     \<lparr>UDCondType = ty, UDCondStatus = st, UDCondTime = now, UDCondReason = reason, UDCondMessage = msg\<rparr>"

definition GetUnitedDeploymentCondition :: "ud_status \<Rightarrow> string \<Rightarrow> ud_condition option" where
  "GetUnitedDeploymentCondition status ty = find (\<lambda>c. UDCondType c = ty) (UConditions status)"

definition filterOutCondition :: "ud_condition list \<Rightarrow> string \<Rightarrow> ud_condition list" where
  "filterOutCondition conditions ty = filter (\<lambda>c. UDCondType c \<noteq> ty) conditions"

definition SetUnitedDeploymentCondition :: "ud_status \<Rightarrow> ud_condition \<Rightarrow> ud_status" where
  "SetUnitedDeploymentCondition status condition =
     (let cur = GetUnitedDeploymentCondition status (UDCondType condition);
          put = (\<lambda>c. status\<lparr>UConditions := filterOutCondition (UConditions status) (UDCondType c) @ [c]\<rparr>)
      in case cur of
           None \<Rightarrow> put condition
         | Some c \<Rightarrow>
             if UDCondStatus c = UDCondStatus condition \<and> UDCondReason c = UDCondReason condition then status
             else if UDCondStatus c = UDCondStatus condition then put (condition\<lparr>UDCondTime := UDCondTime c\<rparr>)
             else put condition)"

definition RemoveUnitedDeploymentCondition :: "ud_status \<Rightarrow> string \<Rightarrow> ud_status" where
  "RemoveUnitedDeploymentCondition status ty = status\<lparr>UConditions := filterOutCondition (UConditions status) ty\<rparr>"

section \<open>Subsets\<close>

record 's subset = object_meta +
  SSubsetName :: string
  SReplicas :: int
  SPartition :: int
  SStatusReplicas :: int
  SReadyReplicas :: int
  SUpdatedReplicas :: int
  SUpdatedReadyReplicas :: int
  SResource :: 's

record ('w, 's) ControlInterface =
  GetAllSubsets :: "united_deployment \<Rightarrow> string \<Rightarrow> 'w \<Rightarrow> (api_error + 's subset list) \<times> 'w"
  CreateSubset :: "united_deployment \<Rightarrow> string \<Rightarrow> string \<Rightarrow> int \<Rightarrow> int \<Rightarrow> 'w \<Rightarrow> api_error option \<times> 'w"
  UpdateSubset :: "'s subset \<Rightarrow> united_deployment \<Rightarrow> string \<Rightarrow> int \<Rightarrow> int \<Rightarrow> 'w \<Rightarrow> api_error option \<times> 'w"
  DeleteSubset :: "'s subset \<Rightarrow> 'w \<Rightarrow> api_error option \<times> 'w"
  GetSubsetFailure :: "'s subset \<Rightarrow> string option"
  IsExpected :: "'s subset \<Rightarrow> string \<Rightarrow> bool"

section \<open>The control of one kind of workload\<close>

text \<open>A workload is an object of type \<open>'a object_meta_scheme\<close>; its details come from the adapter.\<close>

record ('w, 'o) workload_adapter =
  NewResourceObject :: 'o
  GetReplicaDetails :: "'o \<Rightarrow> string \<Rightarrow> 'w
    \<Rightarrow> (api_error + int option \<times> int option \<times> int \<times> int \<times> int \<times> int) \<times> 'w"
  ApplySubsetTemplate :: "united_deployment \<Rightarrow> string \<Rightarrow> string \<Rightarrow> int \<Rightarrow> int \<Rightarrow> 'o \<Rightarrow> api_error + 'o"
  AdapterFailure :: "string option"
  AdapterIsExpected :: "'o \<Rightarrow> string \<Rightarrow> bool"
  PostUpdate :: "united_deployment \<Rightarrow> 'o \<Rightarrow> string \<Rightarrow> int \<Rightarrow> 'w \<Rightarrow> api_error option \<times> 'w"
  ListWorkloads :: "selector \<Rightarrow> 'w \<Rightarrow> api_error + 'o list"
  CreateWorkload :: "'o \<Rightarrow> 'w \<Rightarrow> api_error option \<times> 'w"
  GetWorkload :: "string \<Rightarrow> string \<Rightarrow> 'w \<Rightarrow> api_error + 'o"
  UpdateWorkload :: "'o \<Rightarrow> 'w \<Rightarrow> api_error option \<times> 'w"
  DeleteWorkload :: "'o \<Rightarrow> 'w \<Rightarrow> api_error option \<times> 'w"
  WorkloadRefManager :: "united_deployment \<Rightarrow> selector \<Rightarrow> ('w, 'o) ref_manager"
  LabelSelectorOf :: "label_selector option \<Rightarrow> selector option"

definition SubSetNameLabelKey :: string where
  "SubSetNameLabelKey = ''apps.kruise.io/subset-name''"

definition AnnotationSubsetPatchKey :: string where
  "AnnotationSubsetPatchKey = ''apps.kruise.io/subset-patch''"

definition getSubsetNameFrom :: "'a object_meta_scheme \<Rightarrow> api_error + string" where
  "getSubsetNameFrom obj =
     (case Labels obj SubSetNameLabelKey of
        None \<Rightarrow> Inl (OtherError ''no label'')
      | Some n \<Rightarrow> if n = [] then Inl (OtherError ''empty label'') else Inr n)"

definition convertToSubset ::
  "('w, 'a object_meta_scheme) workload_adapter \<Rightarrow> 'a object_meta_scheme \<Rightarrow> string \<Rightarrow> 'w
   \<Rightarrow> (api_error + 'a object_meta_scheme subset) \<times> 'w" where
  "convertToSubset ad obj updatedRevision w =
     (case getSubsetNameFrom obj of
        Inl e \<Rightarrow> (Inl e, w)
      | Inr n \<Rightarrow>
          (case GetReplicaDetails ad obj updatedRevision w of
             (Inl e, w1) \<Rightarrow> (Inl e, w1)
           | (Inr (specReplicas, specPartition, r, ready, updated, updatedReady), w1) \<Rightarrow>
               (Inr (object_meta.extend (object_meta.truncate obj)
                  (subset.fields n (case specReplicas of None \<Rightarrow> 0 | Some x \<Rightarrow> x) (case specPartition of None \<Rightarrow> 0 | Some x \<Rightarrow> x)
                     r ready updated updatedReady obj)), w1)))"

fun convert_all ::
  "('w, 'a object_meta_scheme) workload_adapter \<Rightarrow> 'a object_meta_scheme list \<Rightarrow> string \<Rightarrow> 'w
   \<Rightarrow> (api_error + 'a object_meta_scheme subset list) \<times> 'w" where
  "convert_all ad [] rv w = (Inr [], w)"
| "convert_all ad (obj # objs) rv w =
     (case convertToSubset ad obj rv w of
        (Inl e, w1) \<Rightarrow> (Inl e, w1)
      | (Inr s, w1) \<Rightarrow>
          (case convert_all ad objs rv w1 of
             (Inl e, w2) \<Rightarrow> (Inl e, w2)
           | (Inr ss, w2) \<Rightarrow> (Inr (s # ss), w2)))"

definition sc_GetAllSubsets ::
  "('w, 'a object_meta_scheme) workload_adapter \<Rightarrow> united_deployment \<Rightarrow> string \<Rightarrow> 'w
   \<Rightarrow> (api_error + 'a object_meta_scheme subset list) \<times> 'w" where
  "sc_GetAllSubsets ad ud updatedRevision w =
     (case LabelSelectorOf ad (UDSelector (UDSpec ud)) of
        None \<Rightarrow> (Inl (OtherError ''selector''), w)
      | Some sel \<Rightarrow>
          (case ListWorkloads ad sel w of
             Inl e \<Rightarrow> (Inl e, w)
           | Inr items \<Rightarrow>
               (case ValidatedLabelSelectorAsSelector (UDSelector (UDSpec ud)) of
                  None \<Rightarrow> (Inl (OtherError ''selector''), w)
                | Some s \<Rightarrow>
                    (case ClaimOwnedObjects (WorkloadRefManager ad ud s) [] items w of
                       ((claimed, errs), w1) \<Rightarrow>
                         if errs \<noteq> [] then (Inl (OtherError ''aggregate''), w1)
                         else convert_all ad claimed updatedRevision w1))))"

definition sc_CreateSubset ::
  "('w, 'o) workload_adapter \<Rightarrow> united_deployment \<Rightarrow> string \<Rightarrow> string \<Rightarrow> int \<Rightarrow> int \<Rightarrow> 'w \<Rightarrow> api_error option \<times> 'w" where
  "sc_CreateSubset ad ud n revision replicas part w =
     (case ApplySubsetTemplate ad ud n revision replicas part (NewResourceObject ad) of
        Inl e \<Rightarrow> (Some e, w)
      | Inr obj \<Rightarrow> CreateWorkload ad obj w)"

text \<open>Up to \<open>updateRetries\<close> attempts, each with a fresh read; an error of reading or applying ends them.\<close>

fun update_attempts ::
  "nat \<Rightarrow> ('w, 'o) workload_adapter \<Rightarrow> 's subset \<Rightarrow> united_deployment \<Rightarrow> string \<Rightarrow> int \<Rightarrow> int \<Rightarrow> api_error option \<Rightarrow> 'w
   \<Rightarrow> (api_error + 'o) \<times> 'w" where
  "update_attempts 0 ad ss ud revision replicas part err w =
     (case err of Some e \<Rightarrow> (Inl e, w) | None \<Rightarrow> (Inr (NewResourceObject ad), w))"
| "update_attempts (Suc k) ad ss ud revision replicas part err w =
     (case GetWorkload ad (Namespace ss) (Name ss) w of
        Inl e \<Rightarrow> (Inl e, w)
      | Inr obj \<Rightarrow>
          (case ApplySubsetTemplate ad ud (SSubsetName ss) revision replicas part obj of
             Inl e \<Rightarrow> (Inl e, w)
           | Inr obj1 \<Rightarrow>
               (case UpdateWorkload ad obj1 w of
                  (None, w1) \<Rightarrow> (Inr obj1, w1)
                | (Some e, w1) \<Rightarrow> update_attempts k ad ss ud revision replicas part (Some e) w1)))"

definition updateRetries :: nat where "updateRetries = 5"

definition sc_UpdateSubset ::
  "('w, 'o) workload_adapter \<Rightarrow> 's subset \<Rightarrow> united_deployment \<Rightarrow> string \<Rightarrow> int \<Rightarrow> int \<Rightarrow> 'w \<Rightarrow> api_error option \<times> 'w" where
  "sc_UpdateSubset ad ss ud revision replicas part w =
     (case update_attempts updateRetries ad ss ud revision replicas part None w of
        (Inl e, w1) \<Rightarrow> (Some e, w1)
      | (Inr obj, w1) \<Rightarrow> PostUpdate ad ud obj revision part w1)"

definition sc_DeleteSubset :: "('w, 'o) workload_adapter \<Rightarrow> 'o subset \<Rightarrow> 'w \<Rightarrow> api_error option \<times> 'w" where
  "sc_DeleteSubset ad ss w = DeleteWorkload ad (SResource ss) w"

definition SubsetControl ::
  "('w, 'a object_meta_scheme) workload_adapter \<Rightarrow> ('w, 'a object_meta_scheme) ControlInterface" where
  "SubsetControl ad =
     \<lparr>GetAllSubsets = sc_GetAllSubsets ad, CreateSubset = sc_CreateSubset ad, UpdateSubset = sc_UpdateSubset ad,
      DeleteSubset = sc_DeleteSubset ad, GetSubsetFailure = (\<lambda>_. AdapterFailure ad),
      IsExpected = (\<lambda>ss. AdapterIsExpected ad (SResource ss))\<rparr>"

section \<open>What the reconcile uses\<close>

datatype subSetType = statefulSetSubSetType | advancedStatefulSetSubSetType | cloneSetSubSetType | deploymentSubSetType

record ('w, 's) ud_reconciler =
  subSetControls :: "subSetType \<Rightarrow> ('w, 's) ControlInterface"
  RangeKinds :: "subSetType list"
  RangeSubsets :: "string list \<Rightarrow> string list"
  SortInfos :: info_sorter
  IsTimeout :: "api_error \<Rightarrow> bool"
  GetUD :: "string \<Rightarrow> string \<Rightarrow> 'w \<Rightarrow> api_error + united_deployment"
  UpdateUDStatus :: "united_deployment \<Rightarrow> 'w \<Rightarrow> api_error option \<times> 'w"
  UDRevisionClient :: "'w revision_client"
  ListHistories :: "selector \<Rightarrow> 'w \<Rightarrow> api_error + controller_revision list"
  HistoryRefManager :: "united_deployment \<Rightarrow> selector \<Rightarrow> ('w, controller_revision) ref_manager"
  UDLabelSelectorOf :: "label_selector option \<Rightarrow> selector option"
  UDSelectorString :: "selector \<Rightarrow> string"
  UDHash :: "controller_revision \<Rightarrow> int \<Rightarrow> string"
  EncodeUD :: "subset_template \<Rightarrow> string"
  ud_now :: int

section \<open>Provisioning\<close>

fun delete_each ::
  "('w, 's) ControlInterface \<Rightarrow> 's subset list \<Rightarrow> 'w \<Rightarrow> api_error list \<times> 'w" where
  "delete_each ctl [] w = ([], w)"
| "delete_each ctl (s # ss) w =
     (case DeleteSubset ctl s w of
        (e, w1) \<Rightarrow> (case delete_each ctl ss w1 of (es, w2) \<Rightarrow> ((case e of None \<Rightarrow> es | Some x \<Rightarrow> x # es), w2)))"

fun clean_others ::
  "united_deployment \<Rightarrow> string \<Rightarrow> ('w, 's) ControlInterface list \<Rightarrow> 'w \<Rightarrow> (bool \<times> api_error list) \<times> 'w" where
  "clean_others ud revision [] w = ((False, []), w)"
| "clean_others ud revision (ctl # ctls) w =
     (case GetAllSubsets ctl ud revision w of
        (Inl e, w1) \<Rightarrow>
          (case clean_others ud revision ctls w1 of ((c, es), w2) \<Rightarrow> ((c, e # es), w2))
      | (Inr ss, w1) \<Rightarrow>
          (case delete_each ctl ss w1 of
             (es1, w2) \<Rightarrow>
               (case clean_others ud revision ctls w2 of ((c, es), w3) \<Rightarrow> ((ss \<noteq> [] \<or> c, es1 @ es), w3))))"

definition missing_subsets :: "united_deployment \<Rightarrow> (string \<times> 's subset) list \<Rightarrow> string list" where
  "missing_subsets ud nameToSubset =
     sort (filter (\<lambda>n. n \<notin> fst ` set nameToSubset) (remdups (map SubName (Subsets (UDSpec ud)))))"

definition extra_subsets :: "united_deployment \<Rightarrow> (string \<times> 's subset) list \<Rightarrow> string list" where
  "extra_subsets ud nameToSubset =
     sort (filter (\<lambda>n. n \<notin> SubName ` set (Subsets (UDSpec ud))) (remdups (map fst nameToSubset)))"

definition next_of :: "(string \<rightharpoonup> SubsetUpdate) \<Rightarrow> string \<Rightarrow> SubsetUpdate" where
  "next_of m n = (case m n of None \<Rightarrow> \<lparr>NextReplicas = 0, NextPartition = 0, NextPatch = []\<rparr> | Some u \<Rightarrow> u)"

definition create_missing ::
  "('w, 's) ud_reconciler \<Rightarrow> subSetType \<Rightarrow> united_deployment \<Rightarrow> (string \<rightharpoonup> SubsetUpdate) \<Rightarrow> string \<Rightarrow> string list
   \<Rightarrow> 'w \<Rightarrow> api_error option \<times> 'w" where
  "create_missing r ty ud nextUpdate revision names w =
     (case SlowStartBatch (int (length names)) 1
             (\<lambda>i w1. let n = names ! nat i; u = next_of nextUpdate n in
                case CreateSubset (subSetControls r ty) ud n revision (NextReplicas u) (NextPartition u) w1 of
                  (Some e, w2) \<Rightarrow> (if IsTimeout r e then None else Some (wrap_error ''fail to create Subset'' e), w2)
                | (None, w2) \<Rightarrow> (None, w2)) w of
        ((_, e), w1) \<Rightarrow> (e, w1))"

text \<open>The names of the subsets that are and stay, whether anything was provisioned, and the errors.\<close>

definition manageSubsetProvision ::
  "('w, 's) ud_reconciler \<Rightarrow> subSetType \<Rightarrow> united_deployment \<Rightarrow> (string \<times> 's subset) list
   \<Rightarrow> (string \<rightharpoonup> SubsetUpdate) \<Rightarrow> string \<Rightarrow> 'w \<Rightarrow> (string list \<times> bool \<times> api_error list) \<times> 'w" where
  "manageSubsetProvision r ty ud nameToSubset nextUpdate revision w =
     (let creates = missing_subsets ud nameToSubset; dels = extra_subsets ud nameToSubset;
          (e1, w1) = (if creates \<noteq> [] then create_missing r ty ud nextUpdate revision creates w else (None, w));
          (es2, w2) = delete_each (subSetControls r ty) (map (\<lambda>n. the (map_of nameToSubset n)) dels) w1;
          ((cleaned, es3), w3) = clean_others ud revision (map (subSetControls r) (filter (\<lambda>t. t \<noteq> ty) (RangeKinds r))) w2
      in ((sort (filter (\<lambda>n. n \<in> fst ` set nameToSubset) (remdups (map SubName (Subsets (UDSpec ud))))),
           creates \<noteq> [] \<or> dels \<noteq> [] \<or> cleaned,
           (case e1 of None \<Rightarrow> [] | Some e \<Rightarrow> [e]) @ es2 @ es3), w3))"

definition patch_of :: "'a object_meta_scheme \<Rightarrow> string" where
  "patch_of obj = (case Annotations obj AnnotationSubsetPatchKey of Some (Text t) \<Rightarrow> t | _ \<Rightarrow> [])"

definition needs_update ::
  "('w, 's) ud_reconciler \<Rightarrow> subSetType \<Rightarrow> (string \<rightharpoonup> SubsetUpdate) \<Rightarrow> string \<Rightarrow> string \<times> 's subset \<Rightarrow> bool" where
  "needs_update r ty nextUpdate revision = (\<lambda>(n, ss).
     IsExpected (subSetControls r ty) ss revision
     \<or> SReplicas ss \<noteq> NextReplicas (next_of nextUpdate n)
     \<or> SPartition ss \<noteq> NextPartition (next_of nextUpdate n)
     \<or> patch_of ss \<noteq> NextPatch (next_of nextUpdate n))"

definition update_batch ::
  "('w, 's) ud_reconciler \<Rightarrow> subSetType \<Rightarrow> united_deployment \<Rightarrow> (string \<rightharpoonup> SubsetUpdate) \<Rightarrow> string
   \<Rightarrow> (string \<times> 's subset) list \<Rightarrow> 'w \<Rightarrow> api_error option \<times> 'w" where
  "update_batch r ty ud nextUpdate revision cells w =
     (case SlowStartBatch (int (length cells)) 1
             (\<lambda>i. let (n, ss) = cells ! nat i; u = next_of nextUpdate n
                  in UpdateSubset (subSetControls r ty) ss ud revision (NextReplicas u) (NextPartition u)) w of
        ((_, e), w1) \<Rightarrow> (e, w1))"

definition manageSubsets ::
  "('w, 's) ud_reconciler \<Rightarrow> subSetType \<Rightarrow> united_deployment \<Rightarrow> (string \<times> 's subset) list
   \<Rightarrow> (string \<rightharpoonup> SubsetUpdate) \<Rightarrow> string \<Rightarrow> 'w \<Rightarrow> (ud_status \<times> api_error option) \<times> 'w" where
  "manageSubsets r ty ud nameToSubset nextUpdate revision w =
     (let cond = (\<lambda>ty st reason msg. NewUnitedDeploymentCondition (ud_now r) ty st reason msg);
          s0 = UDStatus ud;
          ((exists, provisioned, errs), w1) = manageSubsetProvision r ty ud nameToSubset nextUpdate revision w
      in if errs \<noteq> [] then
           ((SetUnitedDeploymentCondition s0 (cond ''SubsetProvisioned'' ''False'' ''Error'' ''aggregate''),
             Some (OtherError ''fail to manage Subset provision'')), w1)
         else
           (let s1 = (if provisioned then SetUnitedDeploymentCondition s0 (cond ''SubsetProvisioned'' ''True'' [] []) else s0);
                cells = filter (needs_update r ty nextUpdate revision) (map (\<lambda>n. (n, the (map_of nameToSubset n))) exists);
                (updateErr, w2) = (if cells \<noteq> [] then update_batch r ty ud nextUpdate revision cells w1 else (None, w1))
            in ((SetUnitedDeploymentCondition s1
                   (if updateErr = None then cond ''SubsetUpdated'' ''True'' [] []
                    else cond ''SubsetUpdated'' ''False'' ''Error'' ''update''), updateErr), w2)))"

section \<open>Finding the subsets\<close>

definition getSubsetControls :: "subset_template \<Rightarrow> subSetType option" where
  "getSubsetControls t =
     (if StatefulSetTemplate t \<noteq> None then Some statefulSetSubSetType
      else if AdvancedStatefulSetTemplate t \<noteq> None then Some advancedStatefulSetSubSetType
      else if CloneSetTemplate t \<noteq> None then Some cloneSetSubSetType
      else if DeploymentTemplate t \<noteq> None then Some deploymentSubSetType
      else None)"

fun classifySubsetBySubsetName :: "'s subset list \<Rightarrow> string \<rightharpoonup> 's subset list" where
  "classifySubsetBySubsetName [] = Map.empty"
| "classifySubsetBySubsetName (s # ss) =
     (let mapping = classifySubsetBySubsetName ss in
      case getSubsetNameFrom s of
        Inl _ \<Rightarrow> mapping
      | Inr n \<Rightarrow> mapping(n \<mapsto> s # (case mapping n of None \<Rightarrow> [] | Some xs \<Rightarrow> xs)))"

fun delete_dups :: "('w, 's) ControlInterface \<Rightarrow> 's subset list \<Rightarrow> 'w \<Rightarrow> api_error option \<times> 'w" where
  "delete_dups ctl [] w = (None, w)"
| "delete_dups ctl (s # ss) w =
     (case DeleteSubset ctl s w of
        (None, w1) \<Rightarrow> delete_dups ctl ss w1
      | (Some e, w1) \<Rightarrow> if e = NotFound then delete_dups ctl ss w1 else (Some e, w1))"

text \<open>The names are those of the map, in the order in which it is ranged over.\<close>

fun deleteDupSubset ::
  "('w, 's) ControlInterface \<Rightarrow> (string \<rightharpoonup> 's subset list) \<Rightarrow> string list \<Rightarrow> 'w
   \<Rightarrow> (api_error + (string \<times> 's subset) list) \<times> 'w" where
  "deleteDupSubset ctl nameToSubsets [] w = (Inr [], w)"
| "deleteDupSubset ctl nameToSubsets (n # ns) w =
     (case nameToSubsets n of
        Some (s # dups) \<Rightarrow>
          (case delete_dups ctl dups w of
             (Some e, w1) \<Rightarrow> (Inl e, w1)
           | (None, w1) \<Rightarrow>
               (case deleteDupSubset ctl nameToSubsets ns w1 of
                  (Inl e, w2) \<Rightarrow> (Inl e, w2)
                | (Inr m, w2) \<Rightarrow> (Inr ((n, s) # m), w2)))
      | _ \<Rightarrow> deleteDupSubset ctl nameToSubsets ns w)"

definition subset_names :: "'s subset list \<Rightarrow> string list" where
  "subset_names ss = remdups (concat (map (\<lambda>s. case getSubsetNameFrom s of Inl _ \<Rightarrow> [] | Inr n \<Rightarrow> [n]) ss))"

definition getNameToSubset ::
  "('w, 's) ud_reconciler \<Rightarrow> united_deployment \<Rightarrow> ('w, 's) ControlInterface \<Rightarrow> string \<Rightarrow> 'w
   \<Rightarrow> (api_error + (string \<times> 's subset) list) \<times> 'w" where
  "getNameToSubset r ud ctl expectedRevision w =
     (case GetAllSubsets ctl ud expectedRevision w of
        (Inl e, w1) \<Rightarrow> (Inl (wrap_error ''fail to get all Subsets'' e), w1)
      | (Inr ss, w1) \<Rightarrow>
          (case deleteDupSubset ctl (classifySubsetBySubsetName ss) (RangeSubsets r (subset_names ss)) w1 of
             (Inl e, w2) \<Rightarrow> (Inl (wrap_error ''fail to manage duplicate Subset'' e), w2)
           | (Inr m, w2) \<Rightarrow> (Inr m, w2)))"

section \<open>Revisions\<close>

definition controlledHistories ::
  "('w, 's) ud_reconciler \<Rightarrow> united_deployment \<Rightarrow> 'w \<Rightarrow> (api_error + controller_revision list) \<times> 'w" where
  "controlledHistories r ud w =
     (case UDLabelSelectorOf r (UDSelector (UDSpec ud)) of
        None \<Rightarrow> (Inl (OtherError ''selector''), w)
      | Some sel \<Rightarrow>
          (case ListHistories r sel w of
             Inl e \<Rightarrow> (Inl e, w)
           | Inr items \<Rightarrow>
               (case ValidatedLabelSelectorAsSelector (UDSelector (UDSpec ud)) of
                  None \<Rightarrow> (Inl (OtherError ''selector''), w)
                | Some s \<Rightarrow>
                    (case ClaimOwnedObjects (HistoryRefManager r ud s) [] items w of
                       ((claimed, errs), w1) \<Rightarrow>
                         (if errs \<noteq> [] then Inl (OtherError ''aggregate'') else Inr claimed, w1)))))"

definition live_revision :: "ud_status \<Rightarrow> string \<Rightarrow> bool" where
  "live_revision status n \<longleftrightarrow>
     n = UCurrentRevision status \<or> (case UUpdateStatus status of None \<Rightarrow> False | Some (upd, _) \<Rightarrow> n = upd)"

text \<open>The loop of \<open>cleanExpiredRevision\<close>, at index \<open>i\<close>.\<close>

fun clean_expired ::
  "'w revision_client \<Rightarrow> ud_status \<Rightarrow> int \<Rightarrow> int \<Rightarrow> controller_revision list \<Rightarrow> 'w \<Rightarrow> api_error option \<times> 'w" where
  "clean_expired rh status exceedNum i [] w = (None, w)"
| "clean_expired rh status exceedNum i (v # vs) w =
     (if live_revision status (Name v) then clean_expired rh status exceedNum (i + 1) vs w
      else if i \<ge> exceedNum then (None, w)
      else case DeleteRevision rh v w of
             (Some e, w1) \<Rightarrow> (Some e, w1)
           | (None, w1) \<Rightarrow> clean_expired rh status exceedNum (i + 1) vs w1)"

text \<open>The slice of the remaining revisions panics when the limit is negative.\<close>

definition cleanExpiredRevision ::
  "'w revision_client \<Rightarrow> united_deployment \<Rightarrow> controller_revision list \<Rightarrow> 'w
   \<Rightarrow> (api_error + controller_revision list) run \<times> 'w" where
  "cleanExpiredRevision rh ud sortedRevisions w =
     (let exceedNum = int (length sortedRevisions) - UDHistoryLimit (UDSpec ud)
      in if exceedNum \<le> 0 then (Returns (Inr sortedRevisions), w)
         else case clean_expired rh (UDStatus ud) exceedNum 0 sortedRevisions w of
                (Some e, w1) \<Rightarrow> (Returns (Inl e), w1)
              | (None, w1) \<Rightarrow>
                  (if exceedNum > int (length sortedRevisions) then Panics
                   else Returns (Inr (drop (nat exceedNum) sortedRevisions)), w1))"

definition ud_selected_labels :: "subset_template \<Rightarrow> labels" where
  "ud_selected_labels t =
     (case StatefulSetTemplate t of
        Some x \<Rightarrow> WTLabels x
      | None \<Rightarrow>
          (case AdvancedStatefulSetTemplate t of
             Some x \<Rightarrow> WTLabels x
           | None \<Rightarrow> (case DeploymentTemplate t of Some x \<Rightarrow> WTLabels x | None \<Rightarrow> Map.empty)))"

text \<open>The patch is the encoded template.\<close>

definition ud_newRevision ::
  "('w, 's) ud_reconciler \<Rightarrow> united_deployment \<Rightarrow> int \<Rightarrow> int \<Rightarrow> controller_revision" where
  "ud_newRevision r ud revision collisionCount =
     (NewControllerRevision (UDHash r) ud ''apps.kruise.io/v1alpha1'' ''UnitedDeployment''
        (ud_selected_labels (UDTemplate (UDSpec ud))) (EncodeUD r (UDTemplate (UDSpec ud))) revision collisionCount)
     \<lparr>Namespace := Namespace ud\<rparr>"

definition ud_nextRevision :: "controller_revision list \<Rightarrow> int" where
  "ud_nextRevision revisions = (if revisions = [] then 1 else RevisionNum (last revisions) + 1)"

partial_function (option) ud_createControllerRevision ::
  "'w revision_client \<Rightarrow> (controller_revision \<Rightarrow> int \<Rightarrow> string) \<Rightarrow> string \<Rightarrow> string \<Rightarrow> controller_revision \<Rightarrow> int \<Rightarrow> 'w
   \<Rightarrow> ((api_error + controller_revision) \<times> int \<times> 'w) option" where
  "ud_createControllerRevision rh hashRev ns parentName revision collisionCount w =
     (let hash = hashRev revision collisionCount;
          clone = revision\<lparr>Name := ControllerRevisionName parentName hash,
                           Labels := (Labels revision)(ControllerRevisionHashLabel \<mapsto> hash)\<rparr>
      in case CreateRevision rh clone w of
           (Inr created, w1) \<Rightarrow> Some (Inr created, collisionCount, w1)
         | (Inl e, w1) \<Rightarrow>
             if e = AlreadyExists then
               (case GetRevision rh ns (Name clone) w1 of
                  Inl e2 \<Rightarrow> Some (Inl e2, collisionCount, w1)
                | Inr exists \<Rightarrow>
                    if RevData exists = RevData clone then Some (Inr exists, collisionCount, w1)
                    else ud_createControllerRevision rh hashRev ns parentName revision (incr32 collisionCount) w1)
             else Some (Inl e, collisionCount, w1))"

text \<open>
  The current and the update revision and the collision count; \<open>None\<close> is an endless creation.  A
  revision that is rolled back to is updated in the list of the revisions too, which holds pointers.
\<close>

definition ud_find_current ::
  "united_deployment \<Rightarrow> controller_revision list \<Rightarrow> controller_revision \<Rightarrow> controller_revision" where
  "ud_find_current ud revisions upd =
     (case find (\<lambda>v. Name v = UCurrentRevision (UDStatus ud)) revisions of
        None \<Rightarrow> upd
      | Some v \<Rightarrow> if Name v = Name upd then upd else v)"

definition ud_active_revisions ::
  "('w, 's) ud_reconciler \<Rightarrow> united_deployment \<Rightarrow> controller_revision list \<Rightarrow> int \<Rightarrow> 'w
   \<Rightarrow> ((api_error + controller_revision \<times> controller_revision \<times> int) \<times> 'w) option" where
  "ud_active_revisions r ud revisions collisionCount w =
     (let new = ud_newRevision r ud (ud_nextRevision revisions) collisionCount;
          equalRevisions = FindEqualRevisions revisions new
      in if equalRevisions \<noteq> [] \<and> EqualRevision (last revisions) (last equalRevisions)
         then Some (Inr (ud_find_current ud revisions (last revisions), last revisions, collisionCount), w)
         else if equalRevisions \<noteq> [] then
           (case UpdateRevision' (UDRevisionClient r) ((last equalRevisions)\<lparr>RevisionNum := RevisionNum new\<rparr>) w of
              (Inl e, w1) \<Rightarrow> Some (Inl e, w1)
            | (Inr upd, w1) \<Rightarrow> Some (Inr (ud_find_current ud revisions upd, upd, collisionCount), w1))
         else
           (case ud_createControllerRevision (UDRevisionClient r) (UDHash r) (Namespace ud) (Name ud) new collisionCount w of
              None \<Rightarrow> None
            | Some (Inl e, _, w1) \<Rightarrow> Some (Inl e, w1)
            | Some (Inr upd, c, w1) \<Rightarrow> Some (Inr (ud_find_current ud revisions upd, upd, c), w1)))"

definition constructUnitedDeploymentRevisions ::
  "('w, 's) ud_reconciler \<Rightarrow> united_deployment \<Rightarrow> 'w
   \<Rightarrow> ((api_error + controller_revision \<times> controller_revision \<times> int) run \<times> 'w) option" where
  "constructUnitedDeploymentRevisions r ud w =
     (case controlledHistories r ud w of
        (Inl e, w1) \<Rightarrow> Some (Returns (Inl e), w1)
      | (Inr histories, w1) \<Rightarrow>
          (case cleanExpiredRevision (UDRevisionClient r) ud (SortControllerRevisions histories) w1 of
             (Panics, w2) \<Rightarrow> Some (Panics, w2)
           | (Returns (Inl e), w2) \<Rightarrow> Some (Returns (Inl e), w2)
           | (Returns (Inr revisions), w2) \<Rightarrow>
               map_option (\<lambda>(x, w3). (Returns x, w3))
                 (ud_active_revisions r ud revisions
                    (case UCollisionCount (UDStatus ud) of None \<Rightarrow> 0 | Some c \<Rightarrow> c) w2)))"

section \<open>Status\<close>

text \<open>
  The subsets are given in the order in which the map is ranged over.  The collision count is passed
  but not stored.
\<close>

definition sum32 :: "int list \<Rightarrow> int" where
  "sum32 xs = foldl (\<lambda>a x. int32 (a + x)) 0 xs"

definition ud_count_subsets :: "ud_status \<Rightarrow> 's subset list \<Rightarrow> ud_status" where
  "ud_count_subsets s subsets =
     s\<lparr>UReplicas := sum32 (map SStatusReplicas subsets), UReadyReplicas := sum32 (map SReadyReplicas subsets),
       UUpdatedReplicas := sum32 (map SUpdatedReplicas subsets),
       UUpdatedReadyReplicas := sum32 (map SUpdatedReadyReplicas subsets)\<rparr>"

fun find_failure :: "('w, 's) ControlInterface \<Rightarrow> 's subset list \<Rightarrow> string option" where
  "find_failure ctl [] = None"
| "find_failure ctl (s # ss) = (case GetSubsetFailure ctl s of Some m \<Rightarrow> Some m | None \<Rightarrow> find_failure ctl ss)"

definition ud_calculateStatus ::
  "int \<Rightarrow> ('w, 's) ControlInterface \<Rightarrow> ud_status \<Rightarrow> (string \<times> 's subset) list \<Rightarrow> (string \<rightharpoonup> int) \<Rightarrow> (string \<rightharpoonup> int)
   \<Rightarrow> string \<Rightarrow> string \<Rightarrow> ud_status" where
  "ud_calculateStatus now ctl newStatus nameToSubset nextReplicas nextPartition current expected =
     (let subsets = map snd nameToSubset;
          s1 = (ud_count_subsets newStatus subsets)
                 \<lparr>USubsetReplicas := nextReplicas, UUpdateStatus := Some (expected, nextPartition)\<rparr>;
          s2 = (if UCurrentRevision s1 = [] then s1\<lparr>UCurrentRevision := current\<rparr> else s1);
          s3 = (if expected \<noteq> UCurrentRevision s2 \<and> UUpdatedReadyReplicas s2 \<ge> UReplicas s2
                then s2\<lparr>UCurrentRevision := expected\<rparr> else s2)
      in case find_failure ctl subsets of
           None \<Rightarrow> RemoveUnitedDeploymentCondition s3 ''SubsetFailure''
         | Some m \<Rightarrow>
             SetUnitedDeploymentCondition s3 (NewUnitedDeploymentCondition now ''SubsetFailure'' ''True'' ''Error'' m))"

text \<open>
  Both statuses are copies, so that the pointers to their collision counts are equal only when both
  are nil.
\<close>

definition same_status :: "int \<Rightarrow> ud_status \<Rightarrow> ud_status \<Rightarrow> bool" where
  "same_status generation old new \<longleftrightarrow>
     UReplicas old = UReplicas new \<and> UReadyReplicas old = UReadyReplicas new
     \<and> UUpdatedReplicas old = UUpdatedReplicas new \<and> UUpdatedReadyReplicas old = UUpdatedReadyReplicas new
     \<and> UCurrentRevision old = UCurrentRevision new
     \<and> UCollisionCount old = None \<and> UCollisionCount new = None
     \<and> ULabelSelector old = ULabelSelector new \<and> generation = UObservedGeneration new
     \<and> USubsetReplicas old = USubsetReplicas new \<and> UUpdateStatus old = UUpdateStatus new
     \<and> UConditions old = UConditions new"

fun ud_update_attempts ::
  "nat \<Rightarrow> ('w, 's) ud_reconciler \<Rightarrow> united_deployment \<Rightarrow> ud_status \<Rightarrow> 'w \<Rightarrow> api_error option \<times> 'w" where
  "ud_update_attempts k r obj newStatus w =
     (case UpdateUDStatus r (obj\<lparr>UDStatus := newStatus\<rparr>) w of
        (None, w1) \<Rightarrow> (None, w1)
      | (Some e, w1) \<Rightarrow>
          (case k of
             0 \<Rightarrow> (Some e, w1)
           | Suc k' \<Rightarrow>
               (case GetUD r (Namespace obj) (Name obj) w1 of
                  Inl e2 \<Rightarrow> (Some e2, w1)
                | Inr obj1 \<Rightarrow> ud_update_attempts k' r obj1 newStatus w1)))"

definition updateUnitedDeployment ::
  "('w, 's) ud_reconciler \<Rightarrow> united_deployment \<Rightarrow> ud_status \<Rightarrow> ud_status \<Rightarrow> 'w \<Rightarrow> api_error option \<times> 'w" where
  "updateUnitedDeployment r ud oldStatus newStatus w =
     (if same_status (Generation ud) oldStatus newStatus then (None, w)
      else ud_update_attempts updateRetries r ud (newStatus\<lparr>UObservedGeneration := Generation ud\<rparr>) w)"

section \<open>Reconcile\<close>

text \<open>\<open>Panics\<close> also when no template is set: the control is then a nil interface.\<close>

definition ud_reconcile_subsets ::
  "('w, 's) ud_reconciler \<Rightarrow> united_deployment \<Rightarrow> subSetType \<Rightarrow> string \<Rightarrow> string \<Rightarrow> 'w \<Rightarrow> api_error option \<times> 'w" where
  "ud_reconcile_subsets r ud ty current expected w =
     (case getNameToSubset r ud (subSetControls r ty) expected w of
        (Inl e, w1) \<Rightarrow> (Some e, w1)
      | (Inr nameToSubset, w1) \<Rightarrow>
          (case Alloc (SortInfos r) (UDReplicas (UDSpec ud)) (Subsets (UDSpec ud))
                  (\<lambda>n. map_option SReplicas (map_of nameToSubset n)) of
             Inl e \<Rightarrow> (Some (OtherError e), w1)
           | Inr nextReplicas \<Rightarrow>
               (let nextPartitions = calcNextPartitions (UDSpec ud) nextReplicas;
                    nextUpdate = getNextUpdate (UDSpec ud) nextReplicas nextPartitions
                in case manageSubsets r ty ud nameToSubset nextUpdate expected w1 of
                     ((_, Some e), w2) \<Rightarrow> (Some e, w2)
                   | ((newStatus, None), w2) \<Rightarrow>
                       (case ValidatedLabelSelectorAsSelector (UDSelector (UDSpec ud)) of
                          None \<Rightarrow> (None, w2)
                        | Some selector \<Rightarrow>
                            updateUnitedDeployment r ud (UDStatus ud)
                              (ud_calculateStatus (ud_now r) (subSetControls r ty)
                                 (newStatus\<lparr>ULabelSelector := UDSelectorString r selector\<rparr>) nameToSubset
                                 nextReplicas nextPartitions current expected) w2))))"

definition ud_Reconcile ::
  "('w, 's) ud_reconciler \<Rightarrow> string \<Rightarrow> string \<Rightarrow> 'w \<Rightarrow> (api_error option run \<times> 'w) option" where
  "ud_Reconcile r ns n w =
     (case GetUD r ns n w of
        Inl e \<Rightarrow> Some (Returns (if e = NotFound then None else Some e), w)
      | Inr ud \<Rightarrow>
          if DeletionTimestamp ud \<noteq> None then Some (Returns None, w)
          else
            (case constructUnitedDeploymentRevisions r ud w of
               None \<Rightarrow> None
             | Some (Panics, w1) \<Rightarrow> Some (Panics, w1)
             | Some (Returns (Inl e), w1) \<Rightarrow> Some (Returns (Some e), w1)
             | Some (Returns (Inr (cur, upd, _)), w1) \<Rightarrow>
                 (case getSubsetControls (UDTemplate (UDSpec ud)) of
                    None \<Rightarrow> Some (Panics, w1)
                  | Some ty \<Rightarrow>
                      (case ud_reconcile_subsets r ud ty (Name cur) (Name upd) w1 of
                         (e, w2) \<Rightarrow> Some (Returns e, w2)))))"

end
