(* ===== verification/Stateful_Utils.thy ===== *)
theory Stateful_Utils
  imports Revision_History Update_Sort Expectations "HOL-Library.AList"
begin

text \<open>
  The Advanced StatefulSet: its API types (\<open>apis/apps/v1beta1/statefulset_types.go\<close>) and the helpers
  of \<open>stateful_set_utils.go\<close>, \<open>stateful_update_utils.go\<close> and \<open>pkg/util/revisionadapter\<close>: identities,
  storage, the owners of claims, the range of ordinals, and the pods of a revision.

  The pointers that defaulting fills in (\<open>replicas\<close>, \<open>partition\<close>, \<open>revisionHistoryLimit\<close>) are plain
  integers; a pod name has no line break.
\<close>

section \<open>API types\<close>

record rolling_update =
  RUPartition :: int
  RUMaxUnavailable :: "int_or_string option"
  RUPodUpdatePolicy :: string
  RUPaused :: bool
  RUUnordered :: "update_priority option option"
  RUGraceSeconds :: "int option"
  RUMinReadySeconds :: "int option"

record retention_policy =
  WhenDeleted :: string
  WhenScaled :: string

record sts_spec =
  STSReplicas :: int
  STSSelector :: "label_selector option"
  STSTemplate :: pod_template
  STSClaimTemplates :: "pvc list"
  STSServiceName :: string
  PodManagementPolicy :: string
  STSUpdateType :: string
  RollingUpdate :: "rolling_update option"
  STSHistoryLimit :: int
  ReserveOrdinals :: "int list"
  STSLifecycle :: "lifecycle option"
  STSScaleMaxUnavailable :: "int_or_string option"
  RetentionPolicy :: "retention_policy option"

record sts_condition =
  STSCondType :: string
  STSCondStatus :: string
  STSCondTime :: int
  STSCondReason :: string
  STSCondMessage :: string

record sts_status =
  STObservedGeneration :: int
  STReplicas :: int
  STReadyReplicas :: int
  STAvailableReplicas :: int
  STCurrentReplicas :: int
  STUpdatedReplicas :: int
  STUpdatedReadyReplicas :: int
  STUpdatedAvailableReplicas :: int
  STCurrentRevision :: string
  STUpdateRevision :: string
  STCollisionCount :: "int option"
  STConditions :: "sts_condition list"
  STLabelSelector :: string

record statefulset = object_meta +
  STSpec :: sts_spec
  STStatus :: sts_status

text \<open>Go's zero values, with the defaults for the pointers.\<close>

definition sts_zero_status :: sts_status where
  "sts_zero_status = \<lparr>STObservedGeneration = 0, STReplicas = 0, STReadyReplicas = 0, STAvailableReplicas = 0,
     STCurrentReplicas = 0, STUpdatedReplicas = 0, STUpdatedReadyReplicas = 0, STUpdatedAvailableReplicas = 0,
     STCurrentRevision = [], STUpdateRevision = [], STCollisionCount = None, STConditions = [], STLabelSelector = []\<rparr>"

definition zero_sts_spec :: sts_spec where
  "zero_sts_spec = \<lparr>STSReplicas = 1, STSSelector = None,
     STSTemplate = \<lparr>TplLabels = Map.empty, TplAnnotations = Map.empty, TplFinalizers = [], TplSpec = zero_pod_spec\<rparr>,
     STSClaimTemplates = [], STSServiceName = [], PodManagementPolicy = ''OrderedReady'', STSUpdateType = ''RollingUpdate'',
     RollingUpdate = None, STSHistoryLimit = 10, ReserveOrdinals = [], STSLifecycle = None,
     STSScaleMaxUnavailable = None, RetentionPolicy = None\<rparr>"

definition zero_sts :: statefulset where
  "zero_sts = object_meta.extend zero_meta (statefulset.fields zero_sts_spec sts_zero_status)"

lemmas zero_sts_defs = zero_sts_def zero_sts_spec_def sts_zero_status_def zero_defs statefulset.defs

section \<open>Identity\<close>

text \<open>
  The match of \<open>(.*)-([0-9]+)$\<close>: the digits at the end are preceded by a dash, and the parent is what
  comes before the dash.
\<close>

definition name_match :: "string \<Rightarrow> (string \<times> string) option" where
  "name_match s =
     (let ds = takeWhile is_digit (rev s) in
      case dropWhile is_digit (rev s) of
        [] \<Rightarrow> None
      | c # cs \<Rightarrow> if ds \<noteq> [] \<and> c = CHR ''-'' then Some (rev cs, rev ds) else None)"

definition getParentNameAndOrdinal :: "pod \<Rightarrow> string \<times> int" where
  "getParentNameAndOrdinal p =
     (case name_match (Name p) of
        None \<Rightarrow> ([], - 1)
      | Some (parent, digits) \<Rightarrow> (parent, case ParseInt digits 32 of None \<Rightarrow> - 1 | Some i \<Rightarrow> i))"

definition getParentName :: "pod \<Rightarrow> string" where
  "getParentName p = fst (getParentNameAndOrdinal p)"

definition getOrdinal :: "pod \<Rightarrow> int" where
  "getOrdinal p = snd (getParentNameAndOrdinal p)"

definition getPodName :: "statefulset \<Rightarrow> int \<Rightarrow> string" where
  "getPodName sts ordinal = Name sts @ ''-'' @ show_int ordinal"

definition sts_claim_name :: "statefulset \<Rightarrow> pvc \<Rightarrow> int \<Rightarrow> string" where
  "sts_claim_name sts claim ordinal = Name claim @ ''-'' @ Name sts @ ''-'' @ show_int ordinal"

definition isMemberOf :: "statefulset \<Rightarrow> pod \<Rightarrow> bool" where
  "isMemberOf sts p \<longleftrightarrow> getParentName p = Name sts"

definition StatefulSetPodNameLabel :: string where
  "StatefulSetPodNameLabel = ''statefulset.kubernetes.io/pod-name''"

definition identityMatches :: "statefulset \<Rightarrow> pod \<Rightarrow> bool" where
  "identityMatches sts p \<longleftrightarrow>
     (let (parent, ordinal) = getParentNameAndOrdinal p
      in ordinal \<ge> 0 \<and> Name sts = parent \<and> Name p = getPodName sts ordinal
         \<and> Namespace p = Namespace sts \<and> lget (Labels p) StatefulSetPodNameLabel = Name p)"

definition updateIdentity :: "statefulset \<Rightarrow> pod \<Rightarrow> pod" where
  "updateIdentity sts p =
     (let n = getPodName sts (getOrdinal p)
      in p\<lparr>Name := n, Namespace := Namespace sts, Labels := (Labels p)(StatefulSetPodNameLabel \<mapsto> n)\<rparr>)"

definition initIdentity :: "statefulset \<Rightarrow> pod \<Rightarrow> pod" where
  "initIdentity sts p =
     (let q = updateIdentity sts p
      in q\<lparr>Spec := (Spec q)\<lparr>Hostname := Name q, Subdomain := STSServiceName (STSpec sts)\<rparr>\<rparr>)"

section \<open>Storage\<close>

text \<open>A later volume of the same name replaces an earlier one in the map of the volumes.\<close>

definition storageMatches :: "statefulset \<Rightarrow> pod \<Rightarrow> bool" where
  "storageMatches sts p \<longleftrightarrow>
     getOrdinal p \<ge> 0 \<and>
     list_all (\<lambda>claim. case find (\<lambda>v. VolName v = Name claim) (rev (Volumes (Spec p))) of
                 None \<Rightarrow> False
               | Some v \<Rightarrow> ClaimName v = sts_claim_name sts claim (getOrdinal p))
       (STSClaimTemplates (STSpec sts))"

definition sts_claim :: "statefulset \<Rightarrow> pod \<Rightarrow> pvc \<Rightarrow> pvc" where
  "sts_claim sts p tmpl =
     tmpl\<lparr>Name := sts_claim_name sts tmpl (getOrdinal p), Namespace := Namespace sts,
          Labels := set_labels (case STSSelector (STSpec sts) of None \<Rightarrow> [] | Some s \<Rightarrow> MatchLabels s) Map.empty\<rparr>"

text \<open>The claims by the name of their template, in the order of the templates.\<close>

definition getPersistentVolumeClaims :: "statefulset \<Rightarrow> pod \<Rightarrow> (string \<times> pvc) list" where
  "getPersistentVolumeClaims sts p =
     foldl (\<lambda>m t. AList.update (Name t) (sts_claim sts p t) m) [] (STSClaimTemplates (STSpec sts))"

definition sts_updateStorage :: "statefulset \<Rightarrow> pod \<Rightarrow> pod" where
  "sts_updateStorage sts p =
     (let claims = getPersistentVolumeClaims sts p;
          newVolumes = map (\<lambda>(n, c). \<lparr>VolName = n, ClaimName = Name c\<rparr>) claims
            @ filter (\<lambda>v. map_of claims (VolName v) = None) (Volumes (Spec p))
      in p\<lparr>Spec := (Spec p)\<lparr>Volumes := newVolumes\<rparr>\<rparr>)"

section \<open>The range of ordinals\<close>

text \<open>
  The loop of \<open>getStatefulSetReplicasRange\<close>, with the number of replicas still to find; it ends
  because the reserved ordinals are finitely many.
\<close>

function range_loop :: "nat \<Rightarrow> int list \<Rightarrow> nat \<Rightarrow> nat" where
  "range_loop 0 reserved replicaCount = replicaCount"
| "range_loop (Suc k) reserved replicaCount =
     (if int replicaCount \<in> set reserved then range_loop (Suc k) reserved (Suc replicaCount)
      else range_loop k reserved (Suc replicaCount))"
  by pat_completeness auto
termination
proof (relation "measure (\<lambda>(k, reserved, c). k + card {x \<in> set reserved. x \<ge> int c})")
  fix k reserved and c :: nat
  assume "int c \<in> set reserved"
  then have "{x \<in> set reserved. x \<ge> int (Suc c)} \<subset> {x \<in> set reserved. x \<ge> int c}" by force
  then show "((Suc k, reserved, Suc c), (Suc k, reserved, c)) \<in> measure (\<lambda>(k, reserved, c). k + card {x \<in> set reserved. x \<ge> int c})"
    by (simp add: psubset_card_mono)
next
  fix k reserved and c :: nat
  have "{x \<in> set reserved. x \<ge> int (Suc c)} \<subseteq> {x \<in> set reserved. x \<ge> int c}" by auto
  then have "card {x \<in> set reserved. x \<ge> int (Suc c)} \<le> card {x \<in> set reserved. x \<ge> int c}" by (simp add: card_mono)
  then show "((k, reserved, Suc c), (Suc k, reserved, c)) \<in> measure (\<lambda>(k, reserved, c). k + card {x \<in> set reserved. x \<ge> int c})"
    by simp
qed simp

definition getStatefulSetReplicasRange :: "statefulset \<Rightarrow> nat \<times> int list" where
  "getStatefulSetReplicasRange sts =
     (range_loop (nat (STSReplicas (STSpec sts))) (ReserveOrdinals (STSpec sts)) 0, ReserveOrdinals (STSpec sts))"

section \<open>The owners of a claim\<close>

definition RetainPolicy :: string where "RetainPolicy = ''Retain''"
definition DeletePolicy :: string where "DeletePolicy = ''Delete''"

definition getPersistentVolumeClaimRetentionPolicy :: "statefulset \<Rightarrow> retention_policy" where
  "getPersistentVolumeClaimRetentionPolicy sts =
     (case RetentionPolicy (STSpec sts) of
        None \<Rightarrow> \<lparr>WhenDeleted = RetainPolicy, WhenScaled = RetainPolicy\<rparr>
      | Some pol \<Rightarrow> pol)"

definition sts_scaled_down :: "statefulset \<Rightarrow> pod \<Rightarrow> bool" where
  "sts_scaled_down sts p =
     (let (replicaCount, reserved) = getStatefulSetReplicasRange sts; ord = getOrdinal p
      in ord \<ge> int replicaCount \<or> ord \<in> set reserved)"

definition hasStaleOwnerRef :: "'a object_meta_scheme \<Rightarrow> 'b object_meta_scheme \<Rightarrow> bool" where
  "hasStaleOwnerRef target owner =
     list_ex (\<lambda>r. OwnerName r = Name owner \<and> OwnerUID r \<noteq> UID owner) (OwnerReferences target)"

definition sts_setOwnerRef ::
  "'a object_meta_scheme \<Rightarrow> 'b object_meta_scheme \<Rightarrow> string \<Rightarrow> string \<Rightarrow> 'a object_meta_scheme \<times> bool" where
  "sts_setOwnerRef target owner apiVersion kind =
     (if HasOwnerRef target owner then (target, False)
      else (target\<lparr>OwnerReferences := OwnerReferences target @
              [\<lparr>OwnerAPIVersion = apiVersion, OwnerKind = kind, OwnerName = Name owner, OwnerUID = UID owner,
                OwnerController = None\<rparr>]\<rparr>, True))"

definition claimOwnerMatchesSetAndPod :: "pvc \<Rightarrow> statefulset \<Rightarrow> pod \<Rightarrow> bool" where
  "claimOwnerMatchesSetAndPod claim sts p =
     (let pol = getPersistentVolumeClaimRetentionPolicy sts in
      if WhenScaled pol = RetainPolicy \<and> WhenDeleted pol = DeletePolicy then
        HasOwnerRef claim sts \<and> \<not> HasOwnerRef claim p
      else if WhenScaled pol = DeletePolicy \<and> WhenDeleted pol = RetainPolicy then
        \<not> HasOwnerRef claim sts \<and> sts_scaled_down sts p = HasOwnerRef claim p
      else if WhenScaled pol = DeletePolicy \<and> WhenDeleted pol = DeletePolicy then
        sts_scaled_down sts p \<noteq> HasOwnerRef claim sts \<and> sts_scaled_down sts p = HasOwnerRef claim p
      else \<not> HasOwnerRef claim sts \<and> \<not> HasOwnerRef claim p)"

text \<open>\<open>APIVersion\<close> and \<open>Kind\<close> of the set and of the pod are not set in the cache.\<close>

definition updateClaimOwnerRefForSetAndPod :: "pvc \<Rightarrow> statefulset \<Rightarrow> pod \<Rightarrow> pvc \<times> bool" where
  "updateClaimOwnerRefForSetAndPod claim sts p =
     (let pol = getPersistentVolumeClaimRetentionPolicy sts;
          set_set = (\<lambda>c. sts_setOwnerRef c sts ''apps.kruise.io/v1beta1'' ''StatefulSet'');
          set_pod = (\<lambda>c. sts_setOwnerRef c p ''v1'' ''Pod'');
          rem_set = (\<lambda>c. RemoveOwnerRef c sts);
          rem_pod = (\<lambda>c. RemoveOwnerRef c p);
          both = (\<lambda>f g. let (c1, b1) = f claim; (c2, b2) = g c1 in (c2, b2 \<or> b1))
      in if WhenScaled pol = RetainPolicy \<and> WhenDeleted pol = DeletePolicy then both set_set rem_pod
         else if WhenScaled pol = DeletePolicy \<and> WhenDeleted pol = RetainPolicy then
           (if sts_scaled_down sts p then both rem_set set_pod else both rem_set rem_pod)
         else if WhenScaled pol = DeletePolicy \<and> WhenDeleted pol = DeletePolicy then
           (if sts_scaled_down sts p then both rem_set set_pod else both set_set rem_pod)
         else both rem_set rem_pod)"

section \<open>Tests on pods\<close>

text \<open>Whether the pod is available, and how long to wait otherwise; 0 when it is not even ready.\<close>

definition isRunningAndAvailable :: "int \<Rightarrow> pod \<Rightarrow> int \<Rightarrow> bool \<times> int" where
  "isRunningAndAvailable now p minReadySeconds =
     (if Phase (Status p) \<noteq> PodRunning \<or> \<not> IsPodReady p then (False, 0)
      else if minReadySeconds = 0 then (True, 0)
      else
        (let t = (case GetCondition p PodReady of None \<Rightarrow> 0 | Some c \<Rightarrow> LastTransitionTime c);
             waitTime = t + second * minReadySeconds - now
         in if t = 0 then (False, second * minReadySeconds)
            else if waitTime > 0 then (False, waitTime) else (True, 0)))"

definition isRunningAndReady :: "pod \<Rightarrow> bool" where
  "isRunningAndReady p \<longleftrightarrow> Phase (Status p) = PodRunning \<and> IsPodReady p"

definition isCreated :: "pod \<Rightarrow> bool" where
  "isCreated p \<longleftrightarrow> Phase (Status p) \<noteq> PhaseUnset"

definition isFailed :: "pod \<Rightarrow> bool" where
  "isFailed p \<longleftrightarrow> Phase (Status p) = PodFailed"

definition isTerminating :: "pod \<Rightarrow> bool" where
  "isTerminating p \<longleftrightarrow> DeletionTimestamp p \<noteq> None"

definition isHealthy :: "pod \<Rightarrow> bool" where
  "isHealthy p \<longleftrightarrow>
     (GetPodLifecycleState p = [] \<or> GetPodLifecycleState p = StateNormal) \<and> isRunningAndReady p \<and> \<not> isTerminating p"

definition allowsBurst :: "statefulset \<Rightarrow> bool" where
  "allowsBurst sts \<longleftrightarrow> PodManagementPolicy (STSpec sts) = ''Parallel''"

definition getMinReadySeconds :: "statefulset \<Rightarrow> int" where
  "getMinReadySeconds sts =
     (case RollingUpdate (STSpec sts) of
        None \<Rightarrow> 0
      | Some ru \<Rightarrow> (case RUMinReadySeconds ru of None \<Rightarrow> 0 | Some s \<Rightarrow> s))"

section \<open>The pods of a revision\<close>

definition setPodRevision :: "pod \<Rightarrow> string \<Rightarrow> pod" where
  "setPodRevision p rv = p\<lparr>Labels := (Labels p)(ControllerRevisionHashLabelKey \<mapsto> rv)\<rparr>"

definition getPodRevision :: "pod \<Rightarrow> string" where
  "getPodRevision p = lget (Labels p) ControllerRevisionHashLabelKey"

definition newStatefulSetPod :: "statefulset \<Rightarrow> int \<Rightarrow> pod" where
  "newStatefulSetPod sts ordinal =
     (let p = pod_from_template (STSTemplate (STSpec sts)) (NewControllerRef sts ''apps.kruise.io/v1beta1'' ''StatefulSet'')
      in sts_updateStorage sts (initIdentity sts (p\<lparr>Name := getPodName sts ordinal\<rparr>)))"

text \<open>The gate of \<open>IsPodUpdate\<close> is an argument; a missing pod of the replicas is \<open>None\<close>.\<close>

definition isCurrentRevisionNeeded :: "bool \<Rightarrow> statefulset \<Rightarrow> string \<Rightarrow> nat \<Rightarrow> pod option list \<Rightarrow> bool" where
  "isCurrentRevisionNeeded gate sts updateRevision ordinal replicas =
     (if STSUpdateType (STSpec sts) \<noteq> ''RollingUpdate'' then False
      else case RollingUpdate (STSpec sts) of
             None \<Rightarrow> int ordinal < STCurrentReplicas (STStatus sts)
           | Some ru \<Rightarrow>
               if RUUnordered ru = None then int ordinal < RUPartition ru
               else int (length (filter (\<lambda>(i, p). i \<noteq> ordinal \<and>
                          (case p of None \<Rightarrow> False | Some p \<Rightarrow> \<not> IsPodUpdate gate p updateRevision))
                        (enumerate 0 replicas))) < RUPartition ru)"

definition newVersionedStatefulSetPod ::
  "bool \<Rightarrow> statefulset \<Rightarrow> statefulset \<Rightarrow> string \<Rightarrow> string \<Rightarrow> nat \<Rightarrow> pod option list \<Rightarrow> pod" where
  "newVersionedStatefulSetPod gate currentSet updateSet currentRevision updateRevision ordinal replicas =
     (if isCurrentRevisionNeeded gate currentSet updateRevision ordinal replicas
      then setPodRevision (newStatefulSetPod currentSet (int ordinal)) currentRevision
      else setPodRevision (newStatefulSetPod updateSet (int ordinal)) updateRevision)"

definition default_revision_adapter :: revision_adapter where
  "default_revision_adapter =
     \<lparr>EqualToRevisionHash = (\<lambda>p hash. lget (Labels p) ControllerRevisionHashLabelKey = hash),
      WriteRevisionHash = (\<lambda>hash p. p\<lparr>Labels := (Labels p)(ControllerRevisionHashLabelKey \<mapsto> hash)\<rparr>)\<rparr>"

definition ascendingOrdinal_Less :: "pod \<Rightarrow> pod \<Rightarrow> bool" where
  "ascendingOrdinal_Less a b \<longleftrightarrow> getOrdinal a < getOrdinal b"

section \<open>Status\<close>

definition sts_inconsistentStatus :: "statefulset \<Rightarrow> sts_status \<Rightarrow> bool" where
  "sts_inconsistentStatus sts status =
     (let old = STStatus sts in
      STObservedGeneration status > STObservedGeneration old
      \<or> STReplicas status \<noteq> STReplicas old \<or> STCurrentReplicas status \<noteq> STCurrentReplicas old
      \<or> STReadyReplicas status \<noteq> STReadyReplicas old \<or> STAvailableReplicas status \<noteq> STAvailableReplicas old
      \<or> STUpdatedReplicas status \<noteq> STUpdatedReplicas old \<or> STCurrentRevision status \<noteq> STCurrentRevision old
      \<or> STUpdateRevision status \<noteq> STUpdateRevision old \<or> STLabelSelector status \<noteq> STLabelSelector old)"

definition completeRollingUpdate :: "statefulset \<Rightarrow> sts_status \<Rightarrow> sts_status" where
  "completeRollingUpdate sts status =
     (if STSUpdateType (STSpec sts) = ''RollingUpdate'' \<and> STUpdatedReplicas status = STReplicas status
         \<and> STReadyReplicas status = STReplicas status
      then status\<lparr>STCurrentReplicas := STUpdatedReplicas status, STCurrentRevision := STUpdateRevision status\<rparr>
      else status)"

definition NewStatefulsetCondition :: "int \<Rightarrow> string \<Rightarrow> string \<Rightarrow> string \<Rightarrow> string \<Rightarrow> sts_condition" where
  "NewStatefulsetCondition now ty st reason msg =
     \<lparr>STSCondType = ty, STSCondStatus = st, STSCondTime = now, STSCondReason = reason, STSCondMessage = msg\<rparr>"

definition GetStatefulsetConditition :: "sts_status \<Rightarrow> string \<Rightarrow> sts_condition option" where
  "GetStatefulsetConditition status ty = find (\<lambda>c. STSCondType c = ty) (STConditions status)"

definition SetStatefulsetCondition :: "sts_status \<Rightarrow> sts_condition \<Rightarrow> sts_status" where
  "SetStatefulsetCondition status condition =
     (let cur = GetStatefulsetConditition status (STSCondType condition);
          put = (\<lambda>c. status\<lparr>STConditions := filter (\<lambda>x. STSCondType x \<noteq> STSCondType c) (STConditions status) @ [c]\<rparr>)
      in case cur of
           None \<Rightarrow> put condition
         | Some c \<Rightarrow>
             if STSCondStatus c = STSCondStatus condition \<and> STSCondReason c = STSCondReason condition then status
             else if STSCondStatus c = STSCondStatus condition then put (condition\<lparr>STSCondTime := STSCondTime c\<rparr>)
             else put condition)"

definition getStatefulSetKey :: "'a object_meta_scheme \<Rightarrow> string" where
  "getStatefulSetKey obj = Namespace obj @ ''/'' @ Name obj"

text \<open>The new value of the counter, and whether nothing is left of it.\<close>

definition decreaseAndCheckMaxUnavailable :: "int option \<Rightarrow> int option \<times> bool" where
  "decreaseAndCheckMaxUnavailable m = (case m of None \<Rightarrow> (None, False) | Some v \<Rightarrow> (Some (v - 1), v - 1 \<le> 0))"

section \<open>The pods to update\<close>

definition sortPodsToUpdate ::
  "bool \<Rightarrow> rolling_update option \<Rightarrow> string \<Rightarrow> int \<Rightarrow> pod option list \<Rightarrow> nat list" where
  "sortPodsToUpdate gate strategy updateRevision totalReplicas replicas =
     (let updateMin = (case strategy of None \<Rightarrow> 0 | Some ru \<Rightarrow> RUPartition ru);
          present = filter (\<lambda>i. replicas ! i \<noteq> None) (rev [0..<length replicas])
      in case (case strategy of None \<Rightarrow> None | Some ru \<Rightarrow> RUUnordered ru) of
           None \<Rightarrow> filter (\<lambda>i. int i \<ge> updateMin) present
         | Some priority \<Rightarrow>
             (let maxUpdate = totalReplicas - updateMin;
                  updated = (\<lambda>i. isTerminating (the (replicas ! i)) \<or> IsPodUpdate gate (the (replicas ! i)) updateRevision);
                  waitUpdate = PrioritySort priority replicas (filter (\<lambda>i. \<not> updated i) present);
                  all_idx = filter updated present @ waitUpdate
              in if maxUpdate \<le> 0 then []
                 else if int (length all_idx) > maxUpdate then take (nat maxUpdate) all_idx else all_idx))"

end
