(* ===== verification/Stateful_Control.thy ===== *)
theory Stateful_Control
  imports Stateful_Utils Ref_Manager
begin

text \<open>
  Controlling an Advanced StatefulSet: the pod control (\<open>stateful_pod_control.go\<close>) and the update of
  a set (\<open>stateful_set_control.go\<close>): revisions, counting, creating, repairing, scaling down and updating
  its pods.

  The object manager, the listers, the patch libraries and \<open>sort.Sort\<close> are arguments; the stores of the
  update expectations and of the requeue durations are state.  Events and logs are left out.
\<close>

section \<open>What the control uses\<close>

record 'w sts_ctl =
  StsNow :: int
  StsAdapter :: "'w patch_adapter"
  StsSortMessages :: message_sorter
  StsFormatTime :: "int \<Rightarrow> string"
  StsSortPods :: "(pod \<Rightarrow> pod \<Rightarrow> bool) \<Rightarrow> pod list \<Rightarrow> pod list"
  OMCreatePod :: "pod \<Rightarrow> 'w \<Rightarrow> api_error option \<times> 'w"
  OMGetPod :: "string \<Rightarrow> string \<Rightarrow> 'w \<Rightarrow> api_error + pod"
  OMUpdatePod :: "pod \<Rightarrow> 'w \<Rightarrow> api_error option \<times> 'w"
  OMDeletePod :: "pod \<Rightarrow> 'w \<Rightarrow> api_error option \<times> 'w"
  OMCreateClaim :: "pvc \<Rightarrow> 'w \<Rightarrow> api_error option \<times> 'w"
  OMGetClaim :: "string \<Rightarrow> string \<Rightarrow> 'w \<Rightarrow> api_error + pvc"
  OMUpdateClaim :: "pvc \<Rightarrow> 'w \<Rightarrow> api_error option \<times> 'w"
  StsRevisionClient :: "'w revision_client"
  StsHash :: "controller_revision \<Rightarrow> int \<Rightarrow> string"
  StsEncode :: "pod_template \<Rightarrow> string"
  StsDecode :: "string \<Rightarrow> pod_template option"
  StsSelectorText :: "selector \<Rightarrow> string"
  StsMatches :: "selector \<Rightarrow> labels \<Rightarrow> bool"
  StsCreateJobs :: "statefulset \<Rightarrow> controller_revision \<Rightarrow> controller_revision \<Rightarrow> 'w \<Rightarrow> 'w"
  StsDeleteJobs :: "statefulset \<Rightarrow> 'w \<Rightarrow> 'w"
  StsUpdateStatus :: "statefulset \<Rightarrow> 'w \<Rightarrow> api_error option \<times> 'w"
  StsGetSet :: "string \<Rightarrow> string \<Rightarrow> 'w \<Rightarrow> api_error + statefulset"
  StsMergePatch :: "pod \<Rightarrow> string \<Rightarrow> pod option"
  StsHashContainer :: "container \<Rightarrow> nat"
  StsHashEnvs :: "(string \<times> anno) list \<Rightarrow> nat"
  StsRevisionPatch :: "controller_revision \<Rightarrow> controller_revision \<Rightarrow> json_op list option"
  StsRevisionTemplate :: "controller_revision \<Rightarrow> pod_template option"
  StsTwoWayPatch :: "pod_template \<Rightarrow> pod_template \<Rightarrow> string option"
  AutoDeletePVCGate :: bool
  PreparingUpdateGate :: bool
  StsEnvGate :: bool
  StsPreDownloadDisabled :: bool

record 'w sts_state =
  StsUpdateExp :: update_exps
  StsDurations :: duration_store
  StsWorld :: 'w

definition sts_push :: "string \<Rightarrow> int \<Rightarrow> 'w sts_state \<Rightarrow> 'w sts_state" where
  "sts_push key d st = st\<lparr>StsDurations := DurationPush key d (StsDurations st)\<rparr>"

section \<open>The pod control\<close>

fun create_sts_claims :: "'w sts_ctl \<Rightarrow> pvc list \<Rightarrow> 'w \<Rightarrow> api_error list \<times> 'w" where
  "create_sts_claims ctl [] w = ([], w)"
| "create_sts_claims ctl (c # cs) w =
     (let (err, w1) =
            (case OMGetClaim ctl (Namespace c) (Name c) w of
               Inl e \<Rightarrow>
                 if e = NotFound then
                   (case OMCreateClaim ctl c w of
                      (None, w1) \<Rightarrow> ([], w1)
                    | (Some e, w1) \<Rightarrow> ([wrap_error ''failed to create PVC'' e], w1))
                 else ([wrap_error ''failed to retrieve PVC'' e], w)
             | Inr pvc \<Rightarrow> if DeletionTimestamp pvc \<noteq> None then ([OtherError ''pvc is to be deleted''], w) else ([], w));
          (errs, w2) = create_sts_claims ctl cs w1
      in (err @ errs, w2))"

definition createPersistentVolumeClaims ::
  "'w sts_ctl \<Rightarrow> statefulset \<Rightarrow> pod \<Rightarrow> 'w \<Rightarrow> api_error option \<times> 'w" where
  "createPersistentVolumeClaims ctl sts p w =
     (case create_sts_claims ctl (map snd (getPersistentVolumeClaims sts p)) w of
        (errs, w1) \<Rightarrow> (if errs = [] then None else Some (OtherError ''aggregate''), w1))"

fun claims_match :: "'w sts_ctl \<Rightarrow> statefulset \<Rightarrow> pod \<Rightarrow> pvc list \<Rightarrow> 'w \<Rightarrow> api_error + bool" where
  "claims_match ctl sts p [] w = Inr True"
| "claims_match ctl sts p (t # ts) w =
     (case OMGetClaim ctl (Namespace sts) (sts_claim_name sts t (getOrdinal p)) w of
        Inl e \<Rightarrow> if e = NotFound then claims_match ctl sts p ts w else Inl (OtherError ''Could not retrieve claim'')
      | Inr claim \<Rightarrow> if \<not> claimOwnerMatchesSetAndPod claim sts p then Inr False else claims_match ctl sts p ts w)"

definition ClaimsMatchRetentionPolicy :: "'w sts_ctl \<Rightarrow> statefulset \<Rightarrow> pod \<Rightarrow> 'w \<Rightarrow> api_error + bool" where
  "ClaimsMatchRetentionPolicy ctl sts p w = claims_match ctl sts p (STSClaimTemplates (STSpec sts)) w"

text \<open>The errors are wrapped with \<open>%w\<close>, which keeps what kind of error they are.\<close>

fun update_sts_claims :: "'w sts_ctl \<Rightarrow> statefulset \<Rightarrow> pod \<Rightarrow> pvc list \<Rightarrow> 'w \<Rightarrow> api_error option \<times> 'w" where
  "update_sts_claims ctl sts p [] w = (None, w)"
| "update_sts_claims ctl sts p (t # ts) w =
     (case OMGetClaim ctl (Namespace sts) (sts_claim_name sts t (getOrdinal p)) w of
        Inl e \<Rightarrow> if e = NotFound then update_sts_claims ctl sts p ts w else (Some e, w)
      | Inr claim \<Rightarrow>
          if claimOwnerMatchesSetAndPod claim sts p then update_sts_claims ctl sts p ts w
          else case updateClaimOwnerRefForSetAndPod claim sts p of
                 (clone, needsUpdate) \<Rightarrow>
                   if \<not> needsUpdate then update_sts_claims ctl sts p ts w
                   else case OMUpdateClaim ctl clone w of
                          (Some e, w1) \<Rightarrow> (Some e, w1)
                        | (None, w1) \<Rightarrow> update_sts_claims ctl sts p ts w1)"

definition UpdatePodClaimForRetentionPolicy :: "'w sts_ctl \<Rightarrow> statefulset \<Rightarrow> pod \<Rightarrow> 'w \<Rightarrow> api_error option \<times> 'w" where
  "UpdatePodClaimForRetentionPolicy ctl sts p w = update_sts_claims ctl sts p (STSClaimTemplates (STSpec sts)) w"

fun stale_claims :: "'w sts_ctl \<Rightarrow> pod \<Rightarrow> pvc list \<Rightarrow> 'w \<Rightarrow> api_error + bool" where
  "stale_claims ctl p [] w = Inr False"
| "stale_claims ctl p (c # cs) w =
     (case OMGetClaim ctl (Namespace c) (Name c) w of
        Inl e \<Rightarrow> if e = NotFound then stale_claims ctl p cs w else Inl e
      | Inr pvc \<Rightarrow> if hasStaleOwnerRef pvc p then Inr True else stale_claims ctl p cs w)"

definition PodClaimIsStale :: "'w sts_ctl \<Rightarrow> statefulset \<Rightarrow> pod \<Rightarrow> 'w \<Rightarrow> api_error + bool" where
  "PodClaimIsStale ctl sts p w =
     (if WhenScaled (getPersistentVolumeClaimRetentionPolicy sts) = RetainPolicy then Inr False
      else stale_claims ctl p (map snd (getPersistentVolumeClaims sts p)) w)"

definition CreateStatefulPod :: "'w sts_ctl \<Rightarrow> statefulset \<Rightarrow> pod \<Rightarrow> 'w \<Rightarrow> api_error option \<times> 'w" where
  "CreateStatefulPod ctl sts p w =
     (case createPersistentVolumeClaims ctl sts p w of
        (Some e, w1) \<Rightarrow> (Some e, w1)
      | (None, w1) \<Rightarrow>
          (case OMCreatePod ctl p w1 of
             (err, w2) \<Rightarrow>
               if err = Some AlreadyExists then (err, w2)
               else if AutoDeletePVCGate ctl then
                 (case UpdatePodClaimForRetentionPolicy ctl sts p w2 of
                    (Some e, w3) \<Rightarrow> (Some e, w3)
                  | (None, w3) \<Rightarrow> (err, w3))
               else (err, w2)))"

text \<open>One attempt of \<open>UpdateStatefulPod\<close>; the captured pod is the first component of the state.\<close>

definition update_pod_once ::
  "'w sts_ctl \<Rightarrow> statefulset \<Rightarrow> pod \<times> 'w \<Rightarrow> api_error option \<times> pod \<times> 'w" where
  "update_pod_once ctl sts = (\<lambda>(p, w).
     let (p1, dirty1) = (if identityMatches sts p then (p, False) else (updateIdentity sts p, True));
         (p2, dirty2, err2, w2) =
           (if storageMatches sts p1 then (p1, dirty1, None, w)
            else let q = sts_updateStorage sts p1; (e, w') = createPersistentVolumeClaims ctl sts q w
                 in (q, True, e, w'))
     in case err2 of
          Some e \<Rightarrow> (Some e, p2, w2)
        | None \<Rightarrow>
            (let (err3, dirty3, w3) =
                   (if \<not> AutoDeletePVCGate ctl then (None, dirty2, w2)
                    else case ClaimsMatchRetentionPolicy ctl sts p2 w2 of
                           Inl e \<Rightarrow> (Some e, dirty2, w2)
                         | Inr True \<Rightarrow> (None, dirty2, w2)
                         | Inr False \<Rightarrow>
                             (case UpdatePodClaimForRetentionPolicy ctl sts p2 w2 of (e, w') \<Rightarrow> (e, True, w')))
             in case err3 of
                  Some e \<Rightarrow> (Some e, p2, w3)
                | None \<Rightarrow>
                    if \<not> dirty3 then (None, p2, w3)
                    else case OMUpdatePod ctl p2 w3 of
                           (None, w4) \<Rightarrow> (None, p2, w4)
                         | (Some e, w4) \<Rightarrow>
                             (Some e, (case OMGetPod ctl (Namespace sts) (Name p2) w4 of Inr q \<Rightarrow> q | Inl _ \<Rightarrow> p2), w4)))"

definition UpdateStatefulPod :: "'w sts_ctl \<Rightarrow> statefulset \<Rightarrow> pod \<Rightarrow> 'w \<Rightarrow> api_error option \<times> 'w" where
  "UpdateStatefulPod ctl sts p w =
     (case RetryOnConflict DefaultBackoff (update_pod_once ctl sts) (p, w) of (e, _, w1) \<Rightarrow> (e, w1))"

definition DeleteStatefulPod :: "'w sts_ctl \<Rightarrow> statefulset \<Rightarrow> pod \<Rightarrow> 'w \<Rightarrow> api_error option \<times> 'w" where
  "DeleteStatefulPod ctl sts p w = OMDeletePod ctl p w"

section \<open>Deleting, refreshing and updating a pod\<close>

definition sts_hook :: "(lifecycle \<Rightarrow> lifecycle_hook option) \<Rightarrow> statefulset \<Rightarrow> lifecycle_hook option" where
  "sts_hook sel sts = (case STSLifecycle (STSpec sts) of None \<Rightarrow> None | Some l \<Rightarrow> sel l)"

definition sts_lifecycle ::
  "'w sts_ctl \<Rightarrow> pod \<Rightarrow> string \<Rightarrow> bool \<Rightarrow> 'w \<Rightarrow> (bool \<times> (api_error + pod)) \<times> 'w" where
  "sts_lifecycle ctl p state mark w =
     UpdatePodLifecycle (StsSortMessages ctl) (StsFormatTime ctl) (StsAdapter ctl) (StsNow ctl) p state mark w"

definition sts_deletePod ::
  "'w sts_ctl \<Rightarrow> statefulset \<Rightarrow> pod \<Rightarrow> 'w \<Rightarrow> (bool \<times> api_error option) \<times> 'w" where
  "sts_deletePod ctl sts p w =
     (if IsPodHooked (sts_hook PreDelete sts) p then
        (case sts_lifecycle ctl p StatePreparingDelete (IsHookMarkPodNotReady (sts_hook PreDelete sts)) w of
           ((_, Inl e), w1) \<Rightarrow> ((False, Some e), w1)
         | ((updated, Inr _), w1) \<Rightarrow> ((updated, None), w1))
      else case DeleteStatefulPod ctl sts p w of
             (Some e, w1) \<Rightarrow> ((False, Some e), w1)
           | (None, w1) \<Rightarrow> ((True, None), w1))"

definition sts_update_opts :: "'w sts_ctl \<Rightarrow> int \<Rightarrow> update_options" where
  "sts_update_opts ctl grace =
     \<lparr>GracePeriodSeconds = grace, AdditionalFuncs = [],
      PatchSpecToPod = defaultPatchUpdateSpecToPod (StsMergePatch ctl) (StsNow ctl),
      CheckContainersUpdateCompleted = defaultCheckContainersInPlaceUpdateCompleted (StsHashContainer ctl) (StsHashEnvs ctl)\<rparr>"

definition sts_Refresh :: "'w sts_ctl \<Rightarrow> int \<Rightarrow> pod \<Rightarrow> 'w \<Rightarrow> refresh_result \<times> 'w" where
  "sts_Refresh ctl grace p w =
     Refresh default_revision_adapter (StsAdapter ctl) (StsNow ctl) p (sts_update_opts ctl grace) w"

definition update_completed :: "'w sts_ctl \<Rightarrow> pod \<Rightarrow> bool" where
  "update_completed ctl p \<longleftrightarrow> DefaultCheckInPlaceUpdateCompleted (StsHashContainer ctl) (StsHashEnvs ctl) p = None"

definition grace_of :: "rolling_update \<Rightarrow> int" where
  "grace_of ru = (case RUGraceSeconds ru of None \<Rightarrow> 0 | Some s \<Rightarrow> s)"

definition sts_after_update :: "statefulset \<Rightarrow> pod \<Rightarrow> string" where
  "sts_after_update sts p =
     (if STSLifecycle (STSpec sts) \<noteq> None \<and> \<not> IsPodAllHooked (sts_hook InPlaceUpdate sts) p
      then StateUpdated else StateNormal)"

text \<open>The state a pod moves to; empty when it stays.\<close>

definition sts_refresh_target :: "'w sts_ctl \<Rightarrow> statefulset \<Rightarrow> pod \<Rightarrow> string \<Rightarrow> string" where
  "sts_refresh_target ctl sts p updateRevision =
     (let state = GetPodLifecycleState p in
      if state = StatePreparingUpdate then
        (if getPodRevision p = updateRevision then sts_after_update sts p else [])
      else if state = StateUpdating then (if update_completed ctl p then sts_after_update sts p else [])
      else if state = StateUpdated then
        (if sts_hook InPlaceUpdate sts = None \<or> IsPodAllHooked (sts_hook InPlaceUpdate sts) p then StateNormal else [])
      else [])"

definition sts_refreshPodState ::
  "'w sts_ctl \<Rightarrow> statefulset \<Rightarrow> pod \<Rightarrow> string \<Rightarrow> 'w \<Rightarrow> (bool \<times> int \<times> api_error option) \<times> 'w" where
  "sts_refreshPodState ctl sts p updateRevision w =
     (case RollingUpdate (STSpec sts) of
        None \<Rightarrow> ((False, 0, None), w)
      | Some ru \<Rightarrow>
          (case sts_Refresh ctl (grace_of ru) p w of
             (res, w1) \<Rightarrow>
               (case RefreshErr res of
                  Some e \<Rightarrow> ((False, 0, Some e), w1)
                | None \<Rightarrow>
                    (let state = sts_refresh_target ctl sts p updateRevision in
                     if state = [] then ((False, DelayDuration res, None), w1)
                     else case sts_lifecycle ctl p state (IsHookMarkPodNotReady (sts_hook InPlaceUpdate sts)) w1 of
                            ((_, Inl e), w2) \<Rightarrow> ((False, 0, Some e), w2)
                          | ((updated, Inr _), w2) \<Rightarrow> ((updated, DelayDuration res, None), w2)))))"

text \<open>
  Whether a lifecycle hook still holds the pod back; \<open>None\<close> lets the update go on.
\<close>

definition sts_before_inplace ::
  "'w sts_ctl \<Rightarrow> statefulset \<Rightarrow> pod \<Rightarrow> 'w \<Rightarrow> (api_error option \<times> 'w) option" where
  "sts_before_inplace ctl sts p w =
     (let state = GetPodLifecycleState p; hook = sts_hook InPlaceUpdate sts;
          outcome = (\<lambda>r. case r of ((_, Inl e), w1) \<Rightarrow> (Some e, w1) | ((_, Inr _), w1) \<Rightarrow> (None, w1))
      in if state = [] \<or> state = StateNormal then
           (if IsPodHooked hook p
            then Some (outcome (sts_lifecycle ctl p StatePreparingUpdate (IsHookMarkPodNotReady hook) w)) else None)
         else if state = StateUpdated then
           Some (outcome (UpdatePodLifecycleWithHandler (StsSortMessages ctl) (StsFormatTime ctl) (StsAdapter ctl)
                  (StsNow ctl) p StatePreparingUpdate hook w))
         else if state = StatePreparingUpdate then (if IsPodHooked hook p then Some (None, w) else None)
         else if state = StateUpdating then None
         else Some (Some (OtherError ''not allowed to in-place update pod''), w))"

text \<open>An error of the calculation stands for a panic in it.\<close>

definition sts_inPlaceUpdatePod ::
  "'w sts_ctl \<Rightarrow> statefulset \<Rightarrow> pod \<Rightarrow> controller_revision \<Rightarrow> controller_revision list \<Rightarrow> 'w sts_state
   \<Rightarrow> (bool \<times> api_error option) \<times> 'w sts_state" where
  "sts_inPlaceUpdatePod ctl sts p updateRevision revisions st =
     (case RollingUpdate (STSpec sts) of
        None \<Rightarrow> ((False, None), st)
      | Some ru \<Rightarrow>
          if RUPodUpdatePolicy ru \<noteq> ''InPlaceIfPossible'' \<and> RUPodUpdatePolicy ru \<noteq> ''InPlaceOnly''
          then ((False, None), st)
          else
            (let oldRevision = find (\<lambda>r. Name r = getPodRevision p) revisions;
                 opts = sts_update_opts ctl (grace_of ru);
                 key = getStatefulSetKey sts
             in case defaultCalculateInPlaceUpdateSpec (StsRevisionPatch ctl) (StsRevisionTemplate ctl) (StsTwoWayPatch ctl)
                       (StsEnvGate ctl) (GracePeriodSeconds opts) None oldRevision (Some updateRevision) of
                  Inl e \<Rightarrow> ((False, Some e), st)
                | Inr None \<Rightarrow>
                    ((False, if RUPodUpdatePolicy ru = ''InPlaceOnly''
                             then Some (OtherError ''find strategy is InPlaceOnly but Pod can not update in-place'') else None), st)
                | Inr (Some spec) \<Rightarrow>
                    (case sts_before_inplace ctl sts p (StsWorld st) of
                       Some (e, w1) \<Rightarrow> ((True, e), st\<lparr>StsWorld := w1\<rparr>)
                     | None \<Rightarrow>
                         (case InPlaceUpdatePod default_revision_adapter (StsAdapter ctl) (StsNow ctl) p (Some spec)
                                 (if GetPodLifecycleState p = [] then opts
                                  else opts\<lparr>AdditionalFuncs := [SetPodLifecycle (StsFormatTime ctl) (StsNow ctl) StateUpdating]\<rparr>)
                                 (StsWorld st) of
                            (res, w1) \<Rightarrow>
                              (let st1 = st\<lparr>StsWorld := w1\<rparr>;
                                   st2 = (if UpdateDelay res > 0 then sts_push key (UpdateDelay res) st1 else st1)
                               in case UpdateErr res of
                                    Some e \<Rightarrow> ((True, Some e), st2)
                                  | None \<Rightarrow>
                                      ((True, None), st2\<lparr>StsUpdateExp := ExpectUpdated key (Name updateRevision) p (StsUpdateExp st2)\<rparr>))))))"

section \<open>Counting and placing the pods\<close>

definition sts_bump :: "string \<Rightarrow> string \<Rightarrow> int \<Rightarrow> pod \<Rightarrow> sts_status \<Rightarrow> sts_status" where
  "sts_bump cur upd k p s =
     (let s1 = (if getPodRevision p = cur then s\<lparr>STCurrentReplicas := STCurrentReplicas s + k\<rparr> else s)
      in if getPodRevision p = upd then s1\<lparr>STUpdatedReplicas := STUpdatedReplicas s1 + k\<rparr> else s1)"

definition sts_count_pod :: "int \<Rightarrow> int \<Rightarrow> string \<Rightarrow> string \<Rightarrow> sts_status \<Rightarrow> pod \<Rightarrow> sts_status" where
  "sts_count_pod now minReadySeconds cur upd s p =
     (let avail = fst (isRunningAndAvailable now p minReadySeconds);
          s1 = s\<lparr>STReplicas := STReplicas s + 1\<rparr>;
          s2 = (if \<not> isRunningAndReady p then s1
                else s1\<lparr>STReadyReplicas := STReadyReplicas s1 + 1,
                        STUpdatedReadyReplicas := STUpdatedReadyReplicas s1 + (if getPodRevision p = upd then 1 else 0),
                        STUpdatedAvailableReplicas := STUpdatedAvailableReplicas s1 + (if getPodRevision p = upd \<and> avail then 1 else 0),
                        STAvailableReplicas := STAvailableReplicas s1 + (if avail then 1 else 0)\<rparr>)
      in if isCreated p \<and> \<not> isTerminating p then sts_bump cur upd 1 p s2 else s2)"

definition place_pod :: "nat \<Rightarrow> int list \<Rightarrow> pod option list \<times> pod list \<Rightarrow> pod \<Rightarrow> pod option list \<times> pod list" where
  "place_pod replicaCount reserved = (\<lambda>(replicas, condemned) p.
     let ord = getOrdinal p in
     if 0 \<le> ord \<and> ord < int replicaCount \<and> ord \<notin> set reserved then (replicas[nat ord := Some p], condemned)
     else if ord \<ge> int replicaCount \<or> ord \<in> set reserved then (replicas, condemned @ [p])
     else (replicas, condemned))"

text \<open>The pods of the ordinals from \<open>ord\<close> on that are missing and not reserved.\<close>

fun fill_replicas ::
  "bool \<Rightarrow> statefulset \<Rightarrow> statefulset \<Rightarrow> string \<Rightarrow> string \<Rightarrow> int list \<Rightarrow> nat list \<Rightarrow> pod option list \<Rightarrow> pod option list" where
  "fill_replicas gate cs us cur upd reserved [] replicas = replicas"
| "fill_replicas gate cs us cur upd reserved (ord # ords) replicas =
     fill_replicas gate cs us cur upd reserved ords
       (if int ord \<in> set reserved \<or> replicas ! ord \<noteq> None then replicas
        else replicas[ord := Some (newVersionedStatefulSetPod gate cs us cur upd ord replicas)])"

text \<open>
  The unhealthy pod with the least ordinal.  Pods are compared by their contents where the code compares
  pointers; two pods of the cluster differ in their names.
\<close>

definition find_unhealthy :: "pod list \<Rightarrow> pod option" where
  "find_unhealthy pods =
     snd (foldl (\<lambda>(least, first) p.
            if \<not> isHealthy p \<and> getOrdinal p < least then (getOrdinal p, Some p) else (least, first)) (2147483647, None) pods)"

section \<open>Examining the replicas\<close>

datatype flow = Return "api_error option" | Break | Continue

record 'w sts_loop =
  LStatus :: sts_status
  LReplicas :: "pod option list"
  LMax :: "int option"
  LState :: "'w sts_state"

text \<open>The arguments of the loops that do not change.\<close>

record 'w sts_pass =
  PCtl :: "'w sts_ctl"
  PSet :: statefulset
  PCurrentSet :: statefulset
  PUpdateSet :: statefulset
  PCur :: string
  PUpd :: string

definition p_monotonic :: "'w sts_pass \<Rightarrow> bool" where
  "p_monotonic a \<longleftrightarrow> \<not> allowsBurst (PSet a)"

definition p_available :: "'w sts_pass \<Rightarrow> pod \<Rightarrow> bool \<times> int" where
  "p_available a p = isRunningAndAvailable (StsNow (PCtl a)) p (getMinReadySeconds (PSet a))"

definition set_world :: "'w \<Rightarrow> 'w sts_loop \<Rightarrow> 'w sts_loop" where
  "set_world w l = l\<lparr>LState := (LState l)\<lparr>StsWorld := w\<rparr>\<rparr>"

definition push_if :: "string \<Rightarrow> int \<Rightarrow> 'w sts_loop \<Rightarrow> 'w sts_loop" where
  "push_if key d l = (if d > 0 then l\<lparr>LState := sts_push key d (LState l)\<rparr> else l)"

text \<open>A failed pod is deleted and a new one takes its place among the replicas.\<close>

definition recreate_failed :: "'w sts_pass \<Rightarrow> nat \<Rightarrow> pod \<Rightarrow> 'w sts_loop \<Rightarrow> api_error option \<times> 'w sts_loop" where
  "recreate_failed a i p l =
     (if \<not> isFailed p then (None, l)
      else case sts_deletePod (PCtl a) (PSet a) p (StsWorld (LState l)) of
             ((_, Some e), w) \<Rightarrow> (Some e, set_world w l)
           | ((_, None), w) \<Rightarrow>
               (let s = sts_bump (PCur a) (PUpd a) (- 1) p (LStatus l)
                in (None, (set_world w l)\<lparr>LStatus := s\<lparr>STReplicas := STReplicas s - 1\<rparr>,
                      LReplicas := (LReplicas l)[i := Some (newVersionedStatefulSetPod (PreparingUpdateGate (PCtl a))
                        (PCurrentSet a) (PUpdateSet a) (PCur a) (PUpd a) i (LReplicas l))]\<rparr>)))"

definition create_replica :: "'w sts_pass \<Rightarrow> nat \<Rightarrow> pod \<Rightarrow> 'w sts_loop \<Rightarrow> flow \<times> 'w sts_loop" where
  "create_replica a i p l =
     (let ctl = PCtl a; w = StsWorld (LState l) in
      case (if AutoDeletePVCGate ctl then PodClaimIsStale ctl (PSet a) p w else Inr False) of
        Inl e \<Rightarrow> (Return (Some e), l)
      | Inr True \<Rightarrow> (Return None, l)
      | Inr False \<Rightarrow>
          (let q = SetPodLifecycle (StsFormatTime ctl) (StsNow ctl) StateNormal p;
               l1 = l\<lparr>LReplicas := (LReplicas l)[i := Some q]\<rparr>
           in case CreateStatefulPod ctl (PSet a) q w of
                (Some e, w1) \<Rightarrow>
                  (Return (Some e), (set_world w1 l1)\<lparr>LStatus := SetStatefulsetCondition (LStatus l)
                     (NewStatefulsetCondition (StsNow ctl) ''FailedCreatePod'' ''True'' [] ''StatefulPodControl failed to create Pod'')\<rparr>)
              | (None, w1) \<Rightarrow>
                  (let s = (LStatus l)\<lparr>STReplicas := STReplicas (LStatus l) + 1\<rparr>;
                       l2 = (set_world w1 l1)\<lparr>LStatus := sts_bump (PCur a) (PUpd a) 1 q s\<rparr>
                   in if p_monotonic a then (Return None, l2)
                      else case decreaseAndCheckMaxUnavailable (LMax l) of
                             (m, stop) \<Rightarrow> (if stop then Break else Continue, l2\<lparr>LMax := m\<rparr>))))"

text \<open>Identity, storage and the owners of the claims of a replica that is left alone otherwise.\<close>

definition enforce_replica :: "'w sts_pass \<Rightarrow> pod \<Rightarrow> 'w sts_loop \<Rightarrow> flow \<times> 'w sts_loop" where
  "enforce_replica a p l =
     (let ctl = PCtl a; w = StsWorld (LState l);
          retentionMatch = (if AutoDeletePVCGate ctl
             then (case ClaimsMatchRetentionPolicy ctl (PUpdateSet a) p w of Inl _ \<Rightarrow> True | Inr b \<Rightarrow> b) else True)
      in if identityMatches (PSet a) p \<and> storageMatches (PSet a) p \<and> retentionMatch then (Continue, l)
         else case UpdateStatefulPod ctl (PUpdateSet a) p w of
                (None, w1) \<Rightarrow> (Continue, set_world w1 l)
              | (Some e, w1) \<Rightarrow>
                  (Return (Some e), (set_world w1 l)\<lparr>LStatus := SetStatefulsetCondition (LStatus l)
                     (NewStatefulsetCondition (StsNow ctl) ''FailedUpdatePod'' ''True'' [] ''StatefulPodControl failed to update Pod'')\<rparr>))"

definition check_replica :: "'w sts_pass \<Rightarrow> pod \<Rightarrow> 'w sts_loop \<Rightarrow> flow \<times> 'w sts_loop" where
  "check_replica a p l =
     (if isTerminating p \<and> p_monotonic a then (Return None, l)
      else
        (let (m1, stop1) = (if isTerminating p then decreaseAndCheckMaxUnavailable (LMax l) else (LMax l, False));
             l1 = l\<lparr>LMax := m1\<rparr>; key = getStatefulSetKey (PSet a)
         in if stop1 then (Break, l1)
            else case sts_Refresh (PCtl a) 0 p (StsWorld (LState l1)) of
                   (res, w1) \<Rightarrow>
                     (case RefreshErr res of
                        Some e \<Rightarrow> (Return (Some e), set_world w1 l1)
                      | None \<Rightarrow>
                          (let l2 = push_if key (DelayDuration res) (set_world w1 l1);
                               (avail, waitTime) = (if p_monotonic a \<or> m1 \<noteq> None then p_available a p else (True, 0))
                           in if \<not> avail \<and> p_monotonic a then (Return None, push_if key waitTime l2)
                              else
                                (let (m2, stop2) = (if \<not> avail then decreaseAndCheckMaxUnavailable m1 else (m1, False));
                                     l3 = l2\<lparr>LMax := m2\<rparr>
                                 in if stop2 then (Break, push_if key waitTime l3) else enforce_replica a p l3)))))"

text \<open>\<open>Some e\<close> is a return from the function with the error \<open>e\<close>.\<close>

fun examine_replicas :: "'w sts_pass \<Rightarrow> nat list \<Rightarrow> 'w sts_loop \<Rightarrow> api_error option option \<times> 'w sts_loop" where
  "examine_replicas a [] l = (None, l)"
| "examine_replicas a (i # is) l =
     (case LReplicas l ! i of
        None \<Rightarrow> examine_replicas a is l
      | Some p \<Rightarrow>
          (case recreate_failed a i p l of
             (Some e, l1) \<Rightarrow> (Some (Some e), l1)
           | (None, l1) \<Rightarrow>
               (let q = the (LReplicas l1 ! i) in
                case (if \<not> isCreated q then create_replica a i q l1 else check_replica a q l1) of
                  (Return e, l2) \<Rightarrow> (Some e, l2)
                | (Break, l2) \<Rightarrow> (None, l2)
                | (Continue, l2) \<Rightarrow> examine_replicas a is l2)))"

section \<open>Scaling down\<close>

fun fix_condemned_claims :: "'w sts_pass \<Rightarrow> pod list \<Rightarrow> 'w \<Rightarrow> api_error option \<times> 'w" where
  "fix_condemned_claims a [] w = (None, w)"
| "fix_condemned_claims a (p # ps) w =
     (case ClaimsMatchRetentionPolicy (PCtl a) (PUpdateSet a) p w of
        Inl e \<Rightarrow> (Some e, w)
      | Inr True \<Rightarrow> fix_condemned_claims a ps w
      | Inr False \<Rightarrow>
          (case UpdatePodClaimForRetentionPolicy (PCtl a) (PUpdateSet a) p w of
             (Some e, w1) \<Rightarrow> (Some e, w1)
           | (None, w1) \<Rightarrow> fix_condemned_claims a ps w1))"

text \<open>The condemned pods from the greatest ordinal on.  The requeue is stored under the key of the pod.\<close>

fun scale_down :: "'w sts_pass \<Rightarrow> pod option \<Rightarrow> pod list \<Rightarrow> 'w sts_loop \<Rightarrow> api_error option option \<times> 'w sts_loop" where
  "scale_down a firstUnhealthy [] l = (None, l)"
| "scale_down a firstUnhealthy (p # ps) l =
     (if isTerminating p then (if p_monotonic a then (Some None, l) else scale_down a firstUnhealthy ps l)
      else
        (let (avail, waitTime) = p_available a p in
         if \<not> avail \<and> p_monotonic a \<and> firstUnhealthy \<noteq> Some p
         then (Some None, push_if (getStatefulSetKey p) waitTime l)
         else case sts_deletePod (PCtl a) (PSet a) p (StsWorld (LState l)) of
                ((modified, err), w) \<Rightarrow>
                  (if err \<noteq> None \<or> modified then (Some err, set_world w l)
                   else
                     (let l1 = (set_world w l)\<lparr>LStatus := sts_bump (PCur a) (PUpd a) (- 1) p (LStatus l)\<rparr>
                      in if p_monotonic a then (Some None, l1) else scale_down a firstUnhealthy ps l1))))"

section \<open>The rolling update\<close>

fun refresh_pods :: "'w sts_pass \<Rightarrow> bool \<Rightarrow> pod list \<Rightarrow> 'w sts_state \<Rightarrow> (bool \<times> api_error option) \<times> 'w sts_state" where
  "refresh_pods a modified [] st = ((modified, None), st)"
| "refresh_pods a modified (p # ps) st =
     (case sts_refreshPodState (PCtl a) (PSet a) p (PUpd a) (StsWorld st) of
        ((_, _, Some e), w) \<Rightarrow> ((modified, Some e), st\<lparr>StsWorld := w\<rparr>)
      | ((refreshed, d, None), w) \<Rightarrow>
          (let st1 = st\<lparr>StsWorld := w\<rparr>;
               st2 = (if d > 0 then sts_push (getStatefulSetKey (PSet a)) d st1 else st1)
           in refresh_pods a (modified \<or> refreshed) ps st2))"

definition sts_unavailable :: "'w sts_pass \<Rightarrow> pod \<Rightarrow> bool" where
  "sts_unavailable a p \<longleftrightarrow> \<not> isHealthy p \<or> \<not> update_completed (PCtl a) p \<or> \<not> fst (p_available a p)"

text \<open>The names of the unavailable replicas; the store gets the waits that do not exceed the least so far.\<close>

fun collect_unavailable ::
  "'w sts_pass \<Rightarrow> pod option list \<Rightarrow> string set \<Rightarrow> int \<Rightarrow> 'w sts_state \<Rightarrow> string set \<times> 'w sts_state" where
  "collect_unavailable a [] names minWait st = (names, st)"
| "collect_unavailable a (None # ps) names minWait st = collect_unavailable a ps names minWait st"
| "collect_unavailable a (Some p # ps) names minWait st =
     (if \<not> sts_unavailable a p then collect_unavailable a ps names minWait st
      else if \<not> isHealthy p \<or> \<not> update_completed (PCtl a) p
      then collect_unavailable a ps (insert (Name p) names) minWait st
      else
        (let waitTime = snd (p_available a p) in
         if waitTime \<noteq> 0 \<and> waitTime \<le> minWait
         then collect_unavailable a ps (insert (Name p) names) waitTime (sts_push (getStatefulSetKey (PSet a)) waitTime st)
         else collect_unavailable a ps (insert (Name p) names) minWait st))"

fun update_targets ::
  "'w sts_pass \<Rightarrow> controller_revision \<Rightarrow> controller_revision list \<Rightarrow> int \<Rightarrow> pod option list \<Rightarrow> nat list \<Rightarrow> string set
   \<Rightarrow> sts_status \<Rightarrow> 'w sts_state \<Rightarrow> (sts_status \<times> api_error option) \<times> 'w sts_state" where
  "update_targets a updateRevision revisions maxUnavailable replicas [] names s st = ((s, None), st)"
| "update_targets a updateRevision revisions maxUnavailable replicas (i # is) names s st =
     (let p = the (replicas ! i) in
      if getPodRevision p = PUpd a
      then update_targets a updateRevision revisions maxUnavailable replicas is names s st
      else if int (card names) \<ge> maxUnavailable \<and> Name p \<notin> names then ((s, None), st)
      else if isTerminating p then update_targets a updateRevision revisions maxUnavailable replicas is names s st
      else
        (case sts_inPlaceUpdatePod (PCtl a) (PSet a) p updateRevision revisions st of
           ((_, Some e), st1) \<Rightarrow> ((s, Some e), st1)
         | ((inplacing, None), st1) \<Rightarrow>
             (let (err, st2) =
                    (if inplacing then (None, st1)
                     else case sts_deletePod (PCtl a) (PSet a) p (StsWorld st1) of
                            ((_, e), w) \<Rightarrow> (e, st1\<lparr>StsWorld := w\<rparr>))
              in if err \<noteq> None then ((s, err), st2)
                 else update_targets a updateRevision revisions maxUnavailable replicas is (insert (Name p) names)
                        (if getPodRevision p = PCur a then s\<lparr>STCurrentReplicas := STCurrentReplicas s - 1\<rparr> else s) st2)))"

text \<open>\<open>None\<close> is an invalid \<open>maxUnavailable\<close>.\<close>

definition sts_maxUnavailable :: "statefulset \<Rightarrow> int option" where
  "sts_maxUnavailable sts =
     (case RollingUpdate (STSpec sts) of
        None \<Rightarrow> Some 1
      | Some ru \<Rightarrow>
          (case GetValueFromIntOrPercent (Some (ValueOrDefault (RUMaxUnavailable ru) (IntVal 1))) (STSReplicas (STSpec sts)) False of
             (v, ok) \<Rightarrow> if ok then Some (if v < 1 then 1 else v) else None))"

definition rollingUpdateStatefulsetPods ::
  "'w sts_pass \<Rightarrow> sts_status \<Rightarrow> controller_revision \<Rightarrow> controller_revision list \<Rightarrow> pod list \<Rightarrow> pod option list
   \<Rightarrow> 'w sts_state \<Rightarrow> (sts_status \<times> api_error option) \<times> 'w sts_state" where
  "rollingUpdateStatefulsetPods a s updateRevision revisions pods replicas st =
     (let sts = PSet a in
      case UpdateSatisfied (StsNow (PCtl a)) (getStatefulSetKey sts) (PUpd a) (StsUpdateExp st) of
        ((satisfied, _), ue) \<Rightarrow>
          (let st1 = st\<lparr>StsUpdateExp := ue\<rparr> in
           if \<not> satisfied then ((s, None), st1)
           else case refresh_pods a False pods st1 of
                  ((_, Some e), st2) \<Rightarrow> ((s, Some e), st2)
                | ((modified, None), st2) \<Rightarrow>
                    if modified \<or> (case RollingUpdate (STSpec sts) of None \<Rightarrow> False | Some ru \<Rightarrow> RUPaused ru)
                    then ((s, None), st2)
                    else
                      (case sts_maxUnavailable sts of
                         None \<Rightarrow> ((s, Some (OtherError ''invalid value for IntOrString'')), st2)
                       | Some maxUnavailable \<Rightarrow>
                           (case collect_unavailable a replicas {} (300 * second) st2 of
                              (names, st3) \<Rightarrow>
                                update_targets a updateRevision revisions maxUnavailable replicas
                                  (sortPodsToUpdate (PreparingUpdateGate (PCtl a)) (RollingUpdate (STSpec sts)) (PUpd a)
                                     (STSReplicas (STSpec sts)) replicas)
                                  names s st3))))"

section \<open>Updating the set\<close>

definition sts_pre_download ::
  "'w sts_ctl \<Rightarrow> statefulset \<Rightarrow> controller_revision \<Rightarrow> controller_revision \<Rightarrow> 'w \<Rightarrow> 'w" where
  "sts_pre_download ctl sts cur upd w =
     (if StsPreDownloadDisabled ctl then w
      else if Name cur = Name upd then StsDeleteJobs ctl sts w
      else
        (let minUpdatedReadyPodsCount =
               (case Annotations sts ImagePreDownloadMinUpdatedReadyPods of
                  Some (Text v) \<Rightarrow>
                    (case GetScaledValueFromIntOrPercent (Some (intstr_Parse v)) (STSReplicas (STSpec sts)) True of
                       None \<Rightarrow> 0 | Some n \<Rightarrow> n)
                | _ \<Rightarrow> 0);
             updatedReadyReplicas = (if Name upd \<noteq> STUpdateRevision (STStatus sts) then 0
                                     else STUpdatedReadyReplicas (STStatus sts))
         in if signed_take_bit 31 minUpdatedReadyPodsCount \<le> updatedReadyReplicas
            then StsCreateJobs ctl sts cur upd w else w))"

definition sts_ApplyRevision :: "'w sts_ctl \<Rightarrow> statefulset \<Rightarrow> controller_revision \<Rightarrow> statefulset option" where
  "sts_ApplyRevision ctl sts rv =
     map_option (\<lambda>t. sts\<lparr>STSpec := (STSpec sts)\<lparr>STSTemplate := t\<rparr>\<rparr>) (StsDecode ctl (RevData rv))"

text \<open>\<open>None\<close> is an invalid \<open>maxUnavailable\<close> of the scale strategy, \<open>Some None\<close> no limit.\<close>

definition sts_scale_limit :: "statefulset \<Rightarrow> int option option" where
  "sts_scale_limit sts =
     (case STSScaleMaxUnavailable (STSpec sts) of
        None \<Rightarrow> Some None
      | Some v \<Rightarrow>
          (case GetValueFromIntOrPercent (Some v) (STSReplicas (STSpec sts)) False of
             (n, ok) \<Rightarrow> if ok then Some (Some (if n < 1 then 1 else n)) else None))"

text \<open>The pods by ordinal and the condemned pods in ascending order.\<close>

definition sts_partition :: "'w sts_pass \<Rightarrow> pod list \<Rightarrow> pod option list \<times> pod list" where
  "sts_partition a pods =
     (let (replicaCount, reserved) = getStatefulSetReplicasRange (PSet a);
          (replicas, condemned) = foldl (place_pod replicaCount reserved) (replicate replicaCount None, []) pods
      in (fill_replicas (PreparingUpdateGate (PCtl a)) (PCurrentSet a) (PUpdateSet a) (PCur a) (PUpd a) reserved
            [0..<replicaCount] replicas,
          StsSortPods (PCtl a) ascendingOrdinal_Less condemned))"

text \<open>What follows the partition; the status has counted all pods.\<close>

definition sts_act ::
  "'w sts_pass \<Rightarrow> controller_revision \<Rightarrow> controller_revision list \<Rightarrow> pod list \<Rightarrow> pod option list \<Rightarrow> pod list \<Rightarrow> int option
   \<Rightarrow> sts_status \<Rightarrow> 'w sts_state \<Rightarrow> (sts_status \<times> api_error option) \<times> 'w sts_state" where
  "sts_act a updateRevision revisions pods replicas condemned limit s st =
     (let l = \<lparr>LStatus = s, LReplicas = replicas, LMax = limit, LState = st\<rparr>;
          firstUnhealthy = find_unhealthy (map the (filter (\<lambda>r. r \<noteq> None) replicas) @ condemned)
      in if DeletionTimestamp (PSet a) \<noteq> None then ((s, None), st)
         else case examine_replicas a [0..<length replicas] l of
                (Some e, l1) \<Rightarrow> ((LStatus l1, e), LState l1)
              | (None, l1) \<Rightarrow>
                  (case (if AutoDeletePVCGate (PCtl a) then fix_condemned_claims a condemned (StsWorld (LState l1))
                         else (None, StsWorld (LState l1))) of
                     (Some e, w) \<Rightarrow> ((LStatus l1, Some e), (LState l1)\<lparr>StsWorld := w\<rparr>)
                   | (None, w) \<Rightarrow>
                       (case scale_down a firstUnhealthy (rev condemned) (set_world w l1) of
                          (Some e, l2) \<Rightarrow> ((LStatus l2, e), LState l2)
                        | (None, l2) \<Rightarrow>
                            if STSUpdateType (STSpec (PSet a)) = ''OnDelete'' then ((LStatus l2, None), LState l2)
                            else rollingUpdateStatefulsetPods a (LStatus l2) updateRevision revisions pods (LReplicas l2) (LState l2))))"

definition updateStatefulSet ::
  "'w sts_ctl \<Rightarrow> statefulset \<Rightarrow> controller_revision \<Rightarrow> controller_revision \<Rightarrow> int \<Rightarrow> pod list \<Rightarrow> controller_revision list
   \<Rightarrow> 'w sts_state \<Rightarrow> (sts_status \<times> api_error option) \<times> 'w sts_state" where
  "updateStatefulSet ctl sts currentRevision updateRevision collisionCount pods revisions st =
     (case (ValidatedLabelSelectorAsSelector (STSSelector (STSpec sts)), sts_ApplyRevision ctl sts currentRevision,
            sts_ApplyRevision ctl sts updateRevision) of
        (Some selector, Some currentSet, Some updateSet) \<Rightarrow>
          (let st1 = st\<lparr>StsWorld := sts_pre_download ctl sts currentRevision updateRevision (StsWorld st)\<rparr>;
               s0 = sts_zero_status\<lparr>STObservedGeneration := Generation sts, STCurrentRevision := Name currentRevision,
                      STUpdateRevision := Name updateRevision, STCollisionCount := Some collisionCount,
                      STLabelSelector := StsSelectorText ctl selector\<rparr>
           in case sts_scale_limit sts of
                None \<Rightarrow> ((s0, Some (OtherError ''invalid value for IntOrString'')), st1)
              | Some limit \<Rightarrow>
                  (let a = \<lparr>PCtl = ctl, PSet = sts, PCurrentSet = currentSet, PUpdateSet = updateSet,
                            PCur = Name currentRevision, PUpd = Name updateRevision\<rparr>;
                       s1 = foldl (sts_count_pod (StsNow ctl) (getMinReadySeconds sts) (PCur a) (PUpd a)) s0 pods
                   in case sts_partition a pods of
                        (replicas, condemned) \<Rightarrow>
                          sts_act a updateRevision revisions pods replicas condemned limit s1 st1))
      | _ \<Rightarrow> ((STStatus sts, Some (OtherError ''selector or revision'')), st))"

section \<open>Revisions and history\<close>

definition sts_newRevision :: "'w sts_ctl \<Rightarrow> statefulset \<Rightarrow> int \<Rightarrow> int \<Rightarrow> controller_revision" where
  "sts_newRevision ctl sts revision collisionCount =
     (NewControllerRevision (StsHash ctl) sts ''apps.kruise.io/v1beta1'' ''StatefulSet'' (TplLabels (STSTemplate (STSpec sts)))
        (StsEncode ctl (STSTemplate (STSpec sts))) revision collisionCount)\<lparr>Annotations := Annotations sts\<rparr>"

definition sts_nextRevision :: "controller_revision list \<Rightarrow> int" where
  "sts_nextRevision revisions = (if revisions = [] then 1 else RevisionNum (last revisions) + 1)"

text \<open>\<open>None\<close> is an endless creation.\<close>

definition getStatefulSetRevisions ::
  "'w sts_ctl \<Rightarrow> statefulset \<Rightarrow> controller_revision list \<Rightarrow> 'w
   \<Rightarrow> ((api_error + controller_revision \<times> controller_revision \<times> int) \<times> 'w) option" where
  "getStatefulSetRevisions ctl sts revisions w =
     (let collisionCount = (case STCollisionCount (STStatus sts) of None \<Rightarrow> 0 | Some c \<Rightarrow> c);
          new = sts_newRevision ctl sts (sts_nextRevision revisions) collisionCount;
          equalRevisions = FindEqualRevisions revisions new;
          finish = (\<lambda>upd c w1.
             let cur = (case find (\<lambda>v. Name v = STCurrentRevision (STStatus sts)) revisions of None \<Rightarrow> upd | Some v \<Rightarrow> v)
             in Some (Inr (cur, upd, c), w1))
      in if equalRevisions \<noteq> [] then
           (if EqualRevision (last revisions) (last equalRevisions) then finish (last revisions) collisionCount w
            else case UpdateControllerRevision (StsRevisionClient ctl) (last equalRevisions) (RevisionNum new) w of
                   (Some e, _, w1) \<Rightarrow> Some (Inl e, w1)
                 | (None, upd, w1) \<Rightarrow> finish upd collisionCount w1)
         else
           (case CreateControllerRevision (StsRevisionClient ctl) (StsHash ctl) sts new (Some collisionCount) w of
              None \<Rightarrow> None
            | Some (Inl e, _, w1) \<Rightarrow> Some (Inl e, w1)
            | Some (Inr upd, c, w1) \<Rightarrow> finish upd (case c of None \<Rightarrow> collisionCount | Some c' \<Rightarrow> c') w1))"

definition sts_live :: "controller_revision option \<Rightarrow> controller_revision option \<Rightarrow> pod list \<Rightarrow> string \<Rightarrow> bool" where
  "sts_live cur upd pods n \<longleftrightarrow>
     (\<exists>v. cur = Some v \<and> Name v = n) \<or> (\<exists>v. upd = Some v \<and> Name v = n) \<or> list_ex (\<lambda>p. getPodRevision p = n) pods"

fun sts_delete_revisions :: "'w revision_client \<Rightarrow> controller_revision list \<Rightarrow> 'w \<Rightarrow> api_error option \<times> 'w" where
  "sts_delete_revisions rh [] w = (None, w)"
| "sts_delete_revisions rh (v # vs) w =
     (case DeleteControllerRevision rh v w of
        (Some e, w1) \<Rightarrow> (Some e, w1)
      | (None, w1) \<Rightarrow> sts_delete_revisions rh vs w1)"

text \<open>
  With a negative limit the slice is longer than the history: that panics beyond the capacity, which is the
  number of revisions, and otherwise deleting the missing revision after the others panics.
\<close>

definition sts_truncateHistory ::
  "'w sts_ctl \<Rightarrow> statefulset \<Rightarrow> pod list \<Rightarrow> controller_revision list \<Rightarrow> controller_revision option
   \<Rightarrow> controller_revision option \<Rightarrow> 'w \<Rightarrow> api_error option run \<times> 'w" where
  "sts_truncateHistory ctl sts pods revisions cur upd w =
     (let history = filter (\<lambda>v. \<not> sts_live cur upd pods (Name v)) revisions;
          surplus = int (length history) - STSHistoryLimit (STSpec sts)
      in if surplus \<le> 0 then (Returns None, w)
         else if surplus > int (length revisions) then (Panics, w)
         else case sts_delete_revisions (StsRevisionClient ctl) (take (nat surplus) history) w of
                (e, w1) \<Rightarrow> (if e = None \<and> surplus > int (length history) then Panics else Returns e, w1))"

definition sts_ListRevisions :: "'w sts_ctl \<Rightarrow> statefulset \<Rightarrow> 'w \<Rightarrow> api_error + controller_revision list" where
  "sts_ListRevisions ctl sts w =
     (case ValidatedLabelSelectorAsSelector (STSSelector (STSpec sts)) of
        None \<Rightarrow> Inl (OtherError ''selector'')
      | Some selector \<Rightarrow> ListControllerRevisions (StsRevisionClient ctl) sts (StsMatches ctl selector) w)"

definition sts_status_once ::
  "'w sts_ctl \<Rightarrow> sts_status \<Rightarrow> statefulset \<times> 'w \<Rightarrow> api_error option \<times> statefulset \<times> 'w" where
  "sts_status_once ctl status = (\<lambda>(sts, w).
     let sts1 = sts\<lparr>STStatus := status\<rparr> in
     case StsUpdateStatus ctl sts1 w of
       (None, w1) \<Rightarrow> (None, sts1, w1)
     | (Some e, w1) \<Rightarrow>
         (Some e, (case StsGetSet ctl (Namespace sts1) (Name sts1) w1 of Inr fresh \<Rightarrow> fresh | Inl _ \<Rightarrow> sts1), w1))"

text \<open>\<open>retry.DefaultRetry\<close> has five steps.\<close>

definition UpdateStatefulSetStatus :: "'w sts_ctl \<Rightarrow> statefulset \<Rightarrow> sts_status \<Rightarrow> 'w \<Rightarrow> api_error option \<times> 'w" where
  "UpdateStatefulSetStatus ctl sts status w =
     (case RetryOnConflict 5 (sts_status_once ctl status) (sts, w) of (e, _, w1) \<Rightarrow> (e, w1))"

definition updateStatefulSetStatus :: "'w sts_ctl \<Rightarrow> statefulset \<Rightarrow> sts_status \<Rightarrow> 'w \<Rightarrow> api_error option \<times> 'w" where
  "updateStatefulSetStatus ctl sts status w =
     (let s = completeRollingUpdate sts status
      in if \<not> sts_inconsistentStatus sts s then (None, w) else UpdateStatefulSetStatus ctl sts s w)"

text \<open>The revisions that are known, the error, and the state; \<open>None\<close> is an endless creation.\<close>

definition performUpdate ::
  "'w sts_ctl \<Rightarrow> statefulset \<Rightarrow> pod list \<Rightarrow> controller_revision list \<Rightarrow> 'w sts_state
   \<Rightarrow> (((controller_revision \<times> controller_revision) option \<times> api_error option) \<times> 'w sts_state) option" where
  "performUpdate ctl sts pods revisions st =
     (case getStatefulSetRevisions ctl sts revisions (StsWorld st) of
        None \<Rightarrow> None
      | Some (Inl e, w) \<Rightarrow> Some ((None, Some e), st\<lparr>StsWorld := w\<rparr>)
      | Some (Inr (cur, upd, c), w) \<Rightarrow>
          (let st1 = st\<lparr>StsWorld := w, StsUpdateExp := fold (\<lambda>p. ObserveUpdated (\<lambda>_. EqualToRevisionHash default_revision_adapter)
                        (getStatefulSetKey sts) (Name upd) p) pods (StsUpdateExp st)\<rparr>
           in case updateStatefulSet ctl sts cur upd c pods revisions st1 of
                ((status, err), st2) \<Rightarrow>
                  (case updateStatefulSetStatus ctl sts status (StsWorld st2) of
                     (serr, w1) \<Rightarrow> Some ((Some (cur, upd), if err \<noteq> None then err else serr), st2\<lparr>StsWorld := w1\<rparr>))))"

definition UpdateStatefulSet ::
  "'w sts_ctl \<Rightarrow> statefulset \<Rightarrow> pod list \<Rightarrow> 'w sts_state \<Rightarrow> (api_error option run \<times> 'w sts_state) option" where
  "UpdateStatefulSet ctl sts pods st =
     (case sts_ListRevisions ctl sts (StsWorld st) of
        Inl e \<Rightarrow> Some (Returns (Some e), st)
      | Inr listed \<Rightarrow>
          (let revisions = SortControllerRevisions listed in
           case performUpdate ctl sts pods revisions st of
             None \<Rightarrow> None
           | Some ((known, err), st1) \<Rightarrow>
               (case sts_truncateHistory ctl sts pods revisions (map_option fst known) (map_option snd known) (StsWorld st1) of
                  (Panics, w) \<Rightarrow> Some (Panics, st1\<lparr>StsWorld := w\<rparr>)
                | (Returns terr, w) \<Rightarrow> Some (Returns (if err \<noteq> None then err else terr), st1\<lparr>StsWorld := w\<rparr>))))"

section \<open>Reconcile\<close>

record 'w sts_reconciler =
  SControl :: "'w sts_ctl"
  SListSet :: "string \<Rightarrow> string \<Rightarrow> 'w \<Rightarrow> api_error + statefulset"
  SGetFresh :: "string \<Rightarrow> string \<Rightarrow> 'w \<Rightarrow> api_error + statefulset"
  SSelectorOf :: "label_selector option \<Rightarrow> selector option"
  SListPods :: "string \<Rightarrow> 'w \<Rightarrow> api_error + pod list"
  SClaimPods :: "statefulset \<Rightarrow> selector \<Rightarrow> pod list \<Rightarrow> (pod \<Rightarrow> bool) \<Rightarrow> 'w \<Rightarrow> (api_error + pod list) \<times> 'w"

fun adopt_revisions :: "'w sts_ctl \<Rightarrow> statefulset \<Rightarrow> controller_revision list \<Rightarrow> 'w \<Rightarrow> api_error option \<times> 'w" where
  "adopt_revisions ctl sts [] w = (None, w)"
| "adopt_revisions ctl sts (v # vs) w =
     (case AdoptControllerRevision (StsRevisionClient ctl) sts ''apps.kruise.io/v1beta1'' ''StatefulSet'' v w of
        (Inl e, w1) \<Rightarrow> (Some e, w1)
      | (Inr _, w1) \<Rightarrow> adopt_revisions ctl sts vs w1)"

definition sts_adoptOrphanRevisions :: "'w sts_reconciler \<Rightarrow> statefulset \<Rightarrow> 'w \<Rightarrow> api_error option \<times> 'w" where
  "sts_adoptOrphanRevisions r sts w =
     (case sts_ListRevisions (SControl r) sts w of
        Inl e \<Rightarrow> (Some e, w)
      | Inr revisions \<Rightarrow>
          (let orphans = filter (\<lambda>v. GetControllerOf v = None) revisions in
           if orphans = [] then (None, w)
           else case SGetFresh r (Namespace sts) (Name sts) w of
                  Inl e \<Rightarrow> (Some e, w)
                | Inr fresh \<Rightarrow>
                    if UID fresh \<noteq> UID sts then (Some (OtherError ''original StatefulSet is gone''), w)
                    else adopt_revisions (SControl r) sts orphans w))"

definition getPodsForStatefulSet ::
  "'w sts_reconciler \<Rightarrow> statefulset \<Rightarrow> selector \<Rightarrow> 'w \<Rightarrow> (api_error + pod list) \<times> 'w" where
  "getPodsForStatefulSet r sts selector w =
     (case SListPods r (Namespace sts) w of
        Inl e \<Rightarrow> (Inl e, w)
      | Inr pods \<Rightarrow> SClaimPods r sts selector pods (isMemberOf sts) w)"

text \<open>The requeue delay and the error.\<close>

definition sts_Reconcile ::
  "'w sts_reconciler \<Rightarrow> string \<Rightarrow> string \<Rightarrow> 'w sts_state \<Rightarrow> ((int \<times> api_error option) run \<times> 'w sts_state) option" where
  "sts_Reconcile r ns n st =
     (case SListSet r ns n (StsWorld st) of
        Inl e \<Rightarrow>
          if e = NotFound
          then Some (Returns (0, None), st\<lparr>StsUpdateExp := UpdateDeleteExpectations (ns @ ''/'' @ n) (StsUpdateExp st)\<rparr>)
          else Some (Returns (0, Some e), st)
      | Inr sts \<Rightarrow>
          (case SSelectorOf r (STSSelector (STSpec sts)) of
             None \<Rightarrow> Some (Returns (0, None), st)
           | Some selector \<Rightarrow>
               (case sts_adoptOrphanRevisions r sts (StsWorld st) of
                  (Some e, w1) \<Rightarrow> Some (Returns (0, Some e), st\<lparr>StsWorld := w1\<rparr>)
                | (None, w1) \<Rightarrow>
                    (case getPodsForStatefulSet r sts selector w1 of
                       (Inl e, w2) \<Rightarrow> Some (Returns (0, Some e), st\<lparr>StsWorld := w2\<rparr>)
                     | (Inr pods, w2) \<Rightarrow>
                         (case UpdateStatefulSet (SControl r) sts pods (st\<lparr>StsWorld := w2\<rparr>) of
                            None \<Rightarrow> None
                          | Some (Panics, st1) \<Rightarrow> Some (Panics, st1)
                          | Some (Returns e, st1) \<Rightarrow>
                              (case DurationPop (getStatefulSetKey sts) (StsDurations st1) of
                                 (d, ds) \<Rightarrow> Some (Returns (d, e), st1\<lparr>StsDurations := ds\<rparr>)))))))"

end
