(* ===== verification/Stateful_Identity.thy ===== *)
theory Stateful_Identity
  imports Stateful_Utils
begin

text \<open>
  Identity and storage of the pods of an Advanced StatefulSet: the ordinal can be read back from the
  name, new and repaired pods match the set, the range of ordinals has exactly the replicas asked for,
  and the owners of a claim are repaired.
\<close>

section \<open>Names\<close>

lemma name_match_show: "name_match (parent @ ''-'' @ show_nat k) = Some (parent, show_nat k)"
proof -
  have digits: "\<forall>c\<in>set (rev (show_nat k)). is_digit c" using show_nat_digits [of k] by (simp add: list_all_iff)
  moreover have "\<not> is_digit (CHR ''-'')" using digit_not_sign by blast
  ultimately have "takeWhile is_digit (rev (show_nat k) @ CHR ''-'' # rev parent) = rev (show_nat k)"
    and "dropWhile is_digit (rev (show_nat k) @ CHR ''-'' # rev parent) = CHR ''-'' # rev parent"
    by (simp_all add: takeWhile_append dropWhile_append)
  then show ?thesis by (simp add: name_match_def)
qed

lemma parent_ordinal:
  assumes "Name p = getPodName sts i" and "0 \<le> i" and "i < 2 ^ 31"
  shows "getParentNameAndOrdinal p = (Name sts, i)"
proof -
  have "nat i < 2 ^ 31" using assms(2,3) by (simp add: nat_less_iff)
  then have "ParseInt (show_nat (nat i)) 32 = Some i" using assms(2) ParseInt_show_nat [of "nat i" 32] by simp
  moreover have "Name p = Name sts @ ''-'' @ show_nat (nat i)"
    using assms(1,2) by (simp add: getPodName_def show_int_def)
  ultimately show ?thesis using name_match_show by (simp add: getParentNameAndOrdinal_def)
qed

lemma ordinal_bounds: "- 1 \<le> getOrdinal p" "getOrdinal p < 2 ^ 31"
proof -
  have "0 \<le> i" if "ParseInt ds 32 = Some i" "list_all is_digit ds" "ds \<noteq> []" for ds i
    using that by (simp add: ParseInt_digits split: if_splits)
  moreover have "list_all is_digit ds \<and> ds \<noteq> []" if "name_match s = Some (parent, ds)" for s parent ds
    using that by (auto simp: name_match_def Let_def list_all_iff split: list.splits if_splits dest: set_takeWhileD)
  ultimately show "- 1 \<le> getOrdinal p"
    unfolding getOrdinal_def getParentNameAndOrdinal_def by (fastforce split: option.splits prod.splits)
  show "getOrdinal p < 2 ^ 31"
    using ParseInt_bound(2) [of _ 32] unfolding getOrdinal_def getParentNameAndOrdinal_def
    by (auto split: option.splits prod.splits)
qed

section \<open>Storage\<close>

lemma find_append: "find P (xs @ ys) = (case find P xs of None \<Rightarrow> find P ys | Some x \<Rightarrow> Some x)"
  by (induction xs) simp_all

lemma map_of_claims:
  "map_of (getPersistentVolumeClaims sts p) n
   = map_option (sts_claim sts p) (find (\<lambda>t. Name t = n) (rev (STSClaimTemplates (STSpec sts))))"
proof -
  have "map_of (foldl (\<lambda>m t. AList.update (Name t) (sts_claim sts p t) m) acc ts) n
      = (case find (\<lambda>t. Name t = n) (rev ts) of None \<Rightarrow> map_of acc n | Some t \<Rightarrow> Some (sts_claim sts p t))" for ts acc
    by (induction ts rule: rev_induct) (auto simp: update_conv')
  from this [of "[]" "STSClaimTemplates (STSpec sts)"] show ?thesis
    unfolding getPersistentVolumeClaims_def by (cases "find (\<lambda>t. Name t = n) (rev (STSClaimTemplates (STSpec sts)))") simp_all
qed

lemma Name_sts_claim [simp]: "Name (sts_claim sts p t) = sts_claim_name sts t (getOrdinal p)"
  by (simp add: sts_claim_def)

lemma name_updateStorage [simp]:
  "Name (sts_updateStorage sts p) = Name p" "Namespace (sts_updateStorage sts p) = Namespace p"
  "Labels (sts_updateStorage sts p) = Labels p" "getOrdinal (sts_updateStorage sts p) = getOrdinal p"
  "getParentNameAndOrdinal (sts_updateStorage sts p) = getParentNameAndOrdinal p"
  by (simp_all add: sts_updateStorage_def Let_def getOrdinal_def getParentNameAndOrdinal_def)

lemma distinct_claims: "distinct (map fst (getPersistentVolumeClaims sts p))"
proof -
  have "distinct (map fst acc) \<Longrightarrow> distinct (map fst (foldl (\<lambda>m t. AList.update (Name t) (sts_claim sts p t) m) acc ts))" for ts acc
    by (induction ts arbitrary: acc) (simp_all add: distinct_update)
  then show ?thesis unfolding getPersistentVolumeClaims_def by simp
qed

lemma find_own_volume:
  "distinct (map fst al) \<Longrightarrow>
   find (\<lambda>v. VolName v = n) (rev (map (\<lambda>(n, c). \<lparr>VolName = n, ClaimName = Name c\<rparr>) al))
   = map_option (\<lambda>c. \<lparr>VolName = n, ClaimName = Name c\<rparr>) (map_of al n)"
proof (induction al)
  case (Cons x al)
  obtain k c where x: "x = (k, c)" by (cases x)
  have "map_of al k = None" using Cons.prems x by (simp add: map_of_eq_None_iff)
  with Cons x show ?case by (cases "map_of al n"; cases "n = k") (simp_all add: find_append)
qed simp

lemma storage_repaired:
  assumes "0 \<le> getOrdinal p"
  shows "storageMatches sts (sts_updateStorage sts p)"
proof -
  let ?claims = "getPersistentVolumeClaims sts p"
  let ?own = "map (\<lambda>(n, c). \<lparr>VolName = n, ClaimName = Name c\<rparr>) ?claims"
  let ?other = "filter (\<lambda>v. map_of ?claims (VolName v) = None) (Volumes (Spec p))"
  have vols: "Volumes (Spec (sts_updateStorage sts p)) = ?own @ ?other"
    by (simp add: sts_updateStorage_def Let_def)
  have "case find (\<lambda>v. VolName v = Name t) (rev (?own @ ?other)) of None \<Rightarrow> False
      | Some v \<Rightarrow> ClaimName v = sts_claim_name sts t (getOrdinal p)" if t: "t \<in> set (STSClaimTemplates (STSpec sts))" for t
  proof -
    have "find (\<lambda>x. Name x = Name t) (rev (STSClaimTemplates (STSpec sts))) \<noteq> None"
      using t by (auto simp: find_None_iff)
    then obtain u where u: "find (\<lambda>x. Name x = Name t) (rev (STSClaimTemplates (STSpec sts))) = Some u" by blast
    then have name: "Name u = Name t" by (auto simp: find_Some_iff)
    have m: "map_of ?claims (Name t) = Some (sts_claim sts p u)" using u by (simp add: map_of_claims)
    then have "find (\<lambda>v. VolName v = Name t) (rev ?other) = None" by (auto simp: find_None_iff)
    then show ?thesis
      using find_own_volume [OF distinct_claims, of "Name t" sts p] m name by (simp add: find_append sts_claim_name_def)
  qed
  then show ?thesis using assms unfolding storageMatches_def vols name_updateStorage by (simp add: list_all_iff)
qed

section \<open>New pods\<close>

lemma new_pod:
  fixes rv :: string
  assumes v: "Name v = Name sts" "Namespace v = Namespace sts" "STSClaimTemplates (STSpec v) = STSClaimTemplates (STSpec sts)"
    and ord: "ordinal < 2 ^ 31"
  defines "q \<equiv> setPodRevision (newStatefulSetPod v (int ordinal)) rv"
  shows "identityMatches sts q" and "storageMatches sts q" and "getParentNameAndOrdinal q = (Name sts, int ordinal)"
    and "\<not> isCreated q" and "getPodRevision q = rv"
proof -
  define p0 where "p0 = (pod_from_template (STSTemplate (STSpec v))
    (NewControllerRef v ''apps.kruise.io/v1beta1'' ''StatefulSet''))\<lparr>Name := getPodName v (int ordinal)\<rparr>"
  define p1 where "p1 = initIdentity v p0"
  have q: "q = setPodRevision (sts_updateStorage v p1) rv"
    by (simp add: q_def newStatefulSetPod_def p0_def p1_def Let_def)
  have ord: "int ordinal < 2 ^ 31" using ord by simp
  have p0: "getParentNameAndOrdinal p0 = (Name v, int ordinal)"
    by (rule parent_ordinal [OF _ _ ord]) (simp_all add: p0_def)
  have names: "Name p1 = getPodName v (int ordinal)" "Namespace p1 = Namespace v"
    "lget (Labels p1) StatefulSetPodNameLabel = Name p1" "Phase (Status p1) = PhaseUnset"
    using p0 by (simp_all add: p1_def initIdentity_def updateIdentity_def Let_def getOrdinal_def p0_def
        pod_from_template_def zero_defs)
  have p1: "getParentNameAndOrdinal p1 = (Name v, int ordinal)"
    by (rule parent_ordinal [OF names(1) _ ord]) simp
  show po: "getParentNameAndOrdinal q = (Name sts, int ordinal)"
    using p1 v(1) name_updateStorage(5) [of v p1] unfolding q
    by (simp add: setPodRevision_def getParentNameAndOrdinal_def)
  have "StatefulSetPodNameLabel \<noteq> ControllerRevisionHashLabelKey"
    by (simp add: StatefulSetPodNameLabel_def ControllerRevisionHashLabelKey_def)
  then show "identityMatches sts q"
    using po names v unfolding identityMatches_def q by (simp add: setPodRevision_def getPodName_def)
  have "storageMatches v (sts_updateStorage v p1)"
    by (rule storage_repaired) (simp add: getOrdinal_def p1)
  moreover have claim_names: "sts_claim_name sts = sts_claim_name v" using v(1) by (simp add: sts_claim_name_def fun_eq_iff)
  moreover have ordinal: "getOrdinal q = getOrdinal (sts_updateStorage v p1)" using po p1 by (simp add: getOrdinal_def)
  moreover have vols: "Volumes (Spec q) = Volumes (Spec (sts_updateStorage v p1))" by (simp add: q setPodRevision_def)
  ultimately show "storageMatches sts q" unfolding storageMatches_def claim_names ordinal vols v(3) by blast
  show "\<not> isCreated q"
    using names(4) by (simp add: q isCreated_def setPodRevision_def sts_updateStorage_def Let_def)
  show "getPodRevision q = rv" by (simp add: q getPodRevision_def setPodRevision_def)
qed

text \<open>
  C39: A pod created for an ordinal, at whichever revision, has that ordinal and the identity of the
  set, is a member of it and has a volume for each claim template bound to its own claim.
\<close>

theorem new_pod_matches:
  assumes "ordinal < 2 ^ 31" and "\<forall>v\<in>{cs, us}. Name v = Name sts \<and> Namespace v = Namespace sts
      \<and> STSClaimTemplates (STSpec v) = STSClaimTemplates (STSpec sts)"
  shows "let p = newVersionedStatefulSetPod gate cs us cur upd ordinal replicas
         in identityMatches sts p \<and> storageMatches sts p \<and> isMemberOf sts p \<and> getOrdinal p = int ordinal
            \<and> \<not> isCreated p \<and> getPodRevision p \<in> {cur, upd}"
proof -
  obtain v rv where v: "v \<in> {cs, us}" "rv \<in> {cur, upd}"
    and p: "newVersionedStatefulSetPod gate cs us cur upd ordinal replicas = setPodRevision (newStatefulSetPod v (int ordinal)) rv"
    unfolding newVersionedStatefulSetPod_def by (metis insertCI)
  have "Name v = Name sts" "Namespace v = Namespace sts" "STSClaimTemplates (STSpec v) = STSClaimTemplates (STSpec sts)"
    using assms(2) v(1) by blast+
  note new = new_pod [OF this assms(1), of rv]
  show ?thesis
    using new v(2) unfolding p Let_def isMemberOf_def getParentName_def getOrdinal_def by (simp only: fst_conv snd_conv) blast
qed

theorem new_pod_matches_witness:
  "let sts = zero_sts\<lparr>Name := ''db-1'', Namespace := ''ns'', STSpec := zero_sts_spec\<lparr>STSClaimTemplates :=
         [object_meta.extend (zero_meta\<lparr>Name := ''data''\<rparr>) (pvc.fields [])]\<rparr>\<rparr>;
       p = newVersionedStatefulSetPod True sts sts ''a'' ''b'' 12 []
   in identityMatches sts p \<and> storageMatches sts p \<and> isMemberOf sts p \<and> getOrdinal p = 12
      \<and> \<not> isCreated p \<and> getPodRevision p \<in> {''a'', ''b''}"
  unfolding Let_def by (rule new_pod_matches [of 12, unfolded Let_def, simplified of_nat_numeral]) simp_all

section \<open>The range of ordinals\<close>

definition free_ordinals :: "int list \<Rightarrow> nat \<Rightarrow> nat \<Rightarrow> nat set" where
  "free_ordinals reserved c n = {i. c \<le> i \<and> i < n \<and> int i \<notin> set reserved}"

lemma free_ordinals_step:
  assumes "c < n"
  shows "free_ordinals reserved c n = (if int c \<in> set reserved then {} else {c}) \<union> free_ordinals reserved (Suc c) n"
  using assms by (auto simp: free_ordinals_def Suc_le_eq le_less)

lemma finite_free_ordinals [simp]: "finite (free_ordinals reserved c n)"
  by (rule finite_subset [of _ "{..<n}"]) (auto simp: free_ordinals_def)

declare range_loop.simps(2) [simp del]

lemma range_loop_taken:
  "int c \<in> set reserved \<Longrightarrow> range_loop (Suc k) reserved c = range_loop (Suc k) reserved (Suc c)"
  by (simp only: range_loop.simps(2) [of k reserved c] if_True)

lemma range_loop_free:
  "int c \<notin> set reserved \<Longrightarrow> range_loop (Suc k) reserved c = range_loop k reserved (Suc c)"
  by (simp only: range_loop.simps(2) [of k reserved c] if_False)

lemma range_loop_spec:
  "c \<le> range_loop k reserved c \<and> card (free_ordinals reserved c (range_loop k reserved c)) = k
   \<and> (k = 0 \<or> (\<exists>m\<ge>c. range_loop k reserved c = Suc m \<and> int m \<notin> set reserved))"
proof (induction k reserved c rule: range_loop.induct)
  case (1 reserved c)
  then show ?case by (simp add: free_ordinals_def)
next
  case (2 k reserved c)
  show ?case
  proof (cases "int c \<in> set reserved")
    case True
    with "2.IH"(1) show ?thesis
      using Suc_leD free_ordinals_step [of c "range_loop (Suc k) reserved (Suc c)" reserved]
      by (auto simp: range_loop_taken)
  next
    case False
    let ?n = "range_loop k reserved (Suc c)"
    have IH: "Suc c \<le> ?n" "card (free_ordinals reserved (Suc c) ?n) = k"
      "k = 0 \<or> (\<exists>m\<ge>Suc c. ?n = Suc m \<and> int m \<notin> set reserved)"
      using "2.IH"(2) [OF False] by auto
    have "c \<notin> free_ordinals reserved (Suc c) ?n" by (simp add: free_ordinals_def)
    then have "card (free_ordinals reserved c ?n) = Suc k"
      using free_ordinals_step [of c ?n reserved] IH(1,2) False by simp
    moreover have "\<exists>m\<ge>c. ?n = Suc m \<and> int m \<notin> set reserved"
      using IH(3) False by (cases "k = 0") (auto intro: Suc_leD)
    ultimately show ?thesis using False IH(1) by (simp add: range_loop_free)
  qed
qed

lemma range_loop_least:
  "range_loop k reserved 0 = (LEAST n. card {i. i < n \<and> int i \<notin> set reserved} = k)"
proof -
  let ?n = "range_loop k reserved 0" and ?A = "\<lambda>n. {i. i < n \<and> int i \<notin> set reserved}"
  have card: "card (?A ?n) = k" and last: "k = 0 \<or> (\<exists>m\<ge>0. ?n = Suc m \<and> int m \<notin> set reserved)"
    using range_loop_spec [of 0 k reserved] by (simp_all add: free_ordinals_def)
  have "?n \<le> m" if m: "card (?A m) = k" for m
  proof (cases "k = 0")
    case False
    with last obtain l where l: "?n = Suc l" "int l \<notin> set reserved" by auto
    show ?thesis
    proof (rule ccontr)
      assume "\<not> ?n \<le> m"
      then have "m \<le> l" using l(1) by simp
      then have "?A m \<subseteq> ?A ?n" "l \<in> ?A ?n" "l \<notin> ?A m" using l by (auto simp: l(1))
      then have "?A m \<subset> ?A ?n" by blast
      then have "card (?A m) < card (?A ?n)" by (intro psubset_card_mono) auto
      with m card show False by simp
    qed
  qed simp
  with card show ?thesis by (intro Least_equality [symmetric])
qed

text \<open>
  C40: The range of ordinals is the least one that has as many unreserved ordinals as the set asks for
  replicas.
\<close>

theorem replicas_range_least:
  "getStatefulSetReplicasRange sts =
     ((LEAST n. card {i. i < n \<and> int i \<notin> set (ReserveOrdinals (STSpec sts))} = nat (STSReplicas (STSpec sts))),
      ReserveOrdinals (STSpec sts))"
  by (simp add: getStatefulSetReplicasRange_def range_loop_least)

section \<open>The owners of claims\<close>

lemma remove_ref_loop_filter:
  assumes "distinct (map OwnerUID (pre @ refs))" and "uid \<in> OwnerUID ` set (pre @ refs)"
    and "skip \<longleftrightarrow> uid \<in> OwnerUID ` set pre"
    and "new = filter (\<lambda>r. OwnerUID r \<noteq> uid) pre @ replicate (length refs - (if skip then 0 else 1)) zero_owner_ref"
  shows "remove_ref_loop refs uid (length pre) skip new = filter (\<lambda>r. OwnerUID r \<noteq> uid) (pre @ refs)"
  using assms
proof (induction refs arbitrary: pre skip new)
  case Nil
  then show ?case by simp
next
  case (Cons r rs)
  let ?f = "filter (\<lambda>r. OwnerUID r \<noteq> uid)"
  show ?case
  proof (cases "OwnerUID r = uid")
    case True
    then have "\<not> skip" using Cons.prems(1,3) by auto
    with True Cons.prems have "remove_ref_loop rs uid (length (pre @ [r])) True new = ?f ((pre @ [r]) @ rs)"
      by (intro Cons.IH) auto
    with True show ?thesis by simp
  next
    case False
    have idx: "(if skip then length pre - 1 else length pre) = length (?f pre)"
    proof (cases skip)
      case True
      then obtain x where x: "x \<in> set pre" "OwnerUID x = uid" using Cons.prems(3) by auto
      have "filter (\<lambda>r. OwnerUID r = uid) pre = [x]"
      proof -
        from split_list [OF x(1)] obtain ys zs where "pre = ys @ x # zs" by blast
        moreover from this have "\<forall>y\<in>set (ys @ zs). OwnerUID y \<noteq> uid" using Cons.prems(1) x(2) by (auto simp: image_iff)
        ultimately show ?thesis using x(2) by (auto simp: filter_empty_conv)
      qed
      then show ?thesis using True sum_length_filter_compl [of "\<lambda>r. OwnerUID r = uid" pre] by simp
    next
      case False
      then have "?f pre = pre" using Cons.prems(3) by (auto simp: filter_id_conv)
      with False show ?thesis by simp
    qed
    define k where "k = length rs - (if skip then 0 else 1)"
    have "length (r # rs) - (if skip then 0 else 1) = Suc k"
      using Cons.prems(2,3) False by (cases rs) (auto simp: k_def)
    then have "new[length (?f pre) := r] = ?f (pre @ [r]) @ replicate k zero_owner_ref"
      using Cons.prems(4) False by (simp add: list_update_append)
    with Cons.prems False have "remove_ref_loop rs uid (length (pre @ [r])) skip (new[length (?f pre) := r]) = ?f ((pre @ [r]) @ rs)"
      by (intro Cons.IH) (auto simp: k_def)
    with False idx show ?thesis by simp
  qed
qed

lemma HasOwnerRef_iff: "HasOwnerRef target owner \<longleftrightarrow> UID owner \<in> OwnerUID ` set (OwnerReferences target)"
proof -
  have "HasOwnerRef_refs rs uid \<longleftrightarrow> uid \<in> OwnerUID ` set rs" for rs uid by (induction rs) auto
  then show ?thesis by (simp add: HasOwnerRef_def)
qed

lemma RemoveOwnerRef_filter:
  assumes "distinct (map OwnerUID (OwnerReferences c))"
  shows "RemoveOwnerRef c owner =
    (c\<lparr>OwnerReferences := filter (\<lambda>r. OwnerUID r \<noteq> UID owner) (OwnerReferences c)\<rparr>, HasOwnerRef c owner)"
proof (cases "HasOwnerRef c owner")
  case True
  then have "remove_ref_loop (OwnerReferences c) (UID owner) 0 False
      (replicate (length (OwnerReferences c) - 1) zero_owner_ref) = filter (\<lambda>r. OwnerUID r \<noteq> UID owner) (OwnerReferences c)"
    using assms remove_ref_loop_filter [of "[]" "OwnerReferences c" "UID owner" False] by (simp add: HasOwnerRef_iff)
  with True show ?thesis by (simp add: RemoveOwnerRef_def Let_def)
next
  case False
  then have "filter (\<lambda>r. OwnerUID r \<noteq> UID owner) (OwnerReferences c) = OwnerReferences c"
    by (force simp: HasOwnerRef_iff filter_id_conv)
  with False show ?thesis by (simp add: RemoveOwnerRef_def)
qed

definition other_refs :: "string set \<Rightarrow> 'a object_meta_scheme \<Rightarrow> owner_ref list" where
  "other_refs uids c = filter (\<lambda>r. OwnerUID r \<notin> uids) (OwnerReferences c)"

lemma remove_owner:
  assumes "distinct (map OwnerUID (OwnerReferences c))"
  shows "HasOwnerRef (fst (RemoveOwnerRef c owner)) o' \<longleftrightarrow> HasOwnerRef c o' \<and> UID o' \<noteq> UID owner"
    and "snd (RemoveOwnerRef c owner) \<longleftrightarrow> HasOwnerRef c owner"
    and "distinct (map OwnerUID (OwnerReferences (fst (RemoveOwnerRef c owner))))"
    and "UID owner \<in> uids \<Longrightarrow> other_refs uids (fst (RemoveOwnerRef c owner)) = other_refs uids c"
  using assms by (auto simp: RemoveOwnerRef_filter HasOwnerRef_iff other_refs_def distinct_map_filter intro!: filter_cong)

lemma set_owner:
  shows "HasOwnerRef (fst (sts_setOwnerRef c owner v k)) o' \<longleftrightarrow> HasOwnerRef c o' \<or> UID o' = UID owner"
    and "snd (sts_setOwnerRef c owner v k) \<longleftrightarrow> \<not> HasOwnerRef c owner"
    and "distinct (map OwnerUID (OwnerReferences c))
      \<Longrightarrow> distinct (map OwnerUID (OwnerReferences (fst (sts_setOwnerRef c owner v k))))"
    and "UID owner \<in> uids \<Longrightarrow> other_refs uids (fst (sts_setOwnerRef c owner v k)) = other_refs uids c"
  by (auto simp: sts_setOwnerRef_def HasOwnerRef_iff other_refs_def)

text \<open>
  When a claim has at most one reference per owner, repairing its owners makes them match the
  retention policy, reports a change exactly when they did not match before, and keeps every
  reference to another object.
\<close>

theorem claim_owner_repaired:
  assumes "distinct (map OwnerUID (OwnerReferences claim))" and "UID sts \<noteq> UID p"
  shows "let (c, changed) = updateClaimOwnerRefForSetAndPod claim sts p
         in claimOwnerMatchesSetAndPod c sts p \<and> changed = (\<not> claimOwnerMatchesSetAndPod claim sts p)
            \<and> other_refs {UID sts, UID p} c = other_refs {UID sts, UID p} claim"
  using assms
  by (simp add: updateClaimOwnerRefForSetAndPod_def claimOwnerMatchesSetAndPod_def Let_def split_beta remove_owner set_owner)
    blast

theorem claim_owner_repaired_witness:
  "let sts = zero_sts\<lparr>UID := ''s'', STSpec := zero_sts_spec\<lparr>RetentionPolicy :=
         Some \<lparr>WhenDeleted = DeletePolicy, WhenScaled = DeletePolicy\<rparr>\<rparr>\<rparr>;
       claim = object_meta.extend (zero_meta\<lparr>OwnerReferences := [zero_owner_ref\<lparr>OwnerUID := ''s''\<rparr>, zero_owner_ref\<lparr>OwnerUID := ''x''\<rparr>]\<rparr>)
         (pvc.fields []);
       (c, changed) = updateClaimOwnerRefForSetAndPod claim sts (zero_pod\<lparr>UID := ''p''\<rparr>)
   in claimOwnerMatchesSetAndPod c sts (zero_pod\<lparr>UID := ''p''\<rparr>)
      \<and> other_refs {''s'', ''p''} c = [zero_owner_ref\<lparr>OwnerUID := ''x''\<rparr>]"
proof -
  let ?sts = "zero_sts\<lparr>UID := ''s'', STSpec := zero_sts_spec\<lparr>RetentionPolicy :=
         Some \<lparr>WhenDeleted = DeletePolicy, WhenScaled = DeletePolicy\<rparr>\<rparr>\<rparr>"
  let ?claim = "object_meta.extend (zero_meta\<lparr>OwnerReferences := [zero_owner_ref\<lparr>OwnerUID := ''s''\<rparr>, zero_owner_ref\<lparr>OwnerUID := ''x''\<rparr>]\<rparr>)
         (pvc.fields [])"
  have "distinct (map OwnerUID (OwnerReferences ?claim))" and ne: "UID ?sts \<noteq> UID (zero_pod\<lparr>UID := ''p''\<rparr>)"
    and "other_refs {''s'', ''p''} ?claim = [zero_owner_ref\<lparr>OwnerUID := ''x''\<rparr>]"
    by (simp_all add: object_meta.defs zero_owner_ref_def other_refs_def pvc.defs)
  with claim_owner_repaired [OF this(1,2)] show ?thesis by (simp add: Let_def split_beta)
qed

end
