(* ===== verification/Stateful_Correct.thy ===== *)
theory Stateful_Correct
  imports Stateful_Control Stateful_Identity
begin

text \<open>
  What the control of an Advanced StatefulSet does with the pods of a set: their partition by ordinal,
  the order in which replicas are examined, scaling down, and the plan of a rolling update.
\<close>

section \<open>The partition of the pods\<close>

definition out_of_range :: "nat \<Rightarrow> int list \<Rightarrow> pod \<Rightarrow> bool" where
  "out_of_range n reserved p \<longleftrightarrow> int n \<le> getOrdinal p \<or> getOrdinal p \<in> set reserved"

lemma place_pods:
  assumes "foldl (place_pod n reserved) (reps, cond) pods = (rs, cs)" and "length reps = n"
  shows "length rs = n \<and> cs = cond @ filter (out_of_range n reserved) pods
    \<and> (\<forall>i<n. rs ! i = (if int i \<in> set reserved then reps ! i
        else case find (\<lambda>p. getOrdinal p = int i) (rev pods) of None \<Rightarrow> reps ! i | Some p \<Rightarrow> Some p))"
  using assms
proof (induction pods arbitrary: rs cs rule: rev_induct)
  case (snoc p pods)
  obtain rs' cs' where rc: "foldl (place_pod n reserved) (reps, cond) pods = (rs', cs')" by fastforce
  have step: "place_pod n reserved (rs', cs') p = (rs, cs)" using snoc.prems(1) rc by simp
  note IH = snoc.IH [OF rc assms(2)]
  show ?case
    using IH step by (auto simp: place_pod_def Let_def out_of_range_def nth_list_update split: if_splits)
qed simp

lemma new_pod_not_created [simp]: "\<not> isCreated (newVersionedStatefulSetPod gate cs us cur upd i reps)"
proof -
  have "Phase (Status (newStatefulSetPod v k)) = PhaseUnset" for v k
    by (simp add: newStatefulSetPod_def sts_updateStorage_def initIdentity_def updateIdentity_def pod_from_template_def
        zero_defs Let_def split_beta)
  then show ?thesis by (simp add: isCreated_def newVersionedStatefulSetPod_def setPodRevision_def)
qed

lemma fill_length [simp]: "length (fill_replicas gate cs us cur upd reserved ords reps) = length reps"
  by (induction ords arbitrary: reps) simp_all

lemma fill_nth:
  assumes "i < length reps" and "set ords \<subseteq> {..<length reps}"
  shows "int i \<in> set reserved \<or> reps ! i \<noteq> None \<or> i \<notin> set ords \<Longrightarrow>
      fill_replicas gate cs us cur upd reserved ords reps ! i = reps ! i"
    and "int i \<notin> set reserved \<Longrightarrow> reps ! i = None \<Longrightarrow> i \<in> set ords \<Longrightarrow>
      \<exists>rs. fill_replicas gate cs us cur upd reserved ords reps ! i = Some (newVersionedStatefulSetPod gate cs us cur upd i rs)"
proof -
  have keep: "fill_replicas gate cs us cur upd reserved ords reps ! i = reps ! i"
    if "int i \<in> set reserved \<or> reps ! i \<noteq> None \<or> i \<notin> set ords" "i < length reps" for ords reps
    using that
  proof (induction ords arbitrary: reps)
    case (Cons k ords)
    show ?case
    proof (cases "int k \<in> set reserved \<or> reps ! k \<noteq> None")
      case True
      then show ?thesis using Cons by auto
    next
      case False
      then have "i \<noteq> k" using Cons.prems(1) by auto
      then show ?thesis using False Cons.IH Cons.prems by (auto simp: nth_list_update)
    qed
  qed simp
  then show "int i \<in> set reserved \<or> reps ! i \<noteq> None \<or> i \<notin> set ords \<Longrightarrow>
      fill_replicas gate cs us cur upd reserved ords reps ! i = reps ! i" using assms(1) by blast
  show "\<exists>rs. fill_replicas gate cs us cur upd reserved ords reps ! i = Some (newVersionedStatefulSetPod gate cs us cur upd i rs)"
    if "int i \<notin> set reserved" "reps ! i = None" "i \<in> set ords"
    using that assms
  proof (induction ords arbitrary: reps)
    case (Cons k ords)
    show ?case
    proof (cases "i = k")
      case True
      then show ?thesis using Cons.prems keep by auto
    next
      case False
      then show ?thesis using Cons.IH Cons.prems by (auto simp: nth_list_update)
    qed
  qed simp
qed

lemma findSomeD: "find P xs = Some x \<Longrightarrow> x \<in> set xs \<and> P x"
  by (auto simp: find_Some_iff)

lemma ascending_weak: "strict_weak ascendingOrdinal_Less"
  by (auto simp: strict_weak_def ascendingOrdinal_Less_def)

text \<open>A control over an index of pods, with one claim per question, for examples.\<close>

definition index_revisions :: "pod_index revision_client" where
  "index_revisions = \<lparr>ListRevisions = (\<lambda>_ _ _. Inr []), CreateRevision = (\<lambda>r w. (Inr r, w)),
     GetRevision = (\<lambda>_ _ _. Inl NotFound), UpdateRevision' = (\<lambda>r w. (Inr r, w)), DeleteRevision = (\<lambda>_ w. (None, w))\<rparr>"

definition index_ctl :: "pod_index sts_ctl" where
  "index_ctl = \<lparr>StsNow = 0, StsAdapter = InformerLifecycle, StsSortMessages = go_sort, StsFormatTime = (\<lambda>_. []),
     StsSortPods = go_sort,
     OMCreatePod = (\<lambda>p w. if w (Namespace p, Name p) = None then (None, w((Namespace p, Name p) \<mapsto> p)) else (Some AlreadyExists, w)),
     OMGetPod = (\<lambda>ns n w. case w (ns, n) of None \<Rightarrow> Inl NotFound | Some p \<Rightarrow> Inr p),
     OMUpdatePod = (\<lambda>p w. (None, w((Namespace p, Name p) \<mapsto> p))),
     OMDeletePod = (\<lambda>p w. (None, w((Namespace p, Name p) := None))),
     OMCreateClaim = (\<lambda>_ w. (None, w)), OMGetClaim = (\<lambda>_ _ _. Inl NotFound), OMUpdateClaim = (\<lambda>_ w. (None, w)),
     StsRevisionClient = index_revisions, StsHash = (\<lambda>_ _. ''h''), StsEncode = (\<lambda>_. []), StsDecode = (\<lambda>_. None),
     StsSelectorText = (\<lambda>_. []), StsMatches = (\<lambda>_ _. True), StsCreateJobs = (\<lambda>_ _ _ w. w), StsDeleteJobs = (\<lambda>_ w. w),
     StsUpdateStatus = (\<lambda>_ w. (None, w)), StsGetSet = (\<lambda>_ _ _. Inl NotFound), StsMergePatch = (\<lambda>_ _. None),
     StsHashContainer = (\<lambda>_. 0), StsHashEnvs = (\<lambda>_. 0), StsRevisionPatch = (\<lambda>_ _. None),
     StsRevisionTemplate = (\<lambda>_. None), StsTwoWayPatch = (\<lambda>_ _. None), AutoDeletePVCGate = False,
     PreparingUpdateGate = False, StsEnvGate = False, StsPreDownloadDisabled = True\<rparr>"

definition index_pass :: "statefulset \<Rightarrow> pod_index sts_pass" where
  "index_pass sts = \<lparr>PCtl = index_ctl, PSet = sts, PCurrentSet = sts, PUpdateSet = sts, PCur = ''a'', PUpd = ''b''\<rparr>"

lemmas index_defs = index_ctl_def index_pass_def index_revisions_def

text \<open>
  C38: The pods of a set are split by ordinal.  There is a replica for each unreserved ordinal of the range,
  as many as the set asks for: the pod with that ordinal, or a new one when there is none.  The pods beyond
  the range and those with a reserved ordinal are condemned, in ascending order.
\<close>

theorem partition_by_ordinal:
  assumes "go_sorter (StsSortPods (PCtl a))" and "getStatefulSetReplicasRange (PSet a) = (n, reserved)"
    and "sts_partition a pods = (replicas, condemned)"
  shows "length replicas = n \<and> (\<forall>i<n. replicas ! i = None \<longleftrightarrow> int i \<in> set reserved)
    \<and> card {i. i < n \<and> replicas ! i \<noteq> None} = nat (STSReplicas (STSpec (PSet a)))
    \<and> (\<forall>i<n. \<forall>p. replicas ! i = Some p \<longrightarrow>
          p \<in> set pods \<and> getOrdinal p = int i \<or> (\<forall>q\<in>set pods. getOrdinal q \<noteq> int i) \<and> \<not> isCreated p)
    \<and> mset condemned = filter_mset (out_of_range n reserved) (mset pods)
    \<and> sorted_wrt (\<lambda>p q. getOrdinal p \<le> getOrdinal q) condemned"
proof -
  obtain rs cs where rc: "foldl (place_pod n reserved) (replicate n None, []) pods = (rs, cs)" by fastforce
  let ?fill = "fill_replicas (PreparingUpdateGate (PCtl a)) (PCurrentSet a) (PUpdateSet a) (PCur a) (PUpd a) reserved [0..<n] rs"
  have parts: "replicas = ?fill" "condemned = StsSortPods (PCtl a) ascendingOrdinal_Less cs"
    using assms(2,3) rc by (simp_all add: sts_partition_def)
  have len: "length rs = n" and cs: "cs = filter (out_of_range n reserved) pods"
    using place_pods [OF rc] by simp_all
  have placed: "rs ! i = (if int i \<in> set reserved then None else find (\<lambda>p. getOrdinal p = int i) (rev pods))" if "i < n" for i
    using place_pods [OF rc] that by (auto split: option.splits)
  have at: "(replicas ! i = None \<longleftrightarrow> int i \<in> set reserved) \<and> (\<forall>p. replicas ! i = Some p \<longrightarrow>
      p \<in> set pods \<and> getOrdinal p = int i \<or> (\<forall>q\<in>set pods. getOrdinal q \<noteq> int i) \<and> \<not> isCreated p)" if i: "i < n" for i
  proof -
    have "i < length rs" "set [0..<n] \<subseteq> {..<length rs}" using i len by auto
    note fill = fill_nth [OF this, where reserved = reserved]
    show ?thesis
    proof (cases "int i \<in> set reserved \<or> rs ! i \<noteq> None")
      case True
      then have "replicas ! i = rs ! i" using fill(1) i len parts(1) by auto
      with True placed [OF i] show ?thesis by (auto dest!: findSomeD split: if_splits)
    next
      case False
      then obtain q where "replicas ! i = Some q" "\<not> isCreated q" using fill(2) i len parts(1) by force
      with False placed [OF i] show ?thesis by (auto simp: find_None_iff)
    qed
  qed
  have "{i. i < n \<and> replicas ! i \<noteq> None} = {i. i < n \<and> int i \<notin> set reserved}"
    by (rule Collect_cong) (metis at)
  moreover have "card {i. i < n \<and> int i \<notin> set reserved} = nat (STSReplicas (STSpec (PSet a)))"
    using assms(2) range_loop_spec [of 0 "nat (STSReplicas (STSpec (PSet a)))" reserved]
    by (auto simp: getStatefulSetReplicasRange_def free_ordinals_def)
  moreover have "sorted_wrt (\<lambda>p q. getOrdinal p \<le> getOrdinal q) condemned"
    using go_sorter.srt_sorted [OF assms(1) ascending_weak, of cs] parts(2) by (simp add: ascendingOrdinal_Less_def not_less)
  moreover have "mset condemned = filter_mset (out_of_range n reserved) (mset pods)"
    using go_sorter.srt_perm [OF assms(1)] parts(2) cs by simp
  moreover have "length replicas = n" using len parts(1) by simp
  ultimately show ?thesis using at by simp
qed

theorem partition_by_ordinal_witness:
  "let a = index_pass (zero_sts\<lparr>Name := ''web'', STSpec := zero_sts_spec\<lparr>STSReplicas := 2, ReserveOrdinals := [0]\<rparr>\<rparr>);
       pods = [zero_pod\<lparr>Name := ''web-5''\<rparr>, zero_pod\<lparr>Name := ''web-0''\<rparr>];
       (replicas, condemned) = sts_partition a pods
   in length replicas = 3 \<and> card {i. i < 3 \<and> replicas ! i \<noteq> None} = 2
      \<and> mset condemned = filter_mset (out_of_range 3 [0]) (mset pods)"
proof -
  let ?sts = "zero_sts\<lparr>Name := ''web'', STSpec := zero_sts_spec\<lparr>STSReplicas := 2, ReserveOrdinals := [0]\<rparr>\<rparr>"
  have srt: "go_sorter (StsSortPods (PCtl (index_pass ?sts)))"
    by (simp add: index_defs insertion.go_sorter_axioms)
  have "range_loop (nat 2) [0] 0 = 3" by (simp add: numeral_2_eq_2 numeral_3_eq_3 range_loop_taken range_loop_free)
  then have range: "getStatefulSetReplicasRange (PSet (index_pass ?sts)) = (3, [0])"
    by (simp add: getStatefulSetReplicasRange_def index_defs)
  from partition_by_ordinal [OF srt range prod.collapse [symmetric]] show ?thesis
    by (simp add: split_beta Let_def index_pass_def)
qed

section \<open>Ordered pod management\<close>

definition settled :: "'w sts_pass \<Rightarrow> pod \<Rightarrow> bool" where
  "settled a p \<longleftrightarrow> \<not> isTerminating p \<and> fst (p_available a p)"

lemma loop_fields [simp]:
  "LReplicas (set_world w l) = LReplicas l" "LReplicas (push_if key d l) = LReplicas l"
  by (simp_all add: set_world_def push_if_def)

lemma recreate_keeps:
  assumes "recreate_failed a j p l = (e, l')"
  shows "length (LReplicas l') = length (LReplicas l)" and "i \<noteq> j \<Longrightarrow> LReplicas l' ! i = LReplicas l ! i"
  using assms by (auto simp: recreate_failed_def Let_def split: if_splits prod.splits option.splits)

lemma recreated:
  assumes "recreate_failed a i p l = (None, l')" and "LReplicas l ! i = Some p" and "i < length (LReplicas l)"
  shows "\<exists>q. LReplicas l' ! i = Some q \<and> (q = p \<and> l' = l \<and> \<not> isFailed p \<or> \<not> isCreated q)"
  using assms by (auto simp: recreate_failed_def Let_def split: if_splits prod.splits option.splits)

lemma create_keeps:
  assumes "create_replica a j q l = (f, l')"
  shows "length (LReplicas l') = length (LReplicas l)" and "i \<noteq> j \<Longrightarrow> LReplicas l' ! i = LReplicas l ! i"
    and "p_monotonic a \<Longrightarrow> \<exists>e. f = Return e"
  using assms by (auto simp: create_replica_def Let_def split: if_splits prod.splits option.splits sum.splits bool.splits)

lemma enforce_keeps:
  assumes "enforce_replica a q l = (f, l')"
  shows "LReplicas l' = LReplicas l" and "f \<noteq> Break"
  using assms by (auto simp: enforce_replica_def Let_def split: if_splits prod.splits option.splits)

lemma check_keeps:
  assumes "check_replica a q l = (f, l')"
  shows "LReplicas l' = LReplicas l" and "p_monotonic a \<Longrightarrow> f \<noteq> Break"
    and "p_monotonic a \<Longrightarrow> \<not> settled a q \<Longrightarrow> \<exists>e. f = Return e"
  using assms
  by (auto simp: check_replica_def Let_def settled_def dest: enforce_keeps
      split: if_splits prod.splits option.splits)

text \<open>One replica of the loop, when it is there.\<close>

definition examine_one :: "'w sts_pass \<Rightarrow> nat \<Rightarrow> pod \<Rightarrow> 'w sts_loop \<Rightarrow> flow \<times> 'w sts_loop" where
  "examine_one a i p l =
     (case recreate_failed a i p l of
        (Some e, l1) \<Rightarrow> (Return (Some e), l1)
      | (None, l1) \<Rightarrow> (let q = the (LReplicas l1 ! i) in if \<not> isCreated q then create_replica a i q l1 else check_replica a q l1))"

lemma examine_Cons:
  "LReplicas l ! i = None \<Longrightarrow> examine_replicas a (i # is) l = examine_replicas a is l"
  "LReplicas l ! i = Some p \<Longrightarrow> examine_replicas a (i # is) l =
     (case examine_one a i p l of
        (Return e, l1) \<Rightarrow> (Some e, l1) | (Break, l1) \<Rightarrow> (None, l1) | (Continue, l1) \<Rightarrow> examine_replicas a is l1)"
  by (auto simp: examine_one_def Let_def split: prod.splits option.splits flow.splits)

lemma examine_one_keeps:
  assumes "examine_one a j p l = (f, l')"
  shows "length (LReplicas l') = length (LReplicas l)" and "i \<noteq> j \<Longrightarrow> LReplicas l' ! i = LReplicas l ! i"
    and "p_monotonic a \<Longrightarrow> f \<noteq> Break"
proof -
  obtain r l1 where r: "recreate_failed a j p l = (r, l1)" by fastforce
  note keep = recreate_keeps [OF r]
  show "length (LReplicas l') = length (LReplicas l)"
    using assms r keep by (auto simp: examine_one_def Let_def dest: create_keeps(1) check_keeps(1) split: option.splits if_splits)
  show "LReplicas l' ! i = LReplicas l ! i" if "i \<noteq> j"
    using assms r keep that
    by (auto simp: examine_one_def Let_def dest: create_keeps(2) [where i = i] check_keeps(1) split: option.splits if_splits)
  show "f \<noteq> Break" if "p_monotonic a"
    using assms r that
    by (auto simp: examine_one_def Let_def dest: create_keeps(3) check_keeps(2) split: option.splits if_splits)
qed

lemma examine_one_unsettled:
  assumes "p_monotonic a" and "LReplicas l ! i = Some p" and "i < length (LReplicas l)" and "\<not> settled a p"
  shows "\<exists>e l'. examine_one a i p l = (Return e, l')"
proof -
  obtain r l1 where r: "recreate_failed a i p l = (r, l1)" by fastforce
  show ?thesis
  proof (cases r)
    case None
    from recreated [OF r [unfolded None] assms(2,3)]
    obtain q where q: "LReplicas l1 ! i = Some q" "q = p \<or> \<not> isCreated q" by blast
    obtain f l2 where step: "(if \<not> isCreated q then create_replica a i q l1 else check_replica a q l1) = (f, l2)" by fastforce
    then have "\<exists>e. f = Return e"
      using q(2) assms(1,4) create_keeps(3) check_keeps(3) by (metis (no_types, lifting))
    with r None q(1) step show ?thesis by (auto simp: examine_one_def Let_def split: if_splits)
  qed (use r in \<open>simp add: examine_one_def\<close>)
qed

lemma examine_stops:
  assumes "p_monotonic a" and "i \<notin> set pre" and "LReplicas l ! i = Some p" and "i < length (LReplicas l)" and "\<not> settled a p"
  shows "\<exists>e l'. examine_replicas a (pre @ [i]) l = (Some e, l') \<and> examine_replicas a (pre @ i # post) l = (Some e, l')"
  using assms(2-4)
proof (induction pre arbitrary: l)
  case Nil
  then obtain e l' where "examine_one a i p l = (Return e, l')" using examine_one_unsettled assms(1,5) by blast
  with Nil.prems(2) show ?case by (simp add: examine_Cons(2) del: examine_replicas.simps)
next
  case (Cons j pre)
  show ?case
  proof (cases "LReplicas l ! j")
    case None
    with Cons show ?thesis by simp
  next
    case (Some q)
    obtain f l1 where step: "examine_one a j q l = (f, l1)" by fastforce
    note keeps = examine_one_keeps [OF step]
    from keeps Cons.prems have "LReplicas l1 ! i = Some p" "i < length (LReplicas l1)" by auto
    note IH = Cons.IH [OF _ this]
    show ?thesis
      using IH Cons.prems(1) keeps(3) [OF assms(1)] Some step
      by (cases f) (simp_all add: examine_Cons(2) del: examine_replicas.simps)
  qed
qed

text \<open>
  C37: With ordered pod management the pass ends at the first replica that is terminating or not available:
  no later replica is created or repaired, no pod is scaled down and none is updated.
\<close>

theorem ordered_pod_management:
  assumes "p_monotonic a" and "DeletionTimestamp (PSet a) = None"
    and "i < length replicas" and "replicas ! i = Some p" and "\<not> settled a p"
  shows "\<exists>e l. examine_replicas a [0..<Suc i] \<lparr>LStatus = s, LReplicas = replicas, LMax = limit, LState = st\<rparr> = (Some e, l)
    \<and> sts_act a updateRevision revisions pods replicas condemned limit s st = ((LStatus l, e), LState l)"
proof -
  let ?l = "\<lparr>LStatus = s, LReplicas = replicas, LMax = limit, LState = st\<rparr>"
  have "[0..<length replicas] = [0..<i] @ i # [Suc i..<length replicas]"
    using assms(3) upt_add_eq_append [of 0 i "length replicas - i"] by (simp add: upt_conv_Cons)
  moreover obtain e l where "examine_replicas a ([0..<i] @ [i]) ?l = (Some e, l)"
    "examine_replicas a ([0..<i] @ i # [Suc i..<length replicas]) ?l = (Some e, l)"
    using examine_stops [OF assms(1), of i "[0..<i]" ?l p "[Suc i..<length replicas]"] assms(3-5) by auto
  ultimately show ?thesis using assms(2) by (simp add: sts_act_def Let_def)
qed

theorem ordered_pod_management_witness:
  "\<forall>upd st. \<exists>e l. examine_replicas (index_pass zero_sts) [0..<Suc 0]
       \<lparr>LStatus = sts_zero_status, LReplicas = [Some zero_pod, Some zero_pod], LMax = None, LState = st\<rparr> = (Some e, l)
    \<and> sts_act (index_pass zero_sts) upd [] [] [Some zero_pod, Some zero_pod] [] None sts_zero_status st = ((LStatus l, e), LState l)"
  by (intro allI, rule ordered_pod_management [where p = zero_pod])
    (simp_all add: p_monotonic_def index_defs allowsBurst_def zero_sts_defs settled_def p_available_def isRunningAndAvailable_def)

section \<open>The plan of a rolling update\<close>

text \<open>
  What the loop of a rolling update does, apart from the calls: the indexes of the replicas it updates.
  A replica is updated in place, or deleted when that is not possible.
\<close>

definition pending :: "'w sts_pass \<Rightarrow> pod \<Rightarrow> bool" where
  "pending a p \<longleftrightarrow> getPodRevision p \<noteq> PUpd a \<and> \<not> isTerminating p"

fun update_plan :: "'w sts_pass \<Rightarrow> int \<Rightarrow> pod option list \<Rightarrow> nat list \<Rightarrow> string set \<Rightarrow> nat list" where
  "update_plan a m replicas [] names = []"
| "update_plan a m replicas (i # is) names =
     (let p = the (replicas ! i) in
      if getPodRevision p = PUpd a then update_plan a m replicas is names
      else if int (card names) \<ge> m \<and> Name p \<notin> names then []
      else if isTerminating p then update_plan a m replicas is names
      else i # update_plan a m replicas is (insert (Name p) names))"

definition touch_replica ::
  "'w sts_pass \<Rightarrow> controller_revision \<Rightarrow> controller_revision list \<Rightarrow> pod \<Rightarrow> 'w sts_state \<Rightarrow> api_error option \<times> 'w sts_state" where
  "touch_replica a updateRevision revisions p st =
     (case sts_inPlaceUpdatePod (PCtl a) (PSet a) p updateRevision revisions st of
        ((_, Some e), st1) \<Rightarrow> (Some e, st1)
      | ((inplacing, None), st1) \<Rightarrow>
          if inplacing then (None, st1)
          else case sts_deletePod (PCtl a) (PSet a) p (StsWorld st1) of ((_, e), w) \<Rightarrow> (e, st1\<lparr>StsWorld := w\<rparr>))"

fun touch_all ::
  "'w sts_pass \<Rightarrow> controller_revision \<Rightarrow> controller_revision list \<Rightarrow> pod list \<Rightarrow> sts_status \<Rightarrow> 'w sts_state
   \<Rightarrow> (sts_status \<times> api_error option) \<times> 'w sts_state" where
  "touch_all a updateRevision revisions [] s st = ((s, None), st)"
| "touch_all a updateRevision revisions (p # ps) s st =
     (case touch_replica a updateRevision revisions p st of
        (Some e, st1) \<Rightarrow> ((s, Some e), st1)
      | (None, st1) \<Rightarrow>
          touch_all a updateRevision revisions ps
            (if getPodRevision p = PCur a then s\<lparr>STCurrentReplicas := STCurrentReplicas s - 1\<rparr> else s) st1)"

lemma update_targets_plan:
  "update_targets a updateRevision revisions m replicas is names s st =
     touch_all a updateRevision revisions (map (\<lambda>i. the (replicas ! i)) (update_plan a m replicas is names)) s st"
proof (induction "is" arbitrary: names s st)
  case (Cons i "is")
  then show ?case
    by (auto simp: Let_def touch_replica_def split: prod.splits option.splits bool.splits)
qed simp

lemma plan_pending: "i \<in> set (update_plan a m replicas is names) \<Longrightarrow> i \<in> set is \<and> pending a (the (replicas ! i))"
  by (induction "is" arbitrary: names) (auto simp: Let_def pending_def split: if_splits)

lemma plan_sorted: "sorted_wrt R is \<Longrightarrow> sorted_wrt R (update_plan a m replicas is names)"
  by (induction "is" arbitrary: names) (auto simp: Let_def dest: plan_pending)

lemma plan_bound:
  assumes "finite names"
  shows "int (card (names \<union> (\<lambda>i. Name (the (replicas ! i))) ` set (update_plan a m replicas is names))) \<le> max m (int (card names))"
  using assms
proof (induction "is" arbitrary: names)
  case (Cons i "is")
  let ?n = "Name (the (replicas ! i))"
  have "int (card (insert ?n names)) \<le> max m (int (card names))" if "\<not> (m \<le> int (card names) \<and> ?n \<notin> names)"
    using that Cons.prems by (cases "?n \<in> names") (auto simp: insert_absorb)
  then show ?case using Cons.IH [of names] Cons.IH [of "insert ?n names"] Cons.prems by (auto simp: Let_def)
qed simp

lemma plan_maximal:
  assumes "finite names" and "i \<in> set is" and "pending a (the (replicas ! i))"
  shows "i \<in> set (update_plan a m replicas is names)
    \<or> m \<le> int (card (names \<union> (\<lambda>i. Name (the (replicas ! i))) ` set (update_plan a m replicas is names)))"
  using assms
proof (induction "is" arbitrary: names)
  case (Cons j "is")
  then show ?case using Cons.IH [of names] Cons.IH [of "insert (Name (the (replicas ! j))) names"]
    by (auto simp: Let_def pending_def)
qed simp

lemma collect_names:
  "fst (collect_unavailable a replicas names w st) = names \<union> Name ` {p. Some p \<in> set replicas \<and> sts_unavailable a p}"
  by (induction a replicas names w st rule: collect_unavailable.induct) (auto simp: Let_def)

definition unavailable_names :: "'w sts_pass \<Rightarrow> pod option list \<Rightarrow> string set" where
  "unavailable_names a replicas = Name ` {p. Some p \<in> set replicas \<and> sts_unavailable a p}"

definition update_min :: "statefulset \<Rightarrow> int" where
  "update_min sts = (case RollingUpdate (STSpec sts) of None \<Rightarrow> 0 | Some ru \<Rightarrow> RUPartition ru)"

definition rolling_plan :: "'w sts_pass \<Rightarrow> int \<Rightarrow> pod option list \<Rightarrow> nat list" where
  "rolling_plan a m replicas =
     update_plan a m replicas
       (sortPodsToUpdate (PreparingUpdateGate (PCtl a)) (RollingUpdate (STSpec (PSet a))) (PUpd a) (STSReplicas (STSpec (PSet a))) replicas)
       (unavailable_names a replicas)"

definition update_candidates :: "'w sts_pass \<Rightarrow> pod option list \<Rightarrow> nat set" where
  "update_candidates a replicas = {i. i < length replicas \<and> update_min (PSet a) \<le> int i
      \<and> (\<exists>p. replicas ! i = Some p \<and> getPodRevision p \<noteq> PUpd a \<and> \<not> isTerminating p)}"

lemma finite_unavailable: "finite (unavailable_names a replicas)"
proof -
  have "{p. Some p \<in> set replicas \<and> sts_unavailable a p} \<subseteq> the ` set replicas" by force
  then show ?thesis unfolding unavailable_names_def by (meson finite_imageI finite_set finite_subset)
qed

text \<open>
  C35: When the update expectations are satisfied, no pod changed its state and the set is not paused, the
  rolling update updates the replicas of its plan until an error.  Together with the unavailable replicas
  these are never more than the allowed number, unless more were unavailable before.
\<close>

theorem rolling_update_bound:
  assumes "UpdateSatisfied (StsNow (PCtl a)) (getStatefulSetKey (PSet a)) (PUpd a) (StsUpdateExp st) = ((True, d), ue)"
    and "refresh_pods a False pods (st\<lparr>StsUpdateExp := ue\<rparr>) = ((False, None), st2)"
    and "\<forall>ru. RollingUpdate (STSpec (PSet a)) = Some ru \<longrightarrow> \<not> RUPaused ru"
    and "sts_maxUnavailable (PSet a) = Some m"
  shows "rollingUpdateStatefulsetPods a s updateRevision revisions pods replicas st =
      touch_all a updateRevision revisions (map (\<lambda>i. the (replicas ! i)) (rolling_plan a m replicas)) s
        (snd (collect_unavailable a replicas {} (300 * second) st2))
    \<and> int (card (unavailable_names a replicas \<union> (\<lambda>i. Name (the (replicas ! i))) ` set (rolling_plan a m replicas)))
        \<le> max m (int (card (unavailable_names a replicas)))"
proof
  have "fst (collect_unavailable a replicas {} (300 * second) st2) = unavailable_names a replicas"
    by (simp add: collect_names unavailable_names_def)
  moreover have "\<not> (case RollingUpdate (STSpec (PSet a)) of None \<Rightarrow> False | Some ru \<Rightarrow> RUPaused ru)"
    using assms(3) by (cases "RollingUpdate (STSpec (PSet a))") auto
  ultimately show "rollingUpdateStatefulsetPods a s updateRevision revisions pods replicas st =
      touch_all a updateRevision revisions (map (\<lambda>i. the (replicas ! i)) (rolling_plan a m replicas)) s
        (snd (collect_unavailable a replicas {} (300 * second) st2))"
    using assms(1,2,4)
    by (simp add: rollingUpdateStatefulsetPods_def update_targets_plan rolling_plan_def split_beta Let_def)
  show "int (card (unavailable_names a replicas \<union> (\<lambda>i. Name (the (replicas ! i))) ` set (rolling_plan a m replicas)))
        \<le> max m (int (card (unavailable_names a replicas)))"
    unfolding rolling_plan_def by (rule plan_bound [OF finite_unavailable])
qed

theorem rolling_update_bound_witness:
  "let a = index_pass zero_sts; st = \<lparr>StsUpdateExp = Map.empty, StsDurations = Map.empty, StsWorld = Map.empty\<rparr>;
       replicas = [Some (zero_pod\<lparr>Name := ''web-0''\<rparr>)]
   in \<forall>upd. rollingUpdateStatefulsetPods a sts_zero_status upd [] [] replicas st =
        touch_all a upd [] (map (\<lambda>i. the (replicas ! i)) (rolling_plan a 1 replicas)) sts_zero_status
          (snd (collect_unavailable a replicas {} (300 * second) st))"
proof -
  let ?a = "index_pass zero_sts"
  let ?st = "\<lparr>StsUpdateExp = Map.empty, StsDurations = Map.empty, StsWorld = Map.empty\<rparr> :: pod_index sts_state"
  have "UpdateSatisfied (StsNow (PCtl ?a)) (getStatefulSetKey (PSet ?a)) (PUpd ?a) (StsUpdateExp ?st) = ((True, 0, []), Map.empty)"
    by (simp add: UpdateSatisfied_def)
  moreover have "refresh_pods ?a False [] (?st\<lparr>StsUpdateExp := Map.empty\<rparr>) = ((False, None), ?st)" by simp
  moreover have "\<forall>ru. RollingUpdate (STSpec (PSet ?a)) = Some ru \<longrightarrow> \<not> RUPaused ru" "sts_maxUnavailable (PSet ?a) = Some 1"
    by (simp_all add: index_defs zero_sts_defs sts_maxUnavailable_def)
  ultimately show ?thesis unfolding Let_def using rolling_update_bound by blast
qed

text \<open>
  C36: The plan of an ordered rolling update is in descending order of ordinals, holds only replicas at or
  above the partition that are at an old revision and not terminating, and holds all of them unless the allowed
  number of unavailable replicas is used up.
\<close>

theorem rolling_update_order:
  assumes "\<forall>ru. RollingUpdate (STSpec (PSet a)) = Some ru \<longrightarrow> RUUnordered ru = None"
  shows "sorted_wrt (>) (rolling_plan a m replicas) \<and> set (rolling_plan a m replicas) \<subseteq> update_candidates a replicas
    \<and> (set (rolling_plan a m replicas) = update_candidates a replicas
       \<or> m \<le> int (card (unavailable_names a replicas \<union> (\<lambda>i. Name (the (replicas ! i))) ` set (rolling_plan a m replicas))))"
proof -
  let ?order = "sortPodsToUpdate (PreparingUpdateGate (PCtl a)) (RollingUpdate (STSpec (PSet a))) (PUpd a) (STSReplicas (STSpec (PSet a))) replicas"
  have order: "?order = filter (\<lambda>i. update_min (PSet a) \<le> int i) (filter (\<lambda>i. replicas ! i \<noteq> None) (rev [0..<length replicas]))"
    using assms(1) by (auto simp: sortPodsToUpdate_def update_min_def Let_def split: option.splits)
  have "sorted_wrt (>) ?order" unfolding order by (intro sorted_wrt_filter) (simp add: sorted_wrt_rev)
  then have "sorted_wrt (>) (rolling_plan a m replicas)" unfolding rolling_plan_def by (rule plan_sorted)
  moreover have cand: "i \<in> update_candidates a replicas \<longleftrightarrow> i \<in> set ?order \<and> pending a (the (replicas ! i))" for i
    unfolding order update_candidates_def pending_def by auto
  then have "set (rolling_plan a m replicas) \<subseteq> update_candidates a replicas"
    unfolding rolling_plan_def by (auto dest: plan_pending)
  moreover have "i \<in> set (rolling_plan a m replicas) \<or>
      m \<le> int (card (unavailable_names a replicas \<union> (\<lambda>i. Name (the (replicas ! i))) ` set (rolling_plan a m replicas)))"
    if "i \<in> update_candidates a replicas" for i
    using that unfolding cand rolling_plan_def by (intro plan_maximal [OF finite_unavailable]) auto
  ultimately show ?thesis by auto
qed

theorem rolling_update_order_witness:
  "let a = index_pass zero_sts; replicas = [Some (zero_pod\<lparr>Name := ''web-0''\<rparr>), Some (zero_pod\<lparr>Name := ''web-1''\<rparr>)]
   in sorted_wrt (>) (rolling_plan a 2 replicas) \<and> set (rolling_plan a 2 replicas) \<subseteq> update_candidates a replicas"
  unfolding Let_def by (intro conjI rolling_update_order [THEN conjunct1] rolling_update_order [THEN conjunct2, THEN conjunct1])
    (simp_all add: index_defs zero_sts_defs)

section \<open>Scaling down\<close>

text \<open>
  Scaling down ends with the first pod that is deleted, also with parallel pod management.
\<close>

theorem parallel_scale_down_stops:
  assumes "\<not> p_monotonic a" and "list_all isTerminating gone" and "\<not> isTerminating p"
    and "\<not> IsPodHooked (sts_hook PreDelete (PSet a)) p"
  shows "scale_down a firstUnhealthy (gone @ p # ps) l =
    (case OMDeletePod (PCtl a) p (StsWorld (LState l)) of (e, w) \<Rightarrow> (Some e, set_world w l))"
  using assms(2)
proof (induction gone)
  case Nil
  then show ?case
    using assms(1,3,4) by (auto simp: sts_deletePod_def DeleteStatefulPod_def split_beta split: prod.splits option.splits)
qed (use assms(1) in simp)

theorem parallel_scale_down_stops_witness:
  "let sts = zero_sts\<lparr>STSpec := zero_sts_spec\<lparr>PodManagementPolicy := ''Parallel''\<rparr>\<rparr>;
       p = zero_pod\<lparr>Name := ''web-1''\<rparr>; q = zero_pod\<lparr>Name := ''web-0''\<rparr>;
       l = \<lparr>LStatus = sts_zero_status, LReplicas = [], LMax = None, LState = \<lparr>StsUpdateExp = Map.empty, StsDurations = Map.empty,
              StsWorld = [([], ''web-0'') \<mapsto> q, ([], ''web-1'') \<mapsto> p]\<rparr>\<rparr>
   in StsWorld (LState (snd (scale_down (index_pass sts) None [p, q] l))) = [([], ''web-0'') \<mapsto> q]"
proof -
  let ?sts = "zero_sts\<lparr>STSpec := zero_sts_spec\<lparr>PodManagementPolicy := ''Parallel''\<rparr>\<rparr>"
  let ?p = "zero_pod\<lparr>Name := ''web-1''\<rparr>" and ?q = "zero_pod\<lparr>Name := ''web-0''\<rparr>"
  have "\<not> p_monotonic (index_pass ?sts)" "\<not> isTerminating ?p" "\<not> IsPodHooked (sts_hook PreDelete (PSet (index_pass ?sts))) ?p"
    by (simp_all add: p_monotonic_def allowsBurst_def index_defs isTerminating_def zero_sts_defs sts_hook_def IsPodHooked_def)
  from parallel_scale_down_stops [OF this(1) _ this(2,3), of "[]" None "[?q]"] show ?thesis
    unfolding Let_def by (simp add: index_defs set_world_def zero_defs fun_eq_iff)
qed

end
