(* ===== verification/Pub_Control.thy ===== *)
theory Pub_Control
  imports Inplace_Update Util_Selector Pod_Readiness "HOL-Library.List_Lexorder"
begin

text \<open>
  PodUnavailableBudgets: the control of \<open>pkg/control/pubcontrol\<close>, which the pod webhook asks whether an
  update, a deletion or an eviction is allowed, the webhook's own part
  (\<open>pkg/webhook/pod/validating/pod_unavailable_budget.go\<close>), the controller that writes the status
  (\<open>pkg/controller/podunavailablebudget\<close>) and its event handlers.

  The API client, the lister, the finder of workloads and their scales, the parser of image references and
  the decoder of the sidecar state are arguments.  The process-wide cache of written budgets is state; its
  key is the namespace and the name, since it holds no other kind.  A process runs one attempt at a time
  under the mutex of the budget.  Events, metrics and logs are left out.
\<close>

section \<open>Budgets\<close>

record pub_status =
  PubObservedGeneration :: int
  DisruptedPods :: "string \<rightharpoonup> int"
  UnavailablePods :: "string \<rightharpoonup> int"
  UnavailableAllowed :: int
  CurrentAvailable :: int
  DesiredAvailable :: int
  PubTotalReplicas :: int

record target_ref =
  RefAPIVersion :: string
  RefKind :: string
  RefName :: string

record pub_spec =
  PubSelector :: "label_selector option"
  TargetReference :: "target_ref option"
  PubMaxUnavailable :: "int_or_string option"
  PubMinAvailable :: "int_or_string option"

record pub_budget = object_meta +
  PubSpec :: pub_spec
  PubStatus :: pub_status

datatype pub_operation = PubUpdateOperation | PubDeleteOperation | PubEvictOperation

fun pub_operation_name :: "pub_operation \<Rightarrow> string" where
  "pub_operation_name PubUpdateOperation = ''UPDATE''"
| "pub_operation_name PubDeleteOperation = ''DELETE''"
| "pub_operation_name PubEvictOperation = ''EVICT''"

definition annotation :: "('a) object_meta_scheme \<Rightarrow> string \<Rightarrow> string" where
  "annotation obj k = (case anno_text (Annotations obj k) of None \<Rightarrow> [] | Some v \<Rightarrow> v)"

definition PodRelatedPubAnnotation :: string where "PodRelatedPubAnnotation = ''kruise.io/related-pub''"

record 'w pub_env =
  PubNow :: int
  PubParseImage :: image_parser
  PubHashContainer :: "container \<Rightarrow> nat"
  PubHashEnvs :: "(string \<times> anno) list \<Rightarrow> nat"
  PubSidecarStates :: "string \<Rightarrow> (string \<rightharpoonup> string \<rightharpoonup> string) option"
  PubInformer :: "string \<Rightarrow> string \<Rightarrow> 'w \<Rightarrow> api_error + pub_budget"
  PubLive :: "string \<Rightarrow> string \<Rightarrow> 'w \<Rightarrow> api_error + pub_budget"
  PubUpdateStatus :: "pub_budget \<Rightarrow> 'w \<Rightarrow> (api_error + pub_budget) \<times> 'w"
  PubListPods :: "string \<Rightarrow> selector \<Rightarrow> 'w \<Rightarrow> api_error + pod list"
  PubListBudgets :: "string \<Rightarrow> 'w \<Rightarrow> api_error + pub_budget list"
  PubGetPod :: "string \<Rightarrow> string \<Rightarrow> 'w \<Rightarrow> api_error + pod"
  PubPatchPod :: "pod \<Rightarrow> string \<Rightarrow> 'w \<Rightarrow> api_error option \<times> 'w"
  PubPodsForRef :: "target_ref \<Rightarrow> string \<Rightarrow> 'w \<Rightarrow> api_error + pod list \<times> int"
  PubExpectedScale :: "pod list \<Rightarrow> 'w \<Rightarrow> api_error + int"

record 'w pub_state =
  PubCache :: "string \<times> string \<rightharpoonup> pub_budget"
  PubWorld :: 'w

section \<open>Pods under a budget\<close>

definition HasUnavailableLabel :: "labels \<Rightarrow> bool" where
  "HasUnavailableLabel ls \<longleftrightarrow>
     (\<exists>k\<in>dom ls. take (length ''unavailable-pod.kruise.io/'') k = ''unavailable-pod.kruise.io/'')"

definition PubIsPodReady :: "pod \<Rightarrow> bool" where
  "PubIsPodReady p \<longleftrightarrow> IsRunningAndReady p \<and> \<not> HasUnavailableLabel (Labels p)"

definition IsPodUnavailableChanged :: "pod \<Rightarrow> pod \<Rightarrow> bool" where
  "IsPodUnavailableChanged oldPod newPod \<longleftrightarrow>
     Spec oldPod \<noteq> Spec newPod \<or> (\<not> HasUnavailableLabel (Labels oldPod) \<and> HasUnavailableLabel (Labels newPod))"

definition getSidecarSetsInPod :: "pod \<Rightarrow> string set \<times> string set" where
  "getSidecarSetsInPod p =
     (let setList = annotation p ''kruise.io/sidecarset-injected-list''
      in (if setList = [] then {} else set (split_on (CHR '','') setList),
          set (map CName (filter (\<lambda>c. GetContainerEnvValue (Some c) ''IS_INJECTED'' = ''true'') (Containers (Spec p))))))"

text \<open>
  The states of the sidecar sets of a pod hold the image ids from before the last update, by container; the
  set that comes last in the alphabet counts for a container that several have.
\<close>

definition IsSidecarContainerUpdateCompleted ::
  "(string \<Rightarrow> (string \<rightharpoonup> string \<rightharpoonup> string) option) \<Rightarrow> pod \<Rightarrow> string set \<Rightarrow> string set \<Rightarrow> bool" where
  "IsSidecarContainerUpdateCompleted Decode p sidecarSets containers =
     (case Annotations p ''kruise.io/sidecarset-inplace-update-state'' of
        None \<Rightarrow> True
      | Some a \<Rightarrow>
          (case (case anno_text (Some a) of None \<Rightarrow> None | Some s \<Rightarrow> Decode s) of
             None \<Rightarrow> False
           | Some states \<Rightarrow>
               (let lastStatus = foldl (\<lambda>m n. case states n of None \<Rightarrow> m | Some ids \<Rightarrow> m ++ ids) Map.empty
                      (sorted_list_of_set sidecarSets);
                    containerImages = map_of (rev (map (\<lambda>c. (CName c, Image c)) (Containers (Spec p))))
                in list_all (\<lambda>cs. StatusName cs \<notin> containers
                     \<or> (case lastStatus (StatusName cs) of
                          None \<Rightarrow> True
                        | Some oldID \<Rightarrow>
                            \<not> (oldID = ImageID cs \<and> lget containerImages (StatusName cs) \<noteq> StatusImage cs)))
                   (ContainerStatuses (Status p)))))"

definition PubIsPodStateConsistent :: "'w pub_env \<Rightarrow> pod \<Rightarrow> bool" where
  "PubIsPodStateConsistent env p =
     (let digest = (\<lambda>c. IsImageDigest (PubParseImage env) (Image c));
          (sidecarSets, sidecars) = getSidecarSetsInPod p
      in if \<not> list_all (\<lambda>c. digest c \<longrightarrow> IsPodContainerDigestEqual (PubParseImage env) {CName c} p) (Containers (Spec p))
         then False
         else if list_all digest (Containers (Spec p)) then True
         else if sidecarSets \<noteq> {} \<and> sidecars \<noteq> {}
                 \<and> \<not> IsSidecarContainerUpdateCompleted (PubSidecarStates env) p sidecarSets sidecars then False
         else DefaultCheckInPlaceUpdateCompleted (PubHashContainer env) (PubHashEnvs env) p = None)"

definition GetPubForPod :: "'w pub_env \<Rightarrow> pod \<Rightarrow> 'w \<Rightarrow> api_error + pub_budget option" where
  "GetPubForPod env p w =
     (let pubName = annotation p PodRelatedPubAnnotation in
      if pubName = [] then Inr None
      else case PubInformer env (Namespace p) pubName w of
             Inl e \<Rightarrow> if e = NotFound then Inr None else Inl e
           | Inr pub \<Rightarrow> Inr (Some pub))"

text \<open>
  \<open>strconv.ParseInt\<close> with its error dropped: 0 for a string that is no number, and the nearest bound for one
  that is out of range.
\<close>

definition parse_int32 :: "string \<Rightarrow> int" where
  "parse_int32 s =
     (case ParseInt s 32 of
        Some v \<Rightarrow> v
      | None \<Rightarrow>
          (let t = (if s \<noteq> [] \<and> (hd s = CHR ''+'' \<or> hd s = CHR ''-'') then tl s else s)
           in if t = [] \<or> \<not> list_all is_digit t then 0
              else if hd s = CHR ''-'' then - (2 ^ 31) else 2 ^ 31 - 1))"

definition GetPodsForPub :: "'w pub_env \<Rightarrow> pub_budget \<Rightarrow> 'w \<Rightarrow> api_error + pod list \<times> int" where
  "GetPodsForPub env pub w =
     (case TargetReference (PubSpec pub) of
        Some ref \<Rightarrow> PubPodsForRef env ref (Namespace pub) w
      | None \<Rightarrow>
          (case PubSelector (PubSpec pub) of
             None \<Rightarrow> Inr ([], 0)
           | Some ls \<Rightarrow>
               (case ValidatedLabelSelectorAsSelector (Some ls) of
                  None \<Rightarrow> Inr ([], 0)
                | Some sel \<Rightarrow>
                    (case PubListPods env (Namespace pub) sel w of
                       Inl e \<Rightarrow> Inl e
                     | Inr items \<Rightarrow>
                         (let matchedPods = filter IsPodActive items;
                              totalText = annotation pub ''pub.kruise.io/protect-total-replicas''
                          in case PubExpectedScale env matchedPods w of
                               Inl e \<Rightarrow> Inl e
                             | Inr expectedCount \<Rightarrow>
                                 if expectedCount = 0 \<and> totalText \<noteq> []
                                 then Inr (matchedPods, parse_int32 totalText)
                                 else Inr (matchedPods, expectedCount))))))"

section \<open>Admission\<close>

definition MaxUnavailablePodSize :: nat where "MaxUnavailablePodSize = 2000"

text \<open>\<open>Inl\<close> is the refusal.\<close>

definition checkAndDecrement ::
  "int \<Rightarrow> string \<Rightarrow> pub_budget \<Rightarrow> pub_operation \<Rightarrow> api_error + pub_budget" where
  "checkAndDecrement now podName pub op =
     (let s = PubStatus pub in
      if UnavailableAllowed s \<le> 0 then Inl (OtherError ''pub unavailable allowed is negative'')
      else if card (dom (DisruptedPods s)) + card (dom (UnavailablePods s)) > MaxUnavailablePodSize
      then Inl (OtherError ''DisruptedPods and UnavailablePods map too big'')
      else
        (let s1 = s\<lparr>UnavailableAllowed := UnavailableAllowed s - 1\<rparr>
         in Inr (pub\<lparr>PubStatus :=
              if op = PubUpdateOperation then s1\<lparr>UnavailablePods := (UnavailablePods s)(podName \<mapsto> now)\<rparr>
              else s1\<lparr>DisruptedPods := (DisruptedPods s)(podName \<mapsto> now)\<rparr>\<rparr>)))"

definition isPodRecordedInPub :: "string \<Rightarrow> pub_budget \<Rightarrow> bool" where
  "isPodRecordedInPub podName pub \<longleftrightarrow>
     UnavailablePods (PubStatus pub) podName \<noteq> None \<or> DisruptedPods (PubStatus pub) podName \<noteq> None"

definition isNeedPubProtection :: "pub_budget \<Rightarrow> pub_operation \<Rightarrow> bool" where
  "isNeedPubProtection pub op =
     (let v = annotation pub ''kruise.io/pub-protect-operations''
      in v = [] \<or> pub_operation_name op \<in> set (split_on (CHR '','') v))"

definition IsReferenceEqual :: "target_ref \<Rightarrow> target_ref \<Rightarrow> bool" where
  "IsReferenceEqual ref1 ref2 =
     (case (ParseGroup (RefAPIVersion ref1), ParseGroup (RefAPIVersion ref2)) of
        (Some g1, Some g2) \<Rightarrow> g1 = g2 \<and> RefKind ref1 = RefKind ref2 \<and> RefName ref1 = RefName ref2
      | _ \<Rightarrow> False)"

text \<open>The resource version as a number; 0 when it is none.\<close>

definition version_number :: "('a) object_meta_scheme \<Rightarrow> int" where
  "version_number obj = (case ParseInt (ResourceVersion obj) 64 of None \<Rightarrow> 0 | Some v \<Rightarrow> v)"

text \<open>The newer one of the process's own copy and of the informer's.\<close>

definition newest_pub :: "'w pub_env \<Rightarrow> pub_budget \<Rightarrow> 'w pub_state \<Rightarrow> pub_budget" where
  "newest_pub env pub st =
     (let local = (case PubCache st (Namespace pub, Name pub) of None \<Rightarrow> pub | Some c \<Rightarrow> c)
      in case PubInformer env (Namespace pub) (Name pub) (PubWorld st) of
           Inl _ \<Rightarrow> local
         | Inr informer \<Rightarrow> if version_number informer > version_number local then informer else local)"

definition fetch_pub :: "'w pub_env \<Rightarrow> pub_budget \<Rightarrow> bool \<Rightarrow> 'w pub_state \<Rightarrow> api_error + pub_budget" where
  "fetch_pub env pub refresh st =
     (if refresh then PubLive env (Namespace pub) (Name pub) (PubWorld st) else Inr (newest_pub env pub st))"

text \<open>Writing the status; what the server returns goes into the cache.\<close>

definition store_pub :: "'w pub_env \<Rightarrow> pub_budget \<Rightarrow> 'w pub_state \<Rightarrow> api_error option \<times> 'w pub_state" where
  "store_pub env pub st =
     (case PubUpdateStatus env pub (PubWorld st) of
        (Inl e, w) \<Rightarrow> (Some e, st\<lparr>PubWorld := w\<rparr>)
      | (Inr stored, w) \<Rightarrow>
          (None, st\<lparr>PubWorld := w, PubCache := (PubCache st)((Namespace stored, Name stored) \<mapsto> stored)\<rparr>))"

text \<open>One attempt; the flag tells that an earlier write failed.\<close>

definition validate_once ::
  "'w pub_env \<Rightarrow> pod \<Rightarrow> pub_operation \<Rightarrow> bool \<Rightarrow> pub_budget \<Rightarrow> bool \<times> 'w pub_state \<Rightarrow> api_error option \<times> bool \<times> 'w pub_state" where
  "validate_once env p op dryRun pub = (\<lambda>(refresh, st).
     case fetch_pub env pub refresh st of
       Inl e \<Rightarrow> (Some e, refresh, st)
     | Inr pubClone \<Rightarrow>
         (case checkAndDecrement (PubNow env) (Name p) pubClone op of
            Inl e \<Rightarrow> (Some e, refresh, st)
          | Inr pub1 \<Rightarrow>
              if dryRun then (None, refresh, st)
              else case store_pub env pub1 st of
                     (None, st1) \<Rightarrow> (None, refresh, st1)
                   | (Some e, st1) \<Rightarrow> (Some e, True, st1)))"

definition pub_exempt :: "'w pub_env \<Rightarrow> pod \<Rightarrow> bool" where
  "pub_exempt env p \<longleftrightarrow>
     annotation p ''pub.kruise.io/no-protect'' = ''true'' \<or> \<not> PubIsPodReady p \<or> \<not> PubIsPodStateConsistent env p"

definition pub_unprotected :: "pub_budget \<Rightarrow> pod \<Rightarrow> pub_operation \<Rightarrow> bool" where
  "pub_unprotected pub p op \<longleftrightarrow>
     DesiredAvailable (PubStatus pub) = 0 \<or> \<not> isNeedPubProtection pub op \<or> isPodRecordedInPub (Name p) pub"

text \<open>Whether the operation is allowed, and an error.  A refusal is no error.\<close>

definition PodUnavailableBudgetValidatePod ::
  "'w pub_env \<Rightarrow> pod \<Rightarrow> pub_operation \<Rightarrow> bool \<Rightarrow> 'w pub_state \<Rightarrow> (bool \<times> api_error option) \<times> 'w pub_state" where
  "PodUnavailableBudgetValidatePod env p op dryRun st =
     (if pub_exempt env p then ((True, None), st)
      else case GetPubForPod env p (PubWorld st) of
             Inl e \<Rightarrow> ((False, Some e), st)
           | Inr None \<Rightarrow> ((True, None), st)
           | Inr (Some pub) \<Rightarrow>
               if pub_unprotected pub p op then ((True, None), st)
               else case RetryOnConflict 4 (validate_once env p op dryRun pub) (False, st) of
                      (err, _, st1) \<Rightarrow> ((err = None, None), st1))"

text \<open>The request of the webhook; \<open>None\<close> is an object that cannot be decoded.\<close>

datatype admission_request =
    UpdateRequest "pod option" "pod option" "bool option"
  | DeleteRequest string "pod option" "bool option"
  | CreateRequest string string string "bool option"
  | ConnectRequest

definition decode_error :: api_error where "decode_error = OtherError ''decode''"

text \<open>
  The second pod of an update request is the new one.  Another operation than the three leaves the pod to
  check nil, and reading its annotations panics.
\<close>

definition podUnavailableBudgetValidatingPod ::
  "'w pub_env \<Rightarrow> admission_request \<Rightarrow> 'w pub_state \<Rightarrow> (bool \<times> api_error option) run \<times> 'w pub_state" where
  "podUnavailableBudgetValidatingPod env req st =
     (let validate = (\<lambda>p op dryRun.
            if annotation p PodRelatedPubAnnotation = [] then (Returns (True, None), st)
            else case PodUnavailableBudgetValidatePod env p op dryRun st of (r, st1) \<Rightarrow> (Returns r, st1));
          failed = (\<lambda>e. (Returns (False, Some e), st)); admit = (Returns (True, None), st)
      in case req of
           UpdateRequest oldObj newObj dry \<Rightarrow>
             (case newObj of
                None \<Rightarrow> failed decode_error
              | Some newPod \<Rightarrow>
                  if annotation newPod PodRelatedPubAnnotation = [] then admit
                  else case oldObj of
                         None \<Rightarrow> failed decode_error
                       | Some oldPod \<Rightarrow>
                           if \<not> IsPodUnavailableChanged oldPod newPod then admit
                           else case dry of
                                  None \<Rightarrow> failed decode_error
                                | Some dryRun \<Rightarrow> validate oldPod PubUpdateOperation dryRun)
         | DeleteRequest subResource oldObj dry \<Rightarrow>
             (if subResource \<noteq> [] then admit
              else case (oldObj, dry) of
                     (Some p, Some dryRun) \<Rightarrow> validate p PubDeleteOperation dryRun
                   | _ \<Rightarrow> failed decode_error)
         | CreateRequest subResource ns n dry \<Rightarrow>
             (if subResource \<noteq> ''eviction'' then admit
              else case dry of
                     None \<Rightarrow> failed decode_error
                   | Some dryRun \<Rightarrow>
                       (case PubGetPod env ns n (PubWorld st) of
                          Inl e \<Rightarrow> failed e
                        | Inr p \<Rightarrow> validate p PubEvictOperation dryRun))
         | ConnectRequest \<Rightarrow> (Panics, st))"

end
