(* ===== verification/Pub_Controller.thy ===== *)
theory Pub_Controller
  imports Pub_Control
begin

text \<open>
  The controller of PodUnavailableBudgets: which pods are recorded, how many are available and how many may
  become unavailable (\<open>podunavailablebudget_controller.go\<close>), and the events that queue a budget
  (\<open>pub_pod_event_handler.go\<close>).
\<close>

section \<open>The status\<close>

definition DeletionTimeout :: int where "DeletionTimeout = 20 * second"
definition UpdatedDelayCheckTime :: int where "UpdatedDelayCheckTime = 10 * second"

definition pub_available :: "'w pub_env \<Rightarrow> pod \<Rightarrow> bool" where
  "pub_available env p \<longleftrightarrow> IsPodActive p \<and> PubIsPodStateConsistent env p \<and> PubIsPodReady p"

definition countAvailablePods ::
  "'w pub_env \<Rightarrow> pod list \<Rightarrow> (string \<rightharpoonup> int) \<Rightarrow> (string \<rightharpoonup> int) \<Rightarrow> int" where
  "countAvailablePods env pods disruptedPods unavailablePods =
     int (length (filter (\<lambda>p. Name p \<notin> dom disruptedPods \<union> dom unavailablePods \<and> pub_available env p) pods))"

text \<open>\<open>None\<close> is an invalid value.\<close>

definition getDesiredAvailableForPub :: "pub_budget \<Rightarrow> int \<Rightarrow> int option" where
  "getDesiredAvailableForPub pub expectedCount =
     (case PubMaxUnavailable (PubSpec pub) of
        Some v \<Rightarrow>
          (case GetScaledValueFromIntOrPercent (Some v) expectedCount True of
             None \<Rightarrow> None
           | Some maxUnavailable \<Rightarrow> Some (max 0 (int32 (expectedCount - int32 maxUnavailable))))
      | None \<Rightarrow>
          (case PubMinAvailable (PubSpec pub) of
             None \<Rightarrow> Some 0
           | Some (IntVal i) \<Rightarrow> Some i
           | Some (StrVal s) \<Rightarrow> map_option int32 (GetScaledValueFromIntOrPercent (Some (StrVal s)) expectedCount True)))"

definition earlier :: "int option \<Rightarrow> int \<Rightarrow> int option" where
  "earlier t e = (case t of None \<Rightarrow> Some e | Some t' \<Rightarrow> if e < t' then Some e else Some t')"

text \<open>A record of a pod is kept until its time is over; the second component is the next time to look.\<close>

definition keep_record ::
  "int \<Rightarrow> int \<Rightarrow> (string \<rightharpoonup> int) \<Rightarrow> string \<Rightarrow> (string \<rightharpoonup> int) \<times> int option \<Rightarrow> (string \<rightharpoonup> int) \<times> int option" where
  "keep_record now timeout old n = (\<lambda>(kept, recheck).
     case old n of
       None \<Rightarrow> (kept, recheck)
     | Some t \<Rightarrow> if t + timeout < now then (kept, recheck) else (kept(n \<mapsto> t), earlier recheck (t + timeout)))"

fun build_records ::
  "int \<Rightarrow> pub_status \<Rightarrow> pod list \<Rightarrow> (string \<rightharpoonup> int) \<Rightarrow> (string \<rightharpoonup> int) \<Rightarrow> int option
   \<Rightarrow> (string \<rightharpoonup> int) \<times> (string \<rightharpoonup> int) \<times> int option" where
  "build_records now s [] disrupted unavailable recheck = (disrupted, unavailable, recheck)"
| "build_records now s (p # ps) disrupted unavailable recheck =
     (if \<not> IsPodActive p then build_records now s ps disrupted unavailable recheck
      else
        (let (d1, r1) = keep_record now DeletionTimeout (DisruptedPods s) (Name p) (disrupted, recheck);
             (u1, r2) = keep_record now UpdatedDelayCheckTime (UnavailablePods s) (Name p) (unavailable, r1)
         in build_records now s ps d1 u1 r2))"

definition buildDisruptedAndUnavailablePods ::
  "int \<Rightarrow> pod list \<Rightarrow> pub_budget \<Rightarrow> (string \<rightharpoonup> int) \<times> (string \<rightharpoonup> int) \<times> int option" where
  "buildDisruptedAndUnavailablePods now pods pub = build_records now (PubStatus pub) pods Map.empty Map.empty None"

definition updatePubStatus ::
  "'w pub_env \<Rightarrow> pub_budget \<Rightarrow> int \<Rightarrow> int \<Rightarrow> int \<Rightarrow> (string \<rightharpoonup> int) \<Rightarrow> (string \<rightharpoonup> int) \<Rightarrow> 'w pub_state
   \<Rightarrow> api_error option \<times> 'w pub_state" where
  "updatePubStatus env pub currentAvailable desiredAvailable expectedCount disruptedPods unavailablePods st =
     (let new = \<lparr>PubObservedGeneration = Generation pub, DisruptedPods = disruptedPods, UnavailablePods = unavailablePods,
                 UnavailableAllowed = max 0 (int32 (currentAvailable - desiredAvailable)), CurrentAvailable = currentAvailable,
                 DesiredAvailable = desiredAvailable, PubTotalReplicas = expectedCount\<rparr>
      in if PubStatus pub = new then (None, st) else store_pub env (pub\<lparr>PubStatus := new\<rparr>) st)"

section \<open>Reconcile\<close>

fun patch_related ::
  "'w pub_env \<Rightarrow> string \<Rightarrow> pod list \<Rightarrow> 'w \<Rightarrow> api_error option \<times> 'w" where
  "patch_related env n [] w = (None, w)"
| "patch_related env n (p # ps) w =
     (case PubPatchPod env p n w of (Some e, w1) \<Rightarrow> (Some e, w1) | (None, w1) \<Rightarrow> patch_related env n ps w1)"

definition patchRelatedPubAnnotationInPod ::
  "'w pub_env \<Rightarrow> pub_budget \<Rightarrow> pod list \<Rightarrow> 'w \<Rightarrow> api_error option \<times> 'w" where
  "patchRelatedPubAnnotationInPod env pub pods w =
     patch_related env (Name pub) (filter (\<lambda>p. annotation p PodRelatedPubAnnotation = []) pods) w"

text \<open>One attempt; the state holds the flag, the time to look again and the rest.\<close>

definition sync_once ::
  "'w pub_env \<Rightarrow> pub_budget \<Rightarrow> pod list \<Rightarrow> int \<Rightarrow> int \<Rightarrow> bool \<times> int option \<times> 'w pub_state
   \<Rightarrow> api_error option \<times> bool \<times> int option \<times> 'w pub_state" where
  "sync_once env pub pods desiredAvailable expectedCount = (\<lambda>(refresh, recheck, st).
     case fetch_pub env pub refresh st of
       Inl e \<Rightarrow> (Some e, refresh, recheck, st)
     | Inr pubClone \<Rightarrow>
         (case buildDisruptedAndUnavailablePods (PubNow env) pods pubClone of
            (disrupted, unavailable, recheck1) \<Rightarrow>
              (case updatePubStatus env pubClone (countAvailablePods env pods disrupted unavailable)
                      desiredAvailable expectedCount disrupted unavailable st of
                 (None, st1) \<Rightarrow> (None, refresh, recheck1, st1)
               | (Some e, st1) \<Rightarrow> (Some e, True, recheck1, st1))))"

definition syncPodUnavailableBudget ::
  "'w pub_env \<Rightarrow> pub_budget \<Rightarrow> 'w pub_state \<Rightarrow> (api_error + int option) \<times> 'w pub_state" where
  "syncPodUnavailableBudget env pub st =
     (case GetPodsForPub env pub (PubWorld st) of
        Inl e \<Rightarrow> (Inl e, st)
      | Inr (pods, expectedCount) \<Rightarrow>
          (case (if pods = [] then (None, PubWorld st) else patchRelatedPubAnnotationInPod env pub pods (PubWorld st)) of
             (Some e, w1) \<Rightarrow> (Inl e, st\<lparr>PubWorld := w1\<rparr>)
           | (None, w1) \<Rightarrow>
               (let st1 = st\<lparr>PubWorld := w1\<rparr> in
                case getDesiredAvailableForPub pub expectedCount of
                  None \<Rightarrow> (Inl (OtherError ''invalid value''), st1)
                | Some desiredAvailable \<Rightarrow>
                    (case RetryOnConflict 4 (sync_once env pub pods desiredAvailable expectedCount) (False, None, st1) of
                       (Some e, _, _, st2) \<Rightarrow> (Inl e, st2)
                     | (None, _, recheck, st2) \<Rightarrow> (Inr recheck, st2)))))"

text \<open>The delay of the requeue, 0 for none, or the error.\<close>

definition pub_Reconcile ::
  "'w pub_env \<Rightarrow> string \<Rightarrow> string \<Rightarrow> 'w pub_state \<Rightarrow> (api_error + int) \<times> 'w pub_state" where
  "pub_Reconcile env ns n st =
     (let forget = st\<lparr>PubCache := (PubCache st)((ns, n) := None)\<rparr> in
      case PubInformer env ns n (PubWorld st) of
        Inl e \<Rightarrow> if e = NotFound then (Inr 0, forget) else (Inl e, st)
      | Inr pub \<Rightarrow>
          if IsDeleted pub then (Inr 0, forget)
          else case syncPodUnavailableBudget env pub st of
                 (Inl e, st1) \<Rightarrow> (Inl e, st1)
               | (Inr None, st1) \<Rightarrow> (Inr 0, st1)
               | (Inr (Some t), st1) \<Rightarrow> (Inr (t - PubNow env), st1))"

section \<open>Events\<close>

text \<open>The queue is the list of the budgets that were added, each with its delay.\<close>

type_synonym pub_queue = "((string \<times> string) \<times> int) list"

definition pub_addPod :: "'w pub_env \<Rightarrow> pod \<Rightarrow> 'w \<Rightarrow> pub_queue \<Rightarrow> pub_queue" where
  "pub_addPod env p w q =
     (case (if annotation p PodRelatedPubAnnotation \<noteq> [] then GetPubForPod env p w else Inr None) of
        Inr (Some pub) \<Rightarrow> q @ [((Namespace pub, Name pub), 0)]
      | _ \<Rightarrow> q)"

definition isPodAvailableChanged :: "'w pub_env \<Rightarrow> pod \<Rightarrow> pod \<Rightarrow> bool \<times> int" where
  "isPodAvailableChanged env oldPod newPod =
     (if \<not> IsDeleted oldPod \<and> IsDeleted newPod then (True, 5 * second)
      else if IsDeleted oldPod then (False, 0)
      else
        (let available = (\<lambda>p. PubIsPodReady p \<and> PubIsPodStateConsistent env p)
         in (available oldPod \<noteq> available newPod, 0)))"

definition pub_updatePod :: "'w pub_env \<Rightarrow> pod \<Rightarrow> pod \<Rightarrow> 'w \<Rightarrow> pub_queue \<Rightarrow> pub_queue" where
  "pub_updatePod env oldPod newPod w q =
     (if ResourceVersion newPod = ResourceVersion oldPod then q
      else case GetPubForPod env newPod w of
             Inr (Some pub) \<Rightarrow>
               (case isPodAvailableChanged env oldPod newPod of
                  (isReconcile, delay) \<Rightarrow> if isReconcile then q @ [((Namespace pub, Name pub), delay)] else q)
           | _ \<Rightarrow> q)"

definition pub_matches :: "target_ref \<Rightarrow> labels \<Rightarrow> pub_budget \<Rightarrow> bool" where
  "pub_matches ref ls pub =
     (case TargetReference (PubSpec pub) of
        Some target \<Rightarrow> IsReferenceEqual ref target
      | None \<Rightarrow>
          (case ValidatedLabelSelectorAsSelector (PubSelector (PubSpec pub)) of
             None \<Rightarrow> False
           | Some sel \<Rightarrow> sel \<noteq> Requirements [] \<and> selector_matches sel ls))"

text \<open>The budget of a pod by its workload, which the finder resolves.\<close>

definition pub_of_workload ::
  "'w pub_env \<Rightarrow> (owner_ref \<Rightarrow> string \<Rightarrow> 'w \<Rightarrow> api_error + target_ref option) \<Rightarrow> pod \<Rightarrow> 'w \<Rightarrow> api_error + pub_budget option" where
  "pub_of_workload env Workload p w =
     (case GetControllerOf p of
        None \<Rightarrow> Inr None
      | Some ref \<Rightarrow>
          (case Workload ref (Namespace p) w of
             Inl e \<Rightarrow> Inl e
           | Inr None \<Rightarrow> Inr None
           | Inr (Some workload) \<Rightarrow>
               (case PubListBudgets env (Namespace p) w of
                  Inl e \<Rightarrow> Inl e
                | Inr pubs \<Rightarrow> Inr (find (pub_matches workload (Labels p)) pubs))))"

text \<open>A workload with its namespace and the labels of its template.  Without a match an empty request is queued.\<close>

definition addSetRequest :: "'w pub_env \<Rightarrow> target_ref \<Rightarrow> string \<Rightarrow> labels \<Rightarrow> 'w \<Rightarrow> pub_queue \<Rightarrow> pub_queue" where
  "addSetRequest env ref ns temLabels w q =
     (case PubListBudgets env ns w of
        Inl _ \<Rightarrow> q
      | Inr pubs \<Rightarrow>
          (case find (pub_matches ref temLabels) pubs of
             None \<Rightarrow> q @ [(([], []), 0)]
           | Some pub \<Rightarrow> q @ [((Namespace pub, Name pub), 0)]))"

end
