(* ===== verification/Pub_Correct.thy ===== *)
theory Pub_Correct
  imports Pub_Controller
begin

text \<open>
  What a PodUnavailableBudget promises.  Any number of webhook processes and controllers, each with a cache
  of its own, work on one budget of an API server that refuses a write to any version but the newest.  Every
  operation they admit leaves as many available pods as the budget asks for.
\<close>

section \<open>An API server with versions\<close>

text \<open>
  What the API server and the informer promise of the budget \<open>n\<close> in the namespace \<open>ns\<close>: each version
  is stored under its resource version, the informer has some version, a read of the server has the newest, and
  a write succeeds only on the newest version, which it replaces by a new one.  Pods of a namespace differ in
  their names, and \<open>minAvailable\<close> is an \<open>int32\<close>.
\<close>

definition versioned_server ::
  "'w pub_env \<Rightarrow> string \<Rightarrow> string \<Rightarrow> ('w \<Rightarrow> string \<rightharpoonup> pub_budget) \<Rightarrow> ('w \<Rightarrow> string) \<Rightarrow> bool" where
  "versioned_server env ns n versions current \<longleftrightarrow>
     (\<forall>w v b. versions w v = Some b \<longrightarrow> ResourceVersion b = v \<and> Namespace b = ns \<and> Name b = n)
     \<and> (\<forall>w v b i. versions w v = Some b \<longrightarrow> PubMinAvailable (PubSpec b) = Some (IntVal i) \<longrightarrow> i < 2 ^ 31)
     \<and> (\<forall>w b. PubInformer env ns n w = Inr b \<longrightarrow> versions w (ResourceVersion b) = Some b)
     \<and> (\<forall>w b. PubLive env ns n w = Inr b \<longrightarrow> versions w (current w) = Some b)
     \<and> (\<forall>b w b' w'. Namespace b = ns \<longrightarrow> Name b = n \<longrightarrow> PubUpdateStatus env b w = (Inr b', w') \<longrightarrow>
          ResourceVersion b = current w \<and> b' = b\<lparr>ResourceVersion := current w'\<rparr>
          \<and> versions w (current w') = None \<and> versions w' = (versions w)(current w' \<mapsto> b'))
     \<and> (\<forall>b w e w'. PubUpdateStatus env b w = (Inl e, w') \<longrightarrow> versions w' = versions w \<and> current w' = current w)
     \<and> (\<forall>p v w e w'. PubPatchPod env p v w = (e, w') \<longrightarrow> versions w' = versions w \<and> current w' = current w)
     \<and> (\<forall>pub w pods k. GetPodsForPub env pub w = Inr (pods, k) \<longrightarrow> distinct (map Name pods))"

lemma versioned_serverD:
  assumes "versioned_server env ns n versions current"
  shows "versions w v = Some b \<Longrightarrow> ResourceVersion b = v \<and> Namespace b = ns \<and> Name b = n"
    and "PubInformer env ns n w = Inr b \<Longrightarrow> versions w (ResourceVersion b) = Some b"
    and "PubLive env ns n w = Inr b \<Longrightarrow> versions w (current w) = Some b"
    and "PubUpdateStatus env b w = (Inr b', w') \<Longrightarrow> Namespace b = ns \<Longrightarrow> Name b = n \<Longrightarrow>
      ResourceVersion b = current w \<and> b' = b\<lparr>ResourceVersion := current w'\<rparr>
      \<and> versions w (current w') = None \<and> versions w' = (versions w)(current w' \<mapsto> b')"
    and "PubUpdateStatus env b w = (Inl e, w') \<Longrightarrow> versions w' = versions w \<and> current w' = current w"
    and "PubPatchPod env p x w = (e', w') \<Longrightarrow> versions w' = versions w \<and> current w' = current w"
    and "GetPodsForPub env pub w = Inr (pods, k) \<Longrightarrow> distinct (map Name pods)"
    and "versions w v = Some b \<Longrightarrow> PubMinAvailable (PubSpec b) = Some (IntVal i) \<Longrightarrow> i < 2 ^ 31"
  using assms unfolding versioned_server_def by (elim conjE; metis)+

lemma at_time [simp]:
  "PubIsPodStateConsistent (env\<lparr>PubNow := t\<rparr>) p = PubIsPodStateConsistent env p"
  "countAvailablePods (env\<lparr>PubNow := t\<rparr>) pods d u = countAvailablePods env pods d u"
  "GetPodsForPub (env\<lparr>PubNow := t\<rparr>) pub w = GetPodsForPub env pub w"
  "versioned_server (env\<lparr>PubNow := t\<rparr>) ns n versions current = versioned_server env ns n versions current"
proof -
  show c: "PubIsPodStateConsistent (env\<lparr>PubNow := t\<rparr>) p = PubIsPodStateConsistent env p" for p
    by (simp add: PubIsPodStateConsistent_def)
  show "countAvailablePods (env\<lparr>PubNow := t\<rparr>) pods d u = countAvailablePods env pods d u"
    by (simp add: countAvailablePods_def pub_available_def c)
  show g: "GetPodsForPub (env\<lparr>PubNow := t\<rparr>) pub w = GetPodsForPub env pub w" for pub w
    by (simp add: GetPodsForPub_def Let_def split: option.splits sum.splits)
  show "versioned_server (env\<lparr>PubNow := t\<rparr>) ns n versions current = versioned_server env ns n versions current"
    by (simp add: versioned_server_def g)
qed

section \<open>The budget of a status\<close>

text \<open>The status allows no more than the pods that were counted, without the recorded ones, can lose.\<close>

definition within_budget :: "'w pub_env \<Rightarrow> pod list \<Rightarrow> pub_budget \<Rightarrow> bool" where
  "within_budget env view b \<longleftrightarrow>
     (let s = PubStatus b in
      UnavailableAllowed s \<le> max 0 (countAvailablePods env view (DisruptedPods s) (UnavailablePods s) - DesiredAvailable s))"

lemma filter_one_less:
  assumes "distinct (map Name xs)" and "\<And>p. P p \<Longrightarrow> Name p \<noteq> x \<Longrightarrow> Q p"
  shows "length (filter P xs) \<le> Suc (length (filter Q xs))"
  using assms(1)
proof (induction xs)
  case (Cons y ys)
  show ?case
  proof (cases "Name y = x")
    case True
    then have "\<forall>p\<in>set ys. P p \<longrightarrow> Q p" using Cons.prems assms(2) by (fastforce simp: image_iff)
    then have "length (filter P ys) \<le> length (filter Q ys)"
      by (induction ys) auto
    then show ?thesis by simp
  next
    case False
    then show ?thesis using Cons assms(2) [of y] by auto
  qed
qed simp

lemma count_record:
  assumes "distinct (map Name view)"
  shows "countAvailablePods env view d u \<le> countAvailablePods env view (d(x \<mapsto> t)) u + 1"
    and "countAvailablePods env view d u \<le> countAvailablePods env view d (u(x \<mapsto> t)) + 1"
  unfolding countAvailablePods_def
  using filter_one_less [OF assms, of "\<lambda>p. Name p \<notin> dom d \<union> dom u \<and> pub_available env p" x
      "\<lambda>p. Name p \<notin> dom (d(x \<mapsto> t)) \<union> dom u \<and> pub_available env p"]
    filter_one_less [OF assms, of "\<lambda>p. Name p \<notin> dom d \<union> dom u \<and> pub_available env p" x
      "\<lambda>p. Name p \<notin> dom d \<union> dom (u(x \<mapsto> t)) \<and> pub_available env p"]
  by auto

lemma decrement_within:
  assumes "checkAndDecrement t x b op = Inr b1" and "within_budget env view b" and "distinct (map Name view)"
  shows "within_budget env view b1"
    and "DesiredAvailable (PubStatus b1) \<le> countAvailablePods env view (DisruptedPods (PubStatus b1)) (UnavailablePods (PubStatus b1))"
    and "isPodRecordedInPub x b1"
    and "ResourceVersion b1 = ResourceVersion b \<and> Namespace b1 = Namespace b \<and> Name b1 = Name b"
proof -
  let ?s = "PubStatus b"
  have pos: "0 < UnavailableAllowed ?s" using assms(1) by (auto simp: checkAndDecrement_def Let_def split: if_splits)
  note count = count_record [OF assms(3), of env "DisruptedPods ?s" "UnavailablePods ?s" x t]
  have b1: "PubStatus b1 = (if op = PubUpdateOperation
      then ?s\<lparr>UnavailableAllowed := UnavailableAllowed ?s - 1, UnavailablePods := (UnavailablePods ?s)(x \<mapsto> t)\<rparr>
      else ?s\<lparr>UnavailableAllowed := UnavailableAllowed ?s - 1, DisruptedPods := (DisruptedPods ?s)(x \<mapsto> t)\<rparr>)"
    using assms(1) by (auto simp: checkAndDecrement_def Let_def split: if_splits)
  show "DesiredAvailable (PubStatus b1) \<le> countAvailablePods env view (DisruptedPods (PubStatus b1)) (UnavailablePods (PubStatus b1))"
    using count pos assms(2) unfolding within_budget_def Let_def by (auto simp: b1)
  show "within_budget env view b1"
    using count pos assms(2) unfolding within_budget_def Let_def by (auto simp: b1)
  show "isPodRecordedInPub x b1" by (auto simp: isPodRecordedInPub_def b1)
  show "ResourceVersion b1 = ResourceVersion b \<and> Namespace b1 = Namespace b \<and> Name b1 = Name b"
    using assms(1) by (auto simp: checkAndDecrement_def Let_def split: if_splits)
qed

section \<open>One process\<close>

lemma four_steps: "4 = Suc 3"
  by simp

lemma first_succeeds: "fst (f s) = None \<Longrightarrow> RetryOnConflict 4 f s = f s"
  by (simp only: four_steps RetryOnConflict.simps split_beta) (simp add: prod_eq_iff)

text \<open>A cache holds a version of the budget, and the newest version is within its budget.\<close>

definition cache_ok :: "string \<Rightarrow> string \<Rightarrow> (string \<rightharpoonup> pub_budget) \<Rightarrow> (string \<times> string \<rightharpoonup> pub_budget) \<Rightarrow> bool" where
  "cache_ok ns n vs cache \<longleftrightarrow> (\<forall>b. cache (ns, n) = Some b \<longrightarrow> vs (ResourceVersion b) = Some b)"

lemma cache_ok_mono: "cache_ok ns n vs cache \<Longrightarrow> vs \<subseteq>\<^sub>m vs' \<Longrightarrow> cache_ok ns n vs' cache"
  unfolding cache_ok_def map_le_def by (metis domI)

lemma fetched_version:
  assumes "versioned_server env ns n versions current" and "fetch_pub env pub refresh st = Inr b"
    and "cache_ok ns n (versions (PubWorld st)) (PubCache st)" and "versions (PubWorld st) (ResourceVersion pub) = Some pub"
  shows "versions (PubWorld st) (ResourceVersion b) = Some b"
proof -
  note server = versioned_serverD [OF assms(1)]
  have key: "Namespace pub = ns" "Name pub = n" using server(1) [OF assms(4)] by auto
  show ?thesis
  proof (cases refresh)
    case True
    then show ?thesis using assms(2) server(1,3) key by (fastforce simp: fetch_pub_def)
  next
    case False
    then have b: "b = newest_pub env pub st" using assms(2) by (simp add: fetch_pub_def)
    have "versions (PubWorld st) (ResourceVersion c) = Some c"
      if "c = (case PubCache st (ns, n) of None \<Rightarrow> pub | Some c \<Rightarrow> c)" for c
      using that assms(3,4) by (auto simp: cache_ok_def split: option.splits)
    then show ?thesis using server(2) unfolding b newest_pub_def Let_def key by (auto split: sum.splits)
  qed
qed

lemma stored_version:
  assumes "versioned_server env ns n versions current" and "versions (PubWorld st) (ResourceVersion b) = Some b"
    and "ResourceVersion b1 = ResourceVersion b \<and> Namespace b1 = Namespace b \<and> Name b1 = Name b"
    and "store_pub env b1 st = (r, st1)"
  shows "r \<noteq> None \<Longrightarrow> versions (PubWorld st1) = versions (PubWorld st) \<and> current (PubWorld st1) = current (PubWorld st)
      \<and> PubCache st1 = PubCache st"
    and "r = None \<Longrightarrow> versions (PubWorld st) (current (PubWorld st)) = Some b
      \<and> current (PubWorld st1) \<noteq> current (PubWorld st) \<and> versions (PubWorld st) \<subseteq>\<^sub>m versions (PubWorld st1)
      \<and> (\<exists>v. versions (PubWorld st1) (current (PubWorld st1)) = Some (b1\<lparr>ResourceVersion := v\<rparr>))
      \<and> cache_ok ns n (versions (PubWorld st1)) (PubCache st1)"
proof -
  note server = versioned_serverD [OF assms(1)]
  have key: "Namespace b1 = ns" "Name b1 = n" "ResourceVersion b1 = ResourceVersion b"
    using server(1) [OF assms(2)] assms(3) by auto
  obtain a w' where upd: "PubUpdateStatus env b1 (PubWorld st) = (a, w')" by fastforce
  show "versions (PubWorld st1) = versions (PubWorld st) \<and> current (PubWorld st1) = current (PubWorld st)
      \<and> PubCache st1 = PubCache st" if "r \<noteq> None"
    using that assms(4) upd server(5) by (cases a) (auto simp: store_pub_def)
  assume "r = None"
  then obtain b' where a: "a = Inr b'" and st1: "st1 = st\<lparr>PubWorld := w', PubCache := (PubCache st)((Namespace b', Name b') \<mapsto> b')\<rparr>"
    using assms(4) upd by (cases a) (auto simp: store_pub_def)
  from server(4) [OF upd [unfolded a] key(1,2)] key
  have w': "ResourceVersion b = current (PubWorld st)" "b' = b1\<lparr>ResourceVersion := current w'\<rparr>"
    "versions (PubWorld st) (current w') = None" "versions w' = (versions (PubWorld st))(current w' \<mapsto> b')" by auto
  have "versions (PubWorld st) \<subseteq>\<^sub>m versions w'" using w'(3,4) by (auto simp: map_le_def)
  then show "versions (PubWorld st) (current (PubWorld st)) = Some b
      \<and> current (PubWorld st1) \<noteq> current (PubWorld st) \<and> versions (PubWorld st) \<subseteq>\<^sub>m versions (PubWorld st1)
      \<and> (\<exists>v. versions (PubWorld st1) (current (PubWorld st1)) = Some (b1\<lparr>ResourceVersion := v\<rparr>))
      \<and> cache_ok ns n (versions (PubWorld st1)) (PubCache st1)"
    using w' assms(2) key st1 by (auto simp: cache_ok_def)
qed

text \<open>What holds between two steps, of the versions before, of the process's state and of the last view.\<close>

definition process_inv ::
  "'w pub_env \<Rightarrow> string \<Rightarrow> string \<Rightarrow> ('w \<Rightarrow> string \<rightharpoonup> pub_budget) \<Rightarrow> ('w \<Rightarrow> string) \<Rightarrow> (string \<rightharpoonup> pub_budget)
   \<Rightarrow> pod list \<Rightarrow> 'w pub_state \<Rightarrow> bool" where
  "process_inv env ns n versions current old view st \<longleftrightarrow>
     distinct (map Name view) \<and> old \<subseteq>\<^sub>m versions (PubWorld st) \<and> cache_ok ns n (versions (PubWorld st)) (PubCache st)
     \<and> (\<exists>b. versions (PubWorld st) (current (PubWorld st)) = Some b \<and> within_budget env view b)"

lemma within_budget_version [simp]: "within_budget env view (b\<lparr>ResourceVersion := v\<rparr>) = within_budget env view b"
  by (simp add: within_budget_def)

text \<open>The newest version records the pod and leaves enough of the others.\<close>

definition admitted ::
  "'w pub_env \<Rightarrow> pod list \<Rightarrow> string \<Rightarrow> pub_budget \<Rightarrow> bool" where
  "admitted env view x b \<longleftrightarrow> isPodRecordedInPub x b
     \<and> DesiredAvailable (PubStatus b) \<le> countAvailablePods env view (DisruptedPods (PubStatus b)) (UnavailablePods (PubStatus b))"

lemma process_inv_same:
  assumes "process_inv env ns n versions current old view st"
    and "versions (PubWorld st1) = versions (PubWorld st) \<and> current (PubWorld st1) = current (PubWorld st) \<and> PubCache st1 = PubCache st"
  shows "process_inv env ns n versions current old view st1"
  using assms by (simp add: process_inv_def)

lemma validate_attempt:
  assumes server: "versioned_server env ns n versions current"
    and inv: "process_inv env ns n versions current old view st" and pub: "old (ResourceVersion pub) = Some pub"
    and step: "validate_once env p op dryRun pub (refresh, st) = (r, refresh', st1)"
  shows "process_inv env ns n versions current old view st1
    \<and> (r = None \<and> \<not> dryRun \<longrightarrow> (\<exists>b. versions (PubWorld st1) (current (PubWorld st1)) = Some b \<and> admitted env view (Name p) b))"
proof (cases "st1 = st \<and> (r \<noteq> None \<or> dryRun)")
  case True
  then show ?thesis using inv by auto
next
  case False
  from step False obtain c b1 r1 where c: "fetch_pub env pub refresh st = Inr c"
    and b1: "checkAndDecrement (PubNow env) (Name p) c op = Inr b1" and w: "store_pub env b1 st = (r1, st1)" "r = r1"
    by (auto simp: validate_once_def split: sum.splits if_splits prod.splits option.splits)
  have "versions (PubWorld st) (ResourceVersion pub) = Some pub" using inv pub
    unfolding process_inv_def map_le_def by (metis domI)
  then have ver: "versions (PubWorld st) (ResourceVersion c) = Some c"
    using fetched_version [OF server c] inv by (simp add: process_inv_def)
  have same: "ResourceVersion b1 = ResourceVersion c \<and> Namespace b1 = Namespace c \<and> Name b1 = Name c"
    using b1 by (auto simp: checkAndDecrement_def Let_def split: if_splits)
  note stored = stored_version [OF server ver same w(1)]
  show ?thesis
  proof (cases r)
    case None
    note s = stored(2) [OF None [unfolded w(2)]]
    have view: "distinct (map Name view)" "within_budget env view c" using inv s by (auto simp: process_inv_def)
    note dec = decrement_within [OF b1 view(2,1)]
    have "old \<subseteq>\<^sub>m versions (PubWorld st1)" using s inv map_le_trans unfolding process_inv_def by blast
    with s view dec show ?thesis
      by (auto simp: process_inv_def admitted_def isPodRecordedInPub_def)
  qed (use process_inv_same [OF inv stored(1)] w(2) in auto)
qed

lemma validate_process:
  assumes server: "versioned_server env ns n versions current"
    and inv: "process_inv env ns n versions current old view st"
    and p: "Namespace p = ns" "annotation p PodRelatedPubAnnotation = n"
    and step: "PodUnavailableBudgetValidatePod env p op dryRun st = (res, st1)"
  shows "process_inv env ns n versions current old view st1"
    and "\<not> pub_exempt env p \<Longrightarrow> PubInformer env ns n (PubWorld st) = Inr pub \<Longrightarrow> \<not> pub_unprotected pub p op \<Longrightarrow> n \<noteq> [] \<Longrightarrow>
      res = (True, None) \<Longrightarrow> \<not> dryRun \<Longrightarrow>
      \<exists>b. versions (PubWorld st1) (current (PubWorld st1)) = Some b \<and> admitted env view (Name p) b"
proof -
  let ?old = "versions (PubWorld st)"
  have inv': "process_inv env ns n versions current ?old view st" using inv by (simp add: process_inv_def)
  have retry: "process_inv env ns n versions current ?old view st2
      \<and> (r = None \<and> \<not> dryRun \<longrightarrow> (\<exists>b. versions (PubWorld st2) (current (PubWorld st2)) = Some b \<and> admitted env view (Name p) b))"
    if "RetryOnConflict 4 (validate_once env p op dryRun b) (False, st) = (r, f, st2)" and "PubInformer env ns n (PubWorld st) = Inr b"
    for b r f st2
  proof -
    let ?Q = "\<lambda>(r, f, st2). process_inv env ns n versions current ?old view st2
      \<and> (r = None \<and> \<not> dryRun \<longrightarrow> (\<exists>b. versions (PubWorld st2) (current (PubWorld st2)) = Some b \<and> admitted env view (Name p) b))"
    have ver: "?old (ResourceVersion b) = Some b" using versioned_serverD(2) [OF server that(2)] .
    have attempt: "?Q (r, f', st2)"
      if "process_inv env ns n versions current ?old view st1" "validate_once env p op dryRun b (f, st1) = (r, f', st2)" for f st1 r f' st2
      using validate_attempt [OF server that(1) ver that(2)] by simp
    have "?Q (RetryOnConflict (Suc 3) (validate_once env p op dryRun b) (False, st))"
      by (rule RetryOnConflict_rule [where I = "\<lambda>(f, st). process_inv env ns n versions current ?old view st"])
        (use attempt inv' in \<open>auto split: prod.splits\<close>)
    then show ?thesis unfolding four_steps [symmetric] that(1) by simp
  qed
  have "process_inv env ns n versions current ?old view st1"
    using step inv' p retry
    by (auto simp: PodUnavailableBudgetValidatePod_def GetPubForPod_def Let_def split: if_splits sum.splits prod.splits)
  then show "process_inv env ns n versions current old view st1"
    using inv map_le_trans unfolding process_inv_def by blast
  show "\<exists>b. versions (PubWorld st1) (current (PubWorld st1)) = Some b \<and> admitted env view (Name p) b"
    if "\<not> pub_exempt env p" "PubInformer env ns n (PubWorld st) = Inr pub" "\<not> pub_unprotected pub p op" "n \<noteq> []"
      "res = (True, None)" "\<not> dryRun"
    using step that p retry
    by (auto simp: PodUnavailableBudgetValidatePod_def GetPubForPod_def Let_def split: prod.splits)
qed

section \<open>The controller\<close>

lemma desired_int32:
  assumes "getDesiredAvailableForPub pub k = Some d"
    and "\<And>i. PubMinAvailable (PubSpec pub) = Some (IntVal i) \<Longrightarrow> i < 2 ^ 31"
  shows "d < 2 ^ 31"
  using assms signed_take_bit_int_less_exp [of 31]
  by (auto simp: getDesiredAvailableForPub_def int32_def split: option.splits int_or_string.splits)

lemma new_status_within:
  assumes "d < 2 ^ 31"
    and "PubStatus b = \<lparr>PubObservedGeneration = g, DisruptedPods = dp, UnavailablePods = up,
        UnavailableAllowed = max 0 (int32 (countAvailablePods env pods dp up - d)), CurrentAvailable = countAvailablePods env pods dp up,
        DesiredAvailable = d, PubTotalReplicas = k\<rparr>"
  shows "within_budget env pods b"
proof -
  have "0 \<le> countAvailablePods env pods dp up" by (simp add: countAvailablePods_def)
  then have "int32 (countAvailablePods env pods dp up - d) \<le> countAvailablePods env pods dp up - d"
    using assms(1) by (simp add: int32_def signed_take_bit_int_less_eq_self_iff)
  then show ?thesis by (simp add: within_budget_def assms(2))
qed

text \<open>The view changes to the pods that were counted when the status is written.\<close>

lemma sync_attempt:
  assumes server: "versioned_server env ns n versions current"
    and inv: "process_inv env ns n versions current old view st" and pub: "old (ResourceVersion pub) = Some pub"
    and pods: "distinct (map Name pods)" and d: "d < 2 ^ 31"
    and step: "sync_once env pub pods d k (refresh, recheck, st) = (r, refresh', recheck', st1)"
  shows "(if current (PubWorld st1) = current (PubWorld st)
          then versions (PubWorld st1) = versions (PubWorld st) \<and> process_inv env ns n versions current old view st1
          else r = None \<and> process_inv env ns n versions current old pods st1)"
proof (cases "st1 = st")
  case True
  then show ?thesis using inv by simp
next
  case False
  from step False obtain c dp up t r1 where c: "fetch_pub env pub refresh st = Inr c"
    and rec: "buildDisruptedAndUnavailablePods (PubNow env) pods c = (dp, up, t)"
    and w: "updatePubStatus env c (countAvailablePods env pods dp up) d k dp up st = (r1, st1)" "r = r1"
    by (auto simp: sync_once_def split: sum.splits prod.splits option.splits)
  have "versions (PubWorld st) (ResourceVersion pub) = Some pub" using inv pub
    unfolding process_inv_def map_le_def by (metis domI)
  then have ver: "versions (PubWorld st) (ResourceVersion c) = Some c"
    using fetched_version [OF server c] inv by (simp add: process_inv_def)
  define s where "s = \<lparr>PubObservedGeneration = Generation c, DisruptedPods = dp, UnavailablePods = up,
    UnavailableAllowed = max 0 (int32 (countAvailablePods env pods dp up - d)), CurrentAvailable = countAvailablePods env pods dp up,
    DesiredAvailable = d, PubTotalReplicas = k\<rparr>"
  have s: "store_pub env (c\<lparr>PubStatus := s\<rparr>) st = (r, st1)"
    using w False by (auto simp: updatePubStatus_def s_def Let_def split: if_splits)
  have within: "within_budget env pods (c\<lparr>PubStatus := s\<rparr>)"
    by (rule new_status_within [OF d, where g = "Generation c" and dp = dp and up = up and k = k]) (simp add: s_def)
  note stored = stored_version [OF server ver _ s]
  show ?thesis
  proof (cases r)
    case None
    with stored(2) have s2: "versions (PubWorld st) (current (PubWorld st)) = Some c" "current (PubWorld st1) \<noteq> current (PubWorld st)"
      "versions (PubWorld st) \<subseteq>\<^sub>m versions (PubWorld st1)"
      "\<exists>v. versions (PubWorld st1) (current (PubWorld st1)) = Some (c\<lparr>PubStatus := s\<rparr>\<lparr>ResourceVersion := v\<rparr>)"
      "cache_ok ns n (versions (PubWorld st1)) (PubCache st1)" by auto
    have "old \<subseteq>\<^sub>m versions (PubWorld st1)" using s2(3) inv map_le_trans unfolding process_inv_def by blast
    with None s2 within pods show ?thesis by (auto simp: process_inv_def)
  qed (use process_inv_same [OF inv] stored(1) in auto)
qed

lemma patch_keeps:
  assumes "versioned_server env ns n versions current" and "patch_related env x ps w = (e, w')"
  shows "versions w' = versions w \<and> current w' = current w"
  using assms(2)
proof (induction ps arbitrary: w)
  case (Cons p ps)
  obtain e1 w1 where step: "PubPatchPod env p x w = (e1, w1)" by fastforce
  then have "versions w1 = versions w \<and> current w1 = current w" by (rule versioned_serverD(6) [OF assms(1)])
  with Cons step show ?case by (cases e1) auto
qed simp

definition counted_pods :: "'w pub_env \<Rightarrow> string \<Rightarrow> string \<Rightarrow> 'w \<Rightarrow> pod list" where
  "counted_pods env ns n w =
     (case PubInformer env ns n w of
        Inl _ \<Rightarrow> []
      | Inr pub \<Rightarrow> (case GetPodsForPub env pub w of Inl _ \<Rightarrow> [] | Inr (pods, _) \<Rightarrow> pods))"

definition next_view :: "'w pub_env \<Rightarrow> string \<Rightarrow> string \<Rightarrow> ('w \<Rightarrow> string) \<Rightarrow> pod list \<Rightarrow> 'w \<Rightarrow> 'w \<Rightarrow> pod list" where
  "next_view env ns n current view w w' = (if current w' = current w then view else counted_pods env ns n w)"

lemma sync_retries:
  fixes st :: "'a pub_state"
  assumes server: "versioned_server env ns n versions current"
    and inv: "process_inv env ns n versions current old view st" and pub: "old (ResourceVersion pub) = Some pub"
    and pods: "distinct (map Name pods)" and d: "d < 2 ^ 31"
    and step: "RetryOnConflict 4 (sync_once env pub pods d k) (False, None, st) = (r, f, rc, st1)"
  shows "if current (PubWorld st1) = current (PubWorld st) then process_inv env ns n versions current old view st1
         else process_inv env ns n versions current old pods st1"
proof -
  let ?c = "current (PubWorld st)"
  let ?Q = "\<lambda>(r, f, rc, st1). if current (PubWorld st1) = ?c then process_inv env ns n versions current old view st1
      else r = None \<and> process_inv env ns n versions current old pods st1"
  have attempt: "?Q (r, f', rc', st2)"
    if "current (PubWorld st1) = ?c" "process_inv env ns n versions current old view st1"
      "sync_once env pub pods d k (f, rc, st1) = (r, f', rc', st2)" for f rc st1 r f' rc' st2
    using sync_attempt [OF server that(2) pub pods d that(3)] that(1) by (simp split: if_splits)
  have "?Q (RetryOnConflict (Suc 3) (sync_once env pub pods d k) (False, None, st))"
  proof (rule RetryOnConflict_rule [where
        I = "\<lambda>(f, rc, st1). current (PubWorld st1) = ?c \<and> process_inv env ns n versions current old view st1"])
    fix s s' :: "bool \<times> int option \<times> 'a pub_state"
    assume I: "case s of (f, rc, st1) \<Rightarrow> current (PubWorld st1) = ?c \<and> process_inv env ns n versions current old view st1"
      and f: "sync_once env pub pods d k s = (Some Conflict, s')"
    obtain f0 rc0 st0 f1 rc1 st1 where s: "s = (f0, rc0, st0)" "s' = (f1, rc1, st1)" by (metis prod_cases3)
    from I have "current (PubWorld st0) = ?c" "process_inv env ns n versions current old view st0" by (simp_all add: s)
    from attempt [OF this f [unfolded s]]
    show "case s' of (f, rc, st1) \<Rightarrow> current (PubWorld st1) = ?c \<and> process_inv env ns n versions current old view st1"
      by (simp add: s split: if_splits)
  next
    fix s :: "bool \<times> int option \<times> 'a pub_state"
    assume I: "case s of (f, rc, st1) \<Rightarrow> current (PubWorld st1) = ?c \<and> process_inv env ns n versions current old view st1"
    obtain f0 rc0 st0 where s: "s = (f0, rc0, st0)" by (metis prod_cases3)
    obtain r f1 rc1 st1 where f: "sync_once env pub pods d k s = (r, f1, rc1, st1)" by (metis prod_cases4)
    from I have "current (PubWorld st0) = ?c" "process_inv env ns n versions current old view st0" by (simp_all add: s)
    from attempt [OF this f [unfolded s]] show "?Q (sync_once env pub pods d k s)" unfolding f .
  qed (simp add: inv)
  then show ?thesis unfolding four_steps [symmetric] step by (simp split: if_splits)
qed

lemma sync_process:
  assumes server: "versioned_server env ns n versions current"
    and inv: "process_inv env ns n versions current (versions (PubWorld st)) view st"
    and informer: "PubInformer env ns n (PubWorld st) = Inr pub"
    and step: "syncPodUnavailableBudget env pub st = (res, st1)"
  shows "process_inv env ns n versions current (versions (PubWorld st)) (next_view env ns n current view (PubWorld st) (PubWorld st1)) st1"
proof -
  have ver: "versions (PubWorld st) (ResourceVersion pub) = Some pub" by (rule versioned_serverD(2) [OF server informer])
  show ?thesis
  proof (cases "GetPodsForPub env pub (PubWorld st)")
    case (Inl e)
    then show ?thesis using step inv by (simp add: syncPodUnavailableBudget_def next_view_def)
  next
    case (Inr pk)
    obtain pods k where pk: "pk = (pods, k)" by fastforce
    have counted: "counted_pods env ns n (PubWorld st) = pods" using Inr pk informer by (simp add: counted_pods_def)
    obtain e w1 where patch: "(if pods = [] then (None, PubWorld st) else patchRelatedPubAnnotationInPod env pub pods (PubWorld st)) = (e, w1)"
      by fastforce
    have w1: "versions w1 = versions (PubWorld st) \<and> current w1 = current (PubWorld st)"
      using patch patch_keeps [OF server] by (auto simp: patchRelatedPubAnnotationInPod_def split: if_splits)
    let ?st = "st\<lparr>PubWorld := w1\<rparr>"
    have inv1: "process_inv env ns n versions current (versions (PubWorld st)) view ?st"
      by (rule process_inv_same [OF inv]) (simp add: w1)
    show ?thesis
    proof (cases "e = None \<and> getDesiredAvailableForPub pub k \<noteq> None")
      case False
      then have "st1 = ?st"
        using step patch by (auto simp: syncPodUnavailableBudget_def Inr pk Let_def split: option.splits)
      then show ?thesis using inv1 w1 by (simp add: next_view_def)
    next
      case True
      then obtain d where d: "getDesiredAvailableForPub pub k = Some d" by auto
      obtain r f rc st2 where retry: "RetryOnConflict 4 (sync_once env pub pods d k) (False, None, ?st) = (r, f, rc, st2)"
        by (cases "RetryOnConflict 4 (sync_once env pub pods d k) (False, None, ?st)") auto
      then have "st1 = st2"
        using step patch True d by (auto simp: syncPodUnavailableBudget_def Inr pk Let_def split: option.splits)
      have "d < 2 ^ 31" using desired_int32 [OF d] versioned_serverD(8) [OF server ver] by blast
      from sync_retries [OF server inv1 ver versioned_serverD(7) [OF server Inr [unfolded pk]] this retry]
      show ?thesis using w1 \<open>st1 = st2\<close> counted by (simp add: next_view_def split: if_splits)
    qed
  qed
qed

lemma reconcile_process:
  assumes server: "versioned_server env ns n versions current"
    and inv: "process_inv env ns n versions current (versions (PubWorld st)) view st"
    and step: "pub_Reconcile env ns n st = (res, st1)"
  shows "process_inv env ns n versions current (versions (PubWorld st)) (next_view env ns n current view (PubWorld st) (PubWorld st1)) st1"
proof -
  have forget: "process_inv env ns n versions current (versions (PubWorld st)) view (st\<lparr>PubCache := (PubCache st)((ns, n) := None)\<rparr>)"
    using inv by (simp add: process_inv_def cache_ok_def)
  consider "st1 = st" | "st1 = st\<lparr>PubCache := (PubCache st)((ns, n) := None)\<rparr>"
    | pub r where "PubInformer env ns n (PubWorld st) = Inr pub" "syncPodUnavailableBudget env pub st = (r, st1)"
    using step by (auto simp: pub_Reconcile_def Let_def split: sum.splits if_splits prod.splits option.splits)
  then show ?thesis
  proof cases
    case 1
    with inv show ?thesis by (simp add: next_view_def)
  next
    case 2
    with forget show ?thesis by (simp add: next_view_def)
  next
    case 3
    then show ?thesis by (rule sync_process [OF server inv])
  qed
qed

section \<open>Many processes\<close>

text \<open>
  The runs of the budget \<open>n\<close>: each process has a cache, there is one server, and the view is the list of pods
  that the controller counted when it last wrote the status.  A process admits an operation or reconciles, at any
  time; any other change of the cluster leaves the status alone and keeps the versions.
\<close>

inductive pub_run ::
  "'w pub_env \<Rightarrow> string \<Rightarrow> string \<Rightarrow> ('w \<Rightarrow> string \<rightharpoonup> pub_budget) \<Rightarrow> ('w \<Rightarrow> string)
   \<Rightarrow> (nat \<Rightarrow> string \<times> string \<rightharpoonup> pub_budget) \<Rightarrow> 'w \<Rightarrow> pod list \<Rightarrow> bool"
  for env ns n versions current where
  start: "distinct (map Name view) \<Longrightarrow> versions w (current w) = Some b \<Longrightarrow> within_budget env view b
    \<Longrightarrow> pub_run env ns n versions current (\<lambda>_. Map.empty) w view"
| admit: "pub_run env ns n versions current caches w view \<Longrightarrow> Namespace p = ns \<Longrightarrow> annotation p PodRelatedPubAnnotation = n
    \<Longrightarrow> PodUnavailableBudgetValidatePod (env\<lparr>PubNow := t\<rparr>) p op dryRun \<lparr>PubCache = caches i, PubWorld = w\<rparr> = (res, st)
    \<Longrightarrow> pub_run env ns n versions current (caches(i := PubCache st)) (PubWorld st) view"
| reconcile: "pub_run env ns n versions current caches w view
    \<Longrightarrow> pub_Reconcile (env\<lparr>PubNow := t\<rparr>) ns n \<lparr>PubCache = caches i, PubWorld = w\<rparr> = (res', st)
    \<Longrightarrow> pub_run env ns n versions current (caches(i := PubCache st)) (PubWorld st)
          (next_view env ns n current view w (PubWorld st))"
| change: "pub_run env ns n versions current caches w view \<Longrightarrow> versions w (current w) = Some b
    \<Longrightarrow> versions w' (current w') = Some b' \<Longrightarrow> PubStatus b' = PubStatus b \<Longrightarrow> versions w \<subseteq>\<^sub>m versions w'
    \<Longrightarrow> pub_run env ns n versions current caches w' view"

lemma at_time_inv [simp]:
  "process_inv (env\<lparr>PubNow := t\<rparr>) ns n versions current old view st = process_inv env ns n versions current old view st"
  "next_view (env\<lparr>PubNow := t\<rparr>) ns n current view w w' = next_view env ns n current view w w'"
  by (simp_all add: process_inv_def within_budget_def next_view_def counted_pods_def split: sum.splits)

text \<open>Every process finds its cache and the server in order.\<close>

lemma run_inv:
  assumes "versioned_server env ns n versions current" and "pub_run env ns n versions current caches w view"
  shows "process_inv env ns n versions current (versions w) view \<lparr>PubCache = caches i, PubWorld = w\<rparr>"
  using assms(2)
proof (induction arbitrary: i)
  case (start view w b)
  then show ?case by (simp add: process_inv_def cache_ok_def)
next
  case (admit caches w view p t op dryRun j res st)
  have server: "versioned_server (env\<lparr>PubNow := t\<rparr>) ns n versions current" using assms(1) by simp
  have "process_inv env ns n versions current (versions w) view st"
    using validate_process(1) [OF server _ admit.hyps(2-4)] admit.IH by simp
  then show ?case using admit.IH [of i] cache_ok_mono by (auto simp: process_inv_def)
next
  case (reconcile caches w view t j res' st)
  have server: "versioned_server (env\<lparr>PubNow := t\<rparr>) ns n versions current" using assms(1) by simp
  have "process_inv env ns n versions current (versions w) (next_view env ns n current view w (PubWorld st)) st"
    using reconcile_process [OF server _ reconcile.hyps(2), of view] reconcile.IH [of j] by simp
  then show ?case using reconcile.IH [of i] cache_ok_mono by (auto simp: process_inv_def)
next
  case (change caches w view b w' b')
  have "within_budget env view b' = within_budget env view b" using change.hyps(4) by (simp add: within_budget_def)
  then show ?case using change.hyps change.IH [of i] cache_ok_mono by (auto simp: process_inv_def)
qed

text \<open>
  C24: In every run of any number of webhooks and controllers on one server, an operation on a protected pod that
  is admitted is recorded in the budget, and the pods that the controller counted last still have as many
  available ones as the budget asks for, without this pod and without all the others that are recorded.
\<close>

theorem budget_respected:
  assumes "versioned_server env ns n versions current" and "pub_run env ns n versions current caches w view"
    and "Namespace p = ns" and "annotation p PodRelatedPubAnnotation = n" and "n \<noteq> []" and "\<not> pub_exempt env p"
    and "PubInformer env ns n w = Inr pub" and "\<not> pub_unprotected pub p op"
    and "PodUnavailableBudgetValidatePod (env\<lparr>PubNow := t\<rparr>) p op False \<lparr>PubCache = caches i, PubWorld = w\<rparr> = ((True, None), st)"
  shows "\<exists>b. versions (PubWorld st) (current (PubWorld st)) = Some b \<and> isPodRecordedInPub (Name p) b
    \<and> DesiredAvailable (PubStatus b) \<le> countAvailablePods env view (DisruptedPods (PubStatus b)) (UnavailablePods (PubStatus b))"
proof -
  have server: "versioned_server (env\<lparr>PubNow := t\<rparr>) ns n versions current" using assms(1) by simp
  have exempt: "\<not> pub_exempt (env\<lparr>PubNow := t\<rparr>) p" using assms(6) by (simp add: pub_exempt_def)
  show ?thesis
    using validate_process(2) [OF server _ assms(3,4,9) exempt _ assms(8,5)] run_inv [OF assms(1,2), of i] assms(7)
    by (auto simp: admitted_def)
qed

text \<open>A server with an index of versions, counted from 0, for one budget without \<open>minAvailable\<close>.\<close>

definition index_versions :: "nat \<times> (string \<rightharpoonup> pub_budget) \<Rightarrow> string \<rightharpoonup> pub_budget" where
  "index_versions w v =
     (case snd w v of
        None \<Rightarrow> None
      | Some b \<Rightarrow> if ResourceVersion b = v \<and> Namespace b = ''ns'' \<and> Name b = ''b'' \<and> PubMinAvailable (PubSpec b) = None
                  then Some b else None)"

definition index_current :: "nat \<times> (string \<rightharpoonup> pub_budget) \<Rightarrow> string" where
  "index_current w = show_nat (fst w)"

definition index_read :: "string \<Rightarrow> string \<Rightarrow> nat \<times> (string \<rightharpoonup> pub_budget) \<Rightarrow> api_error + pub_budget" where
  "index_read ns n w = (case index_versions w (index_current w) of None \<Rightarrow> Inl NotFound | Some b \<Rightarrow> Inr b)"

definition index_write ::
  "pub_budget \<Rightarrow> nat \<times> (string \<rightharpoonup> pub_budget) \<Rightarrow> (api_error + pub_budget) \<times> nat \<times> (string \<rightharpoonup> pub_budget)" where
  "index_write b w =
     (let v = show_nat (Suc (fst w)); b' = b\<lparr>ResourceVersion := v\<rparr> in
      if ResourceVersion b = index_current w \<and> snd w v = None \<and> PubMinAvailable (PubSpec b) = None
      then (Inr b', Suc (fst w), (snd w)(v \<mapsto> b')) else (Inl Conflict, w))"

definition index_env :: "(nat \<times> (string \<rightharpoonup> pub_budget)) pub_env" where
  "index_env = \<lparr>PubNow = 0, PubParseImage = (\<lambda>_. None), PubHashContainer = (\<lambda>_. 0), PubHashEnvs = (\<lambda>_. 0),
     PubSidecarStates = (\<lambda>_. None), PubInformer = index_read, PubLive = index_read, PubUpdateStatus = index_write,
     PubListPods = (\<lambda>_ _ _. Inr []), PubListBudgets = (\<lambda>_ _. Inr []), PubGetPod = (\<lambda>_ _ _. Inl NotFound),
     PubPatchPod = (\<lambda>_ _ w. (None, w)), PubPodsForRef = (\<lambda>_ _ _. Inr ([], 0)), PubExpectedScale = (\<lambda>_ _. Inr 0)\<rparr>"

lemma index_versioned: "versioned_server index_env ''ns'' ''b'' index_versions index_current"
  by (auto simp: versioned_server_def index_env_def index_read_def index_write_def index_versions_def index_current_def
      GetPodsForPub_def Let_def fun_eq_iff split: option.splits sum.splits if_splits)

definition ready_pod :: "string \<Rightarrow> pod" where
  "ready_pod x = zero_pod\<lparr>Name := x, Namespace := ''ns'', Annotations := [PodRelatedPubAnnotation \<mapsto> Text ''b''],
     Status := (Status zero_pod)\<lparr>Phase := PodRunning, Conditions :=
       [\<lparr>CondType = PodReady, CondStatus = ConditionTrue, LastTransitionTime = 0, Reason = [], Message = MsgText []\<rparr>]\<rparr>\<rparr>"

definition one_allowed :: pub_budget where
  "one_allowed = object_meta.extend (zero_meta\<lparr>Name := ''b'', Namespace := ''ns'', ResourceVersion := show_nat 0\<rparr>)
     (pub_budget.fields \<lparr>PubSelector = None, TargetReference = None, PubMaxUnavailable = None, PubMinAvailable = None\<rparr>
       \<lparr>PubObservedGeneration = 0, DisruptedPods = Map.empty, UnavailablePods = Map.empty, UnavailableAllowed = 1,
        CurrentAvailable = 2, DesiredAvailable = 1, PubTotalReplicas = 2\<rparr>)"

lemma ready_pod_simps [simp]:
  "Name (ready_pod x) = x" "Namespace (ready_pod x) = ''ns''" "annotation (ready_pod x) PodRelatedPubAnnotation = ''b''"
  "PubIsPodReady (ready_pod x)" "PubIsPodStateConsistent env (ready_pod x)" "pub_available env (ready_pod x)"
  "\<not> pub_exempt env (ready_pod x)"
  by (simp_all add: ready_pod_def annotation_def PodRelatedPubAnnotation_def PubIsPodReady_def IsRunningAndReady_def
      IsPodReady_def GetCondition_def HasUnavailableLabel_def PubIsPodStateConsistent_def pub_available_def IsPodActive_def
      IsDeleted_def pub_exempt_def zero_defs Let_def split_beta)

lemma one_allowed_simps [simp]:
  "Name one_allowed = ''b''" "Namespace one_allowed = ''ns''" "ResourceVersion one_allowed = show_nat 0"
  "PubSpec one_allowed = \<lparr>PubSelector = None, TargetReference = None, PubMaxUnavailable = None, PubMinAvailable = None\<rparr>"
  "PubStatus one_allowed = \<lparr>PubObservedGeneration = 0, DisruptedPods = Map.empty, UnavailablePods = Map.empty,
     UnavailableAllowed = 1, CurrentAvailable = 2, DesiredAvailable = 1, PubTotalReplicas = 2\<rparr>"
  "Annotations one_allowed = Map.empty"
  by (simp_all add: one_allowed_def zero_defs pub_budget.defs)

theorem budget_respected_witness:
  "let st = snd (PodUnavailableBudgetValidatePod (index_env\<lparr>PubNow := 7\<rparr>) (ready_pod ''x'') PubEvictOperation False
         \<lparr>PubCache = Map.empty, PubWorld = (0, [show_nat 0 \<mapsto> one_allowed])\<rparr>)
   in \<exists>b. index_versions (PubWorld st) (index_current (PubWorld st)) = Some b \<and> isPodRecordedInPub ''x'' b
      \<and> DesiredAvailable (PubStatus b) \<le> countAvailablePods index_env [ready_pod ''x'', ready_pod ''y'']
           (DisruptedPods (PubStatus b)) (UnavailablePods (PubStatus b))"
proof -
  let ?w = "(0, [show_nat 0 \<mapsto> one_allowed])" and ?view = "[ready_pod ''x'', ready_pod ''y'']"
  have ver: "index_versions ?w (index_current ?w) = Some one_allowed" by (simp add: index_versions_def index_current_def)
  then have informer: "PubInformer index_env ''ns'' ''b'' ?w = Inr one_allowed" by (simp add: index_env_def index_read_def)
  have "within_budget index_env ?view one_allowed" by (simp add: within_budget_def countAvailablePods_def)
  then have run: "pub_run index_env ''ns'' ''b'' index_versions index_current (\<lambda>_. Map.empty) ?w ?view"
    using ver by (intro pub_run.start [where b = one_allowed]) simp_all
  have prot: "\<not> pub_unprotected one_allowed (ready_pod ''x'') PubEvictOperation"
    by (simp add: pub_unprotected_def isNeedPubProtection_def isPodRecordedInPub_def annotation_def)
  have "newest_pub (index_env\<lparr>PubNow := 7\<rparr>) one_allowed \<lparr>PubCache = Map.empty, PubWorld = ?w\<rparr> = one_allowed"
    using informer by (simp add: newest_pub_def)
  then have "fst (validate_once (index_env\<lparr>PubNow := 7\<rparr>) (ready_pod ''x'') PubEvictOperation False one_allowed
      (False, \<lparr>PubCache = Map.empty, PubWorld = ?w\<rparr>)) = None"
    by (simp add: validate_once_def fetch_pub_def checkAndDecrement_def store_pub_def index_env_def index_write_def
        index_current_def Let_def show_nat.simps digit_char_def)
  then have "fst (PodUnavailableBudgetValidatePod (index_env\<lparr>PubNow := 7\<rparr>) (ready_pod ''x'') PubEvictOperation False
      \<lparr>PubCache = Map.empty, PubWorld = ?w\<rparr>) = (True, None)"
    using informer prot
    by (simp add: PodUnavailableBudgetValidatePod_def GetPubForPod_def first_succeeds split_beta)
  then have "PodUnavailableBudgetValidatePod (index_env\<lparr>PubNow := 7\<rparr>) (ready_pod ''x'') PubEvictOperation False
      \<lparr>PubCache = Map.empty, PubWorld = ?w\<rparr> = ((True, None), snd (PodUnavailableBudgetValidatePod (index_env\<lparr>PubNow := 7\<rparr>)
        (ready_pod ''x'') PubEvictOperation False \<lparr>PubCache = Map.empty, PubWorld = ?w\<rparr>))" by (simp add: prod_eq_iff)
  from budget_respected [OF index_versioned run _ _ _ _ informer prot this] show ?thesis unfolding Let_def by simp
qed

section \<open>Records\<close>

definition unexpired :: "int \<Rightarrow> int \<Rightarrow> (string \<rightharpoonup> int) \<Rightarrow> pod list \<Rightarrow> string \<rightharpoonup> int" where
  "unexpired now timeout old pods x =
     (case old x of
        None \<Rightarrow> None
      | Some t \<Rightarrow> if t + timeout < now \<or> (\<forall>p\<in>set pods. IsPodActive p \<longrightarrow> Name p \<noteq> x) then None else Some t)"

definition expiries :: "(string \<rightharpoonup> int) \<Rightarrow> (string \<rightharpoonup> int) \<Rightarrow> int set" where
  "expiries d u = (\<lambda>t. t + DeletionTimeout) ` ran d \<union> (\<lambda>t. t + UpdatedDelayCheckTime) ` ran u"

definition is_first :: "int option \<Rightarrow> int set \<Rightarrow> bool" where
  "is_first r E = (case r of None \<Rightarrow> E = {} | Some x \<Rightarrow> x \<in> E \<and> (\<forall>e\<in>E. x \<le> e))"

lemma is_first_earlier: "is_first r E \<Longrightarrow> is_first (earlier r e) (insert e E)"
  by (auto simp: is_first_def earlier_def split: option.splits)

lemma unexpired_append:
  "unexpired now timeout old (pods @ [p]) =
     (if IsPodActive p \<and> (\<exists>t. old (Name p) = Some t \<and> \<not> t + timeout < now)
      then (unexpired now timeout old pods)(Name p \<mapsto> the (old (Name p))) else unexpired now timeout old pods)"
  by (auto simp: unexpired_def fun_eq_iff split: option.splits)

lemma ran_same_upd: "m x = None \<or> m x = Some t \<Longrightarrow> ran (m(x \<mapsto> t)) = insert t (ran m)"
  by (auto simp: map_upd_triv insert_absorb ranI)

lemma kept_record:
  assumes "keep_record now timeout old (Name p) (unexpired now timeout old pods, r) = (d, r')" and "IsPodActive p"
  shows "d = unexpired now timeout old (pods @ [p])"
    and "r' = r \<and> ran d = ran (unexpired now timeout old pods)
      \<or> (\<exists>t. r' = earlier r (t + timeout) \<and> ran d = insert t (ran (unexpired now timeout old pods)))"
proof -
  show d: "d = unexpired now timeout old (pods @ [p])"
    using assms by (auto simp: keep_record_def unexpired_append split: option.splits if_splits)
  have "unexpired now timeout old pods (Name p) = None \<or> unexpired now timeout old pods (Name p) = old (Name p)"
    by (auto simp: unexpired_def split: option.splits)
  then show "r' = r \<and> ran d = ran (unexpired now timeout old pods)
      \<or> (\<exists>t. r' = earlier r (t + timeout) \<and> ran d = insert t (ran (unexpired now timeout old pods)))"
    using assms ran_same_upd [of "unexpired now timeout old pods" "Name p"]
    by (fastforce simp: keep_record_def split: option.splits if_splits)
qed

lemma build_records_spec:
  assumes "is_first r (expiries (unexpired now DeletionTimeout (DisruptedPods s) pre) (unexpired now UpdatedDelayCheckTime (UnavailablePods s) pre))"
    and "build_records now s pods (unexpired now DeletionTimeout (DisruptedPods s) pre)
      (unexpired now UpdatedDelayCheckTime (UnavailablePods s) pre) r = (d, u, r')"
  shows "d = unexpired now DeletionTimeout (DisruptedPods s) (pre @ pods)
    \<and> u = unexpired now UpdatedDelayCheckTime (UnavailablePods s) (pre @ pods) \<and> is_first r' (expiries d u)"
  using assms
proof (induction pods arbitrary: pre r)
  case (Cons p ps)
  let ?D = "unexpired now DeletionTimeout (DisruptedPods s)" and ?U = "unexpired now UpdatedDelayCheckTime (UnavailablePods s)"
  show ?case
  proof (cases "IsPodActive p")
    case False
    then have "?D (pre @ [p]) = ?D pre" "?U (pre @ [p]) = ?U pre" by (simp_all add: unexpired_append)
    then show ?thesis using Cons.prems False by (intro Cons.IH [of r "pre @ [p]", simplified]) simp_all
  next
    case True
    obtain d1 r1 where k1: "keep_record now DeletionTimeout (DisruptedPods s) (Name p) (?D pre, r) = (d1, r1)" by fastforce
    obtain u1 r2 where k2: "keep_record now UpdatedDelayCheckTime (UnavailablePods s) (Name p) (?U pre, r1) = (u1, r2)" by fastforce
    note kept = kept_record [OF k1 True] kept_record [OF k2 True]
    have "is_first r1 (expiries d1 (?U pre))"
      using kept(2) Cons.prems(1) is_first_earlier by (fastforce simp: expiries_def)
    then have "is_first r2 (expiries d1 u1)"
      using kept(4) is_first_earlier by (fastforce simp: expiries_def)
    then show ?thesis using Cons.prems True k1 k2 kept(1,3) by (intro Cons.IH [of r2 "pre @ [p]", simplified]) simp_all
  qed
qed simp


text \<open>One record more than the maximum is accepted.\<close>

lemma records_exceed_maximum:
  assumes "finite (dom (DisruptedPods (PubStatus pub)))" and "DisruptedPods (PubStatus pub) x = None"
    and "0 < UnavailableAllowed (PubStatus pub)"
    and "card (dom (DisruptedPods (PubStatus pub))) + card (dom (UnavailablePods (PubStatus pub))) = MaxUnavailablePodSize"
  shows "\<exists>pub'. checkAndDecrement now x pub PubDeleteOperation = Inr pub'
    \<and> card (dom (DisruptedPods (PubStatus pub'))) + card (dom (UnavailablePods (PubStatus pub'))) = Suc MaxUnavailablePodSize"
  using assms by (auto simp: checkAndDecrement_def card_insert_if domIff Let_def)

end
