(* ===== verification/Broadcast_Job.thy ===== *)
theory Broadcast_Job
  imports Util_Tools Util_Pods Pod_Readiness Expectations "HOL-Library.AList"
begin

text \<open>
  BroadcastJobs, which run one pod on each node (\<open>pkg/controller/broadcastjob\<close>): the helpers
  (\<open>broadcastjob_utils.go\<close>), the controller (\<open>broadcastjob_controller.go\<close>) and the event handlers
  (\<open>broadcastjob_event_handler.go\<close>).

  The API client, the test of a pod's node affinity and the test of its resource requests are arguments.  The
  goroutines of a batch run in the order of their nodes, and so do those of a deletion.  Lengths of lists
  are below \<open>2 ^ 30\<close>.
\<close>

section \<open>Jobs and nodes\<close>

record node = object_meta +
  Unschedulable :: bool
  Taints :: "taint list"
  NodeConditions :: "(string \<times> string) list"

datatype job_phase = JobPhaseUnset | PhaseCompleted | PhaseRunning | PhasePaused | PhaseFailed

datatype job_condition_type = JobComplete | JobFailed

record job_condition =
  JobCondType :: job_condition_type
  JobCondStatus :: string
  JobProbeTime :: int
  JobTransitionTime :: int
  JobReason :: string
  JobMessage :: string

record bcj_spec =
  Parallelism :: "int_or_string option"
  BcjTemplate :: pod_template
  CompletionType :: string
  ActiveDeadlineSeconds :: "int option"
  TTLSecondsAfterFinished :: "int option"
  BcjPaused :: bool
  FailureType :: string
  RestartLimit :: int

record bcj_status =
  JobConditions :: "job_condition list"
  StartTime :: "int option"
  CompletionTime :: "int option"
  JobActive :: int
  JobSucceeded :: int
  JobFailedPods :: int
  JobDesired :: int
  JobPhase :: job_phase

record broadcast_job = object_meta +
  BcjSpec :: bcj_spec
  BcjStatus :: bcj_status

record 'w bcj_env =
  BcjNow :: int
  BcjOrd :: range_ord
  BcjByScheduler :: bool
  BcjMatchesAffinity :: "pod \<Rightarrow> node \<Rightarrow> bool"
  BcjFitsResources :: "pod \<Rightarrow> node \<Rightarrow> bool"
  BcjIsTimeout :: "api_error \<Rightarrow> bool"
  BcjGet :: "string \<Rightarrow> string \<Rightarrow> 'w \<Rightarrow> api_error + broadcast_job"
  BcjUpdateStatus :: "broadcast_job \<Rightarrow> 'w \<Rightarrow> api_error option \<times> 'w"
  BcjDelete :: "broadcast_job \<Rightarrow> 'w \<Rightarrow> api_error option \<times> 'w"
  BcjListPods :: "string \<Rightarrow> labels \<Rightarrow> 'w \<Rightarrow> api_error + pod list"
  BcjListNodes :: "'w \<Rightarrow> api_error + node list"
  BcjListJobs :: "'w \<Rightarrow> api_error + broadcast_job list"
  BcjCreatePod :: "pod \<Rightarrow> 'w \<Rightarrow> api_error option \<times> 'w"
  BcjDeletePod :: "pod \<Rightarrow> 'w \<Rightarrow> api_error option \<times> 'w"

record 'w bcj_state =
  BcjScale :: scale_exps
  BcjWorld :: 'w

definition bcj_kind :: string where "bcj_kind = ''BroadcastJob''"
definition bcj_group :: string where "bcj_group = ''apps.kruise.io''"

section \<open>Helpers\<close>

definition IsJobFinished :: "broadcast_job \<Rightarrow> bool" where
  "IsJobFinished j \<longleftrightarrow>
     CompletionType (BcjSpec j) \<noteq> ''Never''
     \<and> list_ex (\<lambda>c. (JobCondType c = JobComplete \<or> JobCondType c = JobFailed) \<and> JobCondStatus c = ConditionTrue)
         (JobConditions (BcjStatus j))"

definition isPodFailed :: "int \<Rightarrow> pod \<Rightarrow> bool" where
  "isPodFailed restartLimit p \<longleftrightarrow>
     RestartPolicy (Spec p) = ''OnFailure''
     \<and> int32 (sum_list (map RestartCount (InitContainerStatuses (Status p) @ ContainerStatuses (Status p)))) > restartLimit"

text \<open>Active, failed and succeeded pods; a pod that is being deleted is none of them.\<close>

fun filterPods :: "int \<Rightarrow> pod list \<Rightarrow> pod list \<times> pod list \<times> pod list" where
  "filterPods restartLimit [] = ([], [], [])"
| "filterPods restartLimit (p # ps) =
     (case filterPods restartLimit ps of
        (active, failed, succeeded) \<Rightarrow>
          if Phase (Status p) = PodSucceeded then (active, failed, p # succeeded)
          else if Phase (Status p) = PodFailed then (active, p # failed, succeeded)
          else if \<not> IsDeleted p then
            (if isPodFailed restartLimit p then (active, p # failed, succeeded) else (p # active, failed, succeeded))
          else (active, failed, succeeded))"

definition pastActiveDeadline :: "int \<Rightarrow> broadcast_job \<Rightarrow> bool" where
  "pastActiveDeadline now job =
     (case (ActiveDeadlineSeconds (BcjSpec job), StartTime (BcjStatus job)) of
        (Some s, Some start) \<Rightarrow> now - start \<ge> int64 (s * second)
      | _ \<Rightarrow> False)"

definition pastTTLDeadline :: "int \<Rightarrow> broadcast_job \<Rightarrow> bool \<times> int" where
  "pastTTLDeadline now job =
     (case (TTLSecondsAfterFinished (BcjSpec job), CompletionTime (BcjStatus job)) of
        (Some s, Some finish) \<Rightarrow> (now - finish \<ge> s * second, s * second - (now - finish))
      | _ \<Rightarrow> (False, -1))"

definition newCondition :: "int \<Rightarrow> job_condition_type \<Rightarrow> string \<Rightarrow> string \<Rightarrow> job_condition" where
  "newCondition now t reason msg =
     \<lparr>JobCondType = t, JobCondStatus = ConditionTrue, JobProbeTime = now, JobTransitionTime = now,
      JobReason = reason, JobMessage = msg\<rparr>"

definition asOwner :: "broadcast_job \<Rightarrow> owner_ref" where
  "asOwner job = NewControllerRef job (bcj_group @ ''/v1alpha1'') bcj_kind"

text \<open>The last check of the code, that the reference blocks the deletion of the owner, holds of every new one.\<close>

definition validateControllerRef :: "owner_ref \<Rightarrow> api_error option" where
  "validateControllerRef ref =
     (if OwnerAPIVersion ref = [] then Some (OtherError ''controllerRef has empty APIVersion'')
      else if OwnerKind ref = [] then Some (OtherError ''controllerRef has empty Kind'')
      else if OwnerController ref \<noteq> Some True then Some (OtherError ''controllerRef.Controller is not set to true'')
      else None)"

definition getAssignedNode :: "pod \<Rightarrow> string" where
  "getAssignedNode p =
     (if NodeName (Spec p) \<noteq> [] then NodeName (Spec p)
      else case NodeSelectorTerms (Spec p) of
             None \<Rightarrow> []
           | Some terms \<Rightarrow>
               (case find (\<lambda>r. FieldKey r = ''metadata.name'' \<and> FieldOperator r = ''In'' \<and> length (FieldValues r) = 1)
                       (concat (map TermFields terms)) of
                  None \<Rightarrow> []
                | Some r \<Rightarrow> hd (FieldValues r)))"

definition labelsAsMap :: "broadcast_job \<Rightarrow> labels" where
  "labelsAsMap job = [''broadcastjob-name'' \<mapsto> Name job, ''broadcastjob-controller-uid'' \<mapsto> UID job]"

definition addLabelToPodTemplate :: "broadcast_job \<Rightarrow> broadcast_job" where
  "addLabelToPodTemplate job =
     (let s = BcjSpec job; t = BcjTemplate s
      in job\<lparr>BcjSpec := s\<lparr>BcjTemplate := t\<lparr>TplLabels := TplLabels t ++ labelsAsMap job\<rparr>\<rparr>\<rparr>)"

section \<open>Fitness of nodes\<close>

definition ToleratesTaint :: "toleration \<Rightarrow> taint \<Rightarrow> bool" where
  "ToleratesTaint t x \<longleftrightarrow>
     (TolEffect t = [] \<or> TolEffect t = TaintEffect x) \<and> (TolKey t = [] \<or> TolKey t = TaintKey x)
     \<and> ((TolOperator t = [] \<or> TolOperator t = ''Equal'') \<and> TolValue t = TaintValue x \<or> TolOperator t = ''Exists'')"

definition TolerationsTolerateTaint :: "toleration list \<Rightarrow> taint \<Rightarrow> bool" where
  "TolerationsTolerateTaint ts x = list_ex (\<lambda>t. ToleratesTaint t x) ts"

definition FindMatchingUntoleratedTaint :: "taint list \<Rightarrow> toleration list \<Rightarrow> (taint \<Rightarrow> bool) \<Rightarrow> taint option" where
  "FindMatchingUntoleratedTaint taints ts keep = find (\<lambda>x. \<not> TolerationsTolerateTaint ts x) (filter keep taints)"

definition unschedulable_taint :: taint where
  "unschedulable_taint = \<lparr>TaintKey = ''node.kubernetes.io/unschedulable'', TaintValue = [], TaintEffect = ''NoSchedule''\<rparr>"

definition checkNodeFitness :: "'w bcj_env \<Rightarrow> pod \<Rightarrow> node \<Rightarrow> bool" where
  "checkNodeFitness env p n \<longleftrightarrow>
     (NodeName (Spec p) = [] \<or> NodeName (Spec p) = Name n)
     \<and> BcjMatchesAffinity env p n
     \<and> FindMatchingUntoleratedTaint (Taints n) (Tolerations (Spec p))
          (\<lambda>x. TaintEffect x = ''NoSchedule'' \<or> TaintEffect x = ''NoExecute'') = None
     \<and> (Unschedulable n \<longrightarrow> TolerationsTolerateTaint (Tolerations (Spec p)) unschedulable_taint)
     \<and> BcjFitsResources env p n"

definition NewMockPod :: "broadcast_job \<Rightarrow> string \<Rightarrow> pod" where
  "NewMockPod job nodeName =
     (let t = BcjTemplate (BcjSpec job)
      in zero_pod\<lparr>Labels := TplLabels t, Annotations := (\<lambda>k. map_option Text (TplAnnotations t k)),
           Finalizers := TplFinalizers t, Namespace := Namespace job, Spec := (TplSpec t)\<lparr>NodeName := nodeName\<rparr>\<rparr>)"

text \<open>The last pod on a node wins.\<close>

definition getNodeToPodMap :: "pod list \<Rightarrow> string \<rightharpoonup> pod" where
  "getNodeToPodMap pods = foldl (\<lambda>m p. m(getAssignedNode p \<mapsto> p)) Map.empty pods"

text \<open>The desired nodes with their pods, the nodes without one, and the pods that do not fit any more.\<close>

fun nodes_to_run ::
  "'w bcj_env \<Rightarrow> broadcast_job \<Rightarrow> (string \<rightharpoonup> pod) \<Rightarrow> node list \<Rightarrow> (string \<times> pod option) list \<Rightarrow> node list \<Rightarrow> pod list
   \<Rightarrow> (string \<times> pod option) list \<times> node list \<times> pod list" where
  "nodes_to_run env job existing [] desired rest del = (desired, rest, del)"
| "nodes_to_run env job existing (n # ns) desired rest del =
     (case existing (Name n) of
        Some p \<Rightarrow>
          if \<not> checkNodeFitness env p n \<and> \<not> IsDeleted p then nodes_to_run env job existing ns desired rest (del @ [p])
          else nodes_to_run env job existing ns (AList.update (Name n) (Some p) desired) rest del
      | None \<Rightarrow>
          if \<not> checkNodeFitness env (NewMockPod job (Name n)) n then nodes_to_run env job existing ns desired rest del
          else nodes_to_run env job existing ns (AList.update (Name n) None desired) (rest @ [n]) del)"

definition getNodesToRunPod ::
  "'w bcj_env \<Rightarrow> node list \<Rightarrow> broadcast_job \<Rightarrow> (string \<rightharpoonup> pod) \<Rightarrow> (string \<times> pod option) list \<times> node list \<times> pod list" where
  "getNodesToRunPod env nodes job existing = nodes_to_run env job existing nodes [] [] []"

definition isJobComplete :: "broadcast_job \<Rightarrow> (string \<times> pod option) list \<Rightarrow> bool" where
  "isJobComplete job desiredNodes \<longleftrightarrow>
     CompletionType (BcjSpec job) \<noteq> ''Never'' \<and> desiredNodes \<noteq> []
     \<and> list_all (\<lambda>(_, p). case p of None \<Rightarrow> False | Some pd \<Rightarrow> \<not> IsPodActive pd) desiredNodes"

definition isJobFailed :: "int \<Rightarrow> broadcast_job \<Rightarrow> bool \<times> string" where
  "isJobFailed now job =
     (if CompletionType (BcjSpec job) = ''Never'' then (False, [])
      else if pastActiveDeadline now job
      then (True, ''Job '' @ Namespace job @ ''/'' @ Name job @ '' was active longer than specified deadline'')
      else (False, []))"

section \<open>Creating and deleting pods\<close>

definition createPod ::
  "'w bcj_env \<Rightarrow> string \<Rightarrow> broadcast_job \<Rightarrow> owner_ref \<Rightarrow> 'w bcj_state \<Rightarrow> api_error option \<times> 'w bcj_state" where
  "createPod env nodeName job ref st =
     (let p = (pod_from_template (BcjTemplate (BcjSpec job)) ref)\<lparr>Namespace := Namespace job\<rparr>;
          p1 = (if BcjByScheduler env
                then p\<lparr>Spec := (Spec p)\<lparr>NodeSelectorTerms :=
                       Some [\<lparr>TermExpressions = [], TermFields =
                         [\<lparr>FieldKey = ''metadata.name'', FieldOperator = ''In'', FieldValues = [nodeName]\<rparr>]\<rparr>]\<rparr>\<rparr>
                else if nodeName \<noteq> [] then p\<lparr>Spec := (Spec p)\<lparr>NodeName := nodeName\<rparr>\<rparr> else p);
          key = req_key (Namespace job, OwnerName ref)
      in if Labels p1 = Map.empty then (Some (OtherError ''unable to create pods, no labels''), st)
         else
           (let st1 = st\<lparr>BcjScale := ExpectScale key Create nodeName (BcjScale st)\<rparr>
            in case BcjCreatePod env p1 (BcjWorld st1) of
                 (Some e, w) \<Rightarrow>
                   (Some e, st1\<lparr>BcjWorld := w, BcjScale := ObserveScale key Create nodeName (BcjScale st1)\<rparr>)
               | (None, w) \<Rightarrow> (None, st1\<lparr>BcjWorld := w\<rparr>)))"

definition createPodOnNode ::
  "'w bcj_env \<Rightarrow> string \<Rightarrow> broadcast_job \<Rightarrow> 'w bcj_state \<Rightarrow> api_error option \<times> 'w bcj_state" where
  "createPodOnNode env nodeName job st =
     (case validateControllerRef (asOwner job) of
        Some e \<Rightarrow> (Some e, st)
      | None \<Rightarrow> createPod env nodeName job (asOwner job) st)"

text \<open>A batch.  The counter goes up unless the creation timed out; the errors are those of the channel.\<close>

fun create_batch ::
  "'w bcj_env \<Rightarrow> broadcast_job \<Rightarrow> node list \<Rightarrow> int \<Rightarrow> api_error list \<Rightarrow> 'w bcj_state
   \<Rightarrow> int \<times> api_error list \<times> 'w bcj_state" where
  "create_batch env job [] active errs st = (active, errs, st)"
| "create_batch env job (n # ns) active errs st =
     (case createPodOnNode env (Name n) job st of
        (None, st1) \<Rightarrow> create_batch env job ns (active + 1) errs st1
      | (Some e, st1) \<Rightarrow>
          if BcjIsTimeout env e then create_batch env job ns active errs st1
          else create_batch env job ns (active + 1) (errs @ [e]) st1)"

text \<open>The nodes still to be used, in batches that double as long as there is no error.\<close>

function create_batches ::
  "'w bcj_env \<Rightarrow> broadcast_job \<Rightarrow> node list \<Rightarrow> nat \<Rightarrow> int \<Rightarrow> api_error list \<Rightarrow> 'w bcj_state
   \<Rightarrow> int \<times> api_error list \<times> 'w bcj_state" where
  "create_batches env job ns batchSize active errs st =
     (if ns = [] \<or> batchSize = 0 then (active, errs, st)
      else case create_batch env job (take batchSize ns) active errs st of
             (active1, errs1, st1) \<Rightarrow>
               if length errs < length errs1 \<and> drop batchSize ns \<noteq> [] then (active1, errs1, st1)
               else create_batches env job (drop batchSize ns) (min (2 * batchSize) (length (drop batchSize ns)))
                      active1 errs1 st1)"
  by pat_completeness auto
termination by (relation "measure (\<lambda>(_, _, ns, _). length ns)") auto

declare create_batches.simps [simp del]

text \<open>
  The number of active pods with the first error.  The channel is made with room for the pods to create; a
  negative size panics.
\<close>

definition reconcilePods ::
  "'w bcj_env \<Rightarrow> broadcast_job \<Rightarrow> node list \<Rightarrow> int \<Rightarrow> int \<Rightarrow> 'w bcj_state
   \<Rightarrow> (int \<times> api_error option) run \<times> 'w bcj_state" where
  "reconcilePods env job restNodes active desired st =
     (case GetValueFromIntOrPercent (Some (ValueOrDefault (Parallelism (BcjSpec job)) (IntVal (2 ^ 31 - 1)))) desired True of
        (_, False) \<Rightarrow> (Returns (active, Some (OtherError ''invalid value for IntOrString'')), st)
      | (value, True) \<Rightarrow>
          (let parallelism = int32 value in
           if active \<ge> parallelism then (Returns (active, None), st)
           else
             (let diff = min (int32 (parallelism - active)) (int (length restNodes)) in
              if diff < 0 then (Panics, st)
              else case create_batches env job (take (nat diff) restNodes) (min (nat diff) 1) active [] st of
                     (active1, errs, st1) \<Rightarrow>
                       (Returns (active1, case errs of [] \<Rightarrow> None | e # _ \<Rightarrow> Some e), st1))))"

text \<open>The counters of failed and active pods with the first error.\<close>

fun delete_pods ::
  "'w bcj_env \<Rightarrow> string \<Rightarrow> pod list \<Rightarrow> int \<Rightarrow> int \<Rightarrow> api_error option \<Rightarrow> 'w bcj_state
   \<Rightarrow> (int \<times> int \<times> api_error option) \<times> 'w bcj_state" where
  "delete_pods env key [] failed active err st = ((failed, active, err), st)"
| "delete_pods env key (p # ps) failed active err st =
     (let st1 = st\<lparr>BcjScale := ExpectScale key Delete (getAssignedNode p) (BcjScale st)\<rparr> in
      case BcjDeletePod env p (BcjWorld st1) of
        (Some e, w) \<Rightarrow>
          delete_pods env key ps failed active (if err = None then Some e else err)
            (st1\<lparr>BcjWorld := w, BcjScale := ObserveScale key Delete (getAssignedNode p) (BcjScale st1)\<rparr>)
      | (None, w) \<Rightarrow> delete_pods env key ps (failed + 1) (active - 1) err (st1\<lparr>BcjWorld := w\<rparr>))"

definition deleteJobPods ::
  "'w bcj_env \<Rightarrow> broadcast_job \<Rightarrow> pod list \<Rightarrow> int \<Rightarrow> int \<Rightarrow> 'w bcj_state
   \<Rightarrow> (int \<times> int \<times> api_error option) \<times> 'w bcj_state" where
  "deleteJobPods env job pods failed active st =
     delete_pods env (req_key (Namespace job, Name job)) pods failed active None st"

section \<open>Reconcile\<close>

text \<open>One attempt to write the status; the state holds the copy that is written.\<close>

definition update_status_once ::
  "'w bcj_env \<Rightarrow> string \<times> string \<Rightarrow> broadcast_job \<Rightarrow> broadcast_job \<times> 'w \<Rightarrow> api_error option \<times> broadcast_job \<times> 'w" where
  "update_status_once env req job = (\<lambda>(jobCopy, w).
     case BcjUpdateStatus env jobCopy w of
       (None, w1) \<Rightarrow> (None, jobCopy, w1)
     | (Some _, w1) \<Rightarrow>
         (case BcjGet env (fst req) (snd req) w1 of
            Inr updated \<Rightarrow> (None, updated\<lparr>BcjStatus := BcjStatus job\<rparr>, w1)
          | Inl e \<Rightarrow> (Some e, jobCopy, w1)))"

definition DefaultRetry :: nat where "DefaultRetry = 5"

definition updateJobStatus ::
  "'w bcj_env \<Rightarrow> string \<times> string \<Rightarrow> broadcast_job \<Rightarrow> 'w bcj_state \<Rightarrow> api_error option \<times> 'w bcj_state" where
  "updateJobStatus env req job st =
     (case RetryOnConflict DefaultRetry (update_status_once env req job) (job, BcjWorld st) of
        (e, _, w) \<Rightarrow> (e, st\<lparr>BcjWorld := w\<rparr>))"

definition finishJob :: "int \<Rightarrow> broadcast_job \<Rightarrow> job_condition_type \<Rightarrow> string \<Rightarrow> int \<times> broadcast_job" where
  "finishJob now job t msg =
     (let s = BcjStatus job; reason = (case t of JobComplete \<Rightarrow> ''Complete'' | JobFailed \<Rightarrow> ''Failed'');
          s1 = s\<lparr>JobConditions := JobConditions s @ [newCondition now t reason msg], CompletionTime := Some now\<rparr>
      in (case TTLSecondsAfterFinished (BcjSpec job) of None \<Rightarrow> 0 | Some x \<Rightarrow> int32 (x + 1) * second,
          job\<lparr>BcjStatus := s1\<rparr>))"

definition set_phase :: "job_phase \<Rightarrow> broadcast_job \<Rightarrow> broadcast_job" where
  "set_phase ph job = job\<lparr>BcjStatus := (BcjStatus job)\<lparr>JobPhase := ph\<rparr>\<rparr>"

text \<open>A finished job is deleted when its time is over; a failed deletion is only logged.\<close>

definition finished_job ::
  "'w bcj_env \<Rightarrow> broadcast_job \<Rightarrow> 'w bcj_state \<Rightarrow> (int \<times> api_error option) \<times> 'w bcj_state" where
  "finished_job env job st =
     (case pastTTLDeadline (BcjNow env) job of
        (True, _) \<Rightarrow> ((0, None), st\<lparr>BcjWorld := snd (BcjDelete env job (BcjWorld st))\<rparr>)
      | (False, leftTime) \<Rightarrow> ((if leftTime > 0 then leftTime else 0, None), st))"

definition start_job :: "int \<Rightarrow> broadcast_job \<Rightarrow> int \<times> broadcast_job" where
  "start_job now job =
     (let s = BcjStatus job;
          s1 = (if StartTime s = None then s\<lparr>StartTime := Some now\<rparr> else s);
          s2 = (if JobPhase s1 = JobPhaseUnset then s1\<lparr>JobPhase := PhaseRunning\<rparr> else s1)
      in (if StartTime s = None \<and> CompletionType (BcjSpec job) = ''Always''
          then (case ActiveDeadlineSeconds (BcjSpec job) of None \<Rightarrow> 0 | Some x \<Rightarrow> int64 (x * second)) else 0,
          job\<lparr>BcjStatus := s2\<rparr>))"

text \<open>The final write of the status; its own error is only logged.\<close>

definition final_status ::
  "'w bcj_env \<Rightarrow> string \<times> string \<Rightarrow> broadcast_job \<Rightarrow> int \<Rightarrow> int \<Rightarrow> 'w bcj_state \<Rightarrow> 'w bcj_state" where
  "final_status env req job failed active st =
     snd (updateJobStatus env req
       (job\<lparr>BcjStatus := (BcjStatus job)\<lparr>JobFailedPods := failed, JobActive := active\<rparr>\<rparr>) st)"

definition fail_job ::
  "'w bcj_env \<Rightarrow> string \<times> string \<Rightarrow> broadcast_job \<Rightarrow> pod list \<Rightarrow> int \<Rightarrow> int \<Rightarrow> string \<Rightarrow> 'w bcj_state
   \<Rightarrow> (int \<times> api_error option) \<times> 'w bcj_state" where
  "fail_job env req job activePods failed active msg st =
     (case deleteJobPods env job activePods failed active st of
        ((failed1, active1, err), st1) \<Rightarrow>
          (case finishJob (BcjNow env) (set_phase PhaseFailed job) JobFailed msg of
             (requeueAfter, job1) \<Rightarrow> ((requeueAfter, err), final_status env req job1 failed1 active1 st1)))"

text \<open>A job that goes on; an error of the deletion is replaced by the result of the creation.\<close>

definition run_job ::
  "'w bcj_env \<Rightarrow> string \<times> string \<Rightarrow> broadcast_job \<Rightarrow> int \<Rightarrow> (string \<times> pod option) list \<Rightarrow> node list \<Rightarrow> pod list
   \<Rightarrow> int \<Rightarrow> int \<Rightarrow> int \<Rightarrow> 'w bcj_state \<Rightarrow> (int \<times> api_error option) run \<times> 'w bcj_state" where
  "run_job env req job requeueAfter desiredNodes restNodes podsToDelete failed active succeeded st =
     (case (if podsToDelete \<noteq> [] then deleteJobPods env job podsToDelete failed active st else ((failed, active, None), st)) of
        ((failed1, active1, err1), st1) \<Rightarrow>
          (case (if DeletionTimestamp job = None \<and> restNodes \<noteq> []
                 then reconcilePods env job restNodes active1 (int (length desiredNodes)) st1
                 else (Returns (active1, err1), st1)) of
             (Panics, st2) \<Rightarrow> (Panics, st2)
           | (Returns (active2, err2), st2) \<Rightarrow>
               (case (if isJobComplete job desiredNodes
                      then finishJob (BcjNow env) (set_phase PhaseCompleted job) JobComplete
                             (''Job completed, '' @ show_int succeeded @ '' pods succeeded, '' @ show_int failed1 @ '' pods failed'')
                      else (requeueAfter, job)) of
                  (requeueAfter1, job1) \<Rightarrow>
                    (Returns (requeueAfter1, err2), final_status env req job1 failed1 active2 st2))))"

text \<open>What is done with the job once its pods and the nodes are known.\<close>

definition process_job ::
  "'w bcj_env \<Rightarrow> string \<times> string \<Rightarrow> broadcast_job \<Rightarrow> int \<Rightarrow> pod list \<Rightarrow> node list \<Rightarrow> 'w bcj_state
   \<Rightarrow> (int \<times> api_error option) run \<times> 'w bcj_state" where
  "process_job env req job0 requeueAfter pods nodes st =
     (case (filterPods (RestartLimit (BcjSpec job0)) pods, getNodesToRunPod env nodes job0 (getNodeToPodMap pods)) of
        ((activePods, failedPods, succeededPods), (desiredNodes, restNodes, podsToDelete)) \<Rightarrow>
          (let active = int (length activePods); failed = int (length failedPods); succeeded = int (length succeededPods);
               job1 = job0\<lparr>BcjStatus := (BcjStatus job0)\<lparr>JobActive := active, JobFailedPods := failed,
                        JobSucceeded := succeeded, JobDesired := int (length desiredNodes)\<rparr>\<rparr>;
               ph = JobPhase (BcjStatus job1); paused = BcjPaused (BcjSpec job1);
               finish = (\<lambda>job. case updateJobStatus env req job st of (e, st1) \<Rightarrow> (Returns (requeueAfter, e), st1))
           in if ph = PhaseFailed then finish job1
              else if paused \<and> (ph = PhaseRunning \<or> ph = PhasePaused) then finish (set_phase PhasePaused job1)
              else
                (let job2 = (if \<not> paused \<and> ph = PhasePaused then set_phase PhaseRunning job1 else job1);
                     (deadline, msg) = isJobFailed (BcjNow env) job2
                 in if failed > 0 \<and> FailureType (BcjSpec job2) = ''Pause''
                    then finish ((set_phase PhasePaused job2)\<lparr>BcjSpec := (BcjSpec job2)\<lparr>BcjPaused := True\<rparr>\<rparr>)
                    else if failed > 0 \<and> FailureType (BcjSpec job2) = ''FailFast''
                    then (case fail_job env req job2 activePods failed active
                                 ''failure policy is FailurePolicyTypeFailFast and failed pod is found'' st of
                            (r, st1) \<Rightarrow> (Returns r, st1))
                    else if deadline
                    then (case fail_job env req job2 activePods failed active msg st of (r, st1) \<Rightarrow> (Returns r, st1))
                    else run_job env req job2 requeueAfter desiredNodes restNodes podsToDelete failed active succeeded st)))"

definition job_pods :: "broadcast_job \<Rightarrow> pod list \<Rightarrow> pod list" where
  "job_pods job ps =
     filter (\<lambda>p. case GetControllerOf p of None \<Rightarrow> False | Some r \<Rightarrow> OwnerKind r = bcj_kind \<and> OwnerUID r = UID job) ps"

definition bcj_Reconcile ::
  "'w bcj_env \<Rightarrow> string \<times> string \<Rightarrow> 'w bcj_state \<Rightarrow> (int \<times> api_error option) run \<times> 'w bcj_state" where
  "bcj_Reconcile env req st =
     (case BcjGet env (fst req) (snd req) (BcjWorld st) of
        Inl e \<Rightarrow>
          if e = NotFound then (Returns (0, None), st\<lparr>BcjScale := DeleteExpectations (req_key req) (BcjScale st)\<rparr>)
          else (Returns (0, Some e), st)
      | Inr job0 \<Rightarrow>
          (case ScaleSatisfied (BcjOrd env) (BcjNow env) (req_key req) (BcjScale st) of
             ((False, d, _), x) \<Rightarrow>
               (Returns (if d \<ge> ExpectationTimeout then 0 else ExpectationTimeout - d, None), st\<lparr>BcjScale := x\<rparr>)
           | ((True, _, _), x) \<Rightarrow>
               (let job1 = addLabelToPodTemplate job0; st1 = st\<lparr>BcjScale := x\<rparr> in
                if IsJobFinished job1 then (case finished_job env job1 st1 of (r, st2) \<Rightarrow> (Returns r, st2))
                else
                  (case start_job (BcjNow env) job1 of
                     (requeueAfter, job2) \<Rightarrow>
                       (case BcjListPods env (fst req) (labelsAsMap job2) (BcjWorld st1) of
                          Inl e \<Rightarrow> (Returns (0, Some e), st1)
                        | Inr ps \<Rightarrow>
                            (case BcjListNodes env (BcjWorld st1) of
                               Inl e \<Rightarrow> (Returns (0, Some e), st1)
                             | Inr nodes \<Rightarrow> process_job env req job2 requeueAfter (job_pods job2 ps) nodes st1))))))"

section \<open>Events\<close>

definition isBroadcastJobController :: "owner_ref \<Rightarrow> bool" where
  "isBroadcastJobController r \<longleftrightarrow> OwnerKind r = bcj_kind \<and> ParseGroup (OwnerAPIVersion r) = Some bcj_group"

text \<open>The expectations and the queue of the jobs that were added.\<close>

type_synonym bcj_events = "scale_exps \<times> (string \<times> string) list"

definition bcj_observe :: "scale_action \<Rightarrow> pod \<Rightarrow> bcj_events \<Rightarrow> bcj_events" where
  "bcj_observe action p = (\<lambda>(x, q).
     case GetControllerOf p of
       None \<Rightarrow> (x, q)
     | Some r \<Rightarrow>
         if isBroadcastJobController r
         then (ObserveScale (req_key (Namespace p, OwnerName r)) action (getAssignedNode p) x, q @ [(Namespace p, OwnerName r)])
         else (x, q))"

definition bcj_pod_Delete :: "pod \<Rightarrow> bcj_events \<Rightarrow> bcj_events" where
  "bcj_pod_Delete p ev = bcj_observe Delete p ev"

definition bcj_pod_Create :: "pod \<Rightarrow> bcj_events \<Rightarrow> bcj_events" where
  "bcj_pod_Create p ev = (if IsDeleted p then bcj_pod_Delete p ev else bcj_observe Create p ev)"

text \<open>An error of the list is logged and leaves no jobs.\<close>

definition listed_jobs :: "'w bcj_env \<Rightarrow> 'w \<Rightarrow> broadcast_job list" where
  "listed_jobs env w = (case BcjListJobs env w of Inl _ \<Rightarrow> [] | Inr js \<Rightarrow> js)"

definition addNode :: "'w bcj_env \<Rightarrow> node \<Rightarrow> 'w \<Rightarrow> (string \<times> string) list" where
  "addNode env n w =
     map (\<lambda>j. (Namespace j, Name j)) (filter (\<lambda>j. checkNodeFitness env (NewMockPod j (Name n)) n) (listed_jobs env w))"

definition true_types :: "(string \<times> string) list \<Rightarrow> string list" where
  "true_types cs = map fst (filter (\<lambda>(_, s). s = ConditionTrue) cs)"

fun match_types :: "string list \<Rightarrow> string list \<Rightarrow> bool" where
  "match_types c1 [] \<longleftrightarrow> c1 = []"
| "match_types c1 (t # ts) \<longleftrightarrow> t \<in> set c1 \<and> match_types (removeAll t c1) ts"

definition nodeInSameCondition :: "(string \<times> string) list \<Rightarrow> (string \<times> string) list \<Rightarrow> bool" where
  "nodeInSameCondition old cur \<longleftrightarrow> old = [] \<and> cur = [] \<or> match_types (true_types old) (true_types cur)"

definition shouldIgnoreNodeUpdate :: "node \<Rightarrow> node \<Rightarrow> bool" where
  "shouldIgnoreNodeUpdate oldNode curNode \<longleftrightarrow>
     nodeInSameCondition (NodeConditions oldNode) (NodeConditions curNode)
     \<and> oldNode\<lparr>ResourceVersion := ResourceVersion curNode, NodeConditions := NodeConditions curNode\<rparr> = curNode"

definition updateNode :: "'w bcj_env \<Rightarrow> node \<Rightarrow> node \<Rightarrow> 'w \<Rightarrow> (string \<times> string) list" where
  "updateNode env oldNode curNode w =
     (if shouldIgnoreNodeUpdate oldNode curNode then []
      else map (\<lambda>j. (Namespace j, Name j))
             (filter (\<lambda>j. let p = NewMockPod j (Name oldNode)
                          in checkNodeFitness env p oldNode \<noteq> checkNodeFitness env p curNode) (listed_jobs env w)))"

end
