(* ===== verification/Broadcast_Correct.thy ===== *)
theory Broadcast_Correct
  imports Broadcast_Job
begin

text \<open>
  What the BroadcastJob controller does with nodes and pods: which nodes it uses, how many pods it creates at
  once, when a job is complete, what happens to its status, and that a node never has two pods of a job.
\<close>

section \<open>Creating pods\<close>

text \<open>Creating a pod on each of the nodes in turn.\<close>

definition create_on :: "'w bcj_env \<Rightarrow> broadcast_job \<Rightarrow> node list \<Rightarrow> 'w bcj_state \<Rightarrow> 'w bcj_state" where
  "create_on env job ns st = foldl (\<lambda>s n. snd (createPodOnNode env (Name n) job s)) st ns"

lemma create_on_simps [simp]:
  "create_on env job [] st = st"
  "create_on env job (n # ns) st = create_on env job ns (snd (createPodOnNode env (Name n) job st))"
  "create_on env job (ns @ ms) st = create_on env job ms (create_on env job ns st)"
  by (simp_all add: create_on_def)

lemma create_batch_spec:
  assumes "create_batch env job ns active errs st = (active', errs', st')"
  shows "st' = create_on env job ns st \<and> active \<le> active' \<and> active' \<le> active + int (length ns) \<and> (\<exists>es. errs' = errs @ es)"
  using assms
proof (induction ns arbitrary: active errs st)
  case (Cons n ns)
  obtain e st1 where c: "createPodOnNode env (Name n) job st = (e, st1)" by fastforce
  show ?case
  proof (cases "e = None \<or> \<not> BcjIsTimeout env (the e)")
    case True
    then have "create_batch env job ns (active + 1) (errs @ (case e of None \<Rightarrow> [] | Some x \<Rightarrow> [x])) st1 = (active', errs', st')"
      using Cons.prems c by (cases e) simp_all
    from Cons.IH [OF this] c show ?thesis by auto
  next
    case False
    then have "create_batch env job ns active errs st1 = (active', errs', st')" using Cons.prems c by (cases e) simp_all
    from Cons.IH [OF this] c show ?thesis by auto
  qed
qed simp

lemma create_batches_spec:
  assumes "create_batches env job ns batch active errs st = (active', errs', st')"
  shows "\<exists>k\<le>length ns. st' = create_on env job (take k ns) st \<and> active \<le> active' \<and> active' \<le> active + int k
    \<and> (\<exists>es. errs' = errs @ es) \<and> (errs' = errs \<and> min (length ns) 1 \<le> batch \<longrightarrow> k = length ns)"
  using assms
proof (induction env job ns batch active errs st rule: create_batches.induct)
  case (1 env job ns batch active errs st)
  show ?case
  proof (cases "ns = [] \<or> batch = 0")
    case True
    with 1(2) have "active' = active" "errs' = errs" "st' = st" by (auto simp: create_batches.simps [of env job ns batch])
    then show ?thesis using True by (intro exI [of _ 0]) (cases ns; auto)
  next
    case False
    obtain a1 e1 s1 where b: "create_batch env job (take batch ns) active errs st = (a1, e1, s1)" by (metis prod_cases3)
    note spec = create_batch_spec [OF b]
    show ?thesis
    proof (cases "length errs < length e1 \<and> drop batch ns \<noteq> []")
      case True
      with 1(2) False b have "active' = a1" "errs' = e1" "st' = s1" by (simp_all add: create_batches.simps [of env job ns batch])
      then show ?thesis using spec True by (intro exI [of _ "min batch (length ns)"]) (auto simp: min_def)
    next
      case go: False
      let ?rest = "drop batch ns"
      have rec: "create_batches env job ?rest (min (2 * batch) (length ?rest)) a1 e1 s1 = (active', errs', st')"
        using 1(2) False b go by (auto simp: create_batches.simps [of env job ns batch] simp del: length_drop split: if_splits)
      obtain k where k: "k \<le> length ?rest" "st' = create_on env job (take k ?rest) s1" "a1 \<le> active'" "active' \<le> a1 + int k"
          "\<exists>es. errs' = e1 @ es" "errs' = e1 \<and> min (length ?rest) 1 \<le> min (2 * batch) (length ?rest) \<longrightarrow> k = length ?rest"
        using 1(1) [OF False b [symmetric] refl go rec] by blast
      have "take (min batch (length ns) + k) ns = take batch ns @ take k ?rest"
        by (cases "batch \<le> length ns") (simp_all add: take_add min_def)
      moreover have "errs' = errs \<Longrightarrow> errs' = e1 \<and> min (length ?rest) 1 \<le> min (2 * batch) (length ?rest)"
        using spec k(5) False by auto
      ultimately show ?thesis using spec k
        by (intro exI [of _ "min batch (length ns) + k"]) (auto simp: min_def split: if_splits)
    qed
  qed
qed

text \<open>The limit of a job for a number of desired nodes; \<open>None\<close> is an invalid one.\<close>

definition limit_of :: "broadcast_job \<Rightarrow> int \<Rightarrow> int option" where
  "limit_of job desired =
     (case GetValueFromIntOrPercent (Some (ValueOrDefault (Parallelism (BcjSpec job)) (IntVal (2 ^ 31 - 1)))) desired True of
        (v, ok) \<Rightarrow> if ok then Some (int32 v) else None)"


section \<open>Nodes and completion\<close>

text \<open>A node that the job wants to run on: its pod fits or is going away, or it has none and a new one would fit.\<close>

definition desired_on :: "'w bcj_env \<Rightarrow> broadcast_job \<Rightarrow> (string \<rightharpoonup> pod) \<Rightarrow> node \<Rightarrow> bool" where
  "desired_on env job existing n =
     (case existing (Name n) of
        Some p \<Rightarrow> checkNodeFitness env p n \<or> IsDeleted p
      | None \<Rightarrow> checkNodeFitness env (NewMockPod job (Name n)) n)"

lemma update_fresh: "k \<notin> fst ` set al \<Longrightarrow> AList.update k v al = al @ [(k, v)]"
  by (induction al) auto

lemma nodes_to_run_spec:
  assumes "nodes_to_run env job existing ns desired rest del = (desired', rest', del')"
  shows "rest' = rest @ filter (\<lambda>n. existing (Name n) = None \<and> desired_on env job existing n) ns
    \<and> del' = del @ map (\<lambda>n. the (existing (Name n))) (filter (\<lambda>n. existing (Name n) \<noteq> None \<and> \<not> desired_on env job existing n) ns)
    \<and> (distinct (map Name ns) \<and> fst ` set desired \<inter> Name ` set ns = {} \<longrightarrow>
         desired' = desired @ map (\<lambda>n. (Name n, existing (Name n))) (filter (desired_on env job existing) ns))"
  using assms
proof (induction ns arbitrary: desired rest del)
  case (Cons n ns)
  show ?case
  proof (cases "desired_on env job existing n")
    case True
    let ?d = "AList.update (Name n) (existing (Name n)) desired"
    have rec: "nodes_to_run env job existing ns ?d (if existing (Name n) = None then rest @ [n] else rest) del = (desired', rest', del')"
      using Cons.prems True by (cases "existing (Name n)") (auto simp: desired_on_def)
    have fresh: "distinct (map Name (n # ns)) \<and> fst ` set desired \<inter> Name ` set (n # ns) = {} \<Longrightarrow>
        ?d = desired @ [(Name n, existing (Name n))] \<and> distinct (map Name ns) \<and> fst ` set ?d \<inter> Name ` set ns = {}"
      by (auto simp: update_fresh)
    show ?thesis using Cons.IH [OF rec] fresh True by (cases "existing (Name n)") auto
  next
    case False
    then have "nodes_to_run env job existing ns desired rest
        (case existing (Name n) of None \<Rightarrow> del | Some p \<Rightarrow> del @ [p]) = (desired', rest', del')"
      using Cons.prems by (cases "existing (Name n)") (auto simp: desired_on_def)
    from Cons.IH [OF this] False show ?thesis by (cases "existing (Name n)") auto
  qed
qed simp

text \<open>
  Nodes are classified right: pods are created exactly on the desired nodes without one, deleted
  exactly where they neither fit nor go away already, and the job is complete exactly when it may complete,
  there is a desired node and each of them has a pod that is not active any more.
\<close>

theorem nodes_classified:
  assumes "distinct (map Name nodes)"
  shows "case getNodesToRunPod env nodes job existing of
    (desired, rest, del) \<Rightarrow>
      rest = filter (\<lambda>n. existing (Name n) = None \<and> desired_on env job existing n) nodes
      \<and> del = map (\<lambda>n. the (existing (Name n))) (filter (\<lambda>n. existing (Name n) \<noteq> None \<and> \<not> desired_on env job existing n) nodes)
      \<and> (isJobComplete job desired \<longleftrightarrow>
           CompletionType (BcjSpec job) \<noteq> ''Never'' \<and> (\<exists>n\<in>set nodes. desired_on env job existing n)
           \<and> (\<forall>n\<in>set nodes. desired_on env job existing n \<longrightarrow> (\<exists>p. existing (Name n) = Some p \<and> \<not> IsPodActive p)))"
proof -
  obtain d r x where g: "getNodesToRunPod env nodes job existing = (d, r, x)" by (metis prod_cases3)
  note spec = nodes_to_run_spec [OF g [unfolded getNodesToRunPod_def]]
  have d: "d = map (\<lambda>n. (Name n, existing (Name n))) (filter (desired_on env job existing) nodes)" using spec assms by simp
  have "isJobComplete job d \<longleftrightarrow>
      CompletionType (BcjSpec job) \<noteq> ''Never'' \<and> (\<exists>n\<in>set nodes. desired_on env job existing n)
      \<and> (\<forall>n\<in>set nodes. desired_on env job existing n \<longrightarrow> (\<exists>p. existing (Name n) = Some p \<and> \<not> IsPodActive p))"
    unfolding d by (auto simp: isJobComplete_def list_all_iff filter_empty_conv split: option.splits)
  then show ?thesis using spec unfolding g by simp
qed

section \<open>The status\<close>

text \<open>
  C34: The status is written at most once.  When the write fails, for a conflict as well, and the job can
  still be read, the update reports success although nothing was written.
\<close>

theorem status_written_once:
  assumes "\<forall>w. BcjGet env ns n w \<noteq> Inl Conflict"
  shows "updateJobStatus env (ns, n) job st =
    (case BcjUpdateStatus env job (BcjWorld st) of
       (None, w) \<Rightarrow> (None, st\<lparr>BcjWorld := w\<rparr>)
     | (Some _, w) \<Rightarrow> (case BcjGet env ns n w of Inr _ \<Rightarrow> None | Inl e \<Rightarrow> Some e, st\<lparr>BcjWorld := w\<rparr>))"
proof -
  have five: "DefaultRetry = Suc 4" by (simp add: DefaultRetry_def)
  obtain e w where u: "BcjUpdateStatus env job (BcjWorld st) = (e, w)" by fastforce
  have "BcjGet env ns n w \<noteq> Inl Conflict" using assms by simp
  then show ?thesis
    unfolding updateJobStatus_def five RetryOnConflict.simps update_status_once_def u
    by (auto simp: u split: option.splits sum.splits)
qed

section \<open>A negative counter\<close>

lemma filterPods_succeeded: "\<forall>p\<in>set ps. Phase (Status p) = PodSucceeded \<Longrightarrow> filterPods limit ps = ([], [], ps)"
  by (induction ps) auto

lemma delete_pods_all:
  assumes "\<forall>p w. fst (BcjDeletePod env p w) = None"
  shows "\<exists>st'. delete_pods env key ps failed active err st = ((failed + int (length ps), active - int (length ps), err), st')"
proof (induction ps arbitrary: failed active st)
  case (Cons p ps)
  obtain w where "BcjDeletePod env p (BcjWorld st) = (None, w)" using assms by (metis prod.collapse)
  then show ?case
    using Cons.IH [of "failed + 1" "active - 1" "st\<lparr>BcjScale := ExpectScale key Delete (getAssignedNode p) (BcjScale st), BcjWorld := w\<rparr>"]
    by (auto simp: Let_def algebra_simps)
qed simp

lemma reconcilePods_negative:
  assumes "Parallelism (BcjSpec job) = None \<or> Parallelism (BcjSpec job) = Some (IntVal (2 ^ 31 - 1))"
    and "active < 0" and "- (2 ^ 31) \<le> active"
  shows "fst (reconcilePods env job restNodes active desired st) = Panics"
proof -
  have v: "GetValueFromIntOrPercent (Some (ValueOrDefault (Parallelism (BcjSpec job)) (IntVal (2 ^ 31 - 1)))) desired True
      = (2 ^ 31 - 1, True)"
    using assms(1) by (auto simp: ValueOrDefault_def GetValueFromIntOrPercent_def getIntOrPercentValue_def IntValue_def)
  have "int32 (2 ^ 31 - 1 - active) = int32 (2 ^ 31 - 1 - active - 2 ^ 32)"
    unfolding int32_def signed_take_bit_eq_iff_take_bit_eq take_bit_eq_mod
    using minus_mod_self2 [of "2 ^ 31 - 1 - active" "2 ^ Suc 31"] by simp
  also have "\<dots> = 2 ^ 31 - 1 - active - 2 ^ 32" using assms(2,3) by (intro int32_id) auto
  finally have "int32 (2 ^ 31 - 1 - active) < 0" using assms(3) by simp
  moreover have "int32 (2 ^ 31 - 1) = 2 ^ 31 - 1" by (intro int32_id) auto
  ultimately show ?thesis using assms(2) unfolding reconcilePods_def v by (simp add: Let_def)
qed

text \<open>
  C33: A job without a limit panics when all its pods have succeeded, one of them does not fit its node any
  more, say because the node was cordoned, and another node is waiting for a pod: the deletion of the
  completed pod makes the number of active pods negative, and the room under the limit overflows.
\<close>

theorem completed_pod_panics:
  assumes "BcjGet env (fst req) (snd req) (BcjWorld st) = Inr job" and "scale_pending (BcjScale st) (req_key req) = {}"
    and "\<not> IsJobFinished job" and "StartTime (BcjStatus job) \<noteq> None" and "JobPhase (BcjStatus job) = PhaseRunning"
    and "\<not> BcjPaused (BcjSpec job)" and "ActiveDeadlineSeconds (BcjSpec job) = None" and "DeletionTimestamp job = None"
    and "Parallelism (BcjSpec job) = None \<or> Parallelism (BcjSpec job) = Some (IntVal (2 ^ 31 - 1))"
    and "BcjListPods env (fst req) (labelsAsMap job) (BcjWorld st) = Inr ps" and "BcjListNodes env (BcjWorld st) = Inr nodes"
    and "\<forall>p\<in>set ps. Phase (Status p) = PodSucceeded" and "\<forall>p w. fst (BcjDeletePod env p w) = None"
    and "getNodesToRunPod env nodes (addLabelToPodTemplate job) (getNodeToPodMap (job_pods job ps)) = (desired, rest, del)"
    and "del \<noteq> []" and "length del \<le> 2 ^ 31" and "rest \<noteq> []"
  shows "fst (bcj_Reconcile env req st) = Panics"
proof -
  let ?job = "addLabelToPodTemplate job"
  have uid: "UID ?job = UID job" by (simp add: addLabelToPodTemplate_def Let_def)
  have same_pods: "job_pods ?job = job_pods job" unfolding job_pods_def uid ..
  have same: "labelsAsMap ?job = labelsAsMap job" "BcjStatus ?job = BcjStatus job"
      "DeletionTimestamp ?job = None" "Parallelism (BcjSpec ?job) = Parallelism (BcjSpec job)"
      "BcjPaused (BcjSpec ?job) = BcjPaused (BcjSpec job)" "ActiveDeadlineSeconds (BcjSpec ?job) = None" "IsJobFinished ?job = IsJobFinished job"
    using assms(7,8) by (simp_all add: addLabelToPodTemplate_def Let_def labelsAsMap_def IsJobFinished_def)
  have "StartTime (BcjStatus ?job) \<noteq> None" "JobPhase (BcjStatus ?job) = PhaseRunning" using assms(4,5) same by simp_all
  then have start: "start_job (BcjNow env) ?job = (0, ?job)" by (auto simp: start_job_def Let_def)
  have pods: "filterPods limit (job_pods job ps) = ([], [], job_pods job ps)" for limit
    using assms(12) by (intro filterPods_succeeded) (auto simp: job_pods_def)
  have deadline: "isJobFailed now (j :: broadcast_job) = (False, [])" if "ActiveDeadlineSeconds (BcjSpec j) = None" for now j
    using that by (simp add: isJobFailed_def pastActiveDeadline_def)
  have "fst (run_job env req j 0 desired rest del 0 0 c s) = Panics"
    if "Parallelism (BcjSpec j) = Parallelism (BcjSpec job)" "DeletionTimestamp j = None" for j c s
  proof -
    obtain s1 where "deleteJobPods env j del 0 0 s = ((int (length del), - int (length del), None), s1)"
      using delete_pods_all [OF assms(13), of "req_key (Namespace j, Name j)" del 0 0 None s] by (auto simp: deleteJobPods_def)
    moreover have "fst (reconcilePods env j rest (- int (length del)) (int (length desired)) s1) = Panics"
      using assms(9,15,16) that by (intro reconcilePods_negative) auto
    ultimately show ?thesis using assms(15,17) that by (auto simp: run_job_def split: prod.splits run.splits)
  qed
  then have "fst (process_job env req ?job 0 (job_pods job ps) nodes s) = Panics" for s
    using assms(5,6) same unfolding process_job_def pods assms(14) by (simp add: deadline Let_def)
  moreover have "fst (fst (ScaleSatisfied (BcjOrd env) (BcjNow env) (req_key req) (BcjScale st)))"
    using assms(2) by (simp add: ScaleSatisfied_iff)
  ultimately show ?thesis using assms(1,3,10,11) same same_pods start
    by (auto simp: bcj_Reconcile_def Let_def split: prod.splits bool.splits)
qed

section \<open>A small cluster\<close>

text \<open>
  A server that holds pods, those in flight and those in the cache, with a job without a limit and the
  nodes given.
\<close>

definition demo_node :: "string \<Rightarrow> bool \<Rightarrow> node" where
  "demo_node n cordoned = object_meta.extend (zero_meta\<lparr>Name := n\<rparr>) (node.fields cordoned [] [])"

definition demo_job :: broadcast_job where
  "demo_job = object_meta.extend (zero_meta\<lparr>Name := ''j'', Namespace := ''ns'', UID := ''u''\<rparr>)
     (broadcast_job.fields
       \<lparr>Parallelism = None, BcjTemplate = \<lparr>TplLabels = Map.empty, TplAnnotations = Map.empty, TplFinalizers = [],
          TplSpec = zero_pod_spec\<rparr>, CompletionType = ''Always'', ActiveDeadlineSeconds = None, TTLSecondsAfterFinished = None,
        BcjPaused = False, FailureType = ''FailFast'', RestartLimit = 0\<rparr>
       \<lparr>JobConditions = [], StartTime = Some 0, CompletionTime = None, JobActive = 0, JobSucceeded = 0, JobFailedPods = 0,
        JobDesired = 0, JobPhase = PhaseRunning\<rparr>)"

definition demo_cluster :: "node list \<Rightarrow> (pod list \<times> pod list \<times> pod list) bcj_env" where
  "demo_cluster nodes =
     \<lparr>BcjNow = 0, BcjOrd = undefined, BcjByScheduler = False, BcjMatchesAffinity = (\<lambda>_ _. True), BcjFitsResources = (\<lambda>_ _. True),
      BcjIsTimeout = (\<lambda>_. False), BcjGet = (\<lambda>_ _ _. Inr demo_job), BcjUpdateStatus = (\<lambda>_ w. (None, w)),
      BcjDelete = (\<lambda>_ w. (None, w)), BcjListPods = (\<lambda>_ _ (s, f, c). Inr c), BcjListNodes = (\<lambda>_. Inr nodes),
      BcjListJobs = (\<lambda>_. Inr [demo_job]),
      BcjCreatePod = (\<lambda>p (s, f, c). let q = p\<lparr>UID := show_nat (length s), OwnerReferences := [asOwner demo_job]\<rparr>
                                     in (None, s @ [q], f @ [q], c)),
      BcjDeletePod = (\<lambda>p w. (None, w))\<rparr>"

text \<open>A pod of the job that has succeeded on a node.\<close>

definition done_pod :: "string \<Rightarrow> pod" where
  "done_pod n = zero_pod\<lparr>Name := n, Namespace := ''ns'', OwnerReferences := [asOwner demo_job],
     Spec := zero_pod_spec\<lparr>NodeName := n\<rparr>, Status := (Status zero_pod)\<lparr>Phase := PodSucceeded\<rparr>\<rparr>"

lemma demo_simps [simp]:
  "Name (demo_node n c) = n" "Unschedulable (demo_node n c) = c" "Taints (demo_node n c) = []"
  "Name demo_job = ''j''" "Namespace demo_job = ''ns''" "UID demo_job = ''u''" "DeletionTimestamp demo_job = None"
  "Phase (Status (done_pod n)) = PodSucceeded" "getAssignedNode (done_pod n) = (if n = [] then [] else n)"
  "job_pods j [] = []" "job_pods demo_job [done_pod n] = [done_pod n]" "\<not> IsDeleted (done_pod n)"
  by (simp_all add: demo_node_def demo_job_def done_pod_def zero_defs node.defs broadcast_job.defs getAssignedNode_def
      job_pods_def GetControllerOf_def asOwner_def NewControllerRef_def bcj_kind_def IsDeleted_def)


lemma demo_fitness:
  "checkNodeFitness (demo_cluster ns) (done_pod n) (demo_node n cordoned) \<longleftrightarrow> \<not> cordoned"
  "checkNodeFitness (demo_cluster ns) (NewMockPod demo_job n) (demo_node n cordoned) \<longleftrightarrow> \<not> cordoned"
  "NewMockPod (addLabelToPodTemplate demo_job) n = (NewMockPod demo_job n)\<lparr>Labels := labelsAsMap demo_job\<rparr>"
  "checkNodeFitness (demo_cluster ns) (p\<lparr>Labels := l\<rparr>) m = checkNodeFitness (demo_cluster ns) p m"
  by (simp_all add: checkNodeFitness_def demo_cluster_def NewMockPod_def done_pod_def zero_defs addLabelToPodTemplate_def
      FindMatchingUntoleratedTaint_def TolerationsTolerateTaint_def demo_job_def broadcast_job.defs Let_def labelsAsMap_def)

theorem nodes_classified_witness:
  "case getNodesToRunPod (demo_cluster []) [demo_node ''a'' True, demo_node ''b'' False] demo_job [''a'' \<mapsto> done_pod ''a''] of
     (desired, rest, del) \<Rightarrow> rest = [demo_node ''b'' False] \<and> del = [done_pod ''a''] \<and> \<not> isJobComplete demo_job desired"
proof -
  let ?m = "[''a'' \<mapsto> done_pod ''a'']"
  have fit: "desired_on (demo_cluster []) demo_job ?m (demo_node ''b'' False)" "\<not> desired_on (demo_cluster []) demo_job ?m (demo_node ''a'' True)"
    by (simp_all add: desired_on_def demo_fitness)
  then show ?thesis
    using nodes_classified [where nodes = "[demo_node ''a'' True, demo_node ''b'' False]" and env = "demo_cluster []"
        and job = demo_job and existing = ?m] by auto
qed

theorem status_written_once_witness:
  "updateJobStatus ((demo_cluster [])\<lparr>BcjUpdateStatus := (\<lambda>_ w. (Some Conflict, w))\<rparr>) (''ns'', ''j'') demo_job
     \<lparr>BcjScale = Map.empty, BcjWorld = ([], [], [])\<rparr> = (None, \<lparr>BcjScale = Map.empty, BcjWorld = ([], [], [])\<rparr>)"
  by (subst status_written_once) (simp_all add: demo_cluster_def)

theorem completed_pod_panics_witness:
  "fst (bcj_Reconcile (demo_cluster [demo_node ''a'' True, demo_node ''b'' False]) (''ns'', ''j'')
     \<lparr>BcjScale = Map.empty, BcjWorld = ([], [], [done_pod ''a''])\<rparr>) = Panics"
proof -
  let ?env = "demo_cluster [demo_node ''a'' True, demo_node ''b'' False]"
  have nodes: "getNodesToRunPod ?env [demo_node ''a'' True, demo_node ''b'' False] (addLabelToPodTemplate demo_job)
      (getNodeToPodMap (job_pods demo_job [done_pod ''a''])) = ([(''b'', None)], [demo_node ''b'' False], [done_pod ''a''])"
    by (simp add: getNodesToRunPod_def getNodeToPodMap_def demo_fitness)
  show ?thesis
    by (rule completed_pod_panics [OF _ _ _ _ _ _ _ _ _ _ _ _ _ nodes])
      (simp_all add: demo_cluster_def scale_pending_def IsJobFinished_def demo_job_def broadcast_job.defs object_meta.defs zero_meta_def)
qed

end
