(* ===== verification/Broadcast_Run.thy ===== *)
theory Broadcast_Run
  imports Broadcast_Correct
begin

text \<open>
  A job and the cluster around it: the controller works on a cache that lags behind the server, its event
  handlers observe the pods that it expects, and pods come to an end.  A node never has two pods of the job.
\<close>

section \<open>The cluster\<close>

text \<open>
  A pod of the job is its UID with the node it is assigned to.  Of the pods on the server some are in flight
  to the cache, the others are in it.  The API server creates the pod it is asked for or reports an error
  and creates none; all other calls create nothing.  The cache lists exactly the pods it holds.
\<close>

type_synonym job_pod = "string \<times> string"

definition identity_of :: "pod \<Rightarrow> job_pod" where "identity_of p = (UID p, getAssignedNode p)"

definition keeps_pods ::
  "('w \<Rightarrow> job_pod set) \<Rightarrow> ('w \<Rightarrow> job_pod set) \<Rightarrow> ('w \<Rightarrow> job_pod set) \<Rightarrow> 'w \<Rightarrow> 'w \<Rightarrow> bool" where
  "keeps_pods server flight cached w w' \<longleftrightarrow>
     server w' \<subseteq> server w \<and> flight w' = flight w \<and> cached w' = cached w"

definition job_cluster ::
  "'w bcj_env \<Rightarrow> string \<times> string \<Rightarrow> string \<Rightarrow> ('w \<Rightarrow> job_pod set) \<Rightarrow> ('w \<Rightarrow> job_pod set) \<Rightarrow> ('w \<Rightarrow> job_pod set) \<Rightarrow> bool" where
  "job_cluster env req uid server flight cached \<longleftrightarrow>
     (\<forall>w. BcjGet env (fst req) (snd req) w \<noteq> Inl NotFound)
     \<and> (\<forall>w j. BcjGet env (fst req) (snd req) w = Inr j \<longrightarrow>
          Namespace j = fst req \<and> Name j = snd req \<and> UID j = uid \<and> NodeName (TplSpec (BcjTemplate (BcjSpec j))) = [])
     \<and> (\<forall>w ns. BcjListNodes env w = Inr ns \<longrightarrow> distinct (map Name ns) \<and> [] \<notin> Name ` set ns)
     \<and> (\<forall>w j ps. Name j = snd req \<and> UID j = uid \<and> BcjListPods env (fst req) (labelsAsMap j) w = Inr ps \<longrightarrow>
          identity_of ` set (job_pods j ps) = cached w)
     \<and> (\<forall>p w w'. BcjCreatePod env p w = (None, w') \<longrightarrow>
          (\<exists>u. server w' = insert (u, getAssignedNode p) (server w)
             \<and> flight w' = insert (u, getAssignedNode p) (flight w) \<and> cached w' = cached w))
     \<and> (\<forall>p w e w'. BcjCreatePod env p w = (Some e, w') \<longrightarrow> keeps_pods server flight cached w w')
     \<and> (\<forall>p w. keeps_pods server flight cached w (snd (BcjDeletePod env p w)))
     \<and> (\<forall>j w. keeps_pods server flight cached w (snd (BcjUpdateStatus env j w)))
     \<and> (\<forall>j w. keeps_pods server flight cached w (snd (BcjDelete env j w)))"

text \<open>At most one pod of a node.\<close>

definition lone :: "job_pod set \<Rightarrow> bool" where
  "lone S \<longleftrightarrow> (\<forall>u u' n. (u, n) \<in> S \<and> (u', n) \<in> S \<longrightarrow> u = u')"

definition pods_inv ::
  "('w \<Rightarrow> job_pod set) \<Rightarrow> ('w \<Rightarrow> job_pod set) \<Rightarrow> ('w \<Rightarrow> job_pod set) \<Rightarrow> string \<Rightarrow> scale_exps \<Rightarrow> 'w \<Rightarrow> bool" where
  "pods_inv server flight cached key x w \<longleftrightarrow>
     server w \<subseteq> cached w \<union> flight w \<and> (\<forall>u n. (u, n) \<in> flight w \<longrightarrow> (Create, n) \<in> scale_pending x key)
     \<and> lone (server w \<union> flight w)"

text \<open>Nodes without a pod of the job.\<close>

definition free_nodes :: "('w \<Rightarrow> job_pod set) \<Rightarrow> ('w \<Rightarrow> job_pod set) \<Rightarrow> 'w \<Rightarrow> node list \<Rightarrow> bool" where
  "free_nodes server flight w ns \<longleftrightarrow>
     distinct (map Name ns) \<and> [] \<notin> Name ` set ns \<and> Name ` set ns \<inter> snd ` (server w \<union> flight w) = {}"

lemma keeps_pods_refl [simp]: "keeps_pods server flight cached w w"
  by (simp add: keeps_pods_def)

lemma lone_subset: "lone S \<Longrightarrow> T \<subseteq> S \<Longrightarrow> lone T"
  unfolding lone_def by blast

lemma lone_insert: "lone S \<Longrightarrow> n \<notin> snd ` S \<Longrightarrow> lone (insert (u, n) S)"
  unfolding lone_def by force

lemma pods_invI:
  assumes "server w \<subseteq> cached w \<union> flight w" and "\<And>u n. (u, n) \<in> flight w \<Longrightarrow> (Create, n) \<in> scale_pending x key"
    and "lone (server w \<union> flight w)"
  shows "pods_inv server flight cached key x w"
  using assms by (simp add: pods_inv_def)

lemma pods_invD:
  assumes "pods_inv server flight cached key x w"
  shows "server w \<subseteq> cached w \<union> flight w" and "(u, n) \<in> flight w \<Longrightarrow> (Create, n) \<in> scale_pending x key"
    and "lone (server w \<union> flight w)"
  using assms by (auto simp: pods_inv_def)

lemma keeps_inv:
  assumes "keeps_pods server flight cached w w'" and "pods_inv server flight cached key x w"
    and "\<And>n. (Create, n) \<in> scale_pending x key \<Longrightarrow> (Create, n) \<in> scale_pending x' key"
  shows "pods_inv server flight cached key x' w'"
proof -
  have k: "server w' \<subseteq> server w" "flight w' = flight w" "cached w' = cached w"
    using assms(1) by (simp_all add: keeps_pods_def)
  note inv = pods_invD [OF assms(2)]
  show ?thesis
  proof (rule pods_invI)
    show "server w' \<subseteq> cached w' \<union> flight w'" using k(1) inv(1) unfolding k(2,3) by (rule subset_trans)
    show "lone (server w' \<union> flight w')" using k(1) unfolding k(2) by (intro lone_subset [OF inv(3)]) blast
  qed (use inv(2) assms(3) k(2) in auto)
qed

lemma keeps_free:
  "keeps_pods server flight cached w w' \<Longrightarrow> free_nodes server flight w ns \<Longrightarrow> free_nodes server flight w' ns"
  unfolding keeps_pods_def free_nodes_def by blast

section \<open>A reconcile\<close>

definition is_job :: "string \<times> string \<Rightarrow> string \<Rightarrow> broadcast_job \<Rightarrow> bool" where
  "is_job req uid j \<longleftrightarrow>
     Namespace j = fst req \<and> Name j = snd req \<and> UID j = uid \<and> NodeName (TplSpec (BcjTemplate (BcjSpec j))) = []"

lemma assigned_new:
  assumes "NodeName (TplSpec t) = []" and "n \<noteq> []"
  shows "getAssignedNode (q\<lparr>Spec := (TplSpec t)\<lparr>NodeSelectorTerms :=
           Some [\<lparr>TermExpressions = [], TermFields =
             [\<lparr>FieldKey = ''metadata.name'', FieldOperator = ''In'', FieldValues = [n]\<rparr>]\<rparr>]\<rparr>\<rparr>) = n"
    and "getAssignedNode (q\<lparr>Spec := (TplSpec t)\<lparr>NodeName := n\<rparr>\<rparr>) = n"
  using assms by (simp_all add: getAssignedNode_def)

lemma create_keeps_inv:
  assumes cluster: "job_cluster env req uid server flight cached" and job: "is_job req uid job"
    and inv: "pods_inv server flight cached (req_key req) (BcjScale st) (BcjWorld st)"
    and free: "free_nodes server flight (BcjWorld st) (n # ns)"
  defines "st' \<equiv> snd (createPodOnNode env (Name n) job st)"
  shows "pods_inv server flight cached (req_key req) (BcjScale st') (BcjWorld st') \<and> free_nodes server flight (BcjWorld st') ns"
proof -
  let ?t = "BcjTemplate (BcjSpec job)"
  let ?p = "(pod_from_template ?t (asOwner job))\<lparr>Namespace := Namespace job\<rparr>"
  define p1 where "p1 = (if BcjByScheduler env
      then ?p\<lparr>Spec := (Spec ?p)\<lparr>NodeSelectorTerms :=
             Some [\<lparr>TermExpressions = [], TermFields =
               [\<lparr>FieldKey = ''metadata.name'', FieldOperator = ''In'', FieldValues = [Name n]\<rparr>]\<rparr>]\<rparr>\<rparr>
      else if Name n \<noteq> [] then ?p\<lparr>Spec := (Spec ?p)\<lparr>NodeName := Name n\<rparr>\<rparr> else ?p)"
  have n: "Name n \<noteq> []" and fresh: "Name n \<notin> snd ` (server (BcjWorld st) \<union> flight (BcjWorld st))" and ns: "Name n \<notin> Name ` set ns"
    and rest: "free_nodes server flight (BcjWorld st) ns"
    using free by (auto simp: free_nodes_def)
  have spec: "Spec ?p = TplSpec ?t" by (simp add: pod_from_template_def)
  have node: "getAssignedNode p1 = Name n"
    using job n unfolding p1_def spec by (simp add: is_job_def assigned_new)
  have key: "req_key (Namespace job, OwnerName (asOwner job)) = req_key req" "validateControllerRef (asOwner job) = None"
    using job by (simp_all add: is_job_def asOwner_def NewControllerRef_def validateControllerRef_def bcj_group_def bcj_kind_def)
  have st': "st' = snd (if Labels p1 = Map.empty then (Some (OtherError ''unable to create pods, no labels''), st)
      else case BcjCreatePod env p1 (BcjWorld st) of
        (Some e, w) \<Rightarrow> (Some e, st\<lparr>BcjWorld := w, BcjScale := ObserveScale (req_key req) Create (Name n)
           (ExpectScale (req_key req) Create (Name n) (BcjScale st))\<rparr>)
      | (None, w) \<Rightarrow> (None, st\<lparr>BcjWorld := w, BcjScale := ExpectScale (req_key req) Create (Name n) (BcjScale st)\<rparr>))"
    unfolding st'_def createPodOnNode_def key option.case createPod_def Let_def p1_def [symmetric]
    by (simp split: prod.splits option.splits)
  obtain e w where c: "BcjCreatePod env p1 (BcjWorld st) = (e, w)" by fastforce
  show ?thesis
  proof (cases "Labels p1 = Map.empty")
    case True
    then show ?thesis using st' inv rest by simp
  next
    case labels: False
    show ?thesis
    proof (cases e)
      case None
      then obtain u where u: "server w = insert (u, Name n) (server (BcjWorld st))"
          "flight w = insert (u, Name n) (flight (BcjWorld st))" "cached w = cached (BcjWorld st)"
        using cluster c node unfolding job_cluster_def by metis
      have "st' = st\<lparr>BcjWorld := w, BcjScale := ExpectScale (req_key req) Create (Name n) (BcjScale st)\<rparr>"
        using st' labels c None by simp
      moreover have "pods_inv server flight cached (req_key req) (ExpectScale (req_key req) Create (Name n) (BcjScale st)) w"
      proof (rule pods_invI)
        show "server w \<subseteq> cached w \<union> flight w" using pods_invD(1) [OF inv] unfolding u by blast
        show "lone (server w \<union> flight w)" using lone_insert [OF pods_invD(3) [OF inv] fresh] unfolding u by simp
      qed (use pods_invD(2) [OF inv] u(2) in auto)
      moreover have "free_nodes server flight w ns" using rest ns unfolding free_nodes_def u by auto
      ultimately show ?thesis by simp
    next
      case (Some x)
      then have keeps: "keeps_pods server flight cached (BcjWorld st) w"
        using cluster c unfolding job_cluster_def by metis
      have st'': "st' = st\<lparr>BcjWorld := w, BcjScale := ObserveScale (req_key req) Create (Name n)
          (ExpectScale (req_key req) Create (Name n) (BcjScale st))\<rparr>"
        using st' labels c Some by simp
      have "n' \<noteq> Name n" if "(u, n') \<in> flight (BcjWorld st)" for u n' using fresh that by force
      then have "pods_inv server flight cached (req_key req)
          (ObserveScale (req_key req) Create (Name n) (ExpectScale (req_key req) Create (Name n) (BcjScale st))) (BcjWorld st)"
        using pods_invD [OF inv] by (intro pods_invI) auto
      from keeps_inv [OF keeps this]
      have "pods_inv server flight cached (req_key req) (BcjScale st') (BcjWorld st')" unfolding st'' by simp
      then show ?thesis using keeps_free [OF keeps rest] unfolding st'' by simp
    qed
  qed
qed

lemma create_on_keeps_inv:
  assumes "job_cluster env req uid server flight cached" and "is_job req uid job"
    and "pods_inv server flight cached (req_key req) (BcjScale st) (BcjWorld st)" and "free_nodes server flight (BcjWorld st) ns"
  shows "pods_inv server flight cached (req_key req) (BcjScale (create_on env job ns st)) (BcjWorld (create_on env job ns st))"
  using assms(3,4)
proof (induction ns arbitrary: st)
  case (Cons n ns)
  from create_keeps_inv [OF assms(1,2) Cons.prems] show ?case using Cons.IH by simp
qed simp

text \<open>Steps that create nothing and forget no expected creation.\<close>

definition calm ::
  "('w \<Rightarrow> job_pod set) \<Rightarrow> ('w \<Rightarrow> job_pod set) \<Rightarrow> ('w \<Rightarrow> job_pod set) \<Rightarrow> string \<Rightarrow> 'w bcj_state \<Rightarrow> 'w bcj_state \<Rightarrow> bool" where
  "calm server flight cached key st st' \<longleftrightarrow>
     keeps_pods server flight cached (BcjWorld st) (BcjWorld st')
     \<and> (\<forall>n. (Create, n) \<in> scale_pending (BcjScale st) key \<longrightarrow> (Create, n) \<in> scale_pending (BcjScale st') key)"

lemma calm_refl [simp]: "calm server flight cached key st st"
  by (simp add: calm_def)

lemma calm_trans [trans]:
  "calm server flight cached key st st1 \<Longrightarrow> calm server flight cached key st1 st2 \<Longrightarrow> calm server flight cached key st st2"
  unfolding calm_def keeps_pods_def by auto

lemma calm_inv:
  "calm server flight cached key st st' \<Longrightarrow> pods_inv server flight cached key (BcjScale st) (BcjWorld st)
   \<Longrightarrow> pods_inv server flight cached key (BcjScale st') (BcjWorld st')"
  unfolding calm_def by (metis keeps_inv)

lemma calm_free:
  "calm server flight cached key st st' \<Longrightarrow> free_nodes server flight (BcjWorld st) ns
   \<Longrightarrow> free_nodes server flight (BcjWorld st') ns"
  unfolding calm_def by (metis keeps_free)

lemma delete_pods_calm:
  assumes "job_cluster env req uid server flight cached" and "delete_pods env key' ps failed active err st = (r, st')"
  shows "calm server flight cached key st st'"
  using assms(2)
proof (induction ps arbitrary: failed active err st)
  case (Cons p ps)
  obtain e w where d: "BcjDeletePod env p (BcjWorld st) = (e, w)" by fastforce
  have w: "keeps_pods server flight cached (BcjWorld st) w"
    using assms(1) d unfolding job_cluster_def by (metis snd_conv)
  let ?x = "ExpectScale key' Delete (getAssignedNode p) (BcjScale st)"
  let ?st1 = "case e of None \<Rightarrow> st\<lparr>BcjScale := ?x, BcjWorld := w\<rparr>
    | Some _ \<Rightarrow> st\<lparr>BcjWorld := w, BcjScale := ObserveScale key' Delete (getAssignedNode p) ?x\<rparr>"
  have "calm server flight cached key st ?st1" using w by (cases e) (auto simp: calm_def)
  also have "calm server flight cached key ?st1 st'"
    using Cons.prems d by (cases e) (auto simp: Let_def intro: Cons.IH)
  finally show ?case .
qed simp

lemma updateJobStatus_calm:
  assumes "job_cluster env req uid server flight cached"
  shows "calm server flight cached key st (snd (updateJobStatus env req' job st))"
proof -
  let ?ok = "\<lambda>w. keeps_pods server flight cached (BcjWorld st) w"
  have once: "?ok (snd (snd (update_status_once env req' job s)))" if "?ok (snd s)" for s
  proof -
    obtain j w where s: "s = (j, w)" by fastforce
    obtain e w1 where u: "BcjUpdateStatus env j w = (e, w1)" by fastforce
    then have "keeps_pods server flight cached w w1" using assms unfolding job_cluster_def by (metis snd_conv)
    then have "?ok w1" using that s by (auto simp: keeps_pods_def)
    then show ?thesis using s u by (auto simp: update_status_once_def split: option.splits sum.splits)
  qed
  have "?ok (snd (snd (RetryOnConflict (Suc 4) (update_status_once env req' job) (job, BcjWorld st))))"
    by (rule RetryOnConflict_rule [where I = "\<lambda>s. ?ok (snd s)" and Q = "\<lambda>r. ?ok (snd (snd r))"])
      (use once in \<open>fastforce+\<close>)
  moreover have "DefaultRetry = Suc 4" by (simp add: DefaultRetry_def)
  ultimately show ?thesis by (auto simp: updateJobStatus_def calm_def split: prod.splits)
qed

lemma final_status_calm:
  "job_cluster env req uid server flight cached \<Longrightarrow> calm server flight cached key st (final_status env req' job failed active st)"
  unfolding final_status_def by (rule updateJobStatus_calm)

lemma fail_job_calm:
  assumes "job_cluster env req uid server flight cached" and "fail_job env req' job ps failed active msg st = (r, st')"
  shows "calm server flight cached key st st'"
proof -
  obtain f a e st1 where d: "deleteJobPods env job ps failed active st = ((f, a, e), st1)" by (metis prod.collapse)
  have "calm server flight cached key st st1"
    using d unfolding deleteJobPods_def by (rule delete_pods_calm [OF assms(1)])
  also have "calm server flight cached key st1 st'"
    using assms(2) d by (auto simp: fail_job_def split: prod.splits intro: final_status_calm [OF assms(1)])
  finally show ?thesis .
qed

lemma reconcilePods_creates:
  assumes "reconcilePods env job restNodes active desired st = (Returns r, st')"
  shows "\<exists>k. st' = create_on env job (take k restNodes) st"
proof -
  consider "st' = st" | d b a e where "create_batches env job (take d restNodes) b active [] st = (a, e, st')"
    using assms by (auto simp: reconcilePods_def Let_def split: prod.splits bool.splits if_splits)
  then show ?thesis
  proof cases
    case 1
    then show ?thesis by (intro exI [of _ 0]) simp
  next
    case 2
    from create_batches_spec [OF this] show ?thesis by (metis take_take)
  qed
qed

lemma free_take: "free_nodes server flight w ns \<Longrightarrow> free_nodes server flight w (take k ns)"
  unfolding free_nodes_def by (auto simp: take_map [symmetric] dest: in_set_takeD)

lemma run_job_inv:
  assumes cluster: "job_cluster env req uid server flight cached" and job: "is_job req uid job"
    and inv: "pods_inv server flight cached (req_key req) (BcjScale st) (BcjWorld st)"
    and free: "free_nodes server flight (BcjWorld st) restNodes"
    and run: "run_job env req job t desiredNodes restNodes podsToDelete failed active succeeded st = (Returns r, st')"
  shows "pods_inv server flight cached (req_key req) (BcjScale st') (BcjWorld st')"
proof -
  obtain f a e st1 where d: "(if podsToDelete \<noteq> [] then deleteJobPods env job podsToDelete failed active st
      else ((failed, active, None), st)) = ((f, a, e), st1)" by (metis prod.collapse)
  then have c1: "calm server flight cached (req_key req) st st1"
    using delete_pods_calm [OF cluster] by (auto simp: deleteJobPods_def split: if_splits)
  obtain a2 e2 st2 where c: "(if DeletionTimestamp job = None \<and> restNodes \<noteq> []
      then reconcilePods env job restNodes a (int (length desiredNodes)) st1 else (Returns (a, e), st1)) = (Returns (a2, e2), st2)"
    and st': "\<exists>j. st' = final_status env req j f a2 st2"
    using run unfolding run_job_def d prod.case by (auto split: run.splits prod.splits)
  have "\<exists>k. st2 = create_on env job (take k restNodes) st1"
    using c reconcilePods_creates by (auto split: if_splits intro: exI [of _ 0])
  then obtain k where "st2 = create_on env job (take k restNodes) st1" ..
  moreover have "free_nodes server flight (BcjWorld st1) (take k restNodes)" using calm_free [OF c1 free] by (rule free_take)
  ultimately have "pods_inv server flight cached (req_key req) (BcjScale st2) (BcjWorld st2)"
    using create_on_keeps_inv [OF cluster job calm_inv [OF c1 inv]] by simp
  then show ?thesis using st' final_status_calm [OF cluster] calm_inv by blast
qed

lemma dom_getNodeToPodMap: "dom (getNodeToPodMap ps) = getAssignedNode ` set ps"
proof -
  have "dom (foldl (\<lambda>m p. m(getAssignedNode p \<mapsto> p)) m ps) = dom m \<union> getAssignedNode ` set ps" for m
    by (induction ps arbitrary: m) auto
  then show ?thesis by (simp add: getNodeToPodMap_def)
qed

lemma is_job_upd [simp]:
  "is_job req uid (set_phase ph j) = is_job req uid j"
  "is_job req uid (j\<lparr>BcjStatus := s\<rparr>) = is_job req uid j"
  "is_job req uid (addLabelToPodTemplate j) = is_job req uid j"
  by (simp_all add: is_job_def set_phase_def addLabelToPodTemplate_def Let_def)

lemma process_job_inv:
  assumes cluster: "job_cluster env req uid server flight cached" and job: "is_job req uid job"
    and inv: "pods_inv server flight cached (req_key req) (BcjScale st) (BcjWorld st)"
    and pending: "scale_pending (BcjScale st) (req_key req) = {}" and pods: "identity_of ` set pods = cached (BcjWorld st)"
    and nodes: "distinct (map Name nodes)" "[] \<notin> Name ` set nodes"
    and process: "process_job env req job t pods nodes st = (Returns r, st')"
  shows "pods_inv server flight cached (req_key req) (BcjScale st') (BcjWorld st')"
proof -
  let ?m = "getNodeToPodMap pods"
  obtain ap fp sp where fil: "filterPods (RestartLimit (BcjSpec job)) pods = (ap, fp, sp)" by (metis prod_cases3)
  obtain d rest del where g: "getNodesToRunPod env nodes job ?m = (d, rest, del)" by (metis prod_cases3)
  have rest: "rest = filter (\<lambda>n. ?m (Name n) = None \<and> desired_on env job ?m n) nodes"
    using nodes_to_run_spec [OF g [unfolded getNodesToRunPod_def]] by simp
  have "flight (BcjWorld st) = {}" using pods_invD(2) [OF inv] pending by fastforce
  then have "snd ` (server (BcjWorld st) \<union> flight (BcjWorld st)) \<subseteq> dom ?m"
    using pods_invD(1) [OF inv] unfolding dom_getNodeToPodMap pods [symmetric] by (force simp: identity_of_def)
  then have free: "free_nodes server flight (BcjWorld st) rest"
    using nodes unfolding free_nodes_def rest by (auto simp: distinct_map_filter domIff)
  have finish: "pods_inv server flight cached (req_key req) (BcjScale st') (BcjWorld st')"
    if "calm server flight cached (req_key req) st st'" using that inv by (rule calm_inv)
  consider j e where "updateJobStatus env req j st = (e, st')"
    | j m r' where "fail_job env req j ap (int (length fp)) (int (length ap)) m st = (r', st')"
    | j where "is_job req uid j" "run_job env req j t d rest del (int (length fp)) (int (length ap)) (int (length sp)) st = (Returns r, st')"
    using process job unfolding process_job_def fil g prod.case Let_def
    by (auto split: if_splits prod.splits; metis is_job_upd(1,2))
  then show ?thesis
  proof cases
    case 1
    then show ?thesis using finish updateJobStatus_calm [OF cluster] by (metis snd_conv)
  next
    case 2
    then show ?thesis using finish fail_job_calm [OF cluster] by blast
  next
    case 3
    then show ?thesis using run_job_inv [OF cluster _ inv free] by blast
  qed
qed

lemma reconcile_keeps_inv:
  assumes cluster: "job_cluster env req uid server flight cached"
    and inv: "pods_inv server flight cached (req_key req) (BcjScale st) (BcjWorld st)"
    and rec: "bcj_Reconcile env req st = (Returns r, st')"
  shows "pods_inv server flight cached (req_key req) (BcjScale st') (BcjWorld st')"
proof (cases "BcjGet env (fst req) (snd req) (BcjWorld st)")
  case (Inl e)
  moreover have "e \<noteq> NotFound" using cluster Inl unfolding job_cluster_def by metis
  ultimately show ?thesis using rec inv by (simp add: bcj_Reconcile_def)
next
  case (Inr j)
  then have job: "is_job req uid j" using cluster unfolding job_cluster_def is_job_def by metis
  obtain ok d l x where sat: "ScaleSatisfied (BcjOrd env) (BcjNow env) (req_key req) (BcjScale st) = ((ok, d, l), x)"
    by (metis prod.collapse)
  have x: "scale_pending x k = scale_pending (BcjScale st) k" for k
    using pending_ScaleSatisfied [of "BcjOrd env" "BcjNow env" "req_key req" "BcjScale st"] sat by simp
  have inv1: "pods_inv server flight cached (req_key req) x (BcjWorld st)" using inv by (simp add: pods_inv_def x)
  show ?thesis
  proof (cases ok)
    case False
    then show ?thesis using rec Inr sat inv1 by (auto simp: bcj_Reconcile_def)
  next
    case True
    let ?j = "addLabelToPodTemplate j" and ?st = "st\<lparr>BcjScale := x\<rparr>"
    obtain t j2 where start: "start_job (BcjNow env) ?j = (t, j2)" by fastforce
    have j2: "is_job req uid j2" using job start by (auto simp: start_job_def Let_def)
    have empty: "scale_pending (BcjScale ?st) (req_key req) = {}"
      using ScaleSatisfied_iff [of "BcjOrd env" "BcjNow env" "req_key req" "BcjScale st"] sat True x by simp
    consider "st' = ?st" | "IsJobFinished ?j" "st' = snd (finished_job env ?j ?st)"
      | ps nodes where "BcjListPods env (fst req) (labelsAsMap j2) (BcjWorld st) = Inr ps" "BcjListNodes env (BcjWorld st) = Inr nodes"
          "process_job env req j2 t (job_pods j2 ps) nodes ?st = (Returns r, st')"
      using rec Inr sat True start
      by (cases "BcjListPods env (fst req) (labelsAsMap j2) (BcjWorld st)"; cases "BcjListNodes env (BcjWorld st)")
        (auto simp: bcj_Reconcile_def Let_def split: if_splits prod.splits)
    then show ?thesis
    proof cases
      case 1
      then show ?thesis using inv1 by simp
    next
      case 2
      have "keeps_pods server flight cached (BcjWorld st) (snd (BcjDelete env ?j (BcjWorld st)))"
        using cluster unfolding job_cluster_def by blast
      then have "calm server flight cached (req_key req) ?st st'"
        using 2 by (auto simp: finished_job_def calm_def split: prod.splits bool.splits)
      then show ?thesis using inv1 calm_inv by fastforce
    next
      case 3
      have "identity_of ` set (job_pods j2 ps) = cached (BcjWorld st)" "distinct (map Name nodes) \<and> [] \<notin> Name ` set nodes"
        using cluster 3(1,2) j2 unfolding job_cluster_def is_job_def by metis+
      then show ?thesis using process_job_inv [OF cluster j2 _ empty _ _ _ 3(3)] inv1 by simp
    qed
  qed
qed

section \<open>Runs\<close>

text \<open>
  A run starts with a synchronised cache.  Then, in any order, the controller reconciles the job, events show
  new and deleted pods to the handlers, a pod that has gone is never shown, pods disappear from the server, and
  the expectations of other jobs change.
\<close>

definition of_job :: "string \<times> string \<Rightarrow> pod \<Rightarrow> bool" where
  "of_job req p \<longleftrightarrow>
     Namespace p = fst req
     \<and> (\<exists>r. GetControllerOf p = Some r \<and> isBroadcastJobController r \<and> OwnerName r = snd req)"

inductive bcj_run ::
  "string \<times> string \<Rightarrow> string \<Rightarrow> ('w \<Rightarrow> job_pod set) \<Rightarrow> ('w \<Rightarrow> job_pod set) \<Rightarrow> ('w \<Rightarrow> job_pod set) \<Rightarrow> scale_exps \<Rightarrow> 'w \<Rightarrow> bool"
  for req uid server flight cached where
  start: "flight w = {} \<Longrightarrow> server w \<subseteq> cached w \<Longrightarrow> lone (server w) \<Longrightarrow> bcj_run req uid server flight cached Map.empty w"
| reconcile: "bcj_run req uid server flight cached x w \<Longrightarrow> job_cluster env req uid server flight cached
    \<Longrightarrow> bcj_Reconcile env req \<lparr>BcjScale = x, BcjWorld = w\<rparr> = (Returns r, st)
    \<Longrightarrow> bcj_run req uid server flight cached (BcjScale st) (BcjWorld st)"
| created: "bcj_run req uid server flight cached x w \<Longrightarrow> of_job req p \<Longrightarrow> identity_of p \<in> flight w
    \<Longrightarrow> server w' = server w \<Longrightarrow> flight w' = flight w - {identity_of p} \<Longrightarrow> cached w' = insert (identity_of p) (cached w)
    \<Longrightarrow> bcj_run req uid server flight cached (fst (bcj_pod_Create p (x, q))) w'"
| missed: "bcj_run req uid server flight cached x w \<Longrightarrow> i \<notin> server w
    \<Longrightarrow> server w' = server w \<Longrightarrow> flight w' = flight w - {i} \<Longrightarrow> cached w' = cached w
    \<Longrightarrow> bcj_run req uid server flight cached x w'"
| deleted: "bcj_run req uid server flight cached x w \<Longrightarrow> of_job req p \<Longrightarrow> identity_of p \<notin> server w
    \<Longrightarrow> server w' = server w \<Longrightarrow> flight w' = flight w \<Longrightarrow> cached w' = cached w - {identity_of p}
    \<Longrightarrow> bcj_run req uid server flight cached (fst (bcj_pod_Delete p (x, q))) w'"
| changed: "bcj_run req uid server flight cached x w \<Longrightarrow> keeps_pods server flight cached w w'
    \<Longrightarrow> bcj_run req uid server flight cached x w'"
| other: "bcj_run req uid server flight cached x w \<Longrightarrow> scale_pending x' (req_key req) = scale_pending x (req_key req)
    \<Longrightarrow> bcj_run req uid server flight cached x' w"

lemma observe_pending_job:
  assumes "of_job req p"
  shows "scale_pending (fst (bcj_observe a p (x, q))) (req_key req) = scale_pending x (req_key req) - {(a, getAssignedNode p)}"
proof -
  obtain r where r: "GetControllerOf p = Some r" "isBroadcastJobController r" "OwnerName r = snd req" "Namespace p = fst req"
    using assms by (auto simp: of_job_def)
  then have "fst (bcj_observe a p (x, q)) = ObserveScale (req_key req) a (getAssignedNode p) x"
    by (simp add: bcj_observe_def)
  then show ?thesis by simp
qed

lemma bcj_run_inv:
  assumes "bcj_run req uid server flight cached x w"
  shows "pods_inv server flight cached (req_key req) x w"
  using assms
proof induction
  case (start w)
  then show ?case by (auto intro: pods_invI)
next
  case (reconcile x w env r st)
  then show ?case using reconcile_keeps_inv [OF reconcile.hyps(2) _ reconcile.hyps(3)] by simp
next
  case (created x w p w' q)
  note inv = pods_invD [OF created.IH]
  show ?case
  proof (rule pods_invI)
    show "server w' \<subseteq> cached w' \<union> flight w'" using inv(1) created.hyps by blast
    show "lone (server w' \<union> flight w')" using created.hyps by (intro lone_subset [OF inv(3)]) blast
    fix u n
    assume u: "(u, n) \<in> flight w'"
    have "n \<noteq> getAssignedNode p"
    proof
      assume "n = getAssignedNode p"
      then have "(u, n) = identity_of p"
        using u created.hyps inv(3) unfolding lone_def identity_of_def by blast
      with u created.hyps show False by simp
    qed
    then show "(Create, n) \<in> scale_pending (fst (bcj_pod_Create p (x, q))) (req_key req)"
      using inv(2) [of u n] u created.hyps by (auto simp: bcj_pod_Create_def bcj_pod_Delete_def observe_pending_job)
  qed
next
  case (missed x w i w')
  note inv = pods_invD [OF missed.IH]
  show ?case
  proof (rule pods_invI)
    show "server w' \<subseteq> cached w' \<union> flight w'" using inv(1) missed.hyps by blast
    show "lone (server w' \<union> flight w')" using missed.hyps by (intro lone_subset [OF inv(3)]) blast
  qed (use inv(2) missed.hyps in auto)
next
  case (deleted x w p w' q)
  note inv = pods_invD [OF deleted.IH]
  show ?case
  proof (rule pods_invI)
    show "server w' \<subseteq> cached w' \<union> flight w'" using inv(1) deleted.hyps by blast
    show "lone (server w' \<union> flight w')" using inv(3) deleted.hyps by simp
  qed (use inv(2) deleted.hyps in \<open>auto simp: bcj_pod_Delete_def observe_pending_job\<close>)
next
  case (changed x w w')
  then show ?case by (metis keeps_inv)
next
  case (other x w x')
  then show ?case by (simp add: pods_inv_def)
qed


section \<open>A run of the small cluster\<close>

definition demo_pods :: "pod list \<Rightarrow> job_pod set" where
  "demo_pods ps = identity_of ` set (job_pods demo_job ps)"

definition demo_server :: "pod list \<times> pod list \<times> pod list \<Rightarrow> job_pod set" where "demo_server = (\<lambda>(s, _, _). demo_pods s)"
definition demo_flight :: "pod list \<times> pod list \<times> pod list \<Rightarrow> job_pod set" where "demo_flight = (\<lambda>(_, f, _). demo_pods f)"
definition demo_cached :: "pod list \<times> pod list \<times> pod list \<Rightarrow> job_pod set" where "demo_cached = (\<lambda>(_, _, c). demo_pods c)"

lemma demo_pods_simps [simp]:
  "demo_pods [] = {}"
  "demo_pods (ps @ [p\<lparr>UID := v, OwnerReferences := [asOwner demo_job]\<rparr>]) = insert (v, getAssignedNode p) (demo_pods ps)"
  by (auto simp: demo_pods_def job_pods_def GetControllerOf_def asOwner_def NewControllerRef_def bcj_kind_def
      identity_of_def getAssignedNode_def)

lemma demo_job_cluster:
  assumes "distinct (map Name ns)" and "[] \<notin> Name ` set ns"
  shows "job_cluster (demo_cluster ns) (''ns'', ''j'') ''u'' demo_server demo_flight demo_cached"
proof -
  have same: "identity_of ` set (job_pods j ps) = demo_pods ps" if "UID j = ''u''" for j ps
    unfolding demo_pods_def job_pods_def that demo_simps ..
  have "NodeName (TplSpec (BcjTemplate (BcjSpec demo_job))) = []" by (simp add: demo_job_def broadcast_job.defs object_meta.defs zero_pod_spec_def)
  then show ?thesis using assms
    by (auto simp: job_cluster_def demo_cluster_def demo_server_def demo_flight_def demo_cached_def keeps_pods_def Let_def same
        split: prod.splits)
qed

lemma demo_reconcile:
  "\<exists>r st. bcj_Reconcile (demo_cluster [demo_node ''a'' False]) (''ns'', ''j'') \<lparr>BcjScale = Map.empty, BcjWorld = ([], [], [])\<rparr>
     = (Returns r, st) \<and> (show_nat 0, ''a'') \<in> demo_server (BcjWorld st)"
proof -
  let ?env = "demo_cluster [demo_node ''a'' False]" and ?st0 = "\<lparr>BcjScale = Map.empty, BcjWorld = ([], [], [])\<rparr>"
    and ?j = "addLabelToPodTemplate demo_job"
  have env: "BcjGet ?env ns n w = Inr demo_job" "BcjListPods ?env ns l (s, f, c) = Inr c" "BcjListNodes ?env w = Inr [demo_node ''a'' False]"
      "BcjUpdateStatus ?env j w = (None, w)" for ns n w l s f c j
    by (simp_all add: demo_cluster_def)
  have job: "\<not> IsJobFinished ?j" "BcjStatus ?j = BcjStatus demo_job" "\<not> BcjPaused (BcjSpec ?j)" "JobPhase (BcjStatus demo_job) = PhaseRunning"
      "start_job t ?j = (0, ?j)" "ActiveDeadlineSeconds (BcjSpec ?j) = None" "Parallelism (BcjSpec ?j) = None"
      "DeletionTimestamp ?j = None" for t
    by (simp_all add: addLabelToPodTemplate_def Let_def IsJobFinished_def demo_job_def broadcast_job.defs object_meta.defs zero_meta_def start_job_def)
  have nodes: "getNodesToRunPod ?env [demo_node ''a'' False] ?j (getNodeToPodMap []) = ([(''a'', None)], [demo_node ''a'' False], [])"
    by (simp add: getNodesToRunPod_def getNodeToPodMap_def demo_fitness)
  have created: "\<exists>st1. createPodOnNode ?env ''a'' j st = (None, st1) \<and> (show_nat 0, ''a'') \<in> demo_server (BcjWorld st1)"
    if "BcjTemplate (BcjSpec j) = BcjTemplate (BcjSpec ?j)" "BcjWorld st = ([], [], [])" for j st
  proof -
    have "TplLabels (BcjTemplate (BcjSpec ?j)) ''broadcastjob-name'' = Some ''j''"
      by (simp add: addLabelToPodTemplate_def Let_def labelsAsMap_def)
    then have labels: "TplLabels (BcjTemplate (BcjSpec ?j)) \<noteq> Map.empty" by (metis option.distinct(1))
    have "validateControllerRef (asOwner j) = None"
      by (simp add: validateControllerRef_def asOwner_def NewControllerRef_def bcj_group_def bcj_kind_def)
    then show ?thesis using that labels
      by (auto simp: createPodOnNode_def createPod_def Let_def pod_from_template_def demo_cluster_def demo_server_def demo_pods_def
          job_pods_def GetControllerOf_def asOwner_def NewControllerRef_def bcj_kind_def identity_of_def getAssignedNode_def)
  qed
  have pods: "\<exists>n st1. reconcilePods ?env j [demo_node ''a'' False] 0 1 st = (Returns (n, None), st1) \<and> (show_nat 0, ''a'') \<in> demo_server (BcjWorld st1)"
    if "Parallelism (BcjSpec j) = None" "BcjTemplate (BcjSpec j) = BcjTemplate (BcjSpec ?j)" "BcjWorld st = ([], [], [])" for j st
  proof -
    have "int32 2147483647 = 2147483647" by (rule int32_id) simp_all
    then show ?thesis using created [OF that(2,3)] that(1)
      by (auto simp: reconcilePods_def ValueOrDefault_def GetValueFromIntOrPercent_def getIntOrPercentValue_def IntValue_def
          Let_def create_batches.simps)
  qed
  have retry: "DefaultRetry = Suc 4" by (simp add: DefaultRetry_def)
  have final: "BcjWorld (final_status ?env req j f a st) = BcjWorld st" for req j f a st
    unfolding final_status_def updateJobStatus_def retry RetryOnConflict.simps(2) by (simp add: update_status_once_def env)
  let ?j1 = "?j\<lparr>BcjStatus := (BcjStatus ?j)\<lparr>JobActive := 0, JobFailedPods := 0, JobSucceeded := 0, JobDesired := 1\<rparr>\<rparr>"
  have "\<exists>r st. run_job ?env (''ns'', ''j'') ?j1 0 [(''a'', None)] [demo_node ''a'' False] [] 0 0 0 ?st0 = (Returns r, st)
      \<and> (show_nat 0, ''a'') \<in> demo_server (BcjWorld st)"
    using pods [of ?j1 ?st0] job by (auto simp: run_job_def isJobComplete_def final)
  moreover have "isJobFailed now ?j1 = (False, [])" for now using job by (simp add: isJobFailed_def pastActiveDeadline_def)
  ultimately have "\<exists>r st. process_job ?env (''ns'', ''j'') ?j 0 [] [demo_node ''a'' False] ?st0 = (Returns r, st)
      \<and> (show_nat 0, ''a'') \<in> demo_server (BcjWorld st)"
    using job unfolding process_job_def nodes filterPods.simps prod.case Let_def by simp
  then show ?thesis using env job by (simp add: bcj_Reconcile_def ScaleSatisfied_def Let_def)
qed


end
