(* ===== verification/Spread_Webhook.thy ===== *)
theory Spread_Webhook
  imports Pub_Control CloneSet_Utils Stateful_Utils Broadcast_Job
begin

text \<open>
  WorkloadSpreads: their data, and what the pod webhook does with them when a pod is created, deleted or
  evicted (\<open>pkg/util/workloadspread\<close>, \<open>pkg/webhook/pod/mutating/workloadspread.go\<close> and
  \<open>pkg/webhook/pod/validating/workloadspread.go\<close>).

  The API client, the strategic merge patch, the generator of ids and the reader of nested fields are
  arguments.  The process-wide cache of written WorkloadSpreads, the list of workloads and the requeue
  durations are state; the cache holds no other kind here, and a process runs one attempt at a time under the
  mutex of the WorkloadSpread.  Events and logs are left out.
\<close>

section \<open>WorkloadSpreads\<close>

record ws_subset =
  SubName :: string
  RequiredNodeSelectorTerm :: "node_term option"
  PreferredNodeSelectorTerms :: "preferred_term list"
  SubTolerations :: "toleration list"
  MaxReplicas :: "int_or_string option"
  SubPatch :: "string option"

record ws_condition =
  WcType :: string
  WcStatus :: string
  WcTransitionTime :: int
  WcReason :: string
  WcMessage :: string

record ws_subset_status =
  StName :: string
  StReplicas :: int
  StConditions :: "ws_condition list"
  MissingReplicas :: int
  CreatingPods :: "string \<rightharpoonup> int"
  DeletingPods :: "string \<rightharpoonup> int"

text \<open>\<open>Adaptive\<close> holds the reschedule seconds of the adaptive strategy, both of which may be nil.\<close>

record ws_spec =
  WsTarget :: "target_ref option"
  Subsets :: "ws_subset list"
  ScheduleType :: string
  Adaptive :: "int option option"

record ws_status =
  WsObservedGeneration :: int
  SubsetStatuses :: "ws_subset_status list"
  VersionedSubsetStatuses :: "string \<rightharpoonup> ws_subset_status list"

record workload_spread = object_meta +
  WsSpec :: ws_spec
  WsStatus :: ws_status

text \<open>An operation on a pod; a deletion and an eviction come with what was injected into the pod.\<close>

datatype ws_operation =
    WsCreateOperation
  | WsDeleteOperation inject_spread
  | WsEvictionOperation inject_spread

definition SubsetSchedulable :: string where "SubsetSchedulable = ''Schedulable''"

definition VersionIgnored :: string where "VersionIgnored = ''versionIgnored''"

definition MatchedWorkloadSpreadSubsetAnnotations :: string where
  "MatchedWorkloadSpreadSubsetAnnotations = ''apps.kruise.io/matched-workloadspread''"

section \<open>Workloads\<close>

text \<open>The Go types of the objects that may be read as a workload.\<close>

datatype workload_type =
    WlReplicaSet | WlDeployment | WlStatefulSet | WlJob | WlCloneSet | WlAdvancedStatefulSet
  | WlUnstructured string string string

text \<open>
  A workload as it was read: the kind it reports, its replicas or its parallelism, what its template, its
  selector and its status say, and the integer below a path of an unstructured object, if there is one.
\<close>

record workload_object = object_meta +
  ObjType :: workload_type
  ObjKind :: string
  ObjReplicas :: int
  ObjSelector :: "label_selector option"
  ObjTemplate :: pod_template
  ObjObservedGeneration :: int
  ObjCurrentRevision :: string
  ObjUpdateRevision :: string
  ObjNested :: "string list \<Rightarrow> int option"

record custom_workload =
  CwGroup :: string
  CwKind :: string
  CwSubResources :: "(string \<times> string) list"
  ReplicasPath :: string

text \<open>
  The arguments: the clock, the kinds of workloads with versions, the API client, the matching and scoring of
  node selector terms, the patch of a pod's metadata (the metadata of a raw patch, if any, and the injected
  subset), and the order in which a loop over a Go map meets its keys.
\<close>

record 'w ws_env =
  WsNow :: int
  WsVersionedKinds :: "string set"
  WsNewUID :: "'w \<Rightarrow> string"
  WsInformer :: "string \<Rightarrow> string \<Rightarrow> 'w \<Rightarrow> api_error + workload_spread"
  WsLive :: "string \<Rightarrow> string \<Rightarrow> 'w \<Rightarrow> api_error + workload_spread"
  WsUpdateStatus :: "workload_spread \<Rightarrow> 'w \<Rightarrow> (api_error + workload_spread) \<times> 'w"
  WsListSpreads :: "string \<Rightarrow> 'w \<Rightarrow> api_error + workload_spread list"
  WsGetWorkload :: "workload_type \<Rightarrow> string \<Rightarrow> string \<Rightarrow> 'w \<Rightarrow> api_error + workload_object"
  WsWhiteList :: "'w \<Rightarrow> api_error + custom_workload list"
  WsGetPod :: "string \<Rightarrow> string \<Rightarrow> 'w \<Rightarrow> api_error + pod"
  WsMergePatch :: "string \<Rightarrow> pod \<Rightarrow> pod option"
  WsPodsForRef :: "target_ref \<Rightarrow> string \<Rightarrow> 'w \<Rightarrow> api_error + pod list \<times> int"
  WsListJobPods :: "string \<Rightarrow> selector \<Rightarrow> string \<Rightarrow> 'w \<Rightarrow> api_error + pod list"
  WsListReplicaSets :: "string \<Rightarrow> label_selector option \<Rightarrow> 'w \<Rightarrow> api_error + workload_object list"
  WsGetNode :: "string \<Rightarrow> 'w \<Rightarrow> api_error + node"
  WsMatchTerms :: "node \<Rightarrow> node_term list \<Rightarrow> bool option"
  WsPreferredScore :: "node \<Rightarrow> preferred_term list \<Rightarrow> int"
  WsPatchMetadata :: "pod \<Rightarrow> string option \<Rightarrow> inject_spread \<Rightarrow> 'w \<Rightarrow> (api_error + pod) \<times> 'w"
  WsPatchCost :: "pod \<Rightarrow> string \<Rightarrow> 'w \<Rightarrow> api_error option \<times> 'w"
  WsDeletePod :: "pod \<Rightarrow> 'w \<Rightarrow> api_error option \<times> 'w"
  WsOrder :: "string list \<Rightarrow> string list"

type_synonym workload_list = "(string \<times> string list) list"

record 'w ws_state =
  WsCache :: "string \<times> string \<rightharpoonup> workload_spread"
  WsWorkloads :: workload_list
  WsInitialized :: bool
  WsDurations :: duration_store
  WsWorld :: 'w

definition workloads :: workload_list where
  "workloads =
     [(''Deployment'', [''apps'']), (''CloneSet'', [''apps.kruise.io'']), (''ReplicaSet'', [''apps'']),
      (''Job'', [''batch'']), (''StatefulSet'', [''apps'', ''apps.kruise.io'', ''apps.kruise.io''])]"

text \<open>The group and the version of an API version; both are empty when it cannot be parsed.\<close>

definition FromAPIVersion :: "string \<Rightarrow> string \<times> string" where
  "FromAPIVersion s =
     (if s = [] \<or> s = ''/'' then ([], [])
      else case split_on (CHR ''/'') s of [v] \<Rightarrow> ([], v) | [g, v] \<Rightarrow> (g, v) | _ \<Rightarrow> ([], []))"

definition GenerateEmptyWorkloadObject :: "string \<Rightarrow> string \<Rightarrow> workload_type" where
  "GenerateEmptyWorkloadObject apiVersion kind =
     (let gv = FromAPIVersion apiVersion in
      if (gv, kind) = ((''apps'', ''v1''), ''ReplicaSet'') then WlReplicaSet
      else if (gv, kind) = ((''apps'', ''v1''), ''Deployment'') then WlDeployment
      else if (gv, kind) = ((''apps'', ''v1''), ''StatefulSet'') then WlStatefulSet
      else if (gv, kind) = ((''batch'', ''v1''), ''Job'') then WlJob
      else if (gv, kind) = ((''apps.kruise.io'', ''v1alpha1''), ''CloneSet'') then WlCloneSet
      else if (gv, kind) = ((''apps.kruise.io'', ''v1alpha1''), ''StatefulSet'')
              \<or> (gv, kind) = ((''apps.kruise.io'', ''v1beta1''), ''StatefulSet'') then WlAdvancedStatefulSet
      else WlUnstructured (fst gv) (snd gv) kind)"

text \<open>\<open>None\<close> is an API version that cannot be parsed.\<close>

definition VerifyGroupKind :: "string \<Rightarrow> string \<Rightarrow> string \<Rightarrow> string list \<Rightarrow> bool option" where
  "VerifyGroupKind apiVersion kind expectedKind expectedGroups =
     (case ParseGroup apiVersion of
        None \<Rightarrow> None
      | Some g \<Rightarrow> Some (kind = expectedKind \<and> g \<in> set expectedGroups))"

fun match_workloads :: "workload_list \<Rightarrow> owner_ref \<Rightarrow> bool option" where
  "match_workloads [] ref = Some False"
| "match_workloads ((kind, groups) # wls) ref =
     (case VerifyGroupKind (OwnerAPIVersion ref) (OwnerKind ref) kind groups of
        None \<Rightarrow> None
      | Some matched \<Rightarrow> if matched then Some True else match_workloads wls ref)"

definition matchReference :: "workload_list \<Rightarrow> owner_ref option \<Rightarrow> bool option" where
  "matchReference wls ref = (case ref of None \<Rightarrow> Some False | Some r \<Rightarrow> match_workloads wls r)"

definition initializeWorkloadsInWhiteList :: "'w ws_env \<Rightarrow> 'w ws_state \<Rightarrow> 'w ws_state" where
  "initializeWorkloadsInWhiteList env st =
     (if WsInitialized st then st
      else case WsWhiteList env (WsWorld st) of
             Inl _ \<Rightarrow> st
           | Inr whiteList \<Rightarrow>
               st\<lparr>WsInitialized := True,
                  WsWorkloads := WsWorkloads st @ concat (map (\<lambda>wl. (CwKind wl, [CwGroup wl])
                    # map (\<lambda>(g, k). (k, [g])) (CwSubResources wl)) whiteList)\<rparr>)"

definition getObjectOf :: "'w ws_env \<Rightarrow> owner_ref \<Rightarrow> string \<Rightarrow> 'w \<Rightarrow> api_error + workload_object" where
  "getObjectOf env owner ns w =
     WsGetWorkload env (GenerateEmptyWorkloadObject (OwnerAPIVersion owner) (OwnerKind owner)) ns (OwnerName owner) w"

text \<open>The owners may go round in a circle.\<close>

partial_function (option) isReferenceEqual ::
  "'w ws_env \<Rightarrow> workload_list \<Rightarrow> target_ref \<Rightarrow> owner_ref option \<Rightarrow> string \<Rightarrow> 'w \<Rightarrow> bool option" where
  "isReferenceEqual env wls target owner ns w =
     (case owner of
        None \<Rightarrow> Some False
      | Some o' \<Rightarrow>
          (case ParseGroup (RefAPIVersion target) of
             None \<Rightarrow> Some False
           | Some targetGroup \<Rightarrow>
               (case ParseGroup (OwnerAPIVersion o') of
                  None \<Rightarrow> Some False
                | Some ownerGroup \<Rightarrow>
                    if targetGroup = ownerGroup \<and> RefKind target = OwnerKind o' \<and> RefName target = OwnerName o'
                    then Some True
                    else if matchReference wls (Some o') \<noteq> Some True then Some False
                    else (case getObjectOf env o' ns w of
                            Inl _ \<Rightarrow> Some False
                          | Inr obj \<Rightarrow> isReferenceEqual env wls target (GetControllerOf obj) ns w))))"

text \<open>
  The default path is never used: \<open>strings.Split\<close> of the empty path is a path of one empty field.
\<close>

definition GetReplicasFromCustomWorkload :: "'w ws_env \<Rightarrow> workload_object \<Rightarrow> 'w \<Rightarrow> int" where
  "GetReplicasFromCustomWorkload env obj w =
     (case WsWhiteList env w of
        Inl _ \<Rightarrow> 0
      | Inr whiteList \<Rightarrow>
          (case find (\<lambda>wl. case ObjType obj of
                            WlUnstructured g v k \<Rightarrow> CwGroup wl = g \<and> CwKind wl = k | _ \<Rightarrow> False) whiteList of
             None \<Rightarrow> 0
           | Some wl \<Rightarrow>
               (let path = split_on (CHR ''.'') (ReplicasPath wl);
                    field = ObjNested obj (if length path > 0 then path else [''spec'', ''replicas''])
                in case field of None \<Rightarrow> 0 | Some replicas \<Rightarrow> int32 replicas)))"

definition getWorkloadReplicas :: "'w ws_env \<Rightarrow> workload_spread \<Rightarrow> 'w \<Rightarrow> api_error + int" where
  "getWorkloadReplicas env ws w =
     (case WsTarget (WsSpec ws) of
        None \<Rightarrow> Inr 0
      | Some ref \<Rightarrow>
          (case WsGetWorkload env (GenerateEmptyWorkloadObject (RefAPIVersion ref) (RefKind ref)) (Namespace ws) (RefName ref) w of
             Inl e \<Rightarrow> if e = NotFound then Inr 0 else Inl e
           | Inr obj \<Rightarrow>
               (case ObjType obj of
                  WlUnstructured _ _ _ \<Rightarrow> Inr (GetReplicasFromCustomWorkload env obj w)
                | _ \<Rightarrow> Inr (ObjReplicas obj))))"

section \<open>Versions\<close>

text \<open>\<open>strings.ToLower\<close> on ASCII.\<close>

definition ToLower :: "string \<Rightarrow> string" where
  "ToLower = map (\<lambda>c. if CHR ''A'' \<le> c \<and> c \<le> CHR ''Z'' then char_of (of_char c + 32 :: nat) else c)"

definition enableVersionedStatus :: "string set \<Rightarrow> string \<Rightarrow> ('a) object_meta_scheme \<Rightarrow> bool" where
  "enableVersionedStatus kinds objectKind obj \<longleftrightarrow>
     ToLower objectKind \<in> kinds
     \<or> (case GetControllerOf obj of None \<Rightarrow> False | Some owner \<Rightarrow> ToLower (OwnerKind owner) \<in> kinds)"

definition GetPodVersion :: "string set \<Rightarrow> pod \<Rightarrow> string" where
  "GetPodVersion kinds p =
     (if \<not> enableVersionedStatus kinds ''Pod'' p then VersionIgnored
      else case Labels p DefaultDeploymentUniqueLabelKey of
             Some v \<Rightarrow> v
           | None \<Rightarrow>
               (case Labels p ''controller-revision-hash'' of
                  Some v \<Rightarrow> GetShortHash v
                | None \<Rightarrow> VersionIgnored))"

section \<open>The status of subsets\<close>

definition new_subset_status :: "string \<Rightarrow> int \<Rightarrow> ws_subset_status" where
  "new_subset_status n missing =
     \<lparr>StName = n, StReplicas = 0, StConditions = [], MissingReplicas = missing, CreatingPods = Map.empty,
      DeletingPods = Map.empty\<rparr>"

definition initializedSubsetStatuses :: "'w ws_env \<Rightarrow> workload_spread \<Rightarrow> 'w \<Rightarrow> api_error + ws_subset_status list" where
  "initializedSubsetStatuses env ws w =
     (case getWorkloadReplicas env ws w of
        Inl e \<Rightarrow> Inl e
      | Inr replicas \<Rightarrow>
          Inr (map (\<lambda>subset. new_subset_status (SubName subset)
                 (case MaxReplicas subset of
                    None \<Rightarrow> - 1
                  | Some v \<Rightarrow>
                      (case GetScaledValueFromIntOrPercent (Some v) replicas True of
                         None \<Rightarrow> 0 | Some missing \<Rightarrow> int32 missing)))
               (Subsets (WsSpec ws))))"

definition isPodRecordedInSubset :: "ws_subset_status list \<Rightarrow> string \<Rightarrow> ws_subset_status option" where
  "isPodRecordedInSubset ss podName =
     find (\<lambda>s. CreatingPods s podName \<noteq> None \<or> DeletingPods s podName \<noteq> None) ss"

definition getSpecificSubset :: "ws_subset_status list \<Rightarrow> string \<Rightarrow> ws_subset_status option" where
  "getSpecificSubset ss specifySubset = find (\<lambda>s. specifySubset = StName s) ss"

definition suitable :: "ws_subset_status \<Rightarrow> bool" where
  "suitable s \<longleftrightarrow>
     \<not> list_ex (\<lambda>c. WcType c = SubsetSchedulable \<and> WcStatus c = ConditionFalse) (StConditions s)
     \<and> (MissingReplicas s > 0 \<or> MissingReplicas s = - 1)"

definition getSuitableSubset :: "ws_subset_status list \<Rightarrow> ws_subset_status option" where
  "getSuitableSubset ss = find suitable ss"

definition getSubsetCondition :: "workload_spread \<Rightarrow> string \<Rightarrow> string \<Rightarrow> ws_condition option" where
  "getSubsetCondition ws subsetName condType =
     find (\<lambda>c. WcType c = condType)
       (concat (map StConditions (filter (\<lambda>s. StName s = subsetName) (SubsetStatuses (WsStatus ws)))))"

text \<open>Replacing the first element with a property.\<close>

fun put_first :: "('a \<Rightarrow> bool) \<Rightarrow> 'a \<Rightarrow> 'a list \<Rightarrow> 'a list" where
  "put_first P y [] = []"
| "put_first P y (x # xs) = (if P x then y # xs else x # put_first P y xs)"

text \<open>The decrement of the missing replicas, which stops at 0 and leaves -1 alone.\<close>

definition one_less :: "int \<Rightarrow> int" where
  "one_less missing = (if missing > 0 then missing - 1 else missing)"

text \<open>The subset with one more pod that is being created, and with one more that is being deleted.\<close>

definition record_creation :: "int \<Rightarrow> string \<Rightarrow> ws_subset_status \<Rightarrow> ws_subset_status" where
  "record_creation now key s =
     s\<lparr>CreatingPods := (CreatingPods s)(key \<mapsto> now),
       MissingReplicas := one_less (MissingReplicas s)\<rparr>"

definition record_deletion :: "int \<Rightarrow> string \<Rightarrow> ws_subset_status \<Rightarrow> ws_subset_status" where
  "record_deletion now key s =
     s\<lparr>DeletingPods := (DeletingPods s)(key \<mapsto> now),
       MissingReplicas := if MissingReplicas s \<ge> 0 then int32 (MissingReplicas s + 1) else MissingReplicas s\<rparr>"

text \<open>
  The operation on the statuses of the pod's version: what changed, if anything, the subset, and the id that
  was generated for a pod without a name.  The suitable subset of a creation is a pointer into the list, so
  it is changed in place before the loop at the end copies it; the subset of a deletion is a copy.
\<close>

definition copy_subset :: "ws_subset_status \<Rightarrow> ws_subset_status list \<Rightarrow> ws_subset_status list" where
  "copy_subset s ss = put_first (\<lambda>x. StName x = StName s) s ss"

definition create_in_subset ::
  "int \<Rightarrow> string \<Rightarrow> string \<Rightarrow> ws_subset_status list
   \<Rightarrow> ws_subset_status list option \<times> ws_subset_status option \<times> string" where
  "create_in_subset now uid podName ss =
     (case (if podName = [] then None else isPodRecordedInSubset ss podName) of
        Some s \<Rightarrow> (None, Some s, [])
      | None \<Rightarrow>
          (case getSuitableSubset ss of
             None \<Rightarrow> (None, None, [])
           | Some s \<Rightarrow>
               if MissingReplicas s = - 1 then (None, Some s, [])
               else let s1 = record_creation now (if podName \<noteq> [] then podName else uid) s
                    in (Some (copy_subset s1 (put_first suitable s1 ss)), Some s1, if podName \<noteq> [] then [] else uid)))"

definition delete_in_subset ::
  "int \<Rightarrow> string \<Rightarrow> inject_spread \<Rightarrow> ws_subset_status list
   \<Rightarrow> ws_subset_status list option \<times> ws_subset_status option \<times> string" where
  "delete_in_subset now podName injectWS ss =
     (if isPodRecordedInSubset ss podName \<noteq> None then (None, None, [])
      else case getSpecificSubset ss (InjectSubset injectWS) of
             None \<Rightarrow> (None, None, [])
           | Some s \<Rightarrow>
               if MissingReplicas s = - 1 then (None, Some s, [])
               else let s1 = record_deletion now podName s in (Some (copy_subset s1 ss), Some s1, []))"

fun subset_operation ::
  "int \<Rightarrow> string \<Rightarrow> string \<Rightarrow> ws_operation \<Rightarrow> ws_subset_status list
   \<Rightarrow> ws_subset_status list option \<times> ws_subset_status option \<times> string" where
  "subset_operation now uid podName WsCreateOperation ss = create_in_subset now uid podName ss"
| "subset_operation now uid podName (WsDeleteOperation i) ss = delete_in_subset now podName i ss"
| "subset_operation now uid podName (WsEvictionOperation i) ss = delete_in_subset now podName i ss"

definition updateSubsetForPod ::
  "'w ws_env \<Rightarrow> workload_spread \<Rightarrow> pod \<Rightarrow> ws_operation \<Rightarrow> 'w
   \<Rightarrow> api_error + workload_spread option \<times> ws_subset_status option \<times> string" where
  "updateSubsetForPod env ws p op w =
     (let podVersion = GetPodVersion (WsVersionedKinds env) p;
          stored = (case VersionedSubsetStatuses (WsStatus ws) podVersion of None \<Rightarrow> [] | Some ss \<Rightarrow> ss)
      in case (if stored = [] then initializedSubsetStatuses env ws w else Inr stored) of
           Inl e \<Rightarrow> Inl e
         | Inr ss \<Rightarrow>
             (case subset_operation (WsNow env) (WsNewUID env w) (Name p) op ss of
                (None, s, uid) \<Rightarrow> Inr (None, s, uid)
              | (Some ss1, s, uid) \<Rightarrow>
                  Inr (Some (ws\<lparr>WsStatus := (WsStatus ws)\<lparr>VersionedSubsetStatuses :=
                         (VersionedSubsetStatuses (WsStatus ws))(podVersion \<mapsto> ss1)\<rparr>\<rparr>), s, uid)))"

section \<open>Choosing a subset\<close>

text \<open>A WorkloadSpread that is gone from the server is none.\<close>

definition tryToGetTheLatestMatchedWS ::
  "'w ws_env \<Rightarrow> workload_spread \<Rightarrow> bool \<Rightarrow> 'w ws_state \<Rightarrow> api_error + workload_spread option" where
  "tryToGetTheLatestMatchedWS env ws refresh st =
     (if refresh then
        (case WsLive env (Namespace ws) (Name ws) (WsWorld st) of
           Inl e \<Rightarrow> if e = NotFound then Inr None else Inl e
         | Inr b \<Rightarrow> Inr (Some b))
      else
        (let local = (case WsCache st (Namespace ws, Name ws) of None \<Rightarrow> ws | Some c \<Rightarrow> c)
         in case WsInformer env (Namespace ws) (Name ws) (WsWorld st) of
              Inl _ \<Rightarrow> Inr (Some local)
            | Inr informer \<Rightarrow> Inr (Some (if version_number local < version_number informer then informer else local))))"

definition store_ws :: "'w ws_env \<Rightarrow> workload_spread \<Rightarrow> 'w ws_state \<Rightarrow> api_error option \<times> 'w ws_state" where
  "store_ws env ws st =
     (case WsUpdateStatus env ws (WsWorld st) of
        (Inl e, w) \<Rightarrow> (Some e, st\<lparr>WsWorld := w\<rparr>)
      | (Inr stored, w) \<Rightarrow>
          (None, st\<lparr>WsWorld := w, WsCache := (WsCache st)((Namespace stored, Name stored) \<mapsto> stored)\<rparr>))"

text \<open>The variables that an attempt captures: whether to refresh, the suitable subset and the generated id.\<close>

record 'w ws_attempt =
  AtRefresh :: bool
  AtSubset :: "ws_subset_status option"
  AtUID :: string
  AtState :: "'w ws_state"

definition acquire_once ::
  "'w ws_env \<Rightarrow> workload_spread \<Rightarrow> pod \<Rightarrow> ws_operation \<Rightarrow> 'w ws_attempt \<Rightarrow> api_error option \<times> 'w ws_attempt" where
  "acquire_once env ws p op a =
     (case tryToGetTheLatestMatchedWS env ws (AtRefresh a) (AtState a) of
        Inl e \<Rightarrow> (Some e, a)
      | Inr None \<Rightarrow> (None, a)
      | Inr (Some wsClone) \<Rightarrow>
          (case updateSubsetForPod env wsClone p op (WsWorld (AtState a)) of
             Inl e \<Rightarrow> (Some e, a\<lparr>AtSubset := None, AtUID := []\<rparr>)
           | Inr (changed, s, uid) \<Rightarrow>
               (let a1 = a\<lparr>AtSubset := s, AtUID := uid\<rparr> in
                case changed of
                  None \<Rightarrow> (None, a1)
                | Some ws1 \<Rightarrow>
                    (case store_ws env ws1 (AtState a) of
                       (None, st1) \<Rightarrow> (None, a1\<lparr>AtState := st1\<rparr>)
                     | (Some e, st1) \<Rightarrow> (Some e, a1\<lparr>AtRefresh := True, AtState := st1\<rparr>)))))"

text \<open>The pods of a StatefulSet fill the schedulable subsets in the order of their ordinals.\<close>

fun stateful_subset :: "workload_spread \<Rightarrow> int \<Rightarrow> int \<Rightarrow> ws_subset list \<Rightarrow> string" where
  "stateful_subset ws orderID threshold [] = []"
| "stateful_subset ws orderID threshold (sub # rest) =
     (if (case getSubsetCondition ws (SubName sub) SubsetSchedulable of
            None \<Rightarrow> False | Some c \<Rightarrow> WcStatus c = ConditionFalse)
      then stateful_subset ws orderID threshold rest
      else let limit = (case MaxReplicas sub of None \<Rightarrow> 2 ^ 31 - 1 | Some v \<Rightarrow> IntValue v);
               threshold1 = threshold + limit
           in if orderID < threshold1 then SubName sub else stateful_subset ws orderID threshold1 rest)"

text \<open>The name of the subset and the generated id.\<close>

definition acquireSuitableSubset ::
  "'w ws_env \<Rightarrow> workload_spread \<Rightarrow> pod \<Rightarrow> ws_operation \<Rightarrow> 'w ws_state \<Rightarrow> (api_error + string \<times> string) run \<times> 'w ws_state" where
  "acquireSuitableSubset env ws p op st =
     (if length (Subsets (WsSpec ws)) = 1 \<and> MaxReplicas (hd (Subsets (WsSpec ws))) = None
      then (Returns (Inr (SubName (hd (Subsets (WsSpec ws))), [])), st)
      else case WsTarget (WsSpec ws) of
             None \<Rightarrow> (Panics, st)
           | Some ref \<Rightarrow>
               if RefKind ref = ''StatefulSet''
               then (Returns (Inr (stateful_subset ws (snd (getParentNameAndOrdinal p)) 0 (Subsets (WsSpec ws)), [])), st)
               else case RetryOnConflict DefaultBackoff (acquire_once env ws p op)
                           \<lparr>AtRefresh = False, AtSubset = None, AtUID = [], AtState = st\<rparr> of
                      (Some e, a) \<Rightarrow> (Returns (Inl e), AtState a)
                    | (None, a) \<Rightarrow>
                        (Returns (Inr (case AtSubset a of None \<Rightarrow> [] | Some s \<Rightarrow> StName s, AtUID a)), AtState a))"

section \<open>Injection\<close>

text \<open>The node selector terms of a pod that also satisfy the term of its subset.\<close>

definition require_term :: "node_term option \<Rightarrow> node_term list option \<Rightarrow> node_term list option" where
  "require_term required terms =
     (case required of
        None \<Rightarrow> terms
      | Some t \<Rightarrow>
          (let old = (case terms of None \<Rightarrow> [] | Some ts \<Rightarrow> ts)
           in Some (if old = [] then [t]
                    else map (\<lambda>x. x\<lparr>TermExpressions := TermExpressions x @ TermExpressions t,
                                    TermFields := TermFields x @ TermFields t\<rparr>) old)))"

definition inject_rules :: "ws_subset \<Rightarrow> pod \<Rightarrow> pod" where
  "inject_rules sub p =
     p\<lparr>Spec := (Spec p)\<lparr>Tolerations := Tolerations (Spec p) @ SubTolerations sub,
         PreferredTerms := PreferredTerms (Spec p) @ PreferredNodeSelectorTerms sub,
         NodeSelectorTerms := require_term (RequiredNodeSelectorTerm sub) (NodeSelectorTerms (Spec p))\<rparr>\<rparr>"

definition injectWorkloadSpreadIntoPod ::
  "'w ws_env \<Rightarrow> workload_spread \<Rightarrow> pod \<Rightarrow> string \<Rightarrow> string \<Rightarrow> api_error option \<times> pod" where
  "injectWorkloadSpreadIntoPod env ws p subsetName generatedUID =
     (case find (\<lambda>s. subsetName = SubName s) (Subsets (WsSpec ws)) of
        None \<Rightarrow> (None, p)
      | Some sub \<Rightarrow>
          (let p1 = inject_rules sub p;
               patched = (case SubPatch sub of None \<Rightarrow> Some p1 | Some raw \<Rightarrow> WsMergePatch env raw p1)
           in case patched of
                None \<Rightarrow> (Some (OtherError ''failed to merge patch''), p1)
              | Some p2 \<Rightarrow>
                  (None, p2\<lparr>Annotations := (Annotations p2)(MatchedWorkloadSpreadSubsetAnnotations \<mapsto>
                     InjectJSON \<lparr>InjectName = Name ws, InjectSubset = subsetName, InjectUID = generatedUID\<rparr>)\<rparr>)))"

section \<open>The webhook\<close>

definition mutatingPod ::
  "'w ws_env \<Rightarrow> workload_spread \<Rightarrow> pod \<Rightarrow> ws_operation \<Rightarrow> 'w ws_state \<Rightarrow> (api_error option \<times> pod) run \<times> 'w ws_state" where
  "mutatingPod env ws p op st =
     (case acquireSuitableSubset env ws p op st of
        (Panics, st1) \<Rightarrow> (Panics, st1)
      | (Returns (Inl e), st1) \<Rightarrow> (Returns (Some e, p), st1)
      | (Returns (Inr (subsetName, uid)), st1) \<Rightarrow>
          if op = WsCreateOperation \<and> subsetName \<noteq> []
          then (Returns (injectWorkloadSpreadIntoPod env ws p subsetName uid), st1)
          else (Returns (None, p), st1))"

text \<open>The first WorkloadSpread that targets an owner of the pod; \<open>None\<close> is a search that does not end.\<close>

fun find_spread ::
  "'w ws_env \<Rightarrow> workload_list \<Rightarrow> owner_ref \<Rightarrow> string \<Rightarrow> 'w \<Rightarrow> workload_spread list \<Rightarrow> workload_spread option option" where
  "find_spread env wls ref ns w [] = Some None"
| "find_spread env wls ref ns w (ws # rest) =
     (case WsTarget (WsSpec ws) of
        None \<Rightarrow> find_spread env wls ref ns w rest
      | Some target \<Rightarrow>
          if IsDeleted ws then find_spread env wls ref ns w rest
          else case isReferenceEqual env wls target (Some ref) ns w of
                 None \<Rightarrow> None
               | Some True \<Rightarrow> Some (Some ws)
               | Some False \<Rightarrow> find_spread env wls ref ns w rest)"

text \<open>Whether the pod was skipped, an error, and the pod.  \<open>None\<close> is a call that does not return.\<close>

definition HandlePodCreation ::
  "'w ws_env \<Rightarrow> pod \<Rightarrow> 'w ws_state \<Rightarrow> ((bool \<times> api_error option \<times> pod) run \<times> 'w ws_state) option" where
  "HandlePodCreation env p st =
     (let skip = (\<lambda>st1. Some (Returns (True, None, p), st1)) in
      if \<not> IsPodActive p then skip st
      else case GetControllerOf p of
             None \<Rightarrow> skip st
           | Some ref \<Rightarrow>
               (let st1 = initializeWorkloadsInWhiteList env st in
                if matchReference (WsWorkloads st1) (Some ref) \<noteq> Some True then skip st1
                else case WsListSpreads env (Namespace p) (WsWorld st1) of
                       Inl e \<Rightarrow> Some (Returns (False, Some e, p), st1)
                     | Inr items \<Rightarrow>
                         (case find_spread env (WsWorkloads st1) ref (Namespace p) (WsWorld st1) items of
                            None \<Rightarrow> None
                          | Some None \<Rightarrow> skip st1
                          | Some (Some ws) \<Rightarrow>
                              (case mutatingPod env ws p WsCreateOperation st1 of
                                 (Panics, st2) \<Rightarrow> Some (Panics, st2)
                               | (Returns (e, p1), st2) \<Rightarrow> Some (Returns (False, e, p1), st2)))))"

definition HandlePodDeletion ::
  "'w ws_env \<Rightarrow> pod \<Rightarrow> (inject_spread \<Rightarrow> ws_operation) \<Rightarrow> 'w ws_state \<Rightarrow> api_error option run \<times> 'w ws_state" where
  "HandlePodDeletion env p operation st =
     (case Annotations p MatchedWorkloadSpreadSubsetAnnotations of
        Some (InjectJSON injectWS) \<Rightarrow>
          if \<not> IsPodActive p \<or> GetControllerOf p = None then (Returns None, st)
          else (case WsInformer env (Namespace p) (InjectName injectWS) (WsWorld st) of
                  Inl e \<Rightarrow> (Returns (if e = NotFound then None else Some e), st)
                | Inr ws \<Rightarrow>
                    (case mutatingPod env ws p (operation injectWS) st of
                       (Panics, st1) \<Rightarrow> (Panics, st1)
                     | (Returns (e, _), st1) \<Rightarrow> (Returns e, st1)))
      | _ \<Rightarrow> (Returns None, st))"

definition workloadSpreadMutatingPod ::
  "'w ws_env \<Rightarrow> string \<Rightarrow> string \<Rightarrow> bool \<Rightarrow> bool option \<Rightarrow> pod \<Rightarrow> 'w ws_state
   \<Rightarrow> ((bool \<times> api_error option \<times> pod) run \<times> 'w ws_state) option" where
  "workloadSpreadMutatingPod env subResource resource isCreate dry p st =
     (if subResource \<noteq> [] \<or> resource \<noteq> ''pods'' \<or> \<not> isCreate then Some (Returns (True, None, p), st)
      else case dry of
             None \<Rightarrow> Some (Returns (False, Some decode_error, p), st)
           | Some True \<Rightarrow> Some (Returns (True, None, p), st)
           | Some False \<Rightarrow> HandlePodCreation env p st)"

definition workloadSpreadValidatingPod ::
  "'w ws_env \<Rightarrow> admission_request \<Rightarrow> 'w ws_state \<Rightarrow> (bool \<times> api_error option) run \<times> 'w ws_state" where
  "workloadSpreadValidatingPod env req st =
     (let admit = (Returns (True, None), st);
          handle = (\<lambda>p operation.
            case HandlePodDeletion env p operation st of
              (Panics, st1) \<Rightarrow> (Panics, st1)
            | (Returns None, st1) \<Rightarrow> (Returns (True, None), st1)
            | (Returns (Some e), st1) \<Rightarrow> (Returns (False, Some e), st1))
      in case req of
           DeleteRequest subResource oldObj dry \<Rightarrow>
             (if subResource \<noteq> [] then admit
              else case (oldObj, dry) of
                     (Some p, Some dryRun) \<Rightarrow> if dryRun then admit else handle p WsDeleteOperation
                   | _ \<Rightarrow> (Returns (False, Some decode_error), st))
         | CreateRequest subResource ns n dry \<Rightarrow>
             (if subResource \<noteq> ''eviction'' then admit
              else case dry of
                     None \<Rightarrow> (Returns (False, Some decode_error), st)
                   | Some True \<Rightarrow> admit
                   | Some False \<Rightarrow>
                       (case WsGetPod env ns n (WsWorld st) of
                          Inl e \<Rightarrow> (Returns (False, Some e), st)
                        | Inr p \<Rightarrow> handle p WsEvictionOperation))
         | _ \<Rightarrow> admit)"

end
