(* ===== verification/Spread_Controller.thy ===== *)
theory Spread_Controller
  imports Spread_Webhook
begin

text \<open>
  The WorkloadSpread controller (\<open>pkg/controller/workloadspread\<close>): it groups the pods of the workload by
  version and subset, adopts pods without a subset, writes the deletion costs, counts what each subset
  misses, marks subsets in which pods cannot be scheduled, and deletes these pods.  Also its event handlers.

  A pod list that is patched holds the pods as the server returned them.  The numbers of pods are below
  \<open>2 ^ 31\<close>.  Two pods are compared up to the difference of nil and empty.
\<close>

section \<open>Conditions\<close>

definition NewWorkloadSpreadSubsetCondition :: "int \<Rightarrow> string \<Rightarrow> string \<Rightarrow> string \<Rightarrow> string \<Rightarrow> ws_condition" where
  "NewWorkloadSpreadSubsetCondition now condType status reason msg =
     \<lparr>WcType = condType, WcStatus = status, WcTransitionTime = now, WcReason = reason, WcMessage = msg\<rparr>"

definition GetWorkloadSpreadSubsetCondition :: "ws_subset_status option \<Rightarrow> string \<Rightarrow> ws_condition option" where
  "GetWorkloadSpreadSubsetCondition status condType =
     (case status of None \<Rightarrow> None | Some s \<Rightarrow> find (\<lambda>c. WcType c = condType) (StConditions s))"

definition ws_filterOutCondition :: "ws_condition list \<Rightarrow> string \<Rightarrow> ws_condition list" where
  "ws_filterOutCondition conditions condType = filter (\<lambda>c. WcType c \<noteq> condType) conditions"

definition setWorkloadSpreadSubsetCondition :: "ws_subset_status \<Rightarrow> ws_condition option \<Rightarrow> ws_subset_status" where
  "setWorkloadSpreadSubsetCondition status condition =
     (case condition of
        None \<Rightarrow> status
      | Some c \<Rightarrow>
          (case GetWorkloadSpreadSubsetCondition (Some status) (WcType c) of
             None \<Rightarrow> status\<lparr>StConditions := ws_filterOutCondition (StConditions status) (WcType c) @ [c]\<rparr>
           | Some currentCond \<Rightarrow>
               if WcStatus currentCond = WcStatus c \<and> WcReason currentCond = WcReason c then status
               else let c1 = (if WcStatus currentCond = WcStatus c
                              then c\<lparr>WcTransitionTime := WcTransitionTime currentCond\<rparr> else c)
                    in status\<lparr>StConditions := ws_filterOutCondition (StConditions status) (WcType c) @ [c1]\<rparr>))"

definition removeWorkloadSpreadSubsetCondition :: "ws_subset_status \<Rightarrow> string \<Rightarrow> ws_subset_status" where
  "removeWorkloadSpreadSubsetCondition status condType =
     status\<lparr>StConditions := ws_filterOutCondition (StConditions status) condType\<rparr>"

section \<open>Matching pods with subsets\<close>

definition matchesSubsetRequiredAndToleration :: "'w ws_env \<Rightarrow> pod \<Rightarrow> node \<Rightarrow> ws_subset \<Rightarrow> bool option" where
  "matchesSubsetRequiredAndToleration env p n sub =
     (if FindMatchingUntoleratedTaint (Taints n) (Tolerations (Spec p) @ SubTolerations sub) (\<lambda>_. True) \<noteq> None
      then Some False
      else case RequiredNodeSelectorTerm sub of
             None \<Rightarrow> Some True
           | Some t \<Rightarrow>
               (case require_term (Some t) (NodeSelectorTerms (Spec p)) of
                  None \<Rightarrow> Some True
                | Some terms \<Rightarrow> WsMatchTerms env n terms))"

definition podPreferredScore :: "'w ws_env \<Rightarrow> string \<Rightarrow> pod \<Rightarrow> int" where
  "podPreferredScore env raw p =
     (case WsMergePatch env raw p of
        None \<Rightarrow> 0
      | Some patchedPod \<Rightarrow> if patchedPod\<lparr>Annotations := Annotations p\<rparr> = p then 1 else 0)"

text \<open>An error counts as no match.\<close>

definition matchesSubset :: "'w ws_env \<Rightarrow> pod \<Rightarrow> node \<Rightarrow> ws_subset \<Rightarrow> int \<Rightarrow> bool \<times> int" where
  "matchesSubset env p n sub missingReplicas =
     (if matchesSubsetRequiredAndToleration env p n sub \<noteq> Some True then (False, - 1)
      else let preferredNodeScore = (if PreferredNodeSelectorTerms sub = [] then 0
                                     else WsPreferredScore env n (PreferredNodeSelectorTerms sub));
               preferredPodScore = (case SubPatch sub of None \<Rightarrow> 0 | Some raw \<Rightarrow> podPreferredScore env raw p);
               quotaScore = (if missingReplicas > 0 then 1 else 0)
           in (True, preferredNodeScore * 100 + preferredPodScore * 10 + quotaScore))"

definition getInjectWorkloadSpreadFromPod :: "pod \<Rightarrow> inject_spread option" where
  "getInjectWorkloadSpreadFromPod p =
     (case Annotations p MatchedWorkloadSpreadSubsetAnnotations of Some (InjectJSON i) \<Rightarrow> Some i | _ \<Rightarrow> None)"

definition isNotMatchedWS :: "inject_spread option \<Rightarrow> workload_spread \<Rightarrow> bool" where
  "isNotMatchedWS injectWS ws =
     (case injectWS of None \<Rightarrow> True | Some i \<Rightarrow> InjectName i \<noteq> Name ws \<or> InjectSubset i = [])"

section \<open>Grouping pods\<close>

definition FakeSubsetName :: string where
  "FakeSubsetName = ''kruise.io/workloadspread-fake-subset-name''"

type_synonym pod_map = "string \<rightharpoonup> pod list"

definition pods_of :: "pod_map \<Rightarrow> string \<Rightarrow> pod list" where
  "pods_of m s = (case m s of None \<Rightarrow> [] | Some ps \<Rightarrow> ps)"

text \<open>A map as a list of its entries, and these in the order in which a loop meets them.\<close>

definition in_map_order :: "'w ws_env \<Rightarrow> (string \<times> 'a) list \<Rightarrow> (string \<times> 'a) list" where
  "in_map_order env m = map (\<lambda>k. (k, the (map_of m k))) (WsOrder env (map fst m))"

definition patchFavoriteSubsetMetadataToPod ::
  "'w ws_env \<Rightarrow> pod \<Rightarrow> workload_spread \<Rightarrow> ws_subset \<Rightarrow> 'w \<Rightarrow> (api_error + pod) \<times> 'w" where
  "patchFavoriteSubsetMetadataToPod env p ws favoriteSubset w =
     WsPatchMetadata env p
       (if ToLower (annotation ws ''workloadspread.kruise.io/ignore-patch-existing-pods-metadata'') = ''true''
        then None else SubPatch favoriteSubset)
       \<lparr>InjectName = Name ws, InjectSubset = SubName favoriteSubset, InjectUID = []\<rparr> w"

text \<open>The first subset with the highest score.\<close>

definition favorite_subset :: "'w ws_env \<Rightarrow> pod \<Rightarrow> node \<Rightarrow> (string \<Rightarrow> int) \<Rightarrow> ws_subset list \<Rightarrow> ws_subset option" where
  "favorite_subset env p n missing subs =
     fst (foldl (\<lambda>(favorite, best) sub.
                   case matchesSubset env p n sub (missing (SubName sub)) of
                     (matched, score) \<Rightarrow> if matched \<and> score > best then (Some sub, score) else (favorite, best))
            (None, - 1) subs)"

text \<open>The subset of a pod that was created before the WorkloadSpread, the pod, what is missing, and the world.\<close>

definition getAndUpdateSuitableSubsetName ::
  "'w ws_env \<Rightarrow> workload_spread \<Rightarrow> pod \<Rightarrow> (string \<Rightarrow> int) \<Rightarrow> 'w
   \<Rightarrow> (api_error + ws_subset option \<times> pod) \<times> (string \<Rightarrow> int) \<times> 'w" where
  "getAndUpdateSuitableSubsetName env ws p missing w =
     (if NodeName (Spec p) = [] then (Inr (None, p), missing, w)
      else case WsGetNode env (NodeName (Spec p)) w of
             Inl e \<Rightarrow> (if e = NotFound then Inr (None, p) else Inl e, missing, w)
           | Inr n \<Rightarrow>
               (case favorite_subset env p n missing (Subsets (WsSpec ws)) of
                  None \<Rightarrow> (Inr (None, p), missing, w)
                | Some sub \<Rightarrow>
                    (case patchFavoriteSubsetMetadataToPod env p ws sub w of
                       (Inl e, w1) \<Rightarrow> (Inl e, missing, w1)
                     | (Inr p1, w1) \<Rightarrow>
                         (Inr (Some sub, p1), missing(SubName sub := missing (SubName sub) - 1), w1))))"

definition getSuitableSubsetNameForPod ::
  "'w ws_env \<Rightarrow> workload_spread \<Rightarrow> pod \<Rightarrow> (string \<Rightarrow> int) \<Rightarrow> 'w
   \<Rightarrow> (api_error + string \<times> pod) \<times> (string \<Rightarrow> int) \<times> 'w" where
  "getSuitableSubsetNameForPod env ws p missing w =
     (let injectWS = getInjectWorkloadSpreadFromPod p in
      if isNotMatchedWS injectWS ws
      then (case getAndUpdateSuitableSubsetName env ws p missing w of
              (Inl e, m1, w1) \<Rightarrow> (Inl e, m1, w1)
            | (Inr (None, p1), m1, w1) \<Rightarrow> (Inr (FakeSubsetName, p1), m1, w1)
            | (Inr (Some sub, p1), m1, w1) \<Rightarrow> (Inr (SubName sub, p1), m1, w1))
      else (Inr (InjectSubset (the injectWS), p), missing, w))"

fun assign_pods ::
  "'w ws_env \<Rightarrow> workload_spread \<Rightarrow> pod list \<Rightarrow> (string \<Rightarrow> int) \<Rightarrow> pod_map \<Rightarrow> 'w \<Rightarrow> (api_error + pod_map) \<times> 'w" where
  "assign_pods env ws [] missing podMap w = (Inr podMap, w)"
| "assign_pods env ws (p # ps) missing podMap w =
     (case getSuitableSubsetNameForPod env ws p missing w of
        (Inl e, _, w1) \<Rightarrow> (Inl e, w1)
      | (Inr (subsetName, p1), missing1, w1) \<Rightarrow>
          (let s = (if podMap subsetName \<noteq> None then subsetName else FakeSubsetName)
           in assign_pods env ws ps missing1 (podMap(s \<mapsto> pods_of podMap s @ [p1])) w1))"

definition groupPodBySubset ::
  "'w ws_env \<Rightarrow> workload_spread \<Rightarrow> pod list \<Rightarrow> int \<Rightarrow> 'w \<Rightarrow> (api_error + pod_map) \<times> 'w" where
  "groupPodBySubset env ws pods replicas w =
     (let subs = Subsets (WsSpec ws);
          podMap = foldl (\<lambda>m sub. m(SubName sub \<mapsto> [])) [FakeSubsetName \<mapsto> []] subs;
          limits = foldl (\<lambda>m sub. m(SubName sub :=
                     (case GetScaledValueFromIntOrPercent (Some (ValueOrDefault (MaxReplicas sub) (IntVal (2 ^ 31 - 1)))) replicas True of
                        None \<Rightarrow> 0 | Some v \<Rightarrow> v))) (\<lambda>_. 0) subs;
          missing = foldl (\<lambda>m p.
                      let injectWS = getInjectWorkloadSpreadFromPod p in
                      if isNotMatchedWS injectWS ws \<or> podMap (InjectSubset (the injectWS)) = None then m
                      else m(InjectSubset (the injectWS) := m (InjectSubset (the injectWS)) - 1)) limits pods
      in assign_pods env ws pods missing podMap w)"

text \<open>Groups by key, in the order in which the keys are first met.\<close>

definition group_by :: "('a \<Rightarrow> 'k) \<Rightarrow> 'a list \<Rightarrow> ('k \<times> 'a list) list" where
  "group_by key xs = map (\<lambda>k. (k, filter (\<lambda>x. key x = k) xs)) (remdups (map key xs))"

fun group_versions ::
  "'w ws_env \<Rightarrow> workload_spread \<Rightarrow> int \<Rightarrow> (string \<times> pod list) list \<Rightarrow> (string \<times> pod_map) list \<Rightarrow> 'w
   \<Rightarrow> (api_error + (string \<times> pod_map) list) \<times> 'w" where
  "group_versions env ws replicas [] acc w = (Inr acc, w)"
| "group_versions env ws replicas ((v, pods) # rest) acc w =
     (case groupPodBySubset env ws pods replicas w of
        (Inl e, w1) \<Rightarrow> (Inl e, w1)
      | (Inr podMap, w1) \<Rightarrow> group_versions env ws replicas rest (acc @ [(v, podMap)]) w1)"

definition groupVersionedPods ::
  "'w ws_env \<Rightarrow> workload_spread \<Rightarrow> pod list \<Rightarrow> int \<Rightarrow> 'w \<Rightarrow> (api_error + (string \<times> pod_map) list \<times> pod_map) \<times> 'w" where
  "groupVersionedPods env ws allPods replicas w =
     (let versionedPods = group_by (GetPodVersion (WsVersionedKinds env)) allPods
      in case group_versions env ws replicas (in_map_order env versionedPods) [] w of
           (Inl e, w1) \<Rightarrow> (Inl e, w1)
         | (Inr versionedPodMap, w1) \<Rightarrow>
             (Inr (versionedPodMap,
                   foldl (\<lambda>m (v, podMap) s. case podMap s of None \<Rightarrow> m s | Some ps \<Rightarrow> Some (pods_of m s @ ps))
                     Map.empty versionedPodMap), w1))"

section \<open>Deletion costs\<close>

definition sortDeleteIndexes :: "pod list \<Rightarrow> nat list" where
  "sortDeleteIndexes pods = go_sort (\<lambda>i j. ActivePods_Less (pods ! i) (pods ! j)) [0..<length pods]"

definition isEffectiveKindForDeletionCost :: "target_ref \<Rightarrow> bool" where
  "isEffectiveKindForDeletionCost ref \<longleftrightarrow> RefKind ref \<in> {''ReplicaSet'', ''Deployment'', ''CloneSet''}"

definition PodDeletionCostAnnotation :: string where
  "PodDeletionCostAnnotation = ''controller.kubernetes.io/pod-deletion-cost''"

definition patchPodDeletionCost :: "'w ws_env \<Rightarrow> pod \<Rightarrow> string \<Rightarrow> 'w \<Rightarrow> api_error option \<times> 'w" where
  "patchPodDeletionCost env p cost w =
     (if Annotations p PodDeletionCostAnnotation = Some (Text cost) then (None, w)
      else if Annotations p PodDeletionCostAnnotation = None \<and> cost = ''0'' then (None, w)
      else WsPatchCost env p cost w)"

fun updateDeletionCostForSubsetPods :: "'w ws_env \<Rightarrow> pod list \<Rightarrow> string \<Rightarrow> 'w \<Rightarrow> api_error option \<times> 'w" where
  "updateDeletionCostForSubsetPods env [] cost w = (None, w)"
| "updateDeletionCostForSubsetPods env (p # ps) cost w =
     (case patchPodDeletionCost env p cost w of
        (Some e, w1) \<Rightarrow> (Some e, w1)
      | (None, w1) \<Rightarrow> updateDeletionCostForSubsetPods env ps cost w1)"

text \<open>The pods to keep and those to delete first; \<open>None\<close> is a limit that cannot be read.\<close>

definition partition_pods :: "ws_subset option \<Rightarrow> pod list \<Rightarrow> int \<Rightarrow> (pod list \<times> pod list) option" where
  "partition_pods sub activePods workloadReplicas =
     (case sub of
        None \<Rightarrow> Some ([], activePods)
      | Some s \<Rightarrow>
          (case MaxReplicas s of
             None \<Rightarrow> Some (activePods, [])
           | Some v \<Rightarrow>
               (case GetValueFromIntOrPercent (Some v) workloadReplicas True of
                  (m, ok) \<Rightarrow>
                    if \<not> ok \<or> m < 0 then None
                    else if int (length activePods) \<le> m then Some (activePods, [])
                    else let sorted = map ((!) activePods) (sortDeleteIndexes activePods);
                             surplus = length activePods - nat m
                         in Some (drop surplus sorted, take surplus sorted))))"

definition syncSubsetPodDeletionCost ::
  "'w ws_env \<Rightarrow> workload_spread \<Rightarrow> ws_subset option \<Rightarrow> nat \<Rightarrow> pod list \<Rightarrow> int \<Rightarrow> 'w \<Rightarrow> api_error option \<times> 'w" where
  "syncSubsetPodDeletionCost env ws sub subsetIndex pods workloadReplicas w =
     (case partition_pods sub (filter IsPodActive pods) workloadReplicas of
        None \<Rightarrow> (None, w)
      | Some (positivePods, negativePods) \<Rightarrow>
          (case updateDeletionCostForSubsetPods env positivePods
                  (show_int (100 * (int (length (Subsets (WsSpec ws))) - int subsetIndex))) w of
             (Some e, w1) \<Rightarrow> (Some e, w1)
           | (None, w1) \<Rightarrow>
               updateDeletionCostForSubsetPods env negativePods (show_int (- 100 * (int subsetIndex + 1))) w1))"

fun cost_of_subsets ::
  "'w ws_env \<Rightarrow> workload_spread \<Rightarrow> pod_map \<Rightarrow> int \<Rightarrow> bool \<Rightarrow> nat \<Rightarrow> ws_subset list \<Rightarrow> 'w \<Rightarrow> api_error option \<times> 'w" where
  "cost_of_subsets env ws podMap workloadReplicas reverseOrder idx [] w = (None, w)"
| "cost_of_subsets env ws podMap workloadReplicas reverseOrder idx (sub # rest) w =
     (case syncSubsetPodDeletionCost env ws (Some sub)
             (if reverseOrder then length (Subsets (WsSpec ws)) - idx - 1 else idx) (pods_of podMap (SubName sub)) workloadReplicas w of
        (Some e, w1) \<Rightarrow> (Some e, w1)
      | (None, w1) \<Rightarrow> cost_of_subsets env ws podMap workloadReplicas reverseOrder (Suc idx) rest w1)"

definition updateDeletionCostBySubset ::
  "'w ws_env \<Rightarrow> workload_spread \<Rightarrow> pod_map \<Rightarrow> int \<Rightarrow> bool \<Rightarrow> 'w \<Rightarrow> api_error option \<times> 'w" where
  "updateDeletionCostBySubset env ws podMap workloadReplicas reverseOrder w =
     (case cost_of_subsets env ws podMap workloadReplicas reverseOrder 0 (Subsets (WsSpec ws)) w of
        (Some e, w1) \<Rightarrow> (Some e, w1)
      | (None, w1) \<Rightarrow>
          if pods_of podMap FakeSubsetName = [] then (None, w1)
          else syncSubsetPodDeletionCost env ws None (length (Subsets (WsSpec ws))) (pods_of podMap FakeSubsetName)
                 workloadReplicas w1)"

definition EqualIgnoreHash :: "pod_template \<Rightarrow> pod_template \<Rightarrow> bool" where
  "EqualIgnoreHash t1 t2 =
     (let strip = (\<lambda>t. t\<lparr>TplLabels := (TplLabels t)(DefaultDeploymentUniqueLabelKey := None)\<rparr>)
      in strip t1 = strip t2)"

definition GetWorkloadVersion :: "'w ws_env \<Rightarrow> workload_object \<Rightarrow> 'w \<Rightarrow> api_error + string" where
  "GetWorkloadVersion env obj w =
     (if \<not> enableVersionedStatus (WsVersionedKinds env) (ObjKind obj) obj then Inr VersionIgnored
      else case ObjType obj of
             WlReplicaSet \<Rightarrow> Inr (lget (Labels obj) DefaultDeploymentUniqueLabelKey)
           | WlCloneSet \<Rightarrow>
               if Generation obj > ObjObservedGeneration obj then Inl NotFound
               else Inr (GetShortHash (ObjUpdateRevision obj))
           | WlDeployment \<Rightarrow>
               (case WsListReplicaSets env (Namespace obj) (ObjSelector obj) w of
                  Inl e \<Rightarrow> Inl e
                | Inr items \<Rightarrow>
                    (case find (\<lambda>rs. (case GetControllerOf rs of None \<Rightarrow> False | Some o' \<Rightarrow> OwnerUID o' = UID obj)
                                 \<and> \<not> IsDeleted rs \<and> EqualIgnoreHash (ObjTemplate obj) (ObjTemplate rs)) items of
                       None \<Rightarrow> Inl NotFound
                     | Some rs \<Rightarrow> Inr (lget (Labels rs) DefaultDeploymentUniqueLabelKey)))
           | _ \<Rightarrow> Inr VersionIgnored)"

definition getWorkloadLatestVersion :: "'w ws_env \<Rightarrow> workload_spread \<Rightarrow> 'w \<Rightarrow> api_error + string" where
  "getWorkloadLatestVersion env ws w =
     (case WsTarget (WsSpec ws) of
        None \<Rightarrow> Inr []
      | Some ref \<Rightarrow>
          (case WsGetWorkload env (GenerateEmptyWorkloadObject (RefAPIVersion ref) (RefKind ref)) (Namespace ws) (RefName ref) w of
             Inl e \<Rightarrow> if e = NotFound then Inr [] else Inl e
           | Inr obj \<Rightarrow> GetWorkloadVersion env obj w))"

fun cost_of_versions ::
  "'w ws_env \<Rightarrow> workload_spread \<Rightarrow> int \<Rightarrow> string \<Rightarrow> (string \<times> pod_map) list \<Rightarrow> 'w \<Rightarrow> api_error option \<times> 'w" where
  "cost_of_versions env ws workloadReplicas latest [] w = (None, w)"
| "cost_of_versions env ws workloadReplicas latest ((v, podMap) # rest) w =
     (case updateDeletionCostBySubset env ws podMap workloadReplicas (v \<noteq> latest) w of
        (Some e, w1) \<Rightarrow> (Some e, w1)
      | (None, w1) \<Rightarrow> cost_of_versions env ws workloadReplicas latest rest w1)"

definition updateDeletionCost ::
  "'w ws_env \<Rightarrow> workload_spread \<Rightarrow> (string \<times> pod_map) list \<Rightarrow> int \<Rightarrow> 'w \<Rightarrow> api_error option \<times> 'w" where
  "updateDeletionCost env ws versionedPodMap workloadReplicas w =
     (case WsTarget (WsSpec ws) of
        None \<Rightarrow> (None, w)
      | Some ref \<Rightarrow>
          if \<not> isEffectiveKindForDeletionCost ref then (None, w)
          else (case getWorkloadLatestVersion env ws w of
                  Inl e \<Rightarrow> (Some e, w)
                | Inr latest \<Rightarrow> cost_of_versions env ws workloadReplicas latest (in_map_order env versionedPodMap) w))"

section \<open>Counting what is missing\<close>

definition CreatPodTimeout :: int where "CreatPodTimeout = 30 * second"

definition DeletePodTimeout :: int where "DeletePodTimeout = 15 * second"

text \<open>
  The variables of the loops: the status so far, the old records of pods that are being created, and the
  durations that were pushed.
\<close>

record ws_count =
  CntStatus :: ws_subset_status
  CntCreating :: "string \<rightharpoonup> int"
  CntDurations :: "int list"

text \<open>The key under which the creation of a pod was recorded.\<close>

definition creation_key :: "pod \<Rightarrow> string" where
  "creation_key p =
     (case getInjectWorkloadSpreadFromPod p of
        Some i \<Rightarrow> if InjectUID i \<noteq> [] then InjectUID i else Name p
      | None \<Rightarrow> Name p)"

definition ws_count_pod :: "int \<Rightarrow> int \<Rightarrow> (string \<rightharpoonup> int) \<Rightarrow> ws_count \<Rightarrow> pod \<Rightarrow> ws_count" where
  "ws_count_pod now maxReplicas oldDeletingPods c p =
     (let c1 = c\<lparr>CntCreating := (CntCreating c)(creation_key p := None)\<rparr> in
      if \<not> IsPodActive p then c1
      else let s = CntStatus c1;
               s1 = s\<lparr>StReplicas := StReplicas s + 1,
                      MissingReplicas := one_less (MissingReplicas s)\<rparr>
           in case oldDeletingPods (Name p) of
                None \<Rightarrow> c1\<lparr>CntStatus := s1\<rparr>
              | Some deleteTime \<Rightarrow>
                  if deleteTime + DeletePodTimeout < now then c1\<lparr>CntStatus := s1\<rparr>
                  else c1\<lparr>CntStatus := s1\<lparr>DeletingPods := (DeletingPods s1)(Name p \<mapsto> deleteTime),
                              MissingReplicas := if MissingReplicas s1 < int32 maxReplicas
                                                 then MissingReplicas s1 + 1 else MissingReplicas s1\<rparr>,
                          CntDurations := CntDurations c1 @ [deleteTime + DeletePodTimeout - now]\<rparr>)"

definition count_creation :: "int \<Rightarrow> ws_count \<Rightarrow> string \<Rightarrow> ws_count" where
  "count_creation now c podID =
     (case CntCreating c podID of
        None \<Rightarrow> c
      | Some createTime \<Rightarrow>
          if createTime + CreatPodTimeout < now then c
          else let s = CntStatus c
               in c\<lparr>CntStatus := s\<lparr>CreatingPods := (CreatingPods s)(podID \<mapsto> createTime),
                       MissingReplicas := one_less (MissingReplicas s)\<rparr>,
                    CntDurations := CntDurations c @ [createTime + CreatPodTimeout - now]\<rparr>)"

text \<open>The limit of a subset, -1 when there is none; \<open>None\<close> is a limit that cannot be read.\<close>

definition subset_limit :: "ws_subset \<Rightarrow> int \<Rightarrow> int option" where
  "subset_limit sub workloadReplicas =
     (case MaxReplicas sub of
        None \<Rightarrow> Some (- 1)
      | Some v \<Rightarrow>
          (case GetValueFromIntOrPercent (Some v) workloadReplicas True of
             (m, ok) \<Rightarrow> if \<not> ok \<or> m < 0 then None else Some m))"

definition calculateWorkloadSpreadSubsetStatus ::
  "int \<Rightarrow> pod list \<Rightarrow> ws_subset \<Rightarrow> ws_subset_status option \<Rightarrow> int \<Rightarrow> (ws_subset_status \<times> int list) option" where
  "calculateWorkloadSpreadSubsetStatus now pods sub oldSubsetStatus workloadReplicas =
     (case subset_limit sub workloadReplicas of
        None \<Rightarrow> None
      | Some maxReplicas \<Rightarrow>
          (let oldCreating = (case oldSubsetStatus of None \<Rightarrow> Map.empty | Some s \<Rightarrow> CreatingPods s);
               oldDeleting = (case oldSubsetStatus of None \<Rightarrow> Map.empty | Some s \<Rightarrow> DeletingPods s);
               c1 = foldl (ws_count_pod now maxReplicas oldDeleting)
                      \<lparr>CntStatus = new_subset_status (SubName sub) (int32 maxReplicas), CntCreating = oldCreating,
                       CntDurations = []\<rparr> pods;
               c2 = foldl (count_creation now) c1 (sorted_list_of_set (dom (CntCreating c1)))
           in Some (CntStatus c2, CntDurations c2)))"

section \<open>Rescheduling\<close>

definition MaxScheduledFailedDuration :: int where "MaxScheduledFailedDuration = 300 * second"

definition rescheduleCriticalSeconds :: "workload_spread \<Rightarrow> int" where
  "rescheduleCriticalSeconds ws = (case Adaptive (WsSpec ws) of Some (Some s) \<Rightarrow> s | _ \<Rightarrow> 0)"

definition PodUnscheduledTimeout :: "int \<Rightarrow> workload_spread \<Rightarrow> pod \<Rightarrow> bool \<times> int list" where
  "PodUnscheduledTimeout now ws p =
     (if DeletionTimestamp p \<noteq> None \<or> Phase (Status p) \<noteq> PodPending \<or> NodeName (Spec p) \<noteq> [] then (False, [])
      else if \<not> list_ex (\<lambda>c. CondType c = ''PodScheduled'' \<and> CondStatus c = ConditionFalse \<and> Reason c = ''Unschedulable'')
                 (Conditions (Status p)) then (False, [])
      else let expectSchedule = CreationTimestamp p + second * rescheduleCriticalSeconds ws
           in if expectSchedule < now then (True, []) else (False, [expectSchedule - now]))"

text \<open>The status, the pods that cannot be scheduled, and the durations that were pushed.\<close>

definition rescheduleSubset ::
  "int \<Rightarrow> workload_spread \<Rightarrow> pod list \<Rightarrow> ws_subset_status \<Rightarrow> ws_subset_status option
   \<Rightarrow> ws_subset_status \<times> pod list \<times> int list" where
  "rescheduleSubset now ws pods subsetStatus oldSubsetStatus =
     (let scheduleFailedPods = filter (\<lambda>p. fst (PodUnscheduledTimeout now ws p)) pods;
          pushed = concat (map (\<lambda>p. snd (PodUnscheduledTimeout now ws p)) pods);
          unschedulable = (scheduleFailedPods \<noteq> []);
          fresh = (\<lambda>status. Some (NewWorkloadSpreadSubsetCondition now SubsetSchedulable status [] []))
      in case GetWorkloadSpreadSubsetCondition oldSubsetStatus SubsetSchedulable of
           None \<Rightarrow>
             (setWorkloadSpreadSubsetCondition subsetStatus (fresh (if unschedulable then ConditionFalse else ConditionTrue)),
              scheduleFailedPods, pushed)
         | Some oldCondition \<Rightarrow>
             (let s1 = setWorkloadSpreadSubsetCondition subsetStatus (Some oldCondition);
                  expectReschedule = WcTransitionTime oldCondition + MaxScheduledFailedDuration
              in if unschedulable
                 then (setWorkloadSpreadSubsetCondition s1 (fresh ConditionFalse), scheduleFailedPods, pushed)
                 else if WcStatus oldCondition \<noteq> ConditionFalse then (s1, scheduleFailedPods, pushed)
                 else if expectReschedule < now
                 then (setWorkloadSpreadSubsetCondition s1 (fresh ConditionTrue), scheduleFailedPods, pushed)
                 else (s1, scheduleFailedPods, pushed @ [expectReschedule - now])))"

fun deletePodsForSubset :: "'w ws_env \<Rightarrow> pod list \<Rightarrow> 'w \<Rightarrow> api_error option \<times> 'w" where
  "deletePodsForSubset env [] w = (None, w)"
| "deletePodsForSubset env (p # ps) w =
     (case WsDeletePod env p w of
        (Some e, w1) \<Rightarrow> (Some e, w1)
      | (None, w1) \<Rightarrow> deletePodsForSubset env ps w1)"

definition cleanupUnscheduledPods :: "'w ws_env \<Rightarrow> (string \<times> pod list) list \<Rightarrow> 'w \<Rightarrow> api_error option \<times> 'w" where
  "cleanupUnscheduledPods env failed w =
     deletePodsForSubset env (concat (map snd (in_map_order env failed))) w"

section \<open>The status\<close>

text \<open>
  The status of the subset that is followed by \<open>rest\<close> more: the status, the pods that cannot be scheduled,
  and the durations.
\<close>

definition schedule_status ::
  "int \<Rightarrow> workload_spread \<Rightarrow> pod list \<Rightarrow> bool \<Rightarrow> ws_subset_status \<Rightarrow> ws_subset_status option
   \<Rightarrow> ws_subset_status \<times> pod list option \<times> int list" where
  "schedule_status now ws pods isLast s old =
     (if ScheduleType (WsSpec ws) = ''Adaptive'' \<and> rescheduleCriticalSeconds ws > 0
      then if \<not> isLast
           then (case rescheduleSubset now ws pods s old of (s1, failed, ds) \<Rightarrow> (s1, Some failed, ds))
           else let s1 = setWorkloadSpreadSubsetCondition s (GetWorkloadSpreadSubsetCondition old SubsetSchedulable)
                in (setWorkloadSpreadSubsetCondition s1
                      (Some (NewWorkloadSpreadSubsetCondition now SubsetSchedulable ConditionTrue [] [])), None, [])
      else (removeWorkloadSpreadSubsetCondition s SubsetSchedulable, None, []))"

fun subset_statuses ::
  "int \<Rightarrow> workload_spread \<Rightarrow> (string \<rightharpoonup> ws_subset_status) \<Rightarrow> pod_map \<Rightarrow> int \<Rightarrow> ws_subset list
   \<Rightarrow> (ws_subset_status list \<times> (string \<times> pod list) list) option \<times> int list" where
  "subset_statuses now ws old podMap workloadReplicas [] = (Some ([], []), [])"
| "subset_statuses now ws old podMap workloadReplicas (sub # rest) =
     (let pods = pods_of podMap (SubName sub); oldStatus = old (SubName sub) in
      case calculateWorkloadSpreadSubsetStatus now pods sub oldStatus workloadReplicas of
        None \<Rightarrow> (None, [])
      | Some (s, ds) \<Rightarrow>
          (case schedule_status now ws pods (rest = []) s oldStatus of
             (s1, failed, ds1) \<Rightarrow>
               (case subset_statuses now ws old podMap workloadReplicas rest of
                  (None, ds2) \<Rightarrow> (None, ds @ ds1 @ ds2)
                | (Some (ss, fm), ds2) \<Rightarrow>
                    (Some (s1 # ss, (case failed of None \<Rightarrow> fm | Some ps \<Rightarrow> AList.update (SubName sub) ps fm)),
                     ds @ ds1 @ ds2))))"

text \<open>The last status with a name counts.  Nil is the empty list.\<close>

definition status_by_name :: "ws_subset_status list \<Rightarrow> string \<rightharpoonup> ws_subset_status" where
  "status_by_name ss = map_of (rev (map (\<lambda>s. (StName s, s)) ss))"

definition calculateWorkloadSpreadSubsetStatuses ::
  "int \<Rightarrow> workload_spread \<Rightarrow> ws_subset_status list \<Rightarrow> pod_map \<Rightarrow> int
   \<Rightarrow> ws_subset_status list \<times> (string \<times> pod list) list \<times> int list" where
  "calculateWorkloadSpreadSubsetStatuses now ws oldSubsetStatuses podMap workloadReplicas =
     (case subset_statuses now ws (status_by_name oldSubsetStatuses) podMap workloadReplicas (Subsets (WsSpec ws)) of
        (None, ds) \<Rightarrow> ([], [], ds)
      | (Some (ss, failed), ds) \<Rightarrow> (ss, failed, ds))"

definition isEmptySubsetStatuses :: "ws_subset_status list \<Rightarrow> bool" where
  "isEmptySubsetStatuses ss \<longleftrightarrow>
     sum_list (map (\<lambda>s. StReplicas s + int (card (dom (CreatingPods s))) + int (card (dom (DeletingPods s)))) ss) = 0"

definition calculateWorkloadSpreadStatus ::
  "int \<Rightarrow> workload_spread \<Rightarrow> (string \<times> pod_map) list \<Rightarrow> pod_map \<Rightarrow> int
   \<Rightarrow> ws_status \<times> (string \<times> pod list) list \<times> int list" where
  "calculateWorkloadSpreadStatus now ws versionedPodMap subsetPodMap workloadReplicas =
     (let old = WsStatus ws;
          stored = (\<lambda>v. case VersionedSubsetStatuses old v of None \<Rightarrow> [] | Some ss \<Rightarrow> ss);
          calculate = (\<lambda>ss m. calculateWorkloadSpreadSubsetStatuses now ws ss m workloadReplicas);
          observed = (\<lambda>v. calculate (stored v) (case map_of versionedPodMap v of None \<Rightarrow> Map.empty | Some m \<Rightarrow> m));
          versions = remdups (map fst versionedPodMap
                       @ sorted_list_of_set (dom (VersionedSubsetStatuses old)));
          (ss, failed, ds) = calculate (SubsetStatuses old) subsetPodMap
      in (\<lparr>WsObservedGeneration = Generation ws, SubsetStatuses = ss,
           VersionedSubsetStatuses = (\<lambda>v.
             if v \<in> fst ` set versionedPodMap then Some (fst (observed v))
             else if VersionedSubsetStatuses old v = None \<or> isEmptySubsetStatuses (fst (observed v)) then None
             else Some (fst (observed v)))\<rparr>,
          failed, ds @ concat (map (\<lambda>v. snd (snd (observed v))) versions)))"

section \<open>The reconcile\<close>

text \<open>
  The log line indexes the new statuses by the position of the subset; it is built also when it is not printed.
\<close>

definition makeStatusChangedLog :: "workload_spread \<Rightarrow> ws_status \<Rightarrow> unit run" where
  "makeStatusChangedLog ws status =
     (if list_ex (\<lambda>i. status_by_name (SubsetStatuses (WsStatus ws)) (SubName (Subsets (WsSpec ws) ! i)) \<noteq> None
                      \<and> length (SubsetStatuses status) \<le> i)
           [0..<length (Subsets (WsSpec ws))]
      then Panics else Returns ())"

text \<open>
  The comparison with the old status is one of a pointer with a value, which never are equal.  The write is
  not retried, and what the server returns goes into the cache.
\<close>

definition UpdateWorkloadSpreadStatus ::
  "'w ws_env \<Rightarrow> workload_spread \<Rightarrow> ws_status \<Rightarrow> 'w ws_state \<Rightarrow> api_error option run \<times> 'w ws_state" where
  "UpdateWorkloadSpreadStatus env ws status st =
     (case store_ws env (ws\<lparr>WsStatus := status\<rparr>) st of
        (Some e, st1) \<Rightarrow> (Returns (Some e), st1)
      | (None, st1) \<Rightarrow>
          (case makeStatusChangedLog ws status of Panics \<Rightarrow> (Panics, st1) | Returns _ \<Rightarrow> (Returns None, st1)))"

text \<open>The pods and the replicas of the workload, -1 when it cannot be read.\<close>

definition getPodJob :: "'w ws_env \<Rightarrow> target_ref \<Rightarrow> string \<Rightarrow> 'w \<Rightarrow> api_error + pod list \<times> int" where
  "getPodJob env ref ns w =
     (case VerifyGroupKind (RefAPIVersion ref) (RefKind ref) ''Job'' [''batch''] of
        None \<Rightarrow> Inl (OtherError ''unexpected GroupVersion string'')
      | Some False \<Rightarrow> Inr ([], - 1)
      | Some True \<Rightarrow>
          (case WsGetWorkload env WlJob ns (RefName ref) w of
             Inl e \<Rightarrow> if e = NotFound then Inr ([], 0) else Inl e
           | Inr job \<Rightarrow>
               (case ValidatedLabelSelectorAsSelector (ObjSelector job) of
                  None \<Rightarrow> Inr ([], - 1)
                | Some sel \<Rightarrow>
                    (case WsListJobPods env ns sel (UID job) w of
                       Inl e \<Rightarrow> Inl e
                     | Inr items \<Rightarrow> Inr (items, ObjReplicas job)))))"

definition getPodsForWorkloadSpread :: "'w ws_env \<Rightarrow> workload_spread \<Rightarrow> 'w \<Rightarrow> api_error + pod list \<times> int" where
  "getPodsForWorkloadSpread env ws w =
     (case WsTarget (WsSpec ws) of
        None \<Rightarrow> Inr ([], - 1)
      | Some ref \<Rightarrow>
          if RefKind ref = ''Job'' then getPodJob env ref (Namespace ws) w
          else WsPodsForRef env ref (Namespace ws) w)"

definition syncWorkloadSpread ::
  "'w ws_env \<Rightarrow> workload_spread \<Rightarrow> 'w ws_state \<Rightarrow> api_error option run \<times> 'w ws_state" where
  "syncWorkloadSpread env ws st =
     (case getPodsForWorkloadSpread env ws (WsWorld st) of
        Inl e \<Rightarrow> (Returns (Some e), st)
      | Inr (pods, workloadReplicas) \<Rightarrow>
          if workloadReplicas = - 1 then (Returns None, st)
          else (case groupVersionedPods env ws pods workloadReplicas (WsWorld st) of
            (Inl e, w1) \<Rightarrow> (Returns (Some e), st\<lparr>WsWorld := w1\<rparr>)
          | (Inr (versionedPodMap, subsetPodMap), w1) \<Rightarrow>
              (case updateDeletionCost env ws versionedPodMap workloadReplicas w1 of
                 (Some e, w2) \<Rightarrow> (Returns (Some e), st\<lparr>WsWorld := w2\<rparr>)
               | (None, w2) \<Rightarrow>
                   (case calculateWorkloadSpreadStatus (WsNow env) ws versionedPodMap subsetPodMap workloadReplicas of
                      (status, failed, ds) \<Rightarrow>
                        (case UpdateWorkloadSpreadStatus env ws status
                                (st\<lparr>WsWorld := w2,
                                    WsDurations := fold (DurationPush (req_key (Namespace ws, Name ws))) ds (WsDurations st)\<rparr>) of
                           (Returns None, st3) \<Rightarrow>
                             (case cleanupUnscheduledPods env failed (WsWorld st3) of
                                (e, w4) \<Rightarrow> (Returns e, st3\<lparr>WsWorld := w4\<rparr>))
                         | (r, st3) \<Rightarrow> (r, st3))))))"

text \<open>The time after which to come back, and an error.\<close>

definition ws_Reconcile ::
  "'w ws_env \<Rightarrow> string \<times> string \<Rightarrow> 'w ws_state \<Rightarrow> (int \<times> api_error option) run \<times> 'w ws_state" where
  "ws_Reconcile env req st =
     (let gone = (Returns (0, None), st\<lparr>WsCache := (WsCache st)(req := None)\<rparr>) in
      case WsInformer env (fst req) (snd req) (WsWorld st) of
        Inl e \<Rightarrow> if e = NotFound then gone else (Returns (0, Some e), st)
      | Inr ws \<Rightarrow>
          if IsDeleted ws then gone
          else (case syncWorkloadSpread env ws st of
                  (Panics, st1) \<Rightarrow> (Panics, st1)
                | (Returns e, st1) \<Rightarrow>
                    (case DurationPop (req_key (Namespace ws, Name ws)) (WsDurations st1) of
                       (d, ds) \<Rightarrow> (Returns (d, e), st1\<lparr>WsDurations := ds\<rparr>))))"

section \<open>Event handlers\<close>

text \<open>The requests that an event adds to the queue.\<close>

definition ws_handlePod :: "pod \<Rightarrow> (string \<times> string) list" where
  "ws_handlePod p =
     (case Annotations p MatchedWorkloadSpreadSubsetAnnotations of
        Some (InjectJSON i) \<Rightarrow> [(Namespace p, InjectName i)]
      | _ \<Rightarrow> [])"

definition ws_updatePod :: "string set \<Rightarrow> pod \<Rightarrow> pod \<Rightarrow> (string \<times> string) list" where
  "ws_updatePod kinds oldPod newPod =
     (if IsPodActive oldPod \<and> \<not> IsPodActive newPod \<or> GetPodVersion kinds oldPod \<noteq> GetPodVersion kinds newPod
      then ws_handlePod newPod else [])"

text \<open>The group, the version and the kind under which the handlers look for a workload.\<close>

fun workload_gvk :: "workload_type \<Rightarrow> string \<times> string \<times> string" where
  "workload_gvk WlCloneSet = (''apps.kruise.io'', ''v1alpha1'', ''CloneSet'')"
| "workload_gvk WlDeployment = (''apps'', ''v1'', ''Deployment'')"
| "workload_gvk WlReplicaSet = (''apps'', ''v1'', ''ReplicaSet'')"
| "workload_gvk WlJob = (''batch'', ''v1'', ''Job'')"
| "workload_gvk WlStatefulSet = (''apps'', ''v1'', ''StatefulSet'')"
| "workload_gvk WlAdvancedStatefulSet = (''apps.kruise.io'', ''v1alpha1'', ''StatefulSet'')"
| "workload_gvk (WlUnstructured g v k) = (g, v, k)"

definition getWorkloadSpreadForWorkload ::
  "'w ws_env \<Rightarrow> string \<Rightarrow> string \<Rightarrow> string \<times> string \<times> string \<Rightarrow> owner_ref option \<Rightarrow> 'w \<Rightarrow> api_error + workload_spread option" where
  "getWorkloadSpreadForWorkload env ns n gvk ownerRef w =
     (case WsListSpreads env ns w of
        Inl e \<Rightarrow> Inl e
      | Inr items \<Rightarrow>
          (let owner = (case ownerRef of
                          None \<Rightarrow> None
                        | Some o' \<Rightarrow>
                            if gvk = workload_gvk WlReplicaSet \<and> FromAPIVersion (OwnerAPIVersion o') = (''apps'', ''v1'')
                               \<and> OwnerKind o' = ''Deployment'' then Some (OwnerName o') else None)
           in Inr (find (\<lambda>ws. DeletionTimestamp ws = None
                      \<and> (case WsTarget (WsSpec ws) of
                           None \<Rightarrow> False
                         | Some ref \<Rightarrow>
                             (let gk = (fst (FromAPIVersion (RefAPIVersion ref)), RefKind ref)
                              in gk = (fst gvk, snd (snd gvk)) \<and> RefName ref = n
                                 \<or> (case owner of
                                      None \<Rightarrow> False
                                    | Some ownerName \<Rightarrow> gk = (''apps'', ''Deployment'') \<and> RefName ref = ownerName)))) items)))"

definition requests_for :: "'w ws_env \<Rightarrow> workload_object \<Rightarrow> 'w \<Rightarrow> (string \<times> string) list" where
  "requests_for env obj w =
     (case getWorkloadSpreadForWorkload env (Namespace obj) (Name obj) (workload_gvk (ObjType obj)) (GetControllerOf obj) w of
        Inr (Some ws) \<Rightarrow> [(Namespace ws, Name ws)]
      | _ \<Rightarrow> [])"

definition handleWorkload :: "'w ws_env \<Rightarrow> workload_object \<Rightarrow> 'w \<Rightarrow> (string \<times> string) list" where
  "handleWorkload env obj w =
     (case ObjType obj of WlUnstructured _ _ _ \<Rightarrow> [] | _ \<Rightarrow> requests_for env obj w)"

definition ws_updateWorkload ::
  "'w ws_env \<Rightarrow> workload_object \<Rightarrow> workload_object \<Rightarrow> 'w \<Rightarrow> (string \<times> string) list" where
  "ws_updateWorkload env oldObj newObj w =
     (let replicas = (\<lambda>obj. case ObjType newObj of
                        WlUnstructured _ _ _ \<Rightarrow> GetReplicasFromCustomWorkload env obj w | _ \<Rightarrow> ObjReplicas obj);
          otherChanges =
            (case ObjType newObj of
               WlCloneSet \<Rightarrow> ObjUpdateRevision newObj \<noteq> ObjCurrentRevision oldObj
             | WlDeployment \<Rightarrow> annotation newObj ''deployment.kubernetes.io/revision''
                                \<noteq> annotation oldObj ''deployment.kubernetes.io/revision''
             | _ \<Rightarrow> False)
      in if replicas oldObj \<noteq> replicas newObj \<or> otherChanges then requests_for env newObj w else [])"

end
