(* ===== verification/Spread_Count.thy ===== *)
theory Spread_Count
  imports Spread_Controller CloneSet_Order
begin

text \<open>
  What the WorkloadSpread controller counts and writes: the status of a subset, what happens in a subset
  with more pods than it may have, the deletion costs, and which pods belong to which subset.
\<close>

section \<open>The count of a subset\<close>

text \<open>A record of a deletion whose time is not over, and one of a creation.\<close>

definition being_deleted :: "int \<Rightarrow> (string \<rightharpoonup> int) \<Rightarrow> pod \<Rightarrow> bool" where
  "being_deleted now records p \<longleftrightarrow> (case records (Name p) of None \<Rightarrow> False | Some t \<Rightarrow> now \<le> t + DeletePodTimeout)"

definition fresh_creation :: "int \<Rightarrow> (string \<rightharpoonup> int) \<Rightarrow> string \<Rightarrow> bool" where
  "fresh_creation now records x \<longleftrightarrow> (case records x of None \<Rightarrow> False | Some t \<Rightarrow> now \<le> t + CreatPodTimeout)"

definition still_creating :: "int \<Rightarrow> (string \<rightharpoonup> int) \<Rightarrow> pod list \<Rightarrow> string \<rightharpoonup> int" where
  "still_creating now records pods = (\<lambda>x.
     if x \<notin> creation_key ` set pods \<and> fresh_creation now records x then records x else None)"

definition still_deleting :: "int \<Rightarrow> (string \<rightharpoonup> int) \<Rightarrow> pod list \<Rightarrow> string \<rightharpoonup> int" where
  "still_deleting now records pods = (\<lambda>x.
     if \<exists>p\<in>set pods. IsPodActive p \<and> Name p = x \<and> being_deleted now records p then records x else None)"

abbreviation active :: "pod list \<Rightarrow> int" where
  "active ps \<equiv> int (length (filter IsPodActive ps))"

lemma count_pod_creating: "CntCreating (ws_count_pod now m dl c p) = (CntCreating c)(creation_key p := None)"
  by (simp add: ws_count_pod_def Let_def split: option.splits)

lemma count_pod_status:
  fixes c :: ws_count
  defines "s \<equiv> CntStatus c"
  shows "CntStatus (ws_count_pod now m dl c p) =
     (if \<not> IsPodActive p then s
      else let s1 = s\<lparr>StReplicas := StReplicas s + 1, MissingReplicas := one_less (MissingReplicas s)\<rparr>
           in if \<not> being_deleted now dl p then s1
              else s1\<lparr>DeletingPods := (DeletingPods s)(Name p := dl (Name p)),
                     MissingReplicas := if one_less (MissingReplicas s) < int32 m then one_less (MissingReplicas s) + 1
                                        else one_less (MissingReplicas s)\<rparr>)"
  by (simp add: ws_count_pod_def being_deleted_def Let_def s_def not_le split: option.splits)

lemma ws_count_pods:
  fixes now m :: int and dl cr :: "string \<rightharpoonup> int" and n :: string
  assumes "distinct (map Name ps)" and m: "- 1 \<le> m" "m < 2 ^ 31"
  defines "c \<equiv> foldl (ws_count_pod now m dl) \<lparr>CntStatus = new_subset_status n m, CntCreating = cr, CntDurations = []\<rparr> ps"
  defines "d \<equiv> int (length (filter (\<lambda>p. IsPodActive p \<and> being_deleted now dl p) ps))"
  shows "StName (CntStatus c) = n \<and> StConditions (CntStatus c) = [] \<and> StReplicas (CntStatus c) = active ps
      \<and> CreatingPods (CntStatus c) = Map.empty
      \<and> DeletingPods (CntStatus c) = still_deleting now dl ps
      \<and> CntCreating c = (\<lambda>x. if x \<in> creation_key ` set ps then None else cr x)
      \<and> (m < 0 \<longrightarrow> MissingReplicas (CntStatus c) = - 1) \<and> (0 \<le> m \<longrightarrow> 0 \<le> MissingReplicas (CntStatus c))
      \<and> (active ps \<le> m \<longrightarrow> MissingReplicas (CntStatus c) = m - active ps + d)
      \<and> (0 \<le> m \<and> m \<le> active ps \<and> d = 0 \<longrightarrow> MissingReplicas (CntStatus c) = 0)"
  using assms(1) unfolding c_def d_def
proof (induction ps rule: rev_induct)
  case Nil
  then show ?case using m by (simp add: new_subset_status_def still_deleting_def fun_eq_iff)
next
  case (snoc p ps)
  have i: "int32 m = m" using m by (simp add: int32_id)
  have p: "Name p \<notin> Name ` set ps" using snoc.prems by simp
  have le: "length (filter (\<lambda>p. IsPodActive p \<and> being_deleted now dl p) ps) \<le> length (filter IsPodActive ps)"
    by (induction ps) auto
  define c0 where "c0 = foldl (ws_count_pod now m dl) \<lparr>CntStatus = new_subset_status n m, CntCreating = cr, CntDurations = []\<rparr> ps"
  have "distinct (map Name ps)" using snoc.prems by simp
  note IH = snoc.IH [OF this, folded c0_def]
  have del: "still_deleting now dl (ps @ [p]) =
      (if IsPodActive p \<and> being_deleted now dl p then (still_deleting now dl ps)(Name p := dl (Name p)) else still_deleting now dl ps)"
    using p by (auto simp: still_deleting_def fun_eq_iff being_deleted_def split: option.splits)
  show ?case
  proof (cases "IsPodActive p")
    case False
    then show ?thesis using IH by (simp add: c0_def [symmetric] del count_pod_creating count_pod_status fun_eq_iff)
  next
    case act: True
    then show ?thesis using IH le m i
      by (cases "being_deleted now dl p"; cases "m \<le> active ps")
        (auto simp: c0_def [symmetric] del count_pod_creating count_pod_status one_less_def Let_def fun_eq_iff)
  qed
qed

lemma count_creations:
  fixes now :: int
  assumes "distinct ks" and "CreatingPods (CntStatus c) = Map.empty"
  defines "c' \<equiv> foldl (count_creation now) c ks"
    and "fresh \<equiv> fresh_creation now (CntCreating c)"
  shows "CntCreating c' = CntCreating c \<and> StName (CntStatus c') = StName (CntStatus c)
    \<and> StConditions (CntStatus c') = StConditions (CntStatus c) \<and> StReplicas (CntStatus c') = StReplicas (CntStatus c)
    \<and> DeletingPods (CntStatus c') = DeletingPods (CntStatus c)
    \<and> CreatingPods (CntStatus c') = (\<lambda>x. if x \<in> set ks \<and> fresh x then CntCreating c x else None)
    \<and> MissingReplicas (CntStatus c') =
        (if MissingReplicas (CntStatus c) < 0 then MissingReplicas (CntStatus c)
         else max 0 (MissingReplicas (CntStatus c) - int (length (filter fresh ks))))"
  using assms(1) unfolding c'_def
proof (induction ks rule: rev_induct)
  case Nil
  then show ?case using assms(2) by (simp add: fun_eq_iff)
next
  case (snoc k ks)
  define c0 where "c0 = foldl (count_creation now) c ks"
  have "distinct ks" "k \<notin> set ks" using snoc.prems by auto
  note IH = snoc.IH [OF this(1), folded c0_def]
  have step: "count_creation now c0 k = (if fresh k then c0\<lparr>CntStatus := (CntStatus c0)\<lparr>
      CreatingPods := (CreatingPods (CntStatus c0))(k := CntCreating c k), MissingReplicas := one_less (MissingReplicas (CntStatus c0))\<rparr>,
      CntDurations := CntDurations c0 @ [the (CntCreating c k) + CreatPodTimeout - now]\<rparr> else c0)"
    using IH by (auto simp: count_creation_def fresh_def fresh_creation_def Let_def split: option.splits)
  have "foldl (count_creation now) c (ks @ [k]) = count_creation now c0 k" by (simp add: c0_def)
  then show ?case using IH \<open>k \<notin> set ks\<close> unfolding step by (auto simp: one_less_def fun_eq_iff)
qed

lemma still_creating_finite: "finite (dom r) \<Longrightarrow> finite (dom (still_creating now r ps))"
  by (rule finite_subset [of _ "dom r"]) (auto simp: still_creating_def split: if_splits)

text \<open>The records of the old status, none when there is no old status.\<close>

abbreviation creating_of :: "ws_subset_status option \<Rightarrow> string \<rightharpoonup> int" where
  "creating_of old \<equiv> (case old of None \<Rightarrow> Map.empty | Some s \<Rightarrow> CreatingPods s)"

abbreviation deleting_of :: "ws_subset_status option \<Rightarrow> string \<rightharpoonup> int" where
  "deleting_of old \<equiv> (case old of None \<Rightarrow> Map.empty | Some s \<Rightarrow> DeletingPods s)"

lemma still_deleting_card:
  assumes "distinct (map Name ps)"
  shows "card (dom (still_deleting now r ps)) = length (filter (\<lambda>p. IsPodActive p \<and> being_deleted now r p) ps)"
proof -
  have "dom (still_deleting now r ps) = set (map Name (filter (\<lambda>p. IsPodActive p \<and> being_deleted now r p) ps))"
    by (auto simp: still_deleting_def being_deleted_def dom_def split: if_splits option.splits)
  moreover have "distinct (map Name (filter (\<lambda>p. IsPodActive p \<and> being_deleted now r p) ps))"
    using assms by (rule distinct_map_filter)
  ultimately show ?thesis using distinct_card by (metis length_map)
qed

text \<open>The count in terms of the records.\<close>

lemma status_counted:
  assumes "distinct (map Name pods)" and "finite (dom (creating_of old))"
    and "subset_limit sub k = Some m" and "m < 2 ^ 31"
    and "calculateWorkloadSpreadSubsetStatus now pods sub old k = Some (s, ds)"
  defines "d \<equiv> int (card (dom (still_deleting now (deleting_of old) pods)))"
    and "c \<equiv> int (card (dom (still_creating now (creating_of old) pods)))"
  shows "StName s = SubName sub" "StReplicas s = active pods" "StConditions s = []"
    "CreatingPods s = still_creating now (creating_of old) pods" "DeletingPods s = still_deleting now (deleting_of old) pods"
    "m < 0 \<Longrightarrow> MissingReplicas s = - 1"
    "active pods \<le> m \<Longrightarrow> MissingReplicas s = max 0 (m - active pods + d - c)"
    "0 \<le> m \<Longrightarrow> m \<le> active pods \<Longrightarrow> d = 0 \<Longrightarrow> MissingReplicas s = 0"
proof -
  let ?cr = "creating_of old" and ?dl = "deleting_of old"
  have m: "- 1 \<le> m" "m < 2 ^ 31" "int32 m = m"
    using assms(3,4) by (auto simp: subset_limit_def int32_id split: option.splits prod.splits if_splits)
  define c1 where "c1 = foldl (ws_count_pod now m ?dl)
    \<lparr>CntStatus = new_subset_status (SubName sub) m, CntCreating = ?cr, CntDurations = []\<rparr> pods"
  define c2 where "c2 = foldl (count_creation now) c1 (sorted_list_of_set (dom (CntCreating c1)))"
  have s: "s = CntStatus c2"
    using assms(5) by (simp add: calculateWorkloadSpreadSubsetStatus_def assms(3) m(3) Let_def c1_def c2_def)
  note one = ws_count_pods [OF assms(1) m(1,2), where now = now and dl = ?dl and cr = ?cr and n = "SubName sub", folded c1_def]
  have creating: "CntCreating c1 = (\<lambda>x. if x \<in> creation_key ` set pods then None else ?cr x)" using one by simp
  then have fin: "finite (dom (CntCreating c1))"
    using assms(2) by (auto intro: finite_subset [of _ "dom ?cr"] split: if_splits)
  define fresh where "fresh = fresh_creation now (CntCreating c1)"
  have "CreatingPods (CntStatus c1) = Map.empty" using one by simp
  note two = count_creations [OF distinct_sorted_list_of_set this, where now = now, of "dom (CntCreating c1)", folded c2_def, folded fresh_def]
  have cr: "still_creating now ?cr pods = (\<lambda>x. if x \<in> dom (CntCreating c1) \<and> fresh x then CntCreating c1 x else None)"
    by (auto simp: still_creating_def creating fresh_def fresh_creation_def fun_eq_iff split: option.splits)
  then show "CreatingPods s = still_creating now ?cr pods" using two fin by (simp add: s)
  have "dom (still_creating now ?cr pods) = set (filter fresh (sorted_list_of_set (dom (CntCreating c1))))"
    using fin unfolding cr by (auto simp: dom_def split: if_splits)
  then have c: "length (filter fresh (sorted_list_of_set (dom (CntCreating c1)))) = card (dom (still_creating now ?cr pods))"
    by (metis distinct_card distinct_filter distinct_sorted_list_of_set)
  note card_d = still_deleting_card [OF assms(1), of now ?dl]
  show "StName s = SubName sub" "StReplicas s = active pods" "StConditions s = []" "DeletingPods s = still_deleting now ?dl pods"
    using one two by (simp_all add: s)
  show "m < 0 \<Longrightarrow> MissingReplicas s = - 1" using one two by (simp add: s)
  show "active pods \<le> m \<Longrightarrow> MissingReplicas s = max 0 (m - active pods + d - c)"
    using one two c card_d unfolding s d_def c_def by simp
  show "0 \<le> m \<Longrightarrow> m \<le> active pods \<Longrightarrow> d = 0 \<Longrightarrow> MissingReplicas s = 0"
    using one two c card_d unfolding s d_def c_def by simp
qed

text \<open>
  C26: as long as a subset has no more active pods than its limit, the controller's count is exact.  The replicas
  are the active pods.  The pods on their way out are those active pods whose deletion was recorded not too
  long ago, and the pods on their way in are the recorded creations, not too old, of which no pod has been seen.
  What is missing is the limit without the pods that stay and without those on their way in.
\<close>

theorem missing_replicas_exact:
  assumes "distinct (map Name pods)" and "finite (dom (creating_of old))"
    and "subset_limit sub k = Some m" and "m < 2 ^ 31" and "active pods \<le> m"
    and "calculateWorkloadSpreadSubsetStatus now pods sub old k = Some (s, ds)"
  shows "StReplicas s = active pods
    \<and> dom (DeletingPods s) = Name ` {p \<in> set pods. IsPodActive p \<and> being_deleted now (deleting_of old) p}
    \<and> dom (CreatingPods s) = {x. fresh_creation now (creating_of old) x} - creation_key ` set pods
    \<and> MissingReplicas s = max 0 (m - (StReplicas s - int (card (dom (DeletingPods s)))) - int (card (dom (CreatingPods s))))"
proof -
  note s = status_counted [OF assms(1-4,6)]
  have "dom (DeletingPods s) = Name ` {p \<in> set pods. IsPodActive p \<and> being_deleted now (deleting_of old) p}"
    unfolding s(5) by (auto simp: still_deleting_def being_deleted_def dom_def split: if_splits option.splits)
  moreover have "dom (CreatingPods s) = {x. fresh_creation now (creating_of old) x} - creation_key ` set pods"
    unfolding s(4) by (auto simp: still_creating_def fresh_creation_def dom_def split: if_splits option.splits)
  moreover have "MissingReplicas s = max 0 (m - (StReplicas s - int (card (dom (DeletingPods s)))) - int (card (dom (CreatingPods s))))"
    using s(7) [OF assms(5)] unfolding s(2,4,5) by (simp add: algebra_simps)
  ultimately show ?thesis using s(2) by blast
qed

text \<open>A running pod, and a subset with a limit.\<close>

definition spread_pod :: "string \<Rightarrow> pod" where
  "spread_pod x = zero_pod\<lparr>Name := x, Namespace := ''ns'', Status := (Status zero_pod)\<lparr>Phase := PodRunning\<rparr>\<rparr>"

lemma spread_pod_simps [simp]:
  "Name (spread_pod x) = x" "Namespace (spread_pod x) = ''ns''" "IsPodActive (spread_pod x)" "creation_key (spread_pod x) = x"
  "Annotations (spread_pod x) = Map.empty"
  by (simp_all add: spread_pod_def IsPodActive_def creation_key_def getInjectWorkloadSpreadFromPod_def zero_defs)

definition limited :: "string \<Rightarrow> int \<Rightarrow> ws_subset" where
  "limited n m = \<lparr>SubName = n, RequiredNodeSelectorTerm = None, PreferredNodeSelectorTerms = [], SubTolerations = [],
     MaxReplicas = Some (IntVal m), SubPatch = None\<rparr>"

lemma limited_simps [simp]: "SubName (limited n m) = n" "MaxReplicas (limited n m) = Some (IntVal m)"
  "0 \<le> m \<Longrightarrow> subset_limit (limited n m) k = Some m"
  by (simp_all add: limited_def subset_limit_def GetValueFromIntOrPercent_def getIntOrPercentValue_def IntValue_def)

text \<open>Of a limit of 3 there are two pods, one of which is to be deleted, and one more is to be created.\<close>

theorem missing_replicas_exact_witness:
  "\<exists>s ds. calculateWorkloadSpreadSubsetStatus 0 [spread_pod ''x'', spread_pod ''y''] (limited ''a'' 3)
       (Some ((new_subset_status ''a'' 0)\<lparr>CreatingPods := [''z'' \<mapsto> 0, ''x'' \<mapsto> 0], DeletingPods := [''y'' \<mapsto> 0]\<rparr>)) 3 = Some (s, ds)
     \<and> StReplicas s = 2 \<and> MissingReplicas s = 1"
proof -
  let ?pods = "[spread_pod ''x'', spread_pod ''y'']" and ?old = "Some ((new_subset_status ''a'' 0)
    \<lparr>CreatingPods := [''z'' \<mapsto> 0, ''x'' \<mapsto> 0], DeletingPods := [''y'' \<mapsto> 0]\<rparr>)"
  obtain s ds where s: "calculateWorkloadSpreadSubsetStatus 0 ?pods (limited ''a'' 3) ?old 3 = Some (s, ds)"
    by (simp add: calculateWorkloadSpreadSubsetStatus_def Let_def)
  have d: "{p \<in> set ?pods. IsPodActive p \<and> being_deleted 0 (deleting_of ?old) p} = {spread_pod ''y''}"
    by (auto simp: being_deleted_def DeletePodTimeout_def second_def)
  have c: "{x. fresh_creation 0 (creating_of ?old) x} = {''x'', ''z''}"
    by (auto simp: fresh_creation_def CreatPodTimeout_def second_def split: if_splits)
  have "StReplicas s = 2 \<and> MissingReplicas s = 1"
    using missing_replicas_exact [OF _ _ _ _ _ s, of 3] unfolding d c by auto
  with s show ?thesis by blast
qed

section \<open>Subsets with too many pods\<close>



lemma count_staying:
  assumes "\<And>p. p \<in> set ps \<Longrightarrow> IsPodActive p \<and> \<not> being_deleted now dl p" and "0 \<le> MissingReplicas (CntStatus c)"
  shows "MissingReplicas (CntStatus (foldl (ws_count_pod now m dl) c ps)) = max 0 (MissingReplicas (CntStatus c) - int (length ps))"
  using assms by (induction ps arbitrary: c) (simp_all add: count_pod_status one_less_def Let_def algebra_simps)

text \<open>
  In such a subset the count depends on the order of the pods, which is that of a loop over a map for the overall
  status: with one pod on its way out and the others enough to fill the subset, a place is missing if that
  pod comes last, and none if it comes first.
\<close>

theorem overfull_count_order:
  assumes "subset_limit sub k = Some (int (length ps))" and "ps \<noteq> []" and "length ps < 2 ^ 31"
    and "\<And>p. p \<in> set ps \<Longrightarrow> IsPodActive p \<and> \<not> being_deleted now (DeletingPods old) p"
    and "IsPodActive q" and "being_deleted now (DeletingPods old) q" and "CreatingPods old = Map.empty"
  shows "\<exists>s1 ds1 s2 ds2. calculateWorkloadSpreadSubsetStatus now (ps @ [q]) sub (Some old) k = Some (s1, ds1)
      \<and> calculateWorkloadSpreadSubsetStatus now (q # ps) sub (Some old) k = Some (s2, ds2)
      \<and> MissingReplicas s1 = 1 \<and> MissingReplicas s2 = 0"
proof -
  let ?m = "int (length ps)" and ?dl = "DeletingPods old"
  let ?c = "\<lparr>CntStatus = new_subset_status (SubName sub) ?m, CntCreating = Map.empty, CntDurations = []\<rparr>"
  have m: "int32 ?m = ?m" "0 < ?m" using assms(2,3) by (simp_all add: int32_id)
  have none: "CntCreating (foldl (ws_count_pod now ?m ?dl) ?c xs) = Map.empty" for xs
    by (induction xs rule: rev_induct) (simp_all add: count_pod_creating)
  have calc: "calculateWorkloadSpreadSubsetStatus now xs sub (Some old) k =
      Some (CntStatus (foldl (ws_count_pod now ?m ?dl) ?c xs), CntDurations (foldl (ws_count_pod now ?m ?dl) ?c xs))" for xs
    using none [of xs] by (simp add: calculateWorkloadSpreadSubsetStatus_def assms(1,7) m(1) Let_def)
  have "MissingReplicas (CntStatus (foldl (ws_count_pod now ?m ?dl) ?c (ps @ [q]))) = 1"
    using count_staying [of ps now ?dl ?c ?m] assms(4-6) m
    by (simp add: count_pod_status one_less_def new_subset_status_def Let_def)
  moreover have "MissingReplicas (CntStatus (ws_count_pod now ?m ?dl ?c q)) = ?m"
    using assms(5,6) m by (simp add: count_pod_status one_less_def new_subset_status_def Let_def)
  then have "MissingReplicas (CntStatus (foldl (ws_count_pod now ?m ?dl) ?c (q # ps))) = 0"
    using count_staying [of ps now ?dl "ws_count_pod now ?m ?dl ?c q" ?m] assms(4) by simp
  ultimately show ?thesis using calc by blast
qed

section \<open>The operations of the webhook\<close>

abbreviation operation_key :: "string \<Rightarrow> string \<Rightarrow> string" where
  "operation_key podName uid \<equiv> (if podName \<noteq> [] then podName else uid)"

lemma create_changes:
  assumes "create_in_subset now uid x ss = (Some ss1, r, g)"
  obtains s s1 where "find suitable ss = Some s" "MissingReplicas s \<noteq> - 1" "s1 = record_creation now (operation_key x uid) s"
    "r = Some s1" "ss1 = copy_subset s1 (put_first suitable s1 ss)" "g = (if x \<noteq> [] then [] else uid)"
proof (cases "if x = [] then None else isPodRecordedInSubset ss x")
  case (Some t)
  then show ?thesis using assms unfolding create_in_subset_def by simp
next
  case None
  then obtain s where s: "find suitable ss = Some s" "MissingReplicas s \<noteq> - 1"
    using assms unfolding create_in_subset_def getSuitableSubset_def by (cases "find suitable ss") (auto split: if_splits)
  show ?thesis
    by (rule that [OF s refl]) (use assms None s in \<open>simp_all add: create_in_subset_def getSuitableSubset_def Let_def\<close>)
qed

lemma creation_unchanged:
  assumes "create_in_subset now uid x ss = (None, Some s, g)"
  shows "s \<in> set ss \<and> (MissingReplicas s = - 1 \<or> x \<noteq> [] \<and> isPodRecordedInSubset ss x = Some s)"
proof (cases "if x = [] then None else isPodRecordedInSubset ss x")
  case (Some t)
  then have "t = s" "x \<noteq> []" "isPodRecordedInSubset ss x = Some t"
    using assms by (auto simp: create_in_subset_def split: if_splits)
  then show ?thesis by (auto simp: isPodRecordedInSubset_def find_Some_iff)
next
  case None
  then have "find suitable ss = Some s" "MissingReplicas s = - 1"
    using assms unfolding create_in_subset_def getSuitableSubset_def
    by (cases "find suitable ss"; auto simp: Let_def split: if_splits)+
  then show ?thesis by (auto simp: find_Some_iff)
qed

lemma delete_changes:
  assumes "delete_in_subset now x i ss = (Some ss1, r, g)"
  obtains s s1 where "isPodRecordedInSubset ss x = None" "getSpecificSubset ss (InjectSubset i) = Some s" "MissingReplicas s \<noteq> - 1"
    "s1 = record_deletion now x s" "ss1 = copy_subset s1 ss"
proof -
  have rec: "isPodRecordedInSubset ss x = None"
    using assms by (auto simp: delete_in_subset_def split: if_splits)
  obtain s where s: "getSpecificSubset ss (InjectSubset i) = Some s" "MissingReplicas s \<noteq> - 1"
    using assms rec unfolding delete_in_subset_def
    by (cases "getSpecificSubset ss (InjectSubset i)") (auto split: if_splits)
  show ?thesis by (rule that [OF rec s refl]) (use assms rec s in \<open>simp add: delete_in_subset_def Let_def\<close>)
qed

section \<open>Which pod belongs to which subset\<close>

text \<open>The subsets a StatefulSet may use, and how many ordinals each of them takes.\<close>

definition schedulable :: "workload_spread \<Rightarrow> ws_subset \<Rightarrow> bool" where
  "schedulable ws sub \<longleftrightarrow>
     (case getSubsetCondition ws (SubName sub) SubsetSchedulable of None \<Rightarrow> True | Some c \<Rightarrow> WcStatus c \<noteq> ConditionFalse)"

definition ordinals :: "ws_subset \<Rightarrow> int" where
  "ordinals sub = (case MaxReplicas sub of None \<Rightarrow> 2 ^ 31 - 1 | Some v \<Rightarrow> IntValue v)"

lemma stateful_subset_skips:
  "stateful_subset ws ordinal threshold subs = stateful_subset ws ordinal threshold (filter (schedulable ws) subs)"
  by (induction subs arbitrary: threshold) (auto simp: schedulable_def Let_def split: option.splits)

lemma stateful_subset_ranges:
  assumes "\<And>sub. sub \<in> set subs \<Longrightarrow> schedulable ws sub \<and> 0 \<le> ordinals sub" and "threshold \<le> ordinal"
  shows "i < length subs \<Longrightarrow> threshold + sum_list (map ordinals (take i subs)) \<le> ordinal \<Longrightarrow>
      ordinal < threshold + sum_list (map ordinals (take (Suc i) subs)) \<Longrightarrow>
      stateful_subset ws ordinal threshold subs = SubName (subs ! i)"
    and "threshold + sum_list (map ordinals subs) \<le> ordinal \<Longrightarrow> stateful_subset ws ordinal threshold subs = []"
proof -
  have skip: "stateful_subset ws ordinal t (sub # rest) =
      (if ordinal < t + ordinals sub then SubName sub else stateful_subset ws ordinal (t + ordinals sub) rest)"
    if "schedulable ws sub" for t sub rest
    using that by (auto simp: schedulable_def ordinals_def Let_def split: option.splits)
  show "i < length subs \<Longrightarrow> threshold + sum_list (map ordinals (take i subs)) \<le> ordinal \<Longrightarrow>
      ordinal < threshold + sum_list (map ordinals (take (Suc i) subs)) \<Longrightarrow>
      stateful_subset ws ordinal threshold subs = SubName (subs ! i)"
    using assms
  proof (induction subs arbitrary: threshold i)
    case (Cons sub subs)
    show ?case
    proof (cases i)
      case 0
      then show ?thesis using Cons.prems skip by simp
    next
      case (Suc j)
      have "0 \<le> sum_list (map ordinals (take j subs))"
        using Cons.prems(4) by (intro sum_list_nonneg) (auto dest: in_set_takeD)
      then have "\<not> ordinal < threshold + ordinals sub" using Cons.prems(2) Suc by simp
      then show ?thesis using Cons.prems Cons.IH [of j "threshold + ordinals sub"] skip Suc by (simp add: add.assoc)
    qed
  qed simp
  show "threshold + sum_list (map ordinals subs) \<le> ordinal \<Longrightarrow> stateful_subset ws ordinal threshold subs = []"
    using assms
  proof (induction subs arbitrary: threshold)
    case (Cons sub subs)
    have "0 \<le> sum_list (map ordinals subs)" using Cons.prems(2) by (intro sum_list_nonneg) auto
    then show ?case using Cons.prems Cons.IH [of "threshold + ordinals sub"] skip by (simp add: add.assoc)
  qed simp
qed

text \<open>
  C29: the pods of a StatefulSet fill the schedulable subsets of its WorkloadSpread in the order of their ordinals: a
  pod belongs to the subset into whose range its ordinal falls, where each subset takes as many ordinals as it
  has replicas, and to none beyond the last.  The webhook writes nothing for that.
\<close>

theorem stateful_pods_by_ordinal:
  assumes "WsTarget (WsSpec ws) = Some ref" and "RefKind ref = ''StatefulSet''" and "2 \<le> length (Subsets (WsSpec ws))"
    and "\<And>sub. sub \<in> set (Subsets (WsSpec ws)) \<Longrightarrow> 0 \<le> ordinals sub" and "0 \<le> snd (getParentNameAndOrdinal p)"
  defines "subs \<equiv> filter (schedulable ws) (Subsets (WsSpec ws))" and "ordinal \<equiv> snd (getParentNameAndOrdinal p)"
  shows "\<exists>n. acquireSuitableSubset env ws p op st = (Returns (Inr (n, [])), st)
    \<and> (\<forall>i < length subs. sum_list (map ordinals (take i subs)) \<le> ordinal
         \<longrightarrow> ordinal < sum_list (map ordinals (take (Suc i) subs)) \<longrightarrow> n = SubName (subs ! i))
    \<and> (sum_list (map ordinals subs) \<le> ordinal \<longrightarrow> n = [])"
proof -
  have "acquireSuitableSubset env ws p op st = (Returns (Inr (stateful_subset ws ordinal 0 subs, [])), st)"
    using assms(1-3) stateful_subset_skips [of ws ordinal 0] by (simp add: acquireSuitableSubset_def subs_def ordinal_def)
  moreover have "\<And>sub. sub \<in> set subs \<Longrightarrow> schedulable ws sub \<and> 0 \<le> ordinals sub" using assms(4) by (auto simp: subs_def)
  note ranges = stateful_subset_ranges [where threshold = 0 and ordinal = ordinal, OF this, unfolded add_0]
  ultimately show ?thesis using ranges assms(5) unfolding ordinal_def by blast
qed

text \<open>A WorkloadSpread of a workload \<open>web\<close>.\<close>

definition demo_spread :: "string \<Rightarrow> ws_subset list \<Rightarrow> workload_spread" where
  "demo_spread kind subs = object_meta.extend (zero_meta\<lparr>Name := ''w'', Namespace := ''ns'', ResourceVersion := show_nat 0\<rparr>)
     (workload_spread.fields \<lparr>WsTarget = Some \<lparr>RefAPIVersion = ''apps.kruise.io/v1alpha1'', RefKind = kind, RefName = ''web''\<rparr>,
        Subsets = subs, ScheduleType = [], Adaptive = None\<rparr>
       \<lparr>WsObservedGeneration = 0, SubsetStatuses = [], VersionedSubsetStatuses = Map.empty\<rparr>)"

lemma demo_spread_simps [simp]:
  "Name (demo_spread kind subs) = ''w''" "Namespace (demo_spread kind subs) = ''ns''"
  "ResourceVersion (demo_spread kind subs) = show_nat 0" "Subsets (WsSpec (demo_spread kind subs)) = subs"
  "WsTarget (WsSpec (demo_spread kind subs)) =
     Some \<lparr>RefAPIVersion = ''apps.kruise.io/v1alpha1'', RefKind = kind, RefName = ''web''\<rparr>"
  "WsStatus (demo_spread kind subs) = \<lparr>WsObservedGeneration = 0, SubsetStatuses = [], VersionedSubsetStatuses = Map.empty\<rparr>"
  by (simp_all add: demo_spread_def zero_defs workload_spread.defs)

theorem stateful_pods_by_ordinal_witness:
  "\<forall>(env :: nat ws_env) st. acquireSuitableSubset env (demo_spread ''StatefulSet'' [limited ''a'' 2, limited ''b'' 3])
     (spread_pod ''web-3'') WsCreateOperation st = (Returns (Inr (''b'', [])), st)"
proof (intro allI)
  fix env :: "nat ws_env" and st
  define subs where "subs = [limited ''a'' 2, limited ''b'' 3]"
  define ws where "ws = demo_spread ''StatefulSet'' subs"
  define ref where "ref = \<lparr>RefAPIVersion = ''apps.kruise.io/v1alpha1'', RefKind = ''StatefulSet'', RefName = ''web''\<rparr>"
  have ws: "WsTarget (WsSpec ws) = Some ref" "RefKind ref = ''StatefulSet''" "Subsets (WsSpec ws) = subs"
    by (simp_all add: ws_def ref_def)
  have "schedulable ws sub" for sub by (simp add: schedulable_def getSubsetCondition_def ws_def)
  then have all: "filter (schedulable ws) (Subsets (WsSpec ws)) = subs" by (simp add: ws)
  have lim: "ordinals (limited x m) = m" for x m by (simp add: ordinals_def limited_def IntValue_def)
  have ord: "snd (getParentNameAndOrdinal (spread_pod ''web-3'')) = 3"
    by (simp add: getParentNameAndOrdinal_def name_match_def is_digit_def ParseInt_def digits_val_def digit_val_def less_eq_char_def Let_def)
  have sums: "sum_list (map ordinals (take 1 subs)) = 2" "sum_list (map ordinals (take (Suc 1) subs)) = 5" "2 \<le> length subs"
    by (simp_all add: subs_def lim)
  have "0 \<le> ordinals sub" if "sub \<in> set subs" for sub using that by (auto simp: subs_def lim)
  then obtain n where n: "acquireSuitableSubset env ws (spread_pod ''web-3'') WsCreateOperation st = (Returns (Inr (n, [])), st)"
    "\<forall>i < length subs. sum_list (map ordinals (take i subs)) \<le> 3 \<longrightarrow> 3 < sum_list (map ordinals (take (Suc i) subs))
       \<longrightarrow> n = SubName (subs ! i)"
    using stateful_pods_by_ordinal [OF ws(1,2), of "spread_pod ''web-3''" env WsCreateOperation st, unfolded all ord]
      sums(3) ws(3) by fastforce
  have "n = SubName (subs ! 1)" using n(2) [rule_format, of 1] sums by simp
  with n(1) show "acquireSuitableSubset env (demo_spread ''StatefulSet'' [limited ''a'' 2, limited ''b'' 3]) (spread_pod ''web-3'')
      WsCreateOperation st = (Returns (Inr (''b'', [])), st)"
    by (simp add: ws_def subs_def)
qed

text \<open>
  C28: webhook and controller agree on a pod.  When the webhook records the creation of a pod in a subset and injects
  the subset into it, then, under whatever name the pod is stored, the controller finds the same subset from
  the annotation, and finds the record of the creation by the key of the pod, so that it forgets the record.
\<close>

theorem injected_pod_recognized:
  assumes "subset_operation now u (Name p) WsCreateOperation ss = (Some ss1, Some s, uid)" and "u \<noteq> []"
    and "injectWorkloadSpreadIntoPod env ws p (StName s) uid = (None, p')"
    and "\<exists>sub\<in>set (Subsets (WsSpec ws)). SubName sub = StName s" and "StName s \<noteq> []"
    and "Annotations q = Annotations p'" and "Name p \<noteq> [] \<Longrightarrow> Name q = Name p"
  shows "CreatingPods s (creation_key q) = Some now
    \<and> getSuitableSubsetNameForPod env ws q missing w = (Inr (StName s, q), missing, w)
    \<and> (q \<in> set pods \<longrightarrow> still_creating t (CreatingPods s) pods (creation_key q) = None)"
proof -
  have "find (\<lambda>x. StName s = SubName x) (Subsets (WsSpec ws)) \<noteq> None"
    using assms(4) by (auto simp: find_None_iff)
  then have "Annotations p' MatchedWorkloadSpreadSubsetAnnotations
      = Some (InjectJSON \<lparr>InjectName = Name ws, InjectSubset = StName s, InjectUID = uid\<rparr>)"
    using assms(3) unfolding injectWorkloadSpreadIntoPod_def Let_def
    by (auto split: option.splits if_splits)
  then have inject: "getInjectWorkloadSpreadFromPod q = Some \<lparr>InjectName = Name ws, InjectSubset = StName s, InjectUID = uid\<rparr>"
    using assms(6) by (simp add: getInjectWorkloadSpreadFromPod_def)
  obtain s0 where "s = record_creation now (operation_key (Name p) u) s0" and "uid = (if Name p \<noteq> [] then [] else u)"
  proof (rule create_changes [OF assms(1) [unfolded subset_operation.simps]])
    fix t t1
    assume "t1 = record_creation now (operation_key (Name p) u) t" "Some s = Some t1" "uid = (if Name p \<noteq> [] then [] else u)"
    then show thesis by (intro that [of t]) simp_all
  qed
  then have "CreatingPods s (creation_key q) = Some now"
    using inject assms(2,7) by (auto simp: creation_key_def record_creation_def)
  moreover have "getSuitableSubsetNameForPod env ws q missing w = (Inr (StName s, q), missing, w)"
    using inject assms(5) by (simp add: getSuitableSubsetNameForPod_def isNotMatchedWS_def)
  ultimately show ?thesis by (simp add: still_creating_def)
qed


theorem injected_pod_recognized_witness:
  "\<forall>(env :: nat ws_env) w missing. let ws = demo_spread ''Deployment'' [limited ''a'' 1, limited ''b'' 2];
       s = record_creation 7 ''uid'' (new_subset_status ''a'' 1);
       p = snd (injectWorkloadSpreadIntoPod env ws (spread_pod []) ''a'' ''uid'');
       q = (spread_pod ''web-x'')\<lparr>Annotations := Annotations p\<rparr>
     in CreatingPods s (creation_key q) = Some 7 \<and> getSuitableSubsetNameForPod env ws q missing w = (Inr (''a'', q), missing, w)"
proof (intro allI)
  fix env :: "nat ws_env" and w missing
  define ws where "ws = demo_spread ''Deployment'' [limited ''a'' 1, limited ''b'' 2]"
  define s where "s = record_creation 7 ''uid'' (new_subset_status ''a'' 1)"
  define p where "p = snd (injectWorkloadSpreadIntoPod env ws (spread_pod []) ''a'' ''uid'')"
  define q where "q = (spread_pod ''web-x'')\<lparr>Annotations := Annotations p\<rparr>"
  have op: "subset_operation 7 ''uid'' (Name (spread_pod [])) WsCreateOperation [new_subset_status ''a'' 1, new_subset_status ''b'' 2] =
      (Some [s, new_subset_status ''b'' 2], Some s, ''uid'')"
    by (simp add: create_in_subset_def getSuitableSubset_def suitable_def new_subset_status_def s_def record_creation_def
        copy_subset_def Let_def)
  have inject: "injectWorkloadSpreadIntoPod env ws (spread_pod []) (StName s) ''uid'' = (None, p)"
    by (simp add: p_def injectWorkloadSpreadIntoPod_def ws_def limited_def s_def record_creation_def new_subset_status_def Let_def)
  have s: "\<exists>sub\<in>set (Subsets (WsSpec ws)). SubName sub = StName s" "StName s = ''a''"
    by (simp_all add: ws_def s_def record_creation_def new_subset_status_def)
  have "CreatingPods s (creation_key q) = Some 7 \<and> getSuitableSubsetNameForPod env ws q missing w = (Inr (''a'', q), missing, w)"
    using injected_pod_recognized [OF op _ inject s(1), of q missing w] s(2) by (simp add: q_def)
  then show "let ws = demo_spread ''Deployment'' [limited ''a'' 1, limited ''b'' 2];
       s = record_creation 7 ''uid'' (new_subset_status ''a'' 1);
       p = snd (injectWorkloadSpreadIntoPod env ws (spread_pod []) ''a'' ''uid'');
       q = (spread_pod ''web-x'')\<lparr>Annotations := Annotations p\<rparr>
     in CreatingPods s (creation_key q) = Some 7 \<and> getSuitableSubsetNameForPod env ws q missing w = (Inr (''a'', q), missing, w)"
    unfolding Let_def ws_def s_def p_def q_def .
qed

section \<open>Deletion costs\<close>

text \<open>The order of active pods is the one of the CloneSet without the deletion costs, a strict weak order.\<close>

lemma ActivePods_Less_strict_weak: "strict_weak ActivePods_Less"
proof -
  let ?bare = "\<lambda>p :: pod. p\<lparr>Annotations := Map.empty\<rparr>"
  have [simp]: "IsPodReady (?bare p) = IsPodReady p" "podReadyTime (?bare p) = podReadyTime p"
    "maxContainerRestarts (?bare p) = maxContainerRestarts p" for p
    by (simp_all add: IsPodReady_def GetCondition_def podReadyTime_def maxContainerRestarts_def)
  have "ActivePods_Less = (\<lambda>p q. Less (None :: (pod \<Rightarrow> int) option) None (?bare p) (?bare q))"
    by (simp add: ActivePods_Less_def Less_def fun_eq_iff)
  then show ?thesis using strict_weak_on [OF Less_strict_weak [of "None :: (pod \<Rightarrow> int) option" None], of ?bare] by simp
qed

text \<open>The surplus pods are the smallest in that order, and there are exactly as many as exceed the limit.\<close>

lemma partition_pods_limit:
  assumes "subset_limit sub k = Some m" and "partition_pods (Some sub) ps k = Some (keep, surplus)"
  shows "mset keep + mset surplus = mset ps"
    and "int (length surplus) = (if m < 0 then 0 else max 0 (int (length ps) - m))"
    and "p \<in> set surplus \<Longrightarrow> q \<in> set keep \<Longrightarrow> \<not> ActivePods_Less q p"
proof -
  define srt where "srt = map ((!) ps) (sortDeleteIndexes ps)"
  have "mset srt = mset ps"
  proof -
    have "mset srt = image_mset ((!) ps) (mset [0..<length ps])" by (simp add: srt_def sortDeleteIndexes_def)
    also have "\<dots> = mset (map ((!) ps) [0..<length ps])" by (simp only: mset_map)
    finally show ?thesis by (simp add: map_nth)
  qed
  have "sorted_by (\<lambda>i j. ActivePods_Less (ps ! i) (ps ! j)) (sortDeleteIndexes ps)"
    unfolding sortDeleteIndexes_def by (rule sorted_go_sort) (rule strict_weak_on [OF ActivePods_Less_strict_weak])
  then have sorted: "sorted_by ActivePods_Less srt" by (simp add: srt_def sorted_wrt_map)
  consider "keep = ps" "surplus = []" "m < 0 \<or> int (length ps) \<le> m"
    | "0 \<le> m" "m < int (length ps)" "keep = drop (length ps - nat m) srt" "surplus = take (length ps - nat m) srt"
  proof (cases "MaxReplicas sub")
    case None
    then show ?thesis using assms by (intro that(1)) (simp_all add: partition_pods_def subset_limit_def)
  next
    case (Some v)
    obtain m' ok where v: "GetValueFromIntOrPercent (Some v) k True = (m', ok)" by fastforce
    then have m: "ok" "0 \<le> m" "m' = m" using assms(1) Some by (auto simp: subset_limit_def split: if_splits)
    show ?thesis
    proof (cases "int (length ps) \<le> m")
      case True
      then show ?thesis using assms(2) m by (intro that(1)) (simp_all add: partition_pods_def Some v)
    next
      case False
      then show ?thesis using assms(2) m by (intro that(2)) (simp_all add: partition_pods_def Some v srt_def Let_def)
    qed
  qed
  then show "mset keep + mset surplus = mset ps" "int (length surplus) = (if m < 0 then 0 else max 0 (int (length ps) - m))"
    "p \<in> set surplus \<Longrightarrow> q \<in> set keep \<Longrightarrow> \<not> ActivePods_Less q p"
  proof (atomize (full), cases)
    case 2
    have len: "length srt = length ps" using \<open>mset srt = mset ps\<close> mset_eq_length by blast
    have split: "srt = surplus @ keep" using 2 by simp
    have "mset keep + mset surplus = mset ps" using \<open>mset srt = mset ps\<close> split by (simp add: union_commute)
    moreover have "int (length surplus) = int (length ps) - m" using 2 len by simp
    moreover have "\<forall>p\<in>set surplus. \<forall>q\<in>set keep. \<not> ActivePods_Less q p" using sorted unfolding split by (auto simp: sorted_wrt_append)
    ultimately show "mset keep + mset surplus = mset ps \<and> int (length surplus) = (if m < 0 then 0 else max 0 (int (length ps) - m))
      \<and> (p \<in> set surplus \<longrightarrow> q \<in> set keep \<longrightarrow> \<not> ActivePods_Less q p)" using 2 by auto
  qed auto
qed

text \<open>The costs that are to be written: the pods of each subset, and at last those of no subset.\<close>

definition subset_costs :: "nat \<Rightarrow> ws_subset option \<Rightarrow> nat \<Rightarrow> pod list \<Rightarrow> int \<Rightarrow> (pod \<times> int) list" where
  "subset_costs n sub rank pods k =
     (case partition_pods sub (filter IsPodActive pods) k of
        None \<Rightarrow> []
      | Some (keep, surplus) \<Rightarrow>
          map (\<lambda>p. (p, 100 * (int n - int rank))) keep @ map (\<lambda>p. (p, - 100 * (int rank + 1))) surplus)"

definition rank :: "workload_spread \<Rightarrow> bool \<Rightarrow> nat \<Rightarrow> nat" where
  "rank ws reverseOrder idx = (if reverseOrder then length (Subsets (WsSpec ws)) - idx - 1 else idx)"

definition planned_costs :: "workload_spread \<Rightarrow> pod_map \<Rightarrow> int \<Rightarrow> bool \<Rightarrow> (pod \<times> int) list" where
  "planned_costs ws podMap k reverseOrder =
     (let subs = Subsets (WsSpec ws); n = length subs in
      concat (map (\<lambda>(idx, sub). subset_costs n (Some sub) (rank ws reverseOrder idx) (pods_of podMap (SubName sub)) k)
                (enumerate 0 subs))
      @ subset_costs n None n (pods_of podMap FakeSubsetName) k)"

fun write_costs :: "'w ws_env \<Rightarrow> (pod \<times> int) list \<Rightarrow> 'w \<Rightarrow> api_error option \<times> 'w" where
  "write_costs env [] w = (None, w)"
| "write_costs env ((p, c) # pcs) w =
     (case patchPodDeletionCost env p (show_int c) w of
        (Some e, w1) \<Rightarrow> (Some e, w1)
      | (None, w1) \<Rightarrow> write_costs env pcs w1)"

lemma write_costs_append:
  "write_costs env (xs @ ys) w =
     (case write_costs env xs w of (Some e, w1) \<Rightarrow> (Some e, w1) | (None, w1) \<Rightarrow> write_costs env ys w1)"
  by (induction env xs w rule: write_costs.induct) (auto split: prod.splits option.splits)

lemma costs_of_pods: "updateDeletionCostForSubsetPods env ps (show_int c) w = write_costs env (map (\<lambda>p. (p, c)) ps) w"
  by (induction ps arbitrary: w) (auto split: prod.splits option.splits)

lemma costs_of_subset:
  "syncSubsetPodDeletionCost env ws sub r pods k w = write_costs env (subset_costs (length (Subsets (WsSpec ws))) sub r pods k) w"
  by (auto simp: syncSubsetPodDeletionCost_def subset_costs_def costs_of_pods write_costs_append split: option.splits prod.splits)

lemma costs_of_all_subsets:
  "cost_of_subsets env ws podMap k reverseOrder idx subs w =
     write_costs env (concat (map (\<lambda>(i, sub). subset_costs (length (Subsets (WsSpec ws))) (Some sub) (rank ws reverseOrder i)
       (pods_of podMap (SubName sub)) k) (enumerate idx subs))) w"
  by (induction subs arbitrary: idx w)
    (auto simp: costs_of_subset rank_def write_costs_append split: option.splits prod.splits)

lemma costs_planned:
  "updateDeletionCostBySubset env ws podMap k reverseOrder w = write_costs env (planned_costs ws podMap k reverseOrder) w"
proof (cases "pods_of podMap FakeSubsetName = []")
  case True
  then have "subset_costs n None n' (pods_of podMap FakeSubsetName) k = []" for n n'
    by (simp add: subset_costs_def partition_pods_def)
  with True show ?thesis
    by (auto simp: updateDeletionCostBySubset_def costs_of_all_subsets planned_costs_def Let_def split: option.splits prod.splits)
next
  case False
  then show ?thesis
    by (auto simp: updateDeletionCostBySubset_def costs_of_all_subsets costs_of_subset planned_costs_def write_costs_append Let_def
        split: option.splits prod.splits)
qed

text \<open>
  C27: the deletion costs of the pods of a version.  The controller writes the planned costs one by one and stops at the
  first error.  Of each subset with a readable limit exactly the pods above the limit get a negative cost, and
  no pod that is kept comes before one of them in the order of active pods.  A kept pod of a subset costs more than
  one of the subset after it, and for old versions of the workload less.  The pods of no subset cost least.
\<close>

theorem deletion_costs_plan:
  fixes ws :: workload_spread and podMap :: pod_map and k :: int and reverseOrder :: bool
  defines "subs \<equiv> Subsets (WsSpec ws)"
  defines "n \<equiv> length subs"
  defines "costs \<equiv> (\<lambda>i. subset_costs n (Some (subs ! i)) (rank ws reverseOrder i) (pods_of podMap (SubName (subs ! i))) k)"
  shows "updateDeletionCostBySubset env ws podMap k reverseOrder w = write_costs env (planned_costs ws podMap k reverseOrder) w
    \<and> planned_costs ws podMap k reverseOrder =
        concat (map costs [0..<n]) @ map (\<lambda>p. (p, - 100 * (int n + 1))) (filter IsPodActive (pods_of podMap FakeSubsetName))
    \<and> (\<forall>i < n. \<forall>m. subset_limit (subs ! i) k = Some m \<longrightarrow>
         (\<exists>keep surplus. costs i = map (\<lambda>p. (p, 100 * (int n - int (rank ws reverseOrder i)))) keep
              @ map (\<lambda>p. (p, - 100 * (int (rank ws reverseOrder i) + 1))) surplus
            \<and> mset keep + mset surplus = mset (filter IsPodActive (pods_of podMap (SubName (subs ! i))))
            \<and> int (length surplus) = (if m < 0 then 0 else max 0 (active (pods_of podMap (SubName (subs ! i))) - m))
            \<and> (\<forall>p\<in>set surplus. \<forall>q\<in>set keep. \<not> ActivePods_Less q p)))
    \<and> (\<forall>i < n. rank ws reverseOrder i < n \<and> (\<forall>j < n. i < j \<longrightarrow> (rank ws reverseOrder i < rank ws reverseOrder j) = (\<not> reverseOrder)))"
proof (intro conjI allI impI)
  show "updateDeletionCostBySubset env ws podMap k reverseOrder w = write_costs env (planned_costs ws podMap k reverseOrder) w"
    by (rule costs_planned)
  have "map (\<lambda>(i, sub). subset_costs n (Some sub) (rank ws reverseOrder i) (pods_of podMap (SubName sub)) k) (enumerate 0 subs)
      = map costs [0..<n]"
    by (rule nth_equalityI) (simp_all add: n_def costs_def nth_enumerate_eq)
  then show "planned_costs ws podMap k reverseOrder = concat (map costs [0..<n])
      @ map (\<lambda>p. (p, - 100 * (int n + 1))) (filter IsPodActive (pods_of podMap FakeSubsetName))"
    by (simp add: planned_costs_def Let_def subs_def n_def subset_costs_def [of _ None] partition_pods_def)
  fix i assume i: "i < n"
  show "rank ws reverseOrder i < n" using i by (auto simp: rank_def n_def subs_def intro: diff_less)
  show "(rank ws reverseOrder i < rank ws reverseOrder j) = (\<not> reverseOrder)" if "j < n" "i < j" for j
    using i that by (auto simp: rank_def n_def subs_def)
  fix m assume m: "subset_limit (subs ! i) k = Some m"
  let ?ps = "filter IsPodActive (pods_of podMap (SubName (subs ! i)))"
  have "partition_pods (Some (subs ! i)) ?ps k \<noteq> None"
    using m by (auto simp: partition_pods_def subset_limit_def Let_def split: option.splits prod.splits if_splits)
  then obtain keep surplus where part: "partition_pods (Some (subs ! i)) ?ps k = Some (keep, surplus)" by auto
  show "\<exists>keep surplus. costs i = map (\<lambda>p. (p, 100 * (int n - int (rank ws reverseOrder i)))) keep
      @ map (\<lambda>p. (p, - 100 * (int (rank ws reverseOrder i) + 1))) surplus
    \<and> mset keep + mset surplus = mset ?ps
    \<and> int (length surplus) = (if m < 0 then 0 else max 0 (int (length ?ps) - m))
    \<and> (\<forall>p\<in>set surplus. \<forall>q\<in>set keep. \<not> ActivePods_Less q p)"
    using part partition_pods_limit [OF m part] by (intro exI [of _ keep] exI [of _ surplus]) (simp add: costs_def subset_costs_def)
qed

theorem deletion_costs_plan_witness:
  "\<forall>(env :: nat ws_env) w. updateDeletionCostBySubset env (demo_spread ''CloneSet'' [limited ''a'' 1, limited ''b'' 1])
      [''a'' \<mapsto> [spread_pod ''x''], FakeSubsetName \<mapsto> [spread_pod ''f'']] 2 False w
    = write_costs env [(spread_pod ''x'', 200), (spread_pod ''f'', - 300)] w"
proof (intro allI)
  fix env :: "nat ws_env" and w
  let ?ws = "demo_spread ''CloneSet'' [limited ''a'' 1, limited ''b'' 1]"
    and ?m = "[''a'' \<mapsto> [spread_pod ''x''], FakeSubsetName \<mapsto> [spread_pod ''f'']]"
  have "planned_costs ?ws ?m 2 False = [(spread_pod ''x'', 200), (spread_pod ''f'', - 300)]"
    by (simp add: planned_costs_def subset_costs_def partition_pods_def pods_of_def rank_def FakeSubsetName_def
        GetValueFromIntOrPercent_def getIntOrPercentValue_def IntValue_def Let_def)
  then show "updateDeletionCostBySubset env ?ws ?m 2 False w = write_costs env [(spread_pod ''x'', 200), (spread_pod ''f'', - 300)] w"
    using deletion_costs_plan [of env ?ws ?m 2 False w] by simp
qed

end
