(* ===== verification/Spec2Isabelle.thy ===== *)
theory Spec2Isabelle
  imports Util_Tools Util_Pods Pod_Readiness Util_Selector Expectations Update_Sort Lifecycle
    Inplace_Correct CloneSet_Order CloneSet_Sync
    CloneSet_Expect CloneSet_Update_Correct Revision_History Ref_Manager CloneSet_Controller_Correct
    United_Correct United_Control Stateful_Correct Pub_Correct Broadcast_Run Spread_Count
begin

text \<open>
  A verification of the controllers of OpenKruise: \<open>CloneSet\<close>, \<open>UnitedDeployment\<close>, the Advanced
  \<open>StatefulSet\<close>, \<open>PodUnavailableBudget\<close>, \<open>BroadcastJob\<close> and \<open>WorkloadSpread\<close>, with the libraries under \<open>pkg/util\<close> that they share.

  \<^bold>\<open>The program.\<close>  A controller runs a reconcile for each object that an event has queued.  It reads the
  object and its pods from a cache, computes what is missing, and asks the API server to create, delete or
  patch pods, claims and revisions, one decision at a time; then it writes the status.  The cache lags behind
  the server, so a controller remembers what it has asked for in its \<open>expectations\<close> and does nothing until
  the event handlers have observed it.  Pods are updated by recreation or in place, container by container,
  with lifecycle hooks and a readiness gate on the way.  A webhook asks the budget of a pod before the pod
  may be updated, deleted or evicted, and the WorkloadSpread of its workload to which subset of nodes it goes.

  \<^bold>\<open>How the code is represented.\<close>  A Go struct is a record of the fields that the code reads or writes, an
  enumeration a datatype, a map with string keys a partial function.  Where Go ranges over a map, the order
  is an argument, or the result does not depend on it.  Each function is one definition with the name
  of the function where that is free; a prefix such as \<open>sts_\<close>, \<open>pub_\<close> or \<open>cs_\<close> tells apart functions of the
  same name, and loop bodies have names of their own.  Errors are values: \<open>option\<close> or a sum with the error on
  the left; \<open>Panics\<close> of type \<open>run\<close> is a panic; a loop that may not end has the value \<open>None\<close>.  Times are
  nanoseconds in \<open>int\<close>; \<open>int32\<close> is written out where a value may leave the range.  Logs, events, metrics and
  traces are left out.

  The API client is a record of functions on a world of arbitrary type, so that a theorem holds for every
  server, and what it relies on is a named predicate of that server in its assumptions (\<open>versioned_server\<close>
  in \<open>Pub_Correct\<close>, for example), with a concrete server in its witness.  Clocks, random strings, hashes,
  JSON patches and feature gates are arguments too.  Calls that the code runs in parallel are run in the
  order of their list, and a stop at the first error is modelled where the code has it.

  \<^bold>\<open>Foundations.\<close>
  \<^item> \<open>Kruise_Prelude\<close>: lemma collections, Go's strings, numbers and division, panics.
  \<^item> \<open>K8s_Model\<close>: pods, claims, owner references, labels, revisions and their helpers.
  \<^item> \<open>Go_Sort\<close>: \<open>package sort\<close>.  The locale \<open>go_sorter\<close> states what it promises of a strict weak order, so
    that no theorem depends on the algorithm, and is interpreted on the insertion sort that Go uses for
    short slices.

  \<^bold>\<open>Libraries\<close> (\<open>pkg/util\<close>).
  \<^item> \<open>Util_Tools\<close>, \<open>Util_Pods\<close>, \<open>Util_Selector\<close>: \<open>tools.go\<close>, \<open>pods.go\<close>, \<open>selector.go\<close>, \<open>intstr\<close>.  Bounds of
    partitions and batches; both overlap tests of selectors against the existence of common labels.
  \<^item> \<open>Expectations\<close>: \<open>pkg/util/expectations\<close> and \<open>requeueduration\<close>.  The locale \<open>scale_expectations\<close> is the
    contract the controllers rely on; after any history the expectations are satisfied exactly when each
    one was observed or dropped.
  \<^item> \<open>Update_Sort\<close>: \<open>updatesort\<close>; the locale \<open>update_sorter\<close> has both sorters as interpretations.
  \<^item> \<open>Pod_Readiness\<close>, \<open>Lifecycle\<close>: \<open>podadapter\<close>, \<open>podreadiness\<close>, \<open>lifecycle\<close>, \<open>specifieddelete\<close>.  The locales
    \<open>pod_store\<close> and \<open>lifecycle_adapter\<close> are the contracts of the adapters, interpreted on the informer
    adapter.  Retries on conflict run as often as client-go's backoff has steps.
  \<^item> \<open>Inplace_Update\<close>, \<open>Inplace_Correct\<close>: \<open>inplaceupdate\<close> and \<open>containerlaunchpriority\<close>.  A batch leaves no
    container out and batches come to an end.
  \<^item> \<open>Revision_History\<close>, \<open>Ref_Manager\<close>: \<open>history\<close> and \<open>refmanager\<close>.  Creating a revision is a loop over the
    collision count without a bound, a partial function with a theorem that it returns once a name is free.

  \<^bold>\<open>CloneSet\<close> (\<open>pkg/controller/cloneset\<close>).
  \<^item> \<open>CloneSet_Utils\<close>, \<open>CloneSet_Order\<close>: types, claims, and the order of deletion, a strict weak order.
  \<^item> \<open>CloneSet_Sync\<close>: \<open>cloneset_core.go\<close> and the differences of \<open>cloneset_sync_utils.go\<close>, with their bounds
    and the fixed point.
  \<^item> \<open>CloneSet_Scale\<close>, \<open>CloneSet_Scale_Correct\<close>, \<open>CloneSet_Expect\<close>: \<open>cloneset_scale.go\<close>.  What stays available,
    which pods are chosen, the search for instance ids, and that the expectations agree with the server.
  \<^item> \<open>CloneSet_Update\<close>, \<open>CloneSet_Update_Correct\<close>: \<open>cloneset_update.go\<close>; an update respects \<open>maxUnavailable\<close>.
  \<^item> \<open>CloneSet_Controller\<close>, \<open>CloneSet_Events\<close>, \<open>CloneSet_Controller_Correct\<close>: the reconcile, status,
    revisions and event handlers.  The reconcile waits for its expectations, events release it, and an
    event that never comes blocks it.

  \<^bold>\<open>UnitedDeployment\<close> (\<open>pkg/controller/uniteddeployment\<close>).  \<open>United_Allocator\<close> and \<open>United_Control\<close> hold the
  allocation, the subsets, revisions and the reconcile; \<open>United_Correct\<close> shows that what the webhook admits is
  allocated completely, within the bounds and evenly.

  \<^bold>\<open>Advanced StatefulSet\<close> (\<open>pkg/controller/statefulset\<close>).  \<open>Stateful_Utils\<close> and \<open>Stateful_Control\<close> hold the
  helpers and the update of a set, in the phases of \<open>updateStatefulSet\<close>: partition by ordinal, examining the
  replicas, scaling down, rolling update.  \<open>Stateful_Identity\<close> shows that identity and storage of pods are
  right, \<open>Stateful_Correct\<close> the partition, the order of ordered management and the bounds of an update.

  \<^bold>\<open>PodUnavailableBudget\<close> (\<open>pkg/control/pubcontrol\<close>, \<open>pkg/controller/podunavailablebudget\<close>, and the pod
  webhook).  \<open>Pub_Control\<close> holds admission, \<open>Pub_Controller\<close> the status, the reconcile and the events.
  \<open>Pub_Correct\<close> lets any number of processes with caches of their own interleave (\<open>pub_run\<close>), and shows that
  every admitted operation leaves the available pods that the budget asks for.

  \<^bold>\<open>BroadcastJob\<close> (\<open>pkg/controller/broadcastjob\<close>).  \<open>Broadcast_Job\<close> holds the controller, with batches of
  creations that double, and its event handlers.  \<open>Broadcast_Correct\<close> shows which nodes are used, that the
  parallelism is respected, when a job is complete, and two faults: a lost write of the status, and a
  panic after a completed pod is deleted.  \<open>Broadcast_Run\<close> lets the cache lag behind the server and shows that
  a node never has two pods of a job.

  \<^bold>\<open>WorkloadSpread\<close> (\<open>pkg/util/workloadspread\<close>, \<open>pkg/controller/workloadspread\<close>, and the pod webhook).
  \<open>Spread_Webhook\<close> holds the data, the choice of a subset for a new pod, the records of creations and deletions and
  the injection; \<open>Spread_Controller\<close> the grouping of pods, deletion costs, the count of each subset, rescheduling, the
  reconcile and the events.  \<open>Spread_Count\<close> shows that the count is exact, what goes wrong in a subset above its
  limit, which subset a pod belongs to, and which deletion costs are written.

  \<^bold>\<open>Bounds.\<close>  No definition takes fuel.  Retries have the number of steps of the backoff in the code, 4 or 5.
  Loops without a bound are partial functions into \<open>option\<close>, and theorems state when they return.  Other
  loops go over a list or have a termination proof.

  \<^bold>\<open>Not modelled.\<close>
  \<^item> Set-up of managers, watches, caches, metrics and flags, and the clients in \<open>pkg/client\<close>: generated code
    or calls into libraries.
  \<^item> The node daemon (\<open>pkg/daemon\<close>), which talks to container runtimes.
  \<^item> The pre-download of images: the jobs it creates are functions of the reconcilers that call it.
  \<^item> The adapters of \<open>UnitedDeployment\<close> to the kinds of its subsets, which are arguments of its control.
  \<^item> The controllers of \<open>DaemonSet\<close>, \<open>AdvancedCronJob\<close>, \<open>SidecarSet\<close>, image
    pulling, container restarts, ephemeral containers, probes and resource distribution, and the webhooks of
    these kinds: they share no state with the controllers above, except that a budget asks whether the
    update of injected sidecars is complete, which is modelled.
  \<^item> Strategic merge patches, JSON decoding and hashing, which belong to libraries.
\<close>

end
